(* ===== verification/Prelude.thy ===== *)
theory Prelude
  imports Main "HOL-Library.Word"
begin

text \<open>
  Shared foundations of the development: the machine integer types of the Rust code, the
  outcome of running a piece of it (a value, a Rust panic, a process exit, running out of
  loop fuel), the sequencing of such runs, checked integer arithmetic, and generic facts on
  lists and byte buffers that the components share.
\<close>

unbundle bit_operations_syntax

section \<open>Machine integers and pointers\<close>

declare of_nat_unat [simp del]

type_synonym u8 = "8 word"
type_synonym u16 = "16 word"
type_synonym u32 = "32 word"
type_synonym u64 = "64 word"

text \<open>
  \<open>usize\<close> is 64 bits wide (the bindings fix \<open>RTE_ARCH_X86_64\<close>). Sizes are natural
  numbers below \<open>2 ^ 64\<close>, with the wrap-around written out wherever the code adds,
  subtracts or multiplies them. A raw pointer is an address, 0 is the null pointer.
\<close>

type_synonym usize = nat
type_synonym ptr = nat

abbreviation (input) null :: ptr where "null \<equiv> 0"

definition usize_bound :: nat where "usize_bound = 2 ^ 64"
definition isize_bound :: nat where "isize_bound = 2 ^ 63"

text \<open>\<open>NonNull::new\<close> of the Rust standard library.\<close>

definition NonNull_new :: "ptr \<Rightarrow> ptr option" where
  "NonNull_new p = (if p = null then None else Some p)"

text \<open>The cast \<open>x as isize\<close> of a \<open>usize\<close>.\<close>

definition as_isize :: "usize \<Rightarrow> int" where
  "as_isize n = (if n < isize_bound then int n else int n - int usize_bound)"

section \<open>Outcomes and their sequencing\<close>

text \<open>
  \<open>Overflow\<close>: arithmetic overflow with overflow checks on; \<open>IndexOutOfBounds\<close>: slice and
  vector indexing; \<open>Unwrap\<close>: \<open>unwrap\<close> of a \<open>None\<close> or an \<open>Err\<close>; \<open>Assertion\<close>:
  \<open>assert!\<close>; \<open>Explicit\<close>: \<open>panic!\<close>; \<open>BadPointer\<close>: a dereference or a copy
  outside live memory, which is undefined behaviour of the program.
\<close>

datatype fault = Overflow | IndexOutOfBounds | Unwrap | Assertion | Explicit | BadPointer

datatype ('a, 's) outcome =
    Ret 'a 's
  | Fault fault 's
  | Exit int 's
  | OutOfFuel

type_synonym ('s, 'a) exec = "'s \<Rightarrow> ('a, 's) outcome"

definition ret :: "'a \<Rightarrow> ('s, 'a) exec" where
  "ret a = (\<lambda>s. Ret a s)"

definition fail :: "fault \<Rightarrow> ('s, 'a) exec" where
  "fail f = (\<lambda>s. Fault f s)"

definition bind :: "('s, 'a) exec \<Rightarrow> ('a \<Rightarrow> ('s, 'b) exec) \<Rightarrow> ('s, 'b) exec" where
  "bind m k = (\<lambda>s. case m s of
       Ret a s' \<Rightarrow> k a s'
     | Fault f s' \<Rightarrow> Fault f s'
     | Exit c s' \<Rightarrow> Exit c s'
     | OutOfFuel \<Rightarrow> OutOfFuel)"

definition gets :: "('s \<Rightarrow> 'a) \<Rightarrow> ('s, 'a) exec" where
  "gets f = (\<lambda>s. Ret (f s) s)"

definition modify :: "('s \<Rightarrow> 's) \<Rightarrow> ('s, unit) exec" where
  "modify f = (\<lambda>s. Ret () (f s))"

text \<open>A call that returns its result together with the state it leaves behind.\<close>

definition call :: "('s \<Rightarrow> 'a \<times> 's) \<Rightarrow> ('s, 'a) exec" where
  "call f = (\<lambda>s. case f s of (a, s') \<Rightarrow> Ret a s')"

text \<open>\<open>Option::unwrap\<close> and \<open>Result::unwrap\<close>.\<close>

definition unwrap_option :: "'a option \<Rightarrow> ('s, 'a) exec" where
  "unwrap_option x = (case x of None \<Rightarrow> fail Unwrap | Some a \<Rightarrow> ret a)"

definition unwrap_result :: "'e + 'a \<Rightarrow> ('s, 'a) exec" where
  "unwrap_result x = (case x of Inl e \<Rightarrow> fail Unwrap | Inr a \<Rightarrow> ret a)"

named_theorems exec_simps "execution of the outcome monad"

lemma ret_exec [exec_simps]: "ret a s = Ret a s"
  by (simp add: ret_def)

lemma fail_exec [exec_simps]: "fail f s = Fault f s"
  by (simp add: fail_def)

lemma gets_exec [exec_simps]: "gets f s = Ret (f s) s"
  by (simp add: gets_def)

lemma modify_exec [exec_simps]: "modify f s = Ret () (f s)"
  by (simp add: modify_def)

lemma call_exec [exec_simps]: "f s = (a, s') \<Longrightarrow> call f s = Ret a s'"
  by (simp add: call_def)

lemma call_exec_pair: "call f s = Ret (fst (f s)) (snd (f s))"
  by (simp add: call_def split: prod.split)

lemma bind_Ret [exec_simps]: "m s = Ret a s' \<Longrightarrow> bind m k s = k a s'"
  by (simp add: bind_def)

lemma bind_Fault [exec_simps]: "m s = Fault f s' \<Longrightarrow> bind m k s = Fault f s'"
  by (simp add: bind_def)

lemma bind_Exit [exec_simps]: "m s = Exit c s' \<Longrightarrow> bind m k s = Exit c s'"
  by (simp add: bind_def)

lemma bind_OutOfFuel [exec_simps]: "m s = OutOfFuel \<Longrightarrow> bind m k s = OutOfFuel"
  by (simp add: bind_def)

lemma bind_eq_Ret:
  "bind m k s = Ret b t \<longleftrightarrow> (\<exists>a s'. m s = Ret a s' \<and> k a s' = Ret b t)"
  by (cases "m s") (simp_all add: bind_def)

lemma bind_ret [simp]: "bind (ret a) k = k a"
  by (simp add: bind_def ret_def)

lemma bind_fail [simp]: "bind (fail f) k = fail f"
  by (simp add: bind_def fail_def)

lemma bind_assoc: "bind (bind m k) h = bind m (\<lambda>a. bind (k a) h)"
  by (rule ext) (simp add: bind_def split: outcome.split)

lemma unwrap_option_exec [exec_simps]:
  "unwrap_option (Some a) = ret a" "unwrap_option None = fail Unwrap"
  by (simp_all add: unwrap_option_def)

lemma unwrap_result_exec [exec_simps]:
  "unwrap_result (Inr a) = ret a" "unwrap_result (Inl e) = fail Unwrap"
  by (simp_all add: unwrap_result_def)

lemma unwrap_result_eq_Ret: "unwrap_result r s = Ret a t \<longleftrightarrow> r = Inr a \<and> t = s"
  by (cases r) (auto simp: unwrap_result_def exec_simps)

lemma case_sum_fail_eq_Ret:
  "case_sum (\<lambda>e. fail (f e)) k r s = Ret a t \<longleftrightarrow> (\<exists>b. r = Inr b \<and> k b s = Ret a t)"
  by (cases r) (auto simp: exec_simps)

section \<open>Checked arithmetic\<close>

text \<open>
  Rust's \<open>+\<close>, \<open>-\<close> and \<open>*\<close> on \<open>w\<close>-bit unsigned integers. With overflow checks
  (\<open>oc\<close>, the default of a debug build) an overflow panics; without, it wraps.
\<close>

definition add_ck :: "bool \<Rightarrow> nat \<Rightarrow> nat \<Rightarrow> nat \<Rightarrow> ('s, nat) exec" where
  "add_ck oc w a b =
     (if a + b < 2 ^ w then ret (a + b)
      else if oc then fail Overflow else ret ((a + b) mod 2 ^ w))"

definition sub_ck :: "bool \<Rightarrow> nat \<Rightarrow> nat \<Rightarrow> nat \<Rightarrow> ('s, nat) exec" where
  "sub_ck oc w a b =
     (if b \<le> a then ret (a - b)
      else if oc then fail Overflow else ret ((a + 2 ^ w - b) mod 2 ^ w))"

definition mul_ck :: "bool \<Rightarrow> nat \<Rightarrow> nat \<Rightarrow> nat \<Rightarrow> ('s, nat) exec" where
  "mul_ck oc w a b =
     (if a * b < 2 ^ w then ret (a * b)
      else if oc then fail Overflow else ret ((a * b) mod 2 ^ w))"

lemma add_ck_fits [exec_simps]: "a + b < 2 ^ w \<Longrightarrow> add_ck oc w a b = ret (a + b)"
  by (simp add: add_ck_def)

lemma sub_ck_fits [exec_simps]: "b \<le> a \<Longrightarrow> sub_ck oc w a b = ret (a - b)"
  by (simp add: sub_ck_def)

lemma mul_ck_fits [exec_simps]: "a * b < 2 ^ w \<Longrightarrow> mul_ck oc w a b = ret (a * b)"
  by (simp add: mul_ck_def)

text \<open>
  The build: whether overflow checks are compiled in (the dev profile has them, the release
  profile does not), and whether the crates' \<open>debug\<close> feature is on.
\<close>

record build =
  overflow_checks :: bool
  feature_debug :: bool

section \<open>Lists and byte ranges\<close>

text \<open>\<open>ptr::copy\<close> inside one allocation: \<open>n\<close> bytes from index \<open>src\<close> to \<open>dst\<close>.\<close>

definition range_ok :: "'a list \<Rightarrow> int \<Rightarrow> nat \<Rightarrow> bool" where
  "range_ok xs i n \<longleftrightarrow> 0 \<le> i \<and> nat i + n \<le> length xs"

definition overwrite :: "'a list \<Rightarrow> nat \<Rightarrow> 'a list \<Rightarrow> 'a list" where
  "overwrite xs i ys = take i xs @ ys @ drop (i + length ys) xs"

lemma length_overwrite [simp]: "i + length ys \<le> length xs \<Longrightarrow> length (overwrite xs i ys) = length xs"
  by (simp add: overwrite_def)

lemma overwrite_Nil [simp]: "overwrite xs i [] = xs"
  by (simp add: overwrite_def)

lemma nth_overwrite:
  "i + length ys \<le> length xs \<Longrightarrow> k < length xs \<Longrightarrow>
   overwrite xs i ys ! k = (if i \<le> k \<and> k < i + length ys then ys ! (k - i) else xs ! k)"
  by (auto simp: overwrite_def nth_append min_def)

lemma overwrite_id: "i + n \<le> length xs \<Longrightarrow> overwrite xs i (take n (drop i xs)) = xs"
  by (rule nth_equalityI) (auto simp: nth_overwrite min_def)

lemma word_of_nat_unat [simp]: "of_nat (unat (x :: 'a::len word)) = x"
  by (simp add: of_nat_unat)

lemma unat_of_nat_small: "n < 2 ^ LENGTH('a) \<Longrightarrow> unat (of_nat n :: 'a::len word) = n"
  by (simp add: unat_of_nat take_bit_nat_eq_self)

section \<open>Decimal notation\<close>

text \<open>\<open>format!\<close> of an unsigned integer, and its inverse.\<close>

fun show_nat :: "nat \<Rightarrow> string" where
  "show_nat n =
     (if n < 10 then [char_of (48 + n)] else show_nat (n div 10) @ [char_of (48 + n mod 10)])"

declare show_nat.simps [simp del]

definition read_nat :: "string \<Rightarrow> nat" where
  "read_nat s = foldl (\<lambda>a c. 10 * a + (of_char c - 48)) 0 s"

lemma read_show_nat: "read_nat (show_nat n) = n"
proof (induction n rule: show_nat.induct)
  case (1 n)
  then show ?case
    by (cases "n < 10") (simp_all add: show_nat.simps [of n] read_nat_def)
qed

lemma show_nat_inject: "show_nat m = show_nat n \<longleftrightarrow> m = n"
  by (metis read_show_nat)

lemma char_of_digit_no_nul: "d < 10 \<Longrightarrow> char_of (48 + d :: nat) \<noteq> CHR 0x00"
proof
  assume d: "d < 10" and "char_of (48 + d :: nat) = CHR 0x00"
  then have "of_char (char_of (48 + d :: nat)) = (of_char (CHR 0x00) :: nat)" by simp
  with d show False by simp
qed

lemma show_nat_no_nul: "CHR 0x00 \<notin> set (show_nat n)"
proof (induction n rule: show_nat.induct)
  case (1 n)
  then show ?case
    using char_of_digit_no_nul [of n] char_of_digit_no_nul [of "n mod 10"]
    by (cases "n < 10") (auto simp: show_nat.simps [of n])
qed

end
