(* ===== verification/Dpdk.thy ===== *)
theory Dpdk
  imports Prelude
begin

text \<open>
  The boundary to DPDK. The Rust code reaches DPDK through the foreign functions of
  \<^verbatim>\<open>dpdk-sys\<close>; DPDK itself is not part of the repository, so its functions are the fields
  of a record that every definition using them takes as a parameter. What the Rust code can
  see of DPDK without a call is concrete: the fields of a live \<open>rte_mbuf\<close>, which it reads and
  writes through raw pointers, and the thread's \<open>rte_errno\<close>. The rest of DPDK's state is an
  abstract component of the world. The locales below state, as laws over an abstract view of
  that state, the documented behaviour the code relies on.
\<close>

section \<open>Structures of the bindings that the code reads and writes\<close>

text \<open>
  The fields of \<open>rte_mbuf\<close> that the program uses. \<open>mb_buf\<close> stands for the memory at
  \<open>buf_addr\<close>.
\<close>

record rte_mbuf =
  mb_buf :: "u8 list"
  buf_len :: u16
  data_off :: u16
  data_len :: u16
  pkt_len :: u32
  mb_pool :: ptr

record rte_eth_dev_info =
  tx_offload_capa :: u64
  flow_type_rss_offloads :: u64
  default_rxconf :: ptr
  default_txconf :: ptr

record rte_eth_rxmode =
  rx_mq_mode :: u32
  max_rx_pkt_len :: u32
  split_hdr_size :: u16
  rx_offloads :: u64

record rte_eth_rss_conf =
  rss_key :: "u8 list option"
  rss_hf :: u64

record rte_eth_txmode =
  tx_mq_mode :: u32
  tx_offloads :: u64

record rte_eth_conf =
  rxmode :: rte_eth_rxmode
  rss_conf :: rte_eth_rss_conf
  txmode :: rte_eth_txmode

section \<open>The world a process runs in\<close>

record 'x world =
  mem :: "ptr \<Rightarrow> rte_mbuf option"
  rte_errno :: int
  ext :: 'x

text \<open>
  The DPDK functions the program calls. A function with an out-parameter returns what it
  leaves there: \<open>rte_ring_dequeue\<close> takes the old value of the slot and returns the new one,
  \<open>rte_ring_dequeue_burst\<close> likewise for the whole table.
\<close>

record 'x dpdk =
  rte_eal_init :: "int \<Rightarrow> string list \<Rightarrow> 'x world \<Rightarrow> int \<times> 'x world"
  rte_eal_cleanup :: "'x world \<Rightarrow> int \<times> 'x world"
  rte_socket_id :: "'x world \<Rightarrow> u32"
  rte_lcore_id :: "'x world \<Rightarrow> u32"
  rte_mempool_create ::
    "string \<Rightarrow> u32 \<Rightarrow> u32 \<Rightarrow> u32 \<Rightarrow> u32 \<Rightarrow> int \<Rightarrow> u32 \<Rightarrow> 'x world \<Rightarrow> ptr \<times> 'x world"
  rte_mempool_lookup :: "string \<Rightarrow> 'x world \<Rightarrow> ptr \<times> 'x world"
  rte_mempool_free :: "ptr \<Rightarrow> 'x world \<Rightarrow> 'x world"
  rte_mempool_put_bulk :: "ptr \<Rightarrow> ptr list \<Rightarrow> u32 \<Rightarrow> 'x world \<Rightarrow> 'x world"
  rte_pktmbuf_alloc :: "ptr \<Rightarrow> 'x world \<Rightarrow> ptr \<times> 'x world"
  rte_pktmbuf_free :: "ptr \<Rightarrow> 'x world \<Rightarrow> 'x world"
  rte_pktmbuf_alloc_bulk :: "ptr \<Rightarrow> u32 \<Rightarrow> 'x world \<Rightarrow> (int \<times> ptr list) \<times> 'x world"
  rte_ring_create :: "string \<Rightarrow> u32 \<Rightarrow> int \<Rightarrow> u32 \<Rightarrow> 'x world \<Rightarrow> ptr \<times> 'x world"
  rte_ring_lookup :: "string \<Rightarrow> 'x world \<Rightarrow> ptr \<times> 'x world"
  rte_ring_free :: "ptr \<Rightarrow> 'x world \<Rightarrow> 'x world"
  rte_ring_enqueue :: "ptr \<Rightarrow> ptr \<Rightarrow> 'x world \<Rightarrow> int \<times> 'x world"
  rte_ring_dequeue :: "ptr \<Rightarrow> ptr \<Rightarrow> 'x world \<Rightarrow> (int \<times> ptr) \<times> 'x world"
  rte_ring_enqueue_bulk :: "ptr \<Rightarrow> ptr list \<Rightarrow> u32 \<Rightarrow> 'x world \<Rightarrow> u32 \<times> 'x world"
  rte_ring_dequeue_burst ::
    "ptr \<Rightarrow> ptr list \<Rightarrow> u32 \<Rightarrow> 'x world \<Rightarrow> (u32 \<times> ptr list) \<times> 'x world"
  rte_memzone_reserve :: "string \<Rightarrow> u64 \<Rightarrow> int \<Rightarrow> u32 \<Rightarrow> 'x world \<Rightarrow> ptr \<times> 'x world"
  rte_memzone_lookup :: "string \<Rightarrow> 'x world \<Rightarrow> ptr \<times> 'x world"
  rte_memzone_free :: "ptr \<Rightarrow> 'x world \<Rightarrow> int \<times> 'x world"
  rte_memzone_addr :: "ptr \<Rightarrow> 'x world \<Rightarrow> u64"
  rte_eth_dev_info_get :: "u16 \<Rightarrow> 'x world \<Rightarrow> (int \<times> rte_eth_dev_info) \<times> 'x world"
  rte_eth_dev_configure ::
    "u16 \<Rightarrow> u16 \<Rightarrow> u16 \<Rightarrow> rte_eth_conf \<Rightarrow> 'x world \<Rightarrow> int \<times> 'x world"
  rte_eth_dev_socket_id :: "u16 \<Rightarrow> 'x world \<Rightarrow> int"
  rte_eth_rx_queue_setup ::
    "u16 \<Rightarrow> u16 \<Rightarrow> u16 \<Rightarrow> u32 \<Rightarrow> ptr \<Rightarrow> ptr \<Rightarrow> 'x world \<Rightarrow> int \<times> 'x world"
  rte_eth_tx_queue_setup ::
    "u16 \<Rightarrow> u16 \<Rightarrow> u16 \<Rightarrow> u32 \<Rightarrow> ptr \<Rightarrow> 'x world \<Rightarrow> int \<times> 'x world"
  rte_eth_promiscuous_enable :: "u16 \<Rightarrow> 'x world \<Rightarrow> int \<times> 'x world"
  rte_eth_dev_start :: "u16 \<Rightarrow> 'x world \<Rightarrow> int \<times> 'x world"
  rte_eth_rx_burst :: "u16 \<Rightarrow> u16 \<Rightarrow> u16 \<Rightarrow> 'x world \<Rightarrow> ptr list \<times> 'x world"
  rte_eth_tx_burst :: "u16 \<Rightarrow> u16 \<Rightarrow> ptr list \<Rightarrow> u16 \<Rightarrow> 'x world \<Rightarrow> u16 \<times> 'x world"
  rte_eth_ports :: "'x world \<Rightarrow> u16 list"
  rte_eth_dev_stop :: "u16 \<Rightarrow> 'x world \<Rightarrow> 'x world"
  rte_eth_dev_close :: "u16 \<Rightarrow> 'x world \<Rightarrow> 'x world"

section \<open>Access to a live message buffer\<close>

text \<open>
  An operation on the \<open>rte_mbuf\<close> behind a pointer. A pointer to no live buffer is an
  invalid access.
\<close>

definition on_mbuf :: "ptr \<Rightarrow> (rte_mbuf, 'a) exec \<Rightarrow> ('x world, 'a) exec" where
  "on_mbuf p f = (\<lambda>w. case mem w p of
       None \<Rightarrow> Fault BadPointer w
     | Some m \<Rightarrow> (case f m of
           Ret a m' \<Rightarrow> Ret a (w\<lparr>mem := (mem w)(p \<mapsto> m')\<rparr>)
         | Fault e m' \<Rightarrow> Fault e (w\<lparr>mem := (mem w)(p \<mapsto> m')\<rparr>)
         | Exit c m' \<Rightarrow> Exit c (w\<lparr>mem := (mem w)(p \<mapsto> m')\<rparr>)
         | OutOfFuel \<Rightarrow> OutOfFuel))"

lemma on_mbuf_Ret [exec_simps]:
  "mem w p = Some m \<Longrightarrow> f m = Ret a m' \<Longrightarrow>
   on_mbuf p f w = Ret a (w\<lparr>mem := (mem w)(p \<mapsto> m')\<rparr>)"
  by (simp add: on_mbuf_def)

lemma mem_upd_same [exec_simps]: "mem w p = Some m \<Longrightarrow> w\<lparr>mem := (mem w)(p \<mapsto> m)\<rparr> = w"
  by (simp add: map_upd_triv)

lemma on_mbuf_dangling [exec_simps]: "mem w p = None \<Longrightarrow> on_mbuf p f w = Fault BadPointer w"
  by (simp add: on_mbuf_def)

section \<open>Well-formed message buffers\<close>

definition wf_mbuf :: "rte_mbuf \<Rightarrow> bool" where
  "wf_mbuf m \<longleftrightarrow> length (mb_buf m) = unat (buf_len m) \<and>
     unat (data_off m) + unat (data_len m) \<le> unat (buf_len m) \<and>
     unat (pkt_len m) = unat (data_len m)"

text \<open>A buffer as the pool \<open>mp\<close> hands it out: empty, with \<open>n\<close> bytes of room.\<close>

definition fresh_mbuf :: "ptr \<Rightarrow> nat \<Rightarrow> rte_mbuf \<Rightarrow> bool" where
  "fresh_mbuf mp n m \<longleftrightarrow> wf_mbuf m \<and> data_len m = 0 \<and> mb_pool m = mp \<and>
     unat (buf_len m) - unat (data_off m) = n"

section \<open>The documented behaviour of rings and message buffer pools\<close>

text \<open>
  The abstract view of DPDK's state: the objects each live ring holds in order, its
  capacity, the rings by name, and of each pool the number of free buffers and the bytes of
  room in a fresh one.
\<close>

record dview =
  v_rings :: "ptr \<Rightarrow> ptr list option"
  v_cap :: "ptr \<Rightarrow> nat"
  v_names :: "string \<Rightarrow> ptr option"
  v_avail :: "ptr \<Rightarrow> nat"
  v_room :: "ptr \<Rightarrow> nat"

definition upd_ring :: "ptr \<Rightarrow> ptr list \<Rightarrow> dview \<Rightarrow> dview" where
  "upd_ring r q v = v\<lparr>v_rings := (v_rings v)(r \<mapsto> q)\<rparr>"

definition upd_avail :: "ptr \<Rightarrow> nat \<Rightarrow> dview \<Rightarrow> dview" where
  "upd_avail mp n v = v\<lparr>v_avail := (v_avail v)(mp := n)\<rparr>"

lemma upd_ring_sel [simp]:
  "v_rings (upd_ring r q v) = (v_rings v)(r \<mapsto> q)" "v_cap (upd_ring r q v) = v_cap v"
  "v_names (upd_ring r q v) = v_names v" "v_avail (upd_ring r q v) = v_avail v"
  "v_room (upd_ring r q v) = v_room v"
  by (simp_all add: upd_ring_def)

lemma upd_avail_sel [simp]:
  "v_rings (upd_avail mp n v) = v_rings v" "v_cap (upd_avail mp n v) = v_cap v"
  "v_names (upd_avail mp n v) = v_names v" "v_avail (upd_avail mp n v) = (v_avail v)(mp := n)"
  "v_room (upd_avail mp n v) = v_room v"
  by (simp_all add: upd_avail_def)

lemma upd_ring_upd_ring [simp]: "upd_ring r q (upd_ring r q' v) = upd_ring r q v"
  by (simp add: upd_ring_def)

lemma upd_avail_upd_avail [simp]: "upd_avail mp n (upd_avail mp n' v) = upd_avail mp n v"
  by (simp add: upd_avail_def)

lemma upd_ring_upd_avail: "upd_ring r q (upd_avail mp n v) = upd_avail mp n (upd_ring r q v)"
  by (simp add: upd_ring_def upd_avail_def)

lemma upd_ring_same: "v_rings v r = Some q \<Longrightarrow> upd_ring r q v = v"
  by (simp add: upd_ring_def map_upd_triv)

lemma upd_avail_same [simp]: "upd_avail mp (v_avail v mp) v = v"
  by (simp add: upd_avail_def)

text \<open>Linux error numbers, as the \<open>libc\<close> crate has them on x86-64.\<close>

definition ENOENT :: int where "ENOENT = 2"
definition ENOEXEC :: int where "ENOEXEC = 8"
definition EAGAIN :: int where "EAGAIN = 11"
definition ENOMEM :: int where "ENOMEM = 12"
definition EFAULT :: int where "EFAULT = 14"
definition EEXIST :: int where "EEXIST = 17"
definition ENODEV :: int where "ENODEV = 19"
definition EINVAL :: int where "EINVAL = 22"
definition ENOSPC :: int where "ENOSPC = 28"
definition EPROTO :: int where "EPROTO = 71"
definition ENOTSUP :: int where "ENOTSUP = 95"
definition ENOBUFS :: int where "ENOBUFS = 105"
definition EALREADY :: int where "EALREADY = 114"

lemmas errno_defs = ENOENT_def ENOEXEC_def EAGAIN_def ENOMEM_def EFAULT_def EEXIST_def
  ENODEV_def EINVAL_def ENOSPC_def EPROTO_def ENOTSUP_def ENOBUFS_def EALREADY_def

end
