(* ===== verification/Contracts.thy ===== *)
theory Contracts
  imports Dpdk
begin

text \<open>
  The laws the program relies on of the code it does not contain: DPDK's rings and buffer
  pools, and the two concurrent containers of third-party crates, \<open>SegQueue\<close>
  (crossbeam-queue) and \<open>CHashMap\<close> (chashmap). Each is a locale over the operations the
  program calls and an abstraction function; the components' lemmas are proved inside them.
\<close>

section \<open>DPDK rings\<close>

text \<open>
  \<open>rte_ring.h\<close>: a ring is a bounded FIFO of pointers. Enqueueing one object returns 0, or
  a negative value (not enough room; nothing is enqueued). Dequeueing one returns 0 and
  stores the oldest object, or a negative value (empty; nothing is dequeued). A bulk enqueue
  of \<open>n\<close> objects enqueues all of them and returns \<open>n\<close>, or none and returns 0; a burst
  dequeue returns the number of objects it could dequeue, at most \<open>n\<close>. A ring is created
  under a name not in use, with one slot less than the requested power of two; looking a name
  up finds the live ring of that name.
\<close>

locale ring_api =
  fixes D :: "'x dpdk"
    and view :: "'x \<Rightarrow> dview"
  assumes enqueue_room:
    "v_rings (view (ext w)) r = Some q \<Longrightarrow> length q < v_cap (view (ext w)) r \<Longrightarrow>
     \<exists>w'. rte_ring_enqueue D r p w = (0, w') \<and> mem w' = mem w \<and>
       view (ext w') = upd_ring r (q @ [p]) (view (ext w))"
    and enqueue_full:
    "v_rings (view (ext w)) r = Some q \<Longrightarrow> v_cap (view (ext w)) r \<le> length q \<Longrightarrow>
     \<exists>w'. rte_ring_enqueue D r p w = (- ENOBUFS, w') \<and> mem w' = mem w \<and>
       view (ext w') = view (ext w)"
    and dequeue_some:
    "v_rings (view (ext w)) r = Some (p # q) \<Longrightarrow>
     \<exists>w'. rte_ring_dequeue D r slot w = ((0, p), w') \<and> mem w' = mem w \<and>
       view (ext w') = upd_ring r q (view (ext w))"
    and dequeue_none:
    "v_rings (view (ext w)) r = Some [] \<Longrightarrow>
     \<exists>w'. rte_ring_dequeue D r slot w = ((- ENOENT, slot), w') \<and> mem w' = mem w \<and>
       view (ext w') = view (ext w)"
    and enqueue_bulk_room:
    "v_rings (view (ext w)) r = Some q \<Longrightarrow> unat n \<le> length tab \<Longrightarrow>
     length q + unat n \<le> v_cap (view (ext w)) r \<Longrightarrow>
     \<exists>w'. rte_ring_enqueue_bulk D r tab n w = (n, w') \<and> mem w' = mem w \<and>
       view (ext w') = upd_ring r (q @ take (unat n) tab) (view (ext w))"
    and enqueue_bulk_full:
    "v_rings (view (ext w)) r = Some q \<Longrightarrow> unat n \<le> length tab \<Longrightarrow>
     v_cap (view (ext w)) r < length q + unat n \<Longrightarrow>
     \<exists>w'. rte_ring_enqueue_bulk D r tab n w = (0, w') \<and> mem w' = mem w \<and>
       view (ext w') = view (ext w)"
    and dequeue_burst:
    "v_rings (view (ext w)) r = Some q \<Longrightarrow> unat n \<le> length tab \<Longrightarrow>
     \<exists>w'. rte_ring_dequeue_burst D r tab n w =
         ((of_nat (min (unat n) (length q)),
           take (unat n) q @ drop (min (unat n) (length q)) tab), w') \<and>
       mem w' = mem w \<and> view (ext w') = upd_ring r (drop (unat n) q) (view (ext w))"
    and create_new:
    "rte_ring_create D nm cnt sock fl w = (r, w') \<Longrightarrow> r \<noteq> null \<Longrightarrow>
     v_names (view (ext w)) nm = None \<and> v_rings (view (ext w)) r = None \<and> mem w' = mem w \<and>
     view (ext w') = (view (ext w))\<lparr>
        v_rings := (v_rings (view (ext w)))(r \<mapsto> []),
        v_cap := (v_cap (view (ext w)))(r := unat cnt - 1),
        v_names := (v_names (view (ext w)))(nm \<mapsto> r)\<rparr>"
    and create_fails:
    "rte_ring_create D nm cnt sock fl w = (null, w') \<Longrightarrow>
     mem w' = mem w \<and> view (ext w') = view (ext w)"
    and create_exists:
    "v_names (view (ext w)) nm \<noteq> None \<Longrightarrow>
     \<exists>w'. rte_ring_create D nm cnt sock fl w = (null, w') \<and> rte_errno w' = EEXIST"
    and ring_lookup:
    "\<exists>w'. rte_ring_lookup D nm w = (case_option null id (v_names (view (ext w)) nm), w') \<and>
       mem w' = mem w \<and> view (ext w') = view (ext w)"
    and ring_free:
    "mem (rte_ring_free D r w) = mem w \<and>
     view (ext (rte_ring_free D r w)) = (view (ext w))\<lparr>
        v_rings := (v_rings (view (ext w)))(r := None),
        v_names := (\<lambda>nm. if v_names (view (ext w)) nm = Some r then None
                         else v_names (view (ext w)) nm)\<rparr>"

section \<open>DPDK message buffer pools\<close>

text \<open>
  \<open>rte_mbuf.h\<close>, \<open>rte_mempool.h\<close>: allocation takes a buffer that is not in use from the
  pool, with its length fields reset, and returns null when the pool has none left; freeing
  gives the buffer back to the pool it came from; putting objects back in bulk gives them to
  the pool that is named; looking a pool up changes nothing. A pool has one number of free buffers
  here, as without caches: that a buffer which one core has freed can lie in that core's cache,
  where the others do not find it, is not described.
\<close>

locale pool_api =
  fixes D :: "'x dpdk"
    and view :: "'x \<Rightarrow> dview"
  assumes alloc_some:
    "0 < v_avail (view (ext w)) mp \<Longrightarrow> finite (dom (mem w)) \<Longrightarrow>
     \<exists>p m w'. rte_pktmbuf_alloc D mp w = (p, w') \<and> p \<noteq> null \<and> mem w p = None \<and>
       fresh_mbuf mp (v_room (view (ext w)) mp) m \<and> mem w' = (mem w)(p \<mapsto> m) \<and>
       view (ext w') = upd_avail mp (v_avail (view (ext w)) mp - 1) (view (ext w))"
    and alloc_none:
    "v_avail (view (ext w)) mp = 0 \<Longrightarrow>
     \<exists>w'. rte_pktmbuf_alloc D mp w = (null, w') \<and> mem w' = mem w \<and>
       view (ext w') = view (ext w)"
    and pktmbuf_free:
    "mem w p = Some m \<Longrightarrow>
     mem (rte_pktmbuf_free D p w) = (mem w)(p := None) \<and>
     view (ext (rte_pktmbuf_free D p w)) =
       upd_avail (mb_pool m) (v_avail (view (ext w)) (mb_pool m) + 1) (view (ext w))"
    and put_bulk:
    "unat n = length ps \<Longrightarrow> distinct ps \<Longrightarrow> set ps \<subseteq> dom (mem w) \<Longrightarrow>
     mem (rte_mempool_put_bulk D mp ps n w) = (\<lambda>p. if p \<in> set ps then None else mem w p) \<and>
     view (ext (rte_mempool_put_bulk D mp ps n w)) =
       upd_avail mp (v_avail (view (ext w)) mp + length ps) (view (ext w))"
    and mempool_lookup:
    "\<exists>r w'. rte_mempool_lookup D nm w = (r, w') \<and> mem w' = mem w \<and> view (ext w') = view (ext w)"

text \<open>
  \<open>rte_ethdev.h\<close>: a receive burst hands out at most the requested number of packets, each
  in a buffer that was not in use before and at least as long as an Ethernet header; a transmit
  burst accepts a prefix of the packets and returns how many, and a buffer it did not accept still
  belongs to the caller.
\<close>

locale nic_api =
  fixes D :: "'x dpdk"
    and view :: "'x \<Rightarrow> dview"
  assumes rx_burst:
    "finite (dom (mem w)) \<Longrightarrow> rte_eth_rx_burst D pid qid nb w = (ps, w') \<Longrightarrow>
     length ps \<le> unat nb \<and> distinct ps \<and> null \<notin> set ps \<and> (\<forall>p \<in> set ps. mem w p = None) \<and>
     dom (mem w') = dom (mem w) \<union> set ps \<and> (\<forall>p. p \<notin> set ps \<longrightarrow> mem w' p = mem w p) \<and>
     (\<forall>p \<in> set ps. \<exists>m. mem w' p = Some m \<and> wf_mbuf m \<and> 14 \<le> unat (data_len m)) \<and>
     v_rings (view (ext w')) = v_rings (view (ext w)) \<and>
     v_cap (view (ext w')) = v_cap (view (ext w)) \<and>
     v_names (view (ext w')) = v_names (view (ext w))"
    and tx_burst:
    "unat nb = length ps \<Longrightarrow> rte_eth_tx_burst D pid qid ps nb w = (n, w') \<Longrightarrow>
     unat n \<le> length ps \<and> (\<forall>p \<in> set (drop (unat n) ps). mem w' p = mem w p) \<and>
     v_rings (view (ext w')) = v_rings (view (ext w)) \<and>
     v_cap (view (ext w')) = v_cap (view (ext w)) \<and>
     v_names (view (ext w')) = v_names (view (ext w))"

locale dpdk_env = ring_api D view + pool_api D view + nic_api D view
  for D :: "'x dpdk" and view :: "'x \<Rightarrow> dview"

text \<open>
  \<open>rte_ethdev.h\<close>, configuration: after a successful \<open>rte_eth_dev_configure\<close> a port has
  the requested number of queues, and setting a queue up succeeds only for an index below that
  number. \<open>queues\<close> abstracts the number of queues of each port.
\<close>

locale eth_api =
  fixes D :: "'x dpdk"
    and queues :: "'x \<Rightarrow> u16 \<Rightarrow> nat"
  assumes dev_configure:
    "rte_eth_dev_configure D pid nq nq conf w = (0, w') \<Longrightarrow> queues (ext w') pid = unat nq"
    and rx_setup:
    "rte_eth_rx_queue_setup D pid q nd sock rconf mp w = (rc, w') \<Longrightarrow>
     queues (ext w') = queues (ext w) \<and> (rc = 0 \<longrightarrow> unat q < queues (ext w) pid)"
    and tx_setup:
    "rte_eth_tx_queue_setup D pid q nd sock tconf w = (rc, w') \<Longrightarrow>
     queues (ext w') = queues (ext w) \<and> (rc = 0 \<longrightarrow> unat q < queues (ext w) pid)"

section \<open>SegQueue: an unbounded FIFO\<close>

record ('q, 'a) segq =
  sq_new :: 'q
  sq_push :: "'a \<Rightarrow> 'q \<Rightarrow> 'q"
  sq_pop :: "'q \<Rightarrow> 'a option \<times> 'q"
  sq_len :: "'q \<Rightarrow> nat"
  sq_is_empty :: "'q \<Rightarrow> bool"

locale seg_queue =
  fixes Q :: "('q, 'a) segq"
    and items :: "'q \<Rightarrow> 'a list"
  assumes items_new [simp]: "items (sq_new Q) = []"
    and items_push [simp]: "items (sq_push Q a q) = items q @ [a]"
    and pop_empty: "items q = [] \<Longrightarrow> \<exists>q'. sq_pop Q q = (None, q') \<and> items q' = []"
    and pop_cons: "items q = a # as \<Longrightarrow> \<exists>q'. sq_pop Q q = (Some a, q') \<and> items q' = as"
    and len_items [simp]: "sq_len Q q = length (items q)"
    and is_empty_items [simp]: "sq_is_empty Q q \<longleftrightarrow> items q = []"
begin

text \<open>Popping until the queue is empty, as every drain loop of the program does.\<close>

lemma pop_cases:
  obtains (empty) q' where "items q = []" "sq_pop Q q = (None, q')" "items q' = []"
  | (item) a as q' where "items q = a # as" "sq_pop Q q = (Some a, q')" "items q' = as"
  using pop_empty pop_cons by (cases "items q") blast+

end

section \<open>CHashMap: a finite map\<close>

text \<open>\<open>insert\<close> and \<open>remove\<close> return the value that was stored under the key before.\<close>

record ('m, 'k, 'v) chm =
  chm_new :: 'm
  chm_insert :: "'k \<Rightarrow> 'v \<Rightarrow> 'm \<Rightarrow> 'v option \<times> 'm"
  chm_remove :: "'k \<Rightarrow> 'm \<Rightarrow> 'v option \<times> 'm"
  chm_get :: "'m \<Rightarrow> 'k \<Rightarrow> 'v option"
  chm_contains_key :: "'m \<Rightarrow> 'k \<Rightarrow> bool"
  chm_len :: "'m \<Rightarrow> nat"

locale chash_map =
  fixes C :: "('m, 'k, 'v) chm"
    and entries :: "'m \<Rightarrow> 'k \<Rightarrow> 'v option"
  assumes entries_new [simp]: "entries (chm_new C) = Map.empty"
    and fst_insert [simp]: "fst (chm_insert C k v m) = entries m k"
    and entries_insert [simp]: "entries (snd (chm_insert C k v m)) = (entries m)(k \<mapsto> v)"
    and fst_remove [simp]: "fst (chm_remove C k m) = entries m k"
    and entries_remove [simp]: "entries (snd (chm_remove C k m)) = (entries m)(k := None)"
    and get_entries [simp]: "chm_get C m k = entries m k"
    and contains_entries [simp]: "chm_contains_key C m k \<longleftrightarrow> entries m k \<noteq> None"
    and finite_entries: "finite (dom (entries m))"
    and len_entries [simp]: "chm_len C m = card (dom (entries m))"

end
