(* ===== verification/Reference_Dpdk.thy ===== *)
theory Reference_Dpdk
  imports Contracts
begin

text \<open>
  A reference implementation of the DPDK functions the program calls, and of the two
  containers: rings as bounded lists, pools as counters, buffers handed out at the least free
  address, a NIC with a list of frames to deliver. It satisfies the laws of the contracts, so
  the properties that assume them are not vacuous, and concrete runs can be computed.
\<close>

text \<open>
  Every buffer has 128 bytes of headroom; the room of a pool's buffers is that of the view,
  cut to what fits a 16 bit buffer length.
\<close>

record ref_ext =
  rv :: dview
  r_next :: ptr
  r_frames :: "u8 list list"
  r_sent :: "ptr list"
  r_lcore :: u32
  r_configured :: "u16 option"
  r_setup :: "u16 list"
  r_tx_max :: nat

definition ref_headroom :: nat where "ref_headroom = 128"

definition ref_room_max :: nat where "ref_room_max = 65535 - ref_headroom"

definition ref_mbuf :: "nat \<Rightarrow> ptr \<Rightarrow> u8 list \<Rightarrow> rte_mbuf" where
  "ref_mbuf n mp bytes =
     (let room = min ref_room_max n; data = take room bytes in
      \<lparr>mb_buf = replicate ref_headroom 0 @ data @ replicate (room - length data) 0,
       buf_len = of_nat (ref_headroom + room), data_off = of_nat ref_headroom,
       data_len = of_nat (length data), pkt_len = of_nat (length data), mb_pool = mp\<rparr>)"

definition ref_view :: "ref_ext \<Rightarrow> dview" where
  "ref_view x = (rv x)\<lparr>v_room := (\<lambda>mp. min ref_room_max (v_room (rv x) mp))\<rparr>"

definition free_addr :: "(ptr \<Rightarrow> rte_mbuf option) \<Rightarrow> ptr" where
  "free_addr h = (LEAST p. p \<noteq> null \<and> h p = None)"

definition upd_rv :: "(dview \<Rightarrow> dview) \<Rightarrow> ref_ext world \<Rightarrow> ref_ext world" where
  "upd_rv f w = w\<lparr>ext := (ext w)\<lparr>rv := f (rv (ext w))\<rparr>\<rparr>"

definition ref_alloc :: "ptr \<Rightarrow> ref_ext world \<Rightarrow> ptr \<times> ref_ext world" where
  "ref_alloc mp w =
     (if v_avail (rv (ext w)) mp = 0 then (null, w)
      else let p = free_addr (mem w) in
        (p, upd_rv (\<lambda>v. upd_avail mp (v_avail v mp - 1) v)
              (w\<lparr>mem := (mem w)(p \<mapsto> ref_mbuf (v_room (rv (ext w)) mp) mp [])\<rparr>)))"

definition ref_free :: "ptr \<Rightarrow> ref_ext world \<Rightarrow> ref_ext world" where
  "ref_free p w =
     (case mem w p of
        None \<Rightarrow> w
      | Some m \<Rightarrow> upd_rv (\<lambda>v. upd_avail (mb_pool m) (v_avail v (mb_pool m) + 1) v)
                    (w\<lparr>mem := (mem w)(p := None)\<rparr>))"

definition ref_put_bulk :: "ptr \<Rightarrow> ptr list \<Rightarrow> u32 \<Rightarrow> ref_ext world \<Rightarrow> ref_ext world" where
  "ref_put_bulk mp ps n w =
     upd_rv (\<lambda>v. upd_avail mp (v_avail v mp + unat n) v)
       (w\<lparr>mem := (\<lambda>p. if p \<in> set (take (unat n) ps) then None else mem w p)\<rparr>)"

fun ref_alloc_bulk :: "ptr \<Rightarrow> nat \<Rightarrow> ref_ext world \<Rightarrow> ptr list \<times> ref_ext world" where
  "ref_alloc_bulk mp 0 w = ([], w)"
| "ref_alloc_bulk mp (Suc n) w =
     (case ref_alloc mp w of (p, w1) \<Rightarrow>
      case ref_alloc_bulk mp n w1 of (ps, w2) \<Rightarrow> (p # ps, w2))"

definition ref_ring_create :: "string \<Rightarrow> u32 \<Rightarrow> int \<Rightarrow> u32 \<Rightarrow> ref_ext world \<Rightarrow> ptr \<times> ref_ext world" where
  "ref_ring_create nm cnt sock fl w =
     (let v = rv (ext w); r = r_next (ext w) in
      if v_names v nm \<noteq> None then (null, w\<lparr>rte_errno := EEXIST\<rparr>)
      else if r = null \<or> v_rings v r \<noteq> None then (null, w\<lparr>rte_errno := ENOMEM\<rparr>)
      else (r, w\<lparr>ext := (ext w)\<lparr>r_next := r + 1, rv := v\<lparr>
              v_rings := (v_rings v)(r \<mapsto> []),
              v_cap := (v_cap v)(r := unat cnt - 1),
              v_names := (v_names v)(nm \<mapsto> r)\<rparr>\<rparr>\<rparr>))"

definition ref_ring_free :: "ptr \<Rightarrow> ref_ext world \<Rightarrow> ref_ext world" where
  "ref_ring_free r = upd_rv (\<lambda>v. v\<lparr>
     v_rings := (v_rings v)(r := None),
     v_names := (\<lambda>nm. if v_names v nm = Some r then None else v_names v nm)\<rparr>)"

definition ref_ring_enqueue :: "ptr \<Rightarrow> ptr \<Rightarrow> ref_ext world \<Rightarrow> int \<times> ref_ext world" where
  "ref_ring_enqueue r p w =
     (case v_rings (rv (ext w)) r of
        None \<Rightarrow> (- EINVAL, w)
      | Some q \<Rightarrow> if length q < v_cap (rv (ext w)) r then (0, upd_rv (upd_ring r (q @ [p])) w)
                  else (- ENOBUFS, w))"

definition ref_ring_dequeue :: "ptr \<Rightarrow> ptr \<Rightarrow> ref_ext world \<Rightarrow> (int \<times> ptr) \<times> ref_ext world" where
  "ref_ring_dequeue r slot w =
     (case v_rings (rv (ext w)) r of
        None \<Rightarrow> ((- EINVAL, slot), w)
      | Some [] \<Rightarrow> ((- ENOENT, slot), w)
      | Some (p # q) \<Rightarrow> ((0, p), upd_rv (upd_ring r q) w))"

definition ref_ring_enqueue_bulk ::
  "ptr \<Rightarrow> ptr list \<Rightarrow> u32 \<Rightarrow> ref_ext world \<Rightarrow> u32 \<times> ref_ext world" where
  "ref_ring_enqueue_bulk r tab n w =
     (case v_rings (rv (ext w)) r of
        None \<Rightarrow> (0, w)
      | Some q \<Rightarrow> if length q + unat n \<le> v_cap (rv (ext w)) r
                  then (n, upd_rv (upd_ring r (q @ take (unat n) tab)) w) else (0, w))"

definition ref_ring_dequeue_burst ::
  "ptr \<Rightarrow> ptr list \<Rightarrow> u32 \<Rightarrow> ref_ext world \<Rightarrow> (u32 \<times> ptr list) \<times> ref_ext world" where
  "ref_ring_dequeue_burst r tab n w =
     (case v_rings (rv (ext w)) r of
        None \<Rightarrow> ((0, tab), w)
      | Some q \<Rightarrow> ((of_nat (min (unat n) (length q)),
                    take (unat n) q @ drop (min (unat n) (length q)) tab),
                   upd_rv (upd_ring r (drop (unat n) q)) w))"

text \<open>A frame is padded to the 60 bytes of the shortest Ethernet frame.\<close>

definition pad_frame :: "u8 list \<Rightarrow> u8 list" where
  "pad_frame f = f @ replicate (60 - length f) 0"

fun ref_rx :: "nat \<Rightarrow> ref_ext world \<Rightarrow> ptr list \<times> ref_ext world" where
  "ref_rx 0 w = ([], w)"
| "ref_rx (Suc n) w =
     (case r_frames (ext w) of
        [] \<Rightarrow> ([], w)
      | f # fs \<Rightarrow>
          (let p = free_addr (mem w) in
           case ref_rx n (w\<lparr>mem := (mem w)(p \<mapsto> ref_mbuf ref_room_max null (pad_frame f)),
                            ext := (ext w)\<lparr>r_frames := fs\<rparr>\<rparr>) of
             (ps, w') \<Rightarrow> (p # ps, w')))"

text \<open>The NIC accepts at most \<open>r_tx_max\<close> packets of a burst.\<close>

definition ref_tx :: "ptr list \<Rightarrow> u16 \<Rightarrow> ref_ext world \<Rightarrow> u16 \<times> ref_ext world" where
  "ref_tx ps nb w =
     (let k = min (unat nb) (r_tx_max (ext w)) in
      (of_nat k, w\<lparr>ext := (ext w)\<lparr>r_sent := r_sent (ext w) @ take k ps\<rparr>\<rparr>))"

definition ref_queue_setup :: "u16 \<Rightarrow> ref_ext world \<Rightarrow> int \<times> ref_ext world" where
  "ref_queue_setup q w =
     (case r_configured (ext w) of
        None \<Rightarrow> (- EINVAL, w)
      | Some n \<Rightarrow> if q < n then (0, w\<lparr>ext := (ext w)\<lparr>r_setup := r_setup (ext w) @ [q]\<rparr>\<rparr>)
                  else (- EINVAL, w))"

definition ref_dpdk :: "ref_ext dpdk" where
  "ref_dpdk = \<lparr>
     rte_eal_init = (\<lambda>argc argv w. (0, w)),
     rte_eal_cleanup = (\<lambda>w. (0, w)),
     rte_socket_id = (\<lambda>w. 0),
     rte_lcore_id = (\<lambda>w. r_lcore (ext w)),
     rte_mempool_create = (\<lambda>nm n sz cache priv sock fl w.
       (7, upd_rv (\<lambda>v. upd_avail 7 (unat n) v) w)),
     rte_mempool_lookup = (\<lambda>nm w. (7, w)),
     rte_mempool_free = (\<lambda>mp w. w),
     rte_mempool_put_bulk = ref_put_bulk,
     rte_pktmbuf_alloc = ref_alloc,
     rte_pktmbuf_free = ref_free,
     rte_pktmbuf_alloc_bulk = (\<lambda>mp n w.
       if v_avail (rv (ext w)) mp < unat n then ((- ENOENT, []), w)
       else case ref_alloc_bulk mp (unat n) w of (ps, w') \<Rightarrow> ((0, ps), w')),
     rte_ring_create = ref_ring_create,
     rte_ring_lookup = (\<lambda>nm w. (case_option null id (v_names (rv (ext w)) nm), w)),
     rte_ring_free = ref_ring_free,
     rte_ring_enqueue = ref_ring_enqueue,
     rte_ring_dequeue = ref_ring_dequeue,
     rte_ring_enqueue_bulk = ref_ring_enqueue_bulk,
     rte_ring_dequeue_burst = ref_ring_dequeue_burst,
     rte_memzone_reserve = (\<lambda>nm len sock fl w. (9, w)),
     rte_memzone_lookup = (\<lambda>nm w. (9, w)),
     rte_memzone_free = (\<lambda>z w. (0, w)),
     rte_memzone_addr = (\<lambda>z w. 4096),
     rte_eth_dev_info_get = (\<lambda>pid w. ((0, \<lparr>tx_offload_capa = 65536, flow_type_rss_offloads = 41868,
       default_rxconf = 0, default_txconf = 0\<rparr>), w)),
     rte_eth_dev_configure = (\<lambda>pid nrx ntx conf w.
       (0, w\<lparr>ext := (ext w)\<lparr>r_configured := Some nrx\<rparr>\<rparr>)),
     rte_eth_dev_socket_id = (\<lambda>pid w. 0),
     rte_eth_rx_queue_setup = (\<lambda>pid q nd sock conf mp w. ref_queue_setup q w),
     rte_eth_tx_queue_setup = (\<lambda>pid q nd sock conf w. ref_queue_setup q w),
     rte_eth_promiscuous_enable = (\<lambda>pid w. (0, w)),
     rte_eth_dev_start = (\<lambda>pid w. (0, w)),
     rte_eth_rx_burst = (\<lambda>pid qid nb w. ref_rx (unat nb) w),
     rte_eth_tx_burst = (\<lambda>pid qid ps nb w. ref_tx ps nb w),
     rte_eth_ports = (\<lambda>w. [0]),
     rte_eth_dev_stop = (\<lambda>pid w. w),
     rte_eth_dev_close = (\<lambda>pid w. w)\<rparr>"

lemma ref_dpdk_sel [simp]:
  "rte_mempool_put_bulk ref_dpdk = ref_put_bulk"
  "rte_pktmbuf_alloc ref_dpdk = ref_alloc"
  "rte_pktmbuf_free ref_dpdk = ref_free"
  "rte_ring_create ref_dpdk = ref_ring_create"
  "rte_ring_lookup ref_dpdk = (\<lambda>nm w. (case_option null id (v_names (rv (ext w)) nm), w))"
  "rte_ring_free ref_dpdk = ref_ring_free"
  "rte_ring_enqueue ref_dpdk = ref_ring_enqueue"
  "rte_ring_dequeue ref_dpdk = ref_ring_dequeue"
  "rte_ring_enqueue_bulk ref_dpdk = ref_ring_enqueue_bulk"
  "rte_ring_dequeue_burst ref_dpdk = ref_ring_dequeue_burst"
  "rte_eth_rx_burst ref_dpdk = (\<lambda>pid qid nb w. ref_rx (unat nb) w)"
  "rte_eth_tx_burst ref_dpdk = (\<lambda>pid qid ps nb w. ref_tx ps nb w)"
  "rte_eth_dev_configure ref_dpdk = (\<lambda>pid nrx ntx conf w.
       (0, w\<lparr>ext := (ext w)\<lparr>r_configured := Some nrx\<rparr>\<rparr>))"
  "rte_eth_rx_queue_setup ref_dpdk = (\<lambda>pid q nd sock conf mp w. ref_queue_setup q w)"
  "rte_eth_tx_queue_setup ref_dpdk = (\<lambda>pid q nd sock conf w. ref_queue_setup q w)"
  "rte_eth_promiscuous_enable ref_dpdk = (\<lambda>pid w. (0, w))"
  "rte_lcore_id ref_dpdk = (\<lambda>w. r_lcore (ext w))"
  "rte_socket_id ref_dpdk = (\<lambda>w. 0)"
  "rte_eal_init ref_dpdk = (\<lambda>argc argv w. (0, w))"
  "rte_mempool_create ref_dpdk = (\<lambda>nm n sz cache priv sock fl w.
       (7, upd_rv (\<lambda>v. upd_avail 7 (unat n) v) w))"
  "rte_mempool_lookup ref_dpdk = (\<lambda>nm w. (7, w))"
  "rte_memzone_reserve ref_dpdk = (\<lambda>nm len sock fl w. (9, w))"
  "rte_memzone_lookup ref_dpdk = (\<lambda>nm w. (9, w))"
  "rte_eth_dev_info_get ref_dpdk = (\<lambda>pid w. ((0, \<lparr>tx_offload_capa = 65536, flow_type_rss_offloads = 41868,
       default_rxconf = 0, default_txconf = 0\<rparr>), w))"
  "rte_eth_dev_start ref_dpdk = (\<lambda>pid w. (0, w))"
  by (simp_all add: ref_dpdk_def)

lemma upd_rv_sel [simp]:
  "mem (upd_rv f w) = mem w" "rv (ext (upd_rv f w)) = f (rv (ext w))"
  "rte_errno (upd_rv f w) = rte_errno w"
  by (simp_all add: upd_rv_def)

lemma free_addr_free:
  assumes "finite (dom h)"
  shows "free_addr h \<noteq> null" "h (free_addr h) = None"
proof -
  have "finite (insert null (dom h))" using assms by simp
  then obtain p where "p \<notin> insert null (dom h)"
    using infinite_UNIV_nat by (metis ex_new_if_finite)
  then have "p \<noteq> null \<and> h p = None" by auto
  then have "free_addr h \<noteq> null \<and> h (free_addr h) = None"
    unfolding free_addr_def by (rule LeastI)
  then show "free_addr h \<noteq> null" "h (free_addr h) = None" by simp_all
qed

lemma ref_buf_len:
  "unat (of_nat (ref_headroom + min ref_room_max n) :: u16) = ref_headroom + min ref_room_max n"
  by (rule unat_of_nat_small) (simp add: ref_headroom_def ref_room_max_def)

lemma ref_data_off: "unat (of_nat ref_headroom :: u16) = ref_headroom"
  by (rule unat_of_nat_small) (simp add: ref_headroom_def)

lemma ref_data_len:
  "unat (of_nat (length (take (min ref_room_max n) bytes)) :: u16) = min (length bytes) (min ref_room_max n)"
  "unat (of_nat (length (take (min ref_room_max n) bytes)) :: u32) = min (length bytes) (min ref_room_max n)"
  by (simp_all add: unat_of_nat take_bit_nat_eq_self ref_headroom_def ref_room_max_def)

lemma ref_mbuf_pool [simp]: "mb_pool (ref_mbuf n mp bytes) = mp"
  by (simp add: ref_mbuf_def Let_def)

lemma ref_mbuf_wf: "wf_mbuf (ref_mbuf n mp bytes)"
  unfolding wf_mbuf_def ref_mbuf_def Let_def rte_mbuf.simps ref_buf_len ref_data_off ref_data_len
  by auto

lemma ref_mbuf_fresh: "fresh_mbuf mp (min ref_room_max n) (ref_mbuf n mp [])"
  using ref_mbuf_wf [of n mp "[]"]
  unfolding fresh_mbuf_def
  by (simp add: ref_mbuf_def Let_def ref_buf_len ref_data_off del: of_nat_add)

lemma ref_view_sel:
  "v_rings (ref_view x) = v_rings (rv x)" "v_cap (ref_view x) = v_cap (rv x)"
  "v_names (ref_view x) = v_names (rv x)" "v_avail (ref_view x) = v_avail (rv x)"
  "v_room (ref_view x) mp = min ref_room_max (v_room (rv x) mp)"
  by (simp_all add: ref_view_def)

lemma ref_view_upd:
  "rv x' = upd_ring r q (rv x) \<Longrightarrow> ref_view x' = upd_ring r q (ref_view x)"
  "rv x' = upd_avail mp n (rv x) \<Longrightarrow> ref_view x' = upd_avail mp n (ref_view x)"
  "rv x' = rv x \<Longrightarrow> ref_view x' = ref_view x"
  by (simp_all add: ref_view_def upd_ring_def upd_avail_def)

lemma pad_frame_long: "14 \<le> unat (data_len (ref_mbuf ref_room_max null (pad_frame f)))"
  unfolding ref_mbuf_def Let_def rte_mbuf.simps ref_data_len
  by (simp add: pad_frame_def ref_room_max_def ref_headroom_def)

lemma ref_rx_spec:
  assumes "finite (dom (mem w))" "ref_rx n w = (ps, w')"
  shows "length ps \<le> n \<and> distinct ps \<and> null \<notin> set ps \<and> (\<forall>p \<in> set ps. mem w p = None) \<and>
     dom (mem w') = dom (mem w) \<union> set ps \<and> (\<forall>p. p \<notin> set ps \<longrightarrow> mem w' p = mem w p) \<and>
     (\<forall>p \<in> set ps. \<exists>m. mem w' p = Some m \<and> wf_mbuf m \<and> 14 \<le> unat (data_len m)) \<and> rv (ext w') = rv (ext w)"
  using assms
proof (induction n arbitrary: w ps w')
  case 0
  then show ?case by simp
next
  case (Suc n)
  show ?case
  proof (cases "r_frames (ext w)")
    case Nil
    with Suc.prems show ?thesis by auto
  next
    case (Cons f fs)
    let ?p = "free_addr (mem w)"
    let ?w = "w\<lparr>mem := (mem w)(?p \<mapsto> ref_mbuf ref_room_max null (pad_frame f)),
                ext := (ext w)\<lparr>r_frames := fs\<rparr>\<rparr>"
    obtain qs where qs: "ref_rx n ?w = (qs, w')" "ps = ?p # qs"
      using Suc.prems(2) Cons by (auto simp: Let_def split: prod.splits)
    have "finite (dom (mem ?w))" using Suc.prems(1) by simp
    from Suc.IH [OF this qs(1)] free_addr_free [OF Suc.prems(1)] ref_mbuf_wf pad_frame_long
    show ?thesis unfolding qs(2) by (auto simp: dom_def split: if_splits)
  qed
qed

lemma ref_tx_count: "unat (of_nat (min n k) :: u16) \<le> n"
  using take_bit_nat_less_eq_self [of 16 "min n k"] by (simp add: unat_of_nat)

interpretation ref: dpdk_env ref_dpdk ref_view
proof unfold_locales
  fix w :: "ref_ext world" and mp
  assume "0 < v_avail (ref_view (ext w)) mp" "finite (dom (mem w))"
  then show "\<exists>p m w'. rte_pktmbuf_alloc ref_dpdk mp w = (p, w') \<and> p \<noteq> null \<and> mem w p = None \<and>
       fresh_mbuf mp (v_room (ref_view (ext w)) mp) m \<and> mem w' = (mem w)(p \<mapsto> m) \<and>
       ref_view (ext w') = upd_avail mp (v_avail (ref_view (ext w)) mp - 1) (ref_view (ext w))"
    using free_addr_free [of "mem w"] ref_mbuf_fresh
    by (auto simp: ref_alloc_def Let_def upd_rv_def ref_view_sel intro!: ref_view_upd exI [of _ "ref_mbuf (v_room (rv (ext w)) mp) mp []"])
next
  fix w w' :: "ref_ext world" and pid qid :: u16 and nb :: u16 and ps
  assume "finite (dom (mem w))" "rte_eth_rx_burst ref_dpdk pid qid nb w = (ps, w')"
  then have *: "finite (dom (mem w))" "ref_rx (unat nb) w = (ps, w')" by simp_all
  show "length ps \<le> unat nb \<and> distinct ps \<and> null \<notin> set ps \<and> (\<forall>p \<in> set ps. mem w p = None) \<and>
     dom (mem w') = dom (mem w) \<union> set ps \<and> (\<forall>p. p \<notin> set ps \<longrightarrow> mem w' p = mem w p) \<and>
     (\<forall>p \<in> set ps. \<exists>m. mem w' p = Some m \<and> wf_mbuf m \<and> 14 \<le> unat (data_len m)) \<and>
     v_rings (ref_view (ext w')) = v_rings (ref_view (ext w)) \<and>
     v_cap (ref_view (ext w')) = v_cap (ref_view (ext w)) \<and>
     v_names (ref_view (ext w')) = v_names (ref_view (ext w))"
    using ref_rx_spec [OF *] by (simp add: ref_view_sel)
next
  fix r and w :: "ref_ext world"
  show "mem (rte_ring_free ref_dpdk r w) = mem w \<and>
     ref_view (ext (rte_ring_free ref_dpdk r w)) = (ref_view (ext w))\<lparr>
        v_rings := (v_rings (ref_view (ext w)))(r := None),
        v_names := (\<lambda>nm. if v_names (ref_view (ext w)) nm = Some r then None
                         else v_names (ref_view (ext w)) nm)\<rparr>"
    unfolding ref_view_sel by (simp add: ref_ring_free_def upd_rv_def ref_view_def)
qed (auto simp: ref_ring_enqueue_def ref_ring_dequeue_def ref_ring_enqueue_bulk_def
    ref_ring_dequeue_burst_def ref_ring_create_def ref_ring_free_def ref_alloc_def ref_free_def
    ref_put_bulk_def ref_tx_def ref_tx_count Let_def upd_rv_def ref_view_def upd_ring_def upd_avail_def
    split: if_splits)

definition ref_queues :: "ref_ext \<Rightarrow> u16 \<Rightarrow> nat" where
  "ref_queues x pid = (case r_configured x of None \<Rightarrow> 0 | Some n \<Rightarrow> unat n)"

interpretation ref_eth: eth_api ref_dpdk ref_queues
  by unfold_locales
    (auto simp: ref_dpdk_def ref_queue_setup_def ref_queues_def fun_eq_iff word_less_nat_alt EINVAL_def
      split: option.splits if_splits)

text \<open>A start state: one pool (at address 7) of four buffers with 64 bytes of room, no rings.\<close>

definition ref_start :: "ref_ext world" where
  "ref_start = \<lparr>mem = Map.empty, rte_errno = 0, ext = \<lparr>
     rv = \<lparr>v_rings = Map.empty, v_cap = (\<lambda>_. 0), v_names = Map.empty,
           v_avail = (\<lambda>mp. if mp = 7 then 4 else 0), v_room = (\<lambda>_. 64)\<rparr>,
     r_next = 100, r_frames = [], r_sent = [], r_lcore = 0, r_configured = None,
     r_setup = [], r_tx_max = 2\<rparr>\<rparr>"

lemma ref_start_sel [simp]:
  "mem ref_start = Map.empty" "rte_errno ref_start = 0"
  "v_rings (ref_view (ext ref_start)) = Map.empty" "v_names (ref_view (ext ref_start)) = Map.empty"
  "v_avail (ref_view (ext ref_start)) = (\<lambda>mp. if mp = 7 then 4 else 0)"
  "v_room (ref_view (ext ref_start)) mp = 64"
  by (simp_all add: ref_start_def ref_view_sel ref_room_max_def ref_headroom_def)

text \<open>The start state with the given rings, their names and their common capacity.\<close>

definition ref_rings :: "(ptr \<Rightarrow> ptr list option) \<Rightarrow> (string \<Rightarrow> ptr option) \<Rightarrow> nat \<Rightarrow> ref_ext world" where
  "ref_rings rs ns cap = ref_start\<lparr>ext := (ext ref_start)\<lparr>rv := (rv (ext ref_start))\<lparr>
     v_rings := rs, v_names := ns, v_cap := (\<lambda>_. cap)\<rparr>\<rparr>\<rparr>"

lemma ref_rings_sel [simp]:
  "mem (ref_rings rs ns cap) = Map.empty" "rte_errno (ref_rings rs ns cap) = 0"
  "v_rings (ref_view (ext (ref_rings rs ns cap))) = rs"
  "v_names (ref_view (ext (ref_rings rs ns cap))) = ns"
  "v_cap (ref_view (ext (ref_rings rs ns cap))) r = cap"
  "v_avail (ref_view (ext (ref_rings rs ns cap))) = (\<lambda>mp. if mp = 7 then 4 else 0)"
  "v_room (ref_view (ext (ref_rings rs ns cap))) mp = 64"
  by (simp_all add: ref_rings_def ref_start_def ref_view_sel ref_room_max_def ref_headroom_def)

section \<open>Containers\<close>

definition list_segq :: "('a list, 'a) segq" where
  "list_segq = \<lparr>sq_new = [], sq_push = (\<lambda>a q. q @ [a]),
     sq_pop = (\<lambda>q. case q of [] \<Rightarrow> (None, []) | a # as \<Rightarrow> (Some a, as)),
     sq_len = length, sq_is_empty = (\<lambda>q. q = [])\<rparr>"

interpretation list_q: seg_queue list_segq "\<lambda>q. q"
  by unfold_locales (simp_all add: list_segq_def)

definition alist_chm :: "(('k \<times> 'v) list, 'k, 'v) chm" where
  "alist_chm = \<lparr>chm_new = [],
     chm_insert = (\<lambda>k v m. (map_of m k, (k, v) # filter (\<lambda>e. fst e \<noteq> k) m)),
     chm_remove = (\<lambda>k m. (map_of m k, filter (\<lambda>e. fst e \<noteq> k) m)),
     chm_get = map_of, chm_contains_key = (\<lambda>m k. map_of m k \<noteq> None),
     chm_len = (\<lambda>m. card (dom (map_of m)))\<rparr>"

lemma map_of_filter_neq: "map_of (filter (\<lambda>e. fst e \<noteq> k) m) = (map_of m)(k := None)"
  by (induction m) (auto simp: fun_eq_iff)

interpretation alist_m: chash_map alist_chm map_of
  by unfold_locales (simp_all add: alist_chm_def map_of_filter_neq finite_dom_map_of)

end
