(* ===== verification/Apis.thy ===== *)
theory Apis
  imports Reference_Dpdk
begin

text \<open>
  \<^verbatim>\<open>l3enginelib/src/apis/mod.rs\<close>: the error types and how they are read off
  \<open>rte_errno\<close>, the conversion of names to C strings, starting and cleaning up the EAL, and
  freeing message buffers in bulk.
\<close>

section \<open>Error types\<close>

datatype MemoryError =
    NoConfig | SecondaryProcess | Invalid | NoSpace | Exists | NoMem | NoBuf | NoEntries | BadVal

datatype RingClientMapError =
    RCM_MemoryError MemoryError
  | ClientNotFound u16

datatype BufError =
    BadOffset usize usize
  | NotResized
  | OutOfBuffer usize usize

datatype PortError =
    Port_NoDevice | Port_Invalid | Port_NoSupport | Port_NoMem | Port_BadVal

datatype EALErrors =
    EAL_NoRsrc | EAL_DuplicateCall | EAL_InvalidArgs | EAL_NoMem | EAL_BadMemCnfg
  | EAL_BadSystem | EAL_BadPCI | EAL_CoreLaunchFailed | EAL_Fault | EAL_Weird int

text \<open>The matches of \<open>MemoryError::new\<close>, \<open>PortError::new\<close> and \<open>EALErrors::new\<close>.\<close>

definition MemoryError_of_errno :: "int \<Rightarrow> MemoryError" where
  "MemoryError_of_errno errno =
     (if errno = 1001 then SecondaryProcess
      else if errno = 1002 then NoConfig
      else if errno = EINVAL then Invalid
      else if errno = ENOSPC then NoSpace
      else if errno = EEXIST then Exists
      else if errno = ENOMEM then NoMem
      else if errno = ENOBUFS then NoBuf
      else if errno = ENOENT then NoEntries
      else BadVal)"

definition MemoryError_new :: "('x world, MemoryError) exec" where
  "MemoryError_new = gets (\<lambda>w. MemoryError_of_errno (rte_errno w))"

definition RingClientMapError_from :: "MemoryError \<Rightarrow> RingClientMapError" where
  "RingClientMapError_from err = RCM_MemoryError err"

definition PortError_of_errno :: "int \<Rightarrow> PortError" where
  "PortError_of_errno errno =
     (if errno = ENODEV then Port_NoDevice
      else if errno = EINVAL then Port_Invalid
      else if errno = ENOTSUP then Port_NoSupport
      else if errno = ENOMEM then Port_NoMem
      else Port_BadVal)"

definition PortError_new :: "('x world, PortError) exec" where
  "PortError_new = gets (\<lambda>w. PortError_of_errno (rte_errno w))"

definition EALErrors_of_errno :: "int \<Rightarrow> EALErrors" where
  "EALErrors_of_errno errno =
     (if errno = EAGAIN then EAL_NoRsrc
      else if errno = EALREADY then EAL_DuplicateCall
      else if errno = EINVAL then EAL_InvalidArgs
      else if errno = ENOMEM then EAL_NoRsrc
      else if errno = ENODEV then EAL_BadMemCnfg
      else if errno = ENOTSUP then EAL_BadSystem
      else if errno = EPROTO then EAL_BadPCI
      else if errno = ENOEXEC then EAL_CoreLaunchFailed
      else if errno = EFAULT then EAL_Fault
      else EAL_Weird errno)"

definition EALErrors_new :: "('x world, EALErrors) exec" where
  "EALErrors_new = gets (\<lambda>w. EALErrors_of_errno (rte_errno w))"

section \<open>C strings\<close>

text \<open>
  \<open>CString::new\<close> refuses a string with an interior NUL; \<open>From<NulError>\<close> turns that
  into \<open>MemoryError::BadVal\<close>.
\<close>

definition CString_new :: "string \<Rightarrow> string option" where
  "CString_new s = (if CHR 0x00 \<in> set s then None else Some s)"

definition to_cstring :: "string \<Rightarrow> MemoryError + string" where
  "to_cstring s = (case CString_new s of None \<Rightarrow> Inl BadVal | Some c \<Rightarrow> Inr c)"

section \<open>The EAL\<close>

fun cstrings :: "string list \<Rightarrow> ('s, string list) exec" where
  "cstrings [] = ret []"
| "cstrings (s # ss) =
     bind (unwrap_option (CString_new s)) (\<lambda>c. bind (cstrings ss) (\<lambda>cs. ret (c # cs)))"

definition eal_init :: "'x dpdk \<Rightarrow> string list \<Rightarrow> ('x world, EALErrors + unit) exec" where
  "eal_init D args =
     bind (cstrings args) (\<lambda>cargs.
     bind (call (rte_eal_init D (int (length args)) cargs)) (\<lambda>rc.
       if rc = -1 then bind EALErrors_new (\<lambda>e. ret (Inl e)) else ret (Inr ())))"

definition eal_cleanup :: "'x dpdk \<Rightarrow> ptr \<Rightarrow> ('x world, EALErrors + unit) exec" where
  "eal_cleanup D mempool =
     bind (modify (rte_mempool_free D mempool)) (\<lambda>_.
     bind (call (rte_eal_cleanup D)) (\<lambda>rc.
       if rc = 0 then ret (Inr ()) else ret (Inl EAL_Fault)))"

section \<open>Freeing message buffers in bulk\<close>

definition put_bulk_n :: "'x dpdk \<Rightarrow> ptr \<Rightarrow> ptr list \<Rightarrow> ('x world, unit) exec" where
  "put_bulk_n D pool to_free =
     modify (rte_mempool_put_bulk D pool to_free (of_nat (length to_free)))"

text \<open>
  The loop over the buffers: \<open>pool\<close> is the pool of the first one throughout, and
  \<open>to_free\<close> the buffers collected since the last flush.
\<close>

fun free_bulk_loop ::
  "'x dpdk \<Rightarrow> ptr \<Rightarrow> ptr list \<Rightarrow> ptr list \<Rightarrow> ('x world, ptr list) exec" where
  "free_bulk_loop D pool to_free [] = ret to_free"
| "free_bulk_loop D pool to_free (mbuf # mbufs) =
     bind (on_mbuf mbuf (gets mb_pool)) (\<lambda>p.
       if pool = p then free_bulk_loop D pool (to_free @ [mbuf]) mbufs
       else bind (put_bulk_n D pool to_free) (\<lambda>_. free_bulk_loop D pool [mbuf] mbufs))"

definition free_bulk_all :: "'x dpdk \<Rightarrow> ptr \<Rightarrow> ptr list \<Rightarrow> ('x world, unit) exec" where
  "free_bulk_all D pool mbufs =
     bind (free_bulk_loop D pool [] mbufs) (\<lambda>to_free. put_bulk_n D pool to_free)"

definition mbuf_free_bulk :: "'x dpdk \<Rightarrow> ptr list \<Rightarrow> ('x world, unit) exec" where
  "mbuf_free_bulk D mbufs =
     (case mbufs of
        [] \<Rightarrow> fail Assertion
      | m0 # _ \<Rightarrow> bind (on_mbuf m0 (gets mb_pool)) (\<lambda>pool. free_bulk_all D pool mbufs))"

section \<open>Facts\<close>

lemma to_cstring_ok: "CHR 0x00 \<notin> set s \<Longrightarrow> to_cstring s = Inr s"
  by (simp add: to_cstring_def CString_new_def)

lemma cstrings_ok: "(\<forall>s \<in> set ss. CHR 0x00 \<notin> set s) \<Longrightarrow> cstrings ss = ret ss"
  by (induction ss) (simp_all add: CString_new_def unwrap_option_exec)

text \<open>
  Whatever the pools of the buffers: every one of them ends up in the pool the loop was
  started with.
\<close>

context pool_api
begin

lemma put_bulk_n_spec:
  assumes "distinct ps" "set ps \<subseteq> dom (mem w)" "length ps < 2 ^ 32"
  shows "\<exists>w'. put_bulk_n D pool ps w = Ret () w' \<and>
     mem w' = (\<lambda>p. if p \<in> set ps then None else mem w p) \<and>
     view (ext w') = upd_avail pool (v_avail (view (ext w)) pool + length ps) (view (ext w))"
proof -
  have "unat (of_nat (length ps) :: u32) = length ps"
    using assms(3) by (simp add: unat_of_nat_small)
  from put_bulk [OF this assms(1,2)] show ?thesis
    by (simp add: put_bulk_n_def modify_exec)
qed

lemma free_bulk_loop_all:
  assumes "distinct (to_free @ mbufs)" "set (to_free @ mbufs) \<subseteq> dom (mem w)"
    and "length (to_free @ mbufs) < 2 ^ 32"
  shows "\<exists>w'. bind (free_bulk_loop D pool to_free mbufs) (put_bulk_n D pool) w = Ret () w' \<and>
     mem w' = (\<lambda>p. if p \<in> set (to_free @ mbufs) then None else mem w p) \<and>
     view (ext w') = upd_avail pool
       (v_avail (view (ext w)) pool + length (to_free @ mbufs)) (view (ext w))"
  using assms
proof (induction mbufs arbitrary: to_free w)
  case Nil
  then show ?case using put_bulk_n_spec [of to_free w pool] by simp
next
  case (Cons m ms)
  from Cons.prems(2) obtain b where b: "mem w m = Some b" by auto
  show ?case
  proof (cases "pool = mb_pool b")
    case True
    with Cons.IH [of "to_free @ [m]" w] Cons.prems b show ?thesis
      by (simp add: bind_assoc exec_simps)
  next
    case False
    from Cons.prems have tf: "distinct to_free" "set to_free \<subseteq> dom (mem w)"
      "length to_free < 2 ^ 32" by auto
    from put_bulk_n_spec [OF tf, of pool] obtain w1 where
      w1: "put_bulk_n D pool to_free w = Ret () w1"
        "mem w1 = (\<lambda>p. if p \<in> set to_free then None else mem w p)"
        "view (ext w1) = upd_avail pool (v_avail (view (ext w)) pool + length to_free)
           (view (ext w))"
      by blast
    have "distinct ([m] @ ms)" "set ([m] @ ms) \<subseteq> dom (mem w1)" "length ([m] @ ms) < 2 ^ 32"
      using Cons.prems w1(2) by (auto simp: dom_def subset_iff)
    from Cons.IH [OF this] w1 b False show ?thesis
      by (auto simp: bind_assoc exec_simps fun_eq_iff add.assoc)
  qed
qed

lemma free_bulk_all_spec:
  assumes "distinct mbufs" "set mbufs \<subseteq> dom (mem w)" "length mbufs < 2 ^ 32"
  shows "\<exists>w'. free_bulk_all D pool mbufs w = Ret () w' \<and>
     mem w' = (\<lambda>p. if p \<in> set mbufs then None else mem w p) \<and>
     view (ext w') = upd_avail pool (v_avail (view (ext w)) pool + length mbufs) (view (ext w))"
  using free_bulk_loop_all [of "[]" mbufs w pool] assms by (simp add: free_bulk_all_def)

lemma mbuf_free_bulk_spec:
  assumes "distinct (m # ms)" "set (m # ms) \<subseteq> dom (mem w)" "length (m # ms) < 2 ^ 32"
    and "mem w m = Some b"
  shows "\<exists>w'. mbuf_free_bulk D (m # ms) w = Ret () w' \<and>
     mem w' = (\<lambda>p. if p \<in> set (m # ms) then None else mem w p) \<and>
     view (ext w') = upd_avail (mb_pool b)
       (v_avail (view (ext w)) (mb_pool b) + length (m # ms)) (view (ext w))"
  using free_bulk_all_spec [OF assms(1,2,3), of "mb_pool b"] assms(4)
  by (simp add: mbuf_free_bulk_def exec_simps del: length_Cons set_simps)

end

section \<open>Properties\<close>

text \<open>C40: \<open>mbuf_free_bulk\<close> returns for every non-empty list of distinct live buffers, none of
  them is live afterwards, and all of them are credited to the pool of the first buffer: a
  buffer that came from another pool ends up in the wrong one.\<close>

theorem mbuf_free_bulk_into_first_pool:
  assumes "pool_api D view"
    and "distinct (m # ms)" "set (m # ms) \<subseteq> dom (mem w)" "length (m # ms) < 2 ^ 32"
    and "mem w m = Some b"
  shows "\<exists>w'. mbuf_free_bulk D (m # ms) w = Ret () w' \<and>
     mem w' = (\<lambda>p. if p \<in> set (m # ms) then None else mem w p) \<and>
     view (ext w') = upd_avail (mb_pool b)
       (v_avail (view (ext w)) (mb_pool b) + length (m # ms)) (view (ext w))"
  using pool_api.mbuf_free_bulk_spec [OF assms] .

theorem mbuf_free_bulk_into_first_pool_witness:
  "\<exists>w'. mbuf_free_bulk ref_dpdk [1, 2]
      (ref_start\<lparr>mem := [1 \<mapsto> ref_mbuf 64 7 [], 2 \<mapsto> ref_mbuf 64 8 []]\<rparr>) = Ret () w' \<and>
     v_avail (ref_view (ext w')) 7 = 6 \<and> v_avail (ref_view (ext w')) 8 = 0"
proof -
  let ?w = "ref_start\<lparr>mem := [1 \<mapsto> ref_mbuf 64 7 [], 2 \<mapsto> ref_mbuf 64 8 []]\<rparr>"
  have "\<exists>w'. mbuf_free_bulk ref_dpdk [1, 2] ?w = Ret () w' \<and>
     mem w' = (\<lambda>p. if p \<in> set [1, 2] then None else mem ?w p) \<and>
     ref_view (ext w') = upd_avail (mb_pool (ref_mbuf 64 7 []))
       (v_avail (ref_view (ext ?w)) (mb_pool (ref_mbuf 64 7 [])) + length [1 :: ptr, 2])
       (ref_view (ext ?w))"
    by (rule mbuf_free_bulk_into_first_pool [where m = 1 and ms = "[2]"])
      (auto simp: ref.pool_api_axioms)
  then show ?thesis by auto
qed

text \<open>\<open>eal_init\<close> panics exactly when an argument holds a NUL byte; otherwise it reports an
  error exactly when \<open>rte_eal_init\<close> returns -1, and the error is the one that
  \<open>rte_errno\<close> stands for, which is never \<open>NoMem\<close>: an out-of-memory condition is
  reported as \<open>NoRsrc\<close>.\<close>

theorem eal_init_outcome:
  "eal_init D args w =
     (if \<exists>s \<in> set args. CHR 0x00 \<in> set s then Fault Unwrap w
      else case rte_eal_init D (int (length args)) args w of (rc, w') \<Rightarrow>
        if rc = -1 then Ret (Inl (EALErrors_of_errno (rte_errno w'))) w' else Ret (Inr ()) w')
   \<and> EALErrors_of_errno e \<noteq> EAL_NoMem \<and> EALErrors_of_errno ENOMEM = EAL_NoRsrc"
proof -
  have "cstrings args w = Fault Unwrap w" if "\<exists>s \<in> set args. CHR 0x00 \<in> set s"
    using that
  proof (induction args)
    case (Cons a args)
    then show ?case
      by (cases "CHR 0x00 \<in> set a") (auto simp: CString_new_def exec_simps)
  qed simp
  then have "eal_init D args w =
     (if \<exists>s \<in> set args. CHR 0x00 \<in> set s then Fault Unwrap w
      else case rte_eal_init D (int (length args)) args w of (rc, w') \<Rightarrow>
        if rc = -1 then Ret (Inl (EALErrors_of_errno (rte_errno w'))) w' else Ret (Inr ()) w')"
    by (auto simp: eal_init_def cstrings_ok call_def EALErrors_new_def exec_simps split: prod.splits)
  then show ?thesis
    by (simp add: EALErrors_of_errno_def errno_defs)
qed

end
