(* ===== verification/Mbuf.thy ===== *)
theory Mbuf
  imports Apis
begin

text \<open>
  \<^verbatim>\<open>l3enginelib/src/apis/mbuf.rs\<close>: the message buffer. The operations on one buffer run on
  its \<open>rte_mbuf\<close>; allocation, dropping and the bulk operations run on the world. A Rust
  \<open>Mbuf\<close> is its non-null pointer. Sizes keep their Rust widths: \<open>u16\<close> and \<open>u32\<close> for
  the fields, \<open>usize\<close> with written-out wrap-around for offsets and lengths.
\<close>

section \<open>Operations on one buffer\<close>

definition Mbuf_data_len :: "rte_mbuf \<Rightarrow> usize" where
  "Mbuf_data_len m = unat (data_len m)"

definition add_isize :: "bool \<Rightarrow> int \<Rightarrow> int \<Rightarrow> ('s, int) exec" where
  "add_isize oc a b =
     (if - int isize_bound \<le> a + b \<and> a + b < int isize_bound then ret (a + b)
      else if oc then fail Overflow
      else ret ((a + b + int isize_bound) mod int usize_bound - int isize_bound))"

text \<open>An address into the buffer, as the byte index relative to \<open>buf_addr\<close>.\<close>

definition data_address :: "bool \<Rightarrow> usize \<Rightarrow> (rte_mbuf, int) exec" where
  "data_address oc offset =
     bind (gets data_off) (\<lambda>off. add_isize oc (int (unat off)) (as_isize offset))"

definition tailroom :: "bool \<Rightarrow> (rte_mbuf, usize) exec" where
  "tailroom oc =
     bind (gets (\<lambda>m. m)) (\<lambda>raw.
     bind (sub_ck oc 16 (unat (buf_len raw)) (unat (data_off raw))) (\<lambda>a.
       sub_ck oc 16 a (unat (data_len raw))))"

text \<open>\<open>ptr::copy\<close> and \<open>ptr::copy_nonoverlapping\<close> into the buffer.\<close>

definition ptr_copy :: "int \<Rightarrow> int \<Rightarrow> nat \<Rightarrow> (rte_mbuf, unit) exec" where
  "ptr_copy src dst n = (\<lambda>m.
     if range_ok (mb_buf m) src n \<and> range_ok (mb_buf m) dst n
     then Ret () (m\<lparr>mb_buf := overwrite (mb_buf m) (nat dst) (take n (drop (nat src) (mb_buf m)))\<rparr>)
     else Fault BadPointer m)"

definition ptr_write :: "int \<Rightarrow> u8 list \<Rightarrow> (rte_mbuf, unit) exec" where
  "ptr_write dst bytes = (\<lambda>m.
     if range_ok (mb_buf m) dst (length bytes)
     then Ret () (m\<lparr>mb_buf := overwrite (mb_buf m) (nat dst) bytes\<rparr>)
     else Fault BadPointer m)"

text \<open>The record keeping of \<open>extend\<close> and \<open>shrink\<close> on \<open>data_len\<close> and \<open>pkt_len\<close>.\<close>

definition grow_len :: "bool \<Rightarrow> usize \<Rightarrow> (rte_mbuf, unit) exec" where
  "grow_len oc len =
     bind (gets data_len) (\<lambda>dl.
     bind (add_ck oc 16 (unat dl) (len mod 2 ^ 16)) (\<lambda>dl'.
     bind (modify (\<lambda>m. m\<lparr>data_len := of_nat dl'\<rparr>)) (\<lambda>_.
     bind (gets pkt_len) (\<lambda>pl.
     bind (add_ck oc 32 (unat pl) (len mod 2 ^ 32)) (\<lambda>pl'.
       modify (\<lambda>m. m\<lparr>pkt_len := of_nat pl'\<rparr>))))))"

definition cut_len :: "bool \<Rightarrow> usize \<Rightarrow> (rte_mbuf, unit) exec" where
  "cut_len oc len =
     bind (gets data_len) (\<lambda>dl.
     bind (sub_ck oc 16 (unat dl) (len mod 2 ^ 16)) (\<lambda>dl'.
     bind (modify (\<lambda>m. m\<lparr>data_len := of_nat dl'\<rparr>)) (\<lambda>_.
     bind (gets pkt_len) (\<lambda>pl.
     bind (sub_ck oc 32 (unat pl) (len mod 2 ^ 32)) (\<lambda>pl'.
       modify (\<lambda>m. m\<lparr>pkt_len := of_nat pl'\<rparr>))))))"

definition extend :: "bool \<Rightarrow> usize \<Rightarrow> usize \<Rightarrow> (rte_mbuf, BufError + unit) exec" where
  "extend oc offset len =
     bind (gets Mbuf_data_len) (\<lambda>dl.
       if len \<le> 0 \<or> offset > dl then ret (Inl NotResized)
       else bind (tailroom oc) (\<lambda>room.
         if len > room then ret (Inl NotResized)
         else
           bind (sub_ck oc 64 dl offset) (\<lambda>to_copy.
           bind (if to_copy > 0 then
                   bind (data_address oc offset) (\<lambda>src.
                   bind (add_ck oc 64 offset len) (\<lambda>off'.
                   bind (data_address oc off') (\<lambda>dst.
                     ptr_copy src dst to_copy)))
                 else ret ()) (\<lambda>_.
           bind (grow_len oc len) (\<lambda>_. ret (Inr ()))))))"

definition shrink :: "bool \<Rightarrow> usize \<Rightarrow> usize \<Rightarrow> (rte_mbuf, BufError + unit) exec" where
  "shrink oc offset len =
     bind (gets Mbuf_data_len) (\<lambda>dl.
       if len \<le> 0 then ret (Inl NotResized)
       else bind (add_ck oc 64 offset len) (\<lambda>off_len.
         if off_len > dl then ret (Inl NotResized)
         else
           bind (sub_ck oc 64 dl offset) (\<lambda>rest.
           bind (sub_ck oc 64 rest len) (\<lambda>to_copy.
           bind (if to_copy > 0 then
                   bind (add_ck oc 64 offset len) (\<lambda>off'.
                   bind (data_address oc off') (\<lambda>src.
                   bind (data_address oc offset) (\<lambda>dst.
                     ptr_copy src dst to_copy)))
                 else ret ()) (\<lambda>_.
           bind (cut_len oc len) (\<lambda>_. ret (Inr ())))))))"

definition resize :: "bool \<Rightarrow> usize \<Rightarrow> int \<Rightarrow> (rte_mbuf, BufError + unit) exec" where
  "resize oc offset len =
     (if len < 0 then
        (if len = - int isize_bound \<and> oc then fail Overflow
         else shrink oc offset (nat (- len)))
      else extend oc offset (nat len))"

definition truncate :: "usize \<Rightarrow> (rte_mbuf, BufError + unit) exec" where
  "truncate to_len =
     bind (gets Mbuf_data_len) (\<lambda>dl.
       if to_len \<ge> dl then ret (Inl NotResized)
       else bind (modify (\<lambda>m. m\<lparr>data_len := of_nat to_len, pkt_len := of_nat to_len\<rparr>))
         (\<lambda>_. ret (Inr ())))"

text \<open>
  Reading yields an address (the byte index of the item) and, for a slice, its element
  count. \<open>sz\<close> is \<open>T::size_of()\<close>; the implementations of the trait \<open>SizeOf\<close> come first.
\<close>

definition SizeOf_unit :: usize where "SizeOf_unit = 0"
definition SizeOf_u8 :: usize where "SizeOf_u8 = 1"
definition SizeOf_u8_2 :: usize where "SizeOf_u8_2 = 2"
definition SizeOf_u8_16 :: usize where "SizeOf_u8_16 = 16"
definition SizeOf_Ipv6Addr :: usize where "SizeOf_Ipv6Addr = 16"

definition read_data :: "bool \<Rightarrow> usize \<Rightarrow> usize \<Rightarrow> (rte_mbuf, BufError + int) exec" where
  "read_data oc sz offset =
     bind (gets Mbuf_data_len) (\<lambda>dl.
       if offset \<ge> dl then ret (Inl (BadOffset offset dl))
       else bind (add_ck oc 64 offset sz) (\<lambda>e.
         if e > dl then bind (sub_ck oc 64 dl offset) (\<lambda>r. ret (Inl (OutOfBuffer sz r)))
         else bind (data_address oc offset) (\<lambda>item. ret (Inr item))))"

definition read_data_slice ::
  "bool \<Rightarrow> usize \<Rightarrow> usize \<Rightarrow> usize \<Rightarrow> (rte_mbuf, BufError + (int \<times> usize)) exec" where
  "read_data_slice oc sz offset count =
     bind (gets Mbuf_data_len) (\<lambda>dl.
       if offset \<ge> dl then ret (Inl (BadOffset offset dl))
       else bind (mul_ck oc 64 sz count) (\<lambda>n.
         bind (add_ck oc 64 offset n) (\<lambda>e.
         bind (sub_ck oc 64 dl offset) (\<lambda>r.
           if e > r then ret (Inl (OutOfBuffer n r))
           else bind (data_address oc offset) (\<lambda>item0. ret (Inr (item0, count)))))))"

text \<open>\<open>elems\<close> holds the bytes of each element of the slice that is written.\<close>

definition write_data_slice ::
  "bool \<Rightarrow> usize \<Rightarrow> usize \<Rightarrow> u8 list list \<Rightarrow> (rte_mbuf, BufError + (int \<times> usize)) exec" where
  "write_data_slice oc sz offset elems =
     bind (gets Mbuf_data_len) (\<lambda>dl.
     bind (mul_ck oc 64 sz (length elems)) (\<lambda>n.
     bind (add_ck oc 64 offset n) (\<lambda>e.
       if e > dl then bind (sub_ck oc 64 dl offset) (\<lambda>r. ret (Inl (OutOfBuffer n r)))
       else
         bind (data_address oc offset) (\<lambda>dst.
         bind (ptr_write dst (concat elems)) (\<lambda>_.
           read_data_slice oc sz offset (length elems))))))"

section \<open>Operations on the world\<close>

definition Mbuf_new :: "'x dpdk \<Rightarrow> ptr \<Rightarrow> ('x world, MemoryError + ptr) exec" where
  "Mbuf_new D mp =
     bind (call (rte_pktmbuf_alloc D mp)) (\<lambda>r.
       case NonNull_new r of Some raw \<Rightarrow> ret (Inr raw) | None \<Rightarrow> ret (Inl NoBuf))"

definition Mbuf_drop :: "'x dpdk \<Rightarrow> ptr \<Rightarrow> ('x world, unit) exec" where
  "Mbuf_drop D mbuf = modify (rte_pktmbuf_free D mbuf)"

text \<open>\<open>Box<dyn Error>\<close>: either of the two errors \<open>from_bytes\<close> can pass on.\<close>

datatype DynError = Dyn_Memory MemoryError | Dyn_Buf BufError

definition from_bytes ::
  "'x dpdk \<Rightarrow> bool \<Rightarrow> u8 list \<Rightarrow> ptr \<Rightarrow> ('x world, DynError + ptr) exec" where
  "from_bytes D oc data mp =
     bind (Mbuf_new D mp) (\<lambda>r. case r of
       Inl e \<Rightarrow> ret (Inl (Dyn_Memory e))
     | Inr mbuf \<Rightarrow>
         bind (on_mbuf mbuf (extend oc 0 (length data))) (\<lambda>r. case r of
           Inl e \<Rightarrow> bind (Mbuf_drop D mbuf) (\<lambda>_. ret (Inl (Dyn_Buf e)))
         | Inr _ \<Rightarrow>
             bind (on_mbuf mbuf (write_data_slice oc 1 0 (map (\<lambda>x. [x]) data))) (\<lambda>r. case r of
               Inl e \<Rightarrow> bind (Mbuf_drop D mbuf) (\<lambda>_. ret (Inl (Dyn_Buf e)))
             | Inr _ \<Rightarrow> ret (Inr mbuf))))"

definition alloc_bulk ::
  "'x dpdk \<Rightarrow> usize \<Rightarrow> ptr \<Rightarrow> ('x world, MemoryError + ptr list) exec" where
  "alloc_bulk D len mp =
     bind (call (rte_pktmbuf_alloc_bulk D mp (of_nat len))) (\<lambda>(rb, ptrs).
       if rb = 0 then ret (Inr (take len ptrs)) else ret (Inl NoBuf))"

definition Mbuf_mbuf_free_bulk :: "'x dpdk \<Rightarrow> ptr list \<Rightarrow> ('x world, unit) exec" where
  "Mbuf_mbuf_free_bulk D mbufs =
     (case mbufs of
        [] \<Rightarrow> ret ()
      | m0 # _ \<Rightarrow> bind (on_mbuf m0 (gets mb_pool)) (\<lambda>pool. free_bulk_all D pool mbufs))"

definition free_bulk :: "'x dpdk \<Rightarrow> ptr list \<Rightarrow> ('x world, unit) exec" where
  "free_bulk D mbufs = Mbuf_mbuf_free_bulk D mbufs"

section \<open>Behaviour on a well-formed buffer\<close>

text \<open>The bytes a buffer carries, and the space behind them.\<close>

definition mb_data :: "rte_mbuf \<Rightarrow> u8 list" where
  "mb_data m = take (unat (data_len m)) (drop (unat (data_off m)) (mb_buf m))"

definition mb_room :: "rte_mbuf \<Rightarrow> nat" where
  "mb_room m = unat (buf_len m) - unat (data_off m) - unat (data_len m)"

named_theorems mbuf_simps "operations on a well-formed buffer"

lemma u16_bound: "unat (x :: u16) < 65536"
  using unsigned_less [where ?'a = nat, of x] by simp

lemma u32_bound: "unat (x :: u32) < 4294967296"
  using unsigned_less [where ?'a = nat, of x] by simp

lemma wf_length_data [simp]: "wf_mbuf m \<Longrightarrow> length (mb_data m) = unat (data_len m)"
  by (auto simp: wf_mbuf_def mb_data_def)

lemma add_isize_small: "a + b < 2 ^ 63 \<Longrightarrow> add_isize oc (int a) (int b) = ret (int (a + b))"
  by (simp add: add_isize_def isize_bound_def)

lemma data_address_small [mbuf_simps]:
  "n < 65536 \<Longrightarrow> data_address oc n m = Ret (int (unat (data_off m) + n)) m"
  using u16_bound [of "data_off m"]
  by (simp add: data_address_def add_isize_small as_isize_def isize_bound_def exec_simps)

lemma wf_bounds:
  assumes "wf_mbuf m"
  shows "unat (data_off m) + unat (data_len m) + mb_room m = unat (buf_len m)"
    and "unat (data_off m) + unat (data_len m) + mb_room m < 65536"
    and "length (mb_buf m) = unat (data_off m) + unat (data_len m) + mb_room m"
    and "unat (pkt_len m) = unat (data_len m)"
  using assms u16_bound [of "buf_len m"] by (auto simp: wf_mbuf_def mb_room_def)

lemma tailroom_wf [mbuf_simps]: "wf_mbuf m \<Longrightarrow> tailroom oc m = Ret (mb_room m) m"
  by (auto simp: tailroom_def mb_room_def wf_mbuf_def exec_simps)

lemma grow_len_wf [mbuf_simps]:
  assumes "wf_mbuf m" "len \<le> mb_room m"
  shows "grow_len oc len m =
    Ret () (m\<lparr>data_len := data_len m + of_nat len, pkt_len := pkt_len m + of_nat len\<rparr>)"
proof -
  have "unat (data_len m) + len < 65536" "unat (pkt_len m) + len < 65536"
    using wf_bounds [OF assms(1)] assms(2) by linarith+
  then show ?thesis
    by (simp add: grow_len_def exec_simps)
qed

lemma cut_len_wf [mbuf_simps]:
  assumes "wf_mbuf m" "len \<le> unat (data_len m)"
  shows "cut_len oc len m =
    Ret () (m\<lparr>data_len := data_len m - of_nat len, pkt_len := pkt_len m - of_nat len\<rparr>)"
proof -
  have "len < 65536" "len \<le> unat (pkt_len m)"
    using wf_bounds [OF assms(1)] assms(2) by linarith+
  with assms show ?thesis
    by (simp add: cut_len_def exec_simps of_nat_diff)
qed

text \<open>What a successful \<open>extend\<close> and \<open>shrink\<close> leave in the buffer.\<close>

definition extended :: "usize \<Rightarrow> usize \<Rightarrow> rte_mbuf \<Rightarrow> rte_mbuf" where
  "extended offset len m = m\<lparr>
     mb_buf := overwrite (mb_buf m) (unat (data_off m) + offset + len) (drop offset (mb_data m)),
     data_len := data_len m + of_nat len, pkt_len := pkt_len m + of_nat len\<rparr>"

definition shrunk :: "usize \<Rightarrow> usize \<Rightarrow> rte_mbuf \<Rightarrow> rte_mbuf" where
  "shrunk offset len m = m\<lparr>
     mb_buf := overwrite (mb_buf m) (unat (data_off m) + offset) (drop (offset + len) (mb_data m)),
     data_len := data_len m - of_nat len, pkt_len := pkt_len m - of_nat len\<rparr>"

lemma drop_mb_data: "k \<le> unat (data_len m) \<Longrightarrow>
  drop k (mb_data m) = take (unat (data_len m) - k) (drop (unat (data_off m) + k) (mb_buf m))"
  by (simp add: mb_data_def drop_take add.commute)

lemma extend_ok [mbuf_simps]:
  assumes wf: "wf_mbuf m" and len: "0 < len" "len \<le> mb_room m"
    and off: "offset \<le> unat (data_len m)"
  shows "extend oc offset len m = Ret (Inr ()) (extended offset len m)"
proof -
  note b = wf_bounds [OF wf]
  have small: "offset < 65536" "offset + len < 65536"
    using b off len by linarith+
  have wf': "wf_mbuf (m\<lparr>mb_buf := xs\<rparr>)" "mb_room (m\<lparr>mb_buf := xs\<rparr>) = mb_room m"
    if "length xs = length (mb_buf m)" for xs
    using wf that by (simp_all add: wf_mbuf_def mb_room_def)
  show ?thesis
  proof (cases "offset = unat (data_len m)")
    case True
    then show ?thesis
      using assms small by (simp add: extend_def extended_def Mbuf_data_len_def exec_simps mbuf_simps)
  next
    case False
    then have "range_ok (mb_buf m) (int (unat (data_off m) + offset)) (unat (data_len m) - offset)"
      "range_ok (mb_buf m) (int (unat (data_off m) + (offset + len))) (unat (data_len m) - offset)"
      using b off len unfolding range_ok_def by linarith+
    then show ?thesis
      using False assms small b wf'
      by (simp add: extend_def extended_def Mbuf_data_len_def ptr_copy_def drop_mb_data
          exec_simps mbuf_simps add.assoc del: of_nat_add)
  qed
qed

lemma extend_fails [mbuf_simps]:
  assumes "wf_mbuf m" "len = 0 \<or> unat (data_len m) < offset \<or> mb_room m < len"
  shows "extend oc offset len m = Ret (Inl NotResized) m"
  using assms by (auto simp: extend_def Mbuf_data_len_def exec_simps mbuf_simps)

lemma shrink_ok [mbuf_simps]:
  assumes wf: "wf_mbuf m" and len: "0 < len" and off: "offset + len \<le> unat (data_len m)"
  shows "shrink oc offset len m = Ret (Inr ()) (shrunk offset len m)"
proof -
  note b = wf_bounds [OF wf]
  have small: "offset < 65536" "offset + len < 65536" "len \<le> unat (data_len m)"
    "offset + len < 18446744073709551616"
    using b off len by linarith+
  have wf': "wf_mbuf (m\<lparr>mb_buf := xs\<rparr>)" if "length xs = length (mb_buf m)" for xs
    using wf that by (simp add: wf_mbuf_def)
  show ?thesis
  proof (cases "offset + len = unat (data_len m)")
    case True
    then show ?thesis
      using assms small
      by (simp add: shrink_def shrunk_def Mbuf_data_len_def exec_simps mbuf_simps)
  next
    case False
    then have "range_ok (mb_buf m) (int (unat (data_off m) + (offset + len)))
        (unat (data_len m) - offset - len)"
      "range_ok (mb_buf m) (int (unat (data_off m) + offset)) (unat (data_len m) - offset - len)"
      using b off len unfolding range_ok_def by linarith+
    then show ?thesis
      using False assms small b wf'
      by (simp add: shrink_def shrunk_def Mbuf_data_len_def ptr_copy_def drop_mb_data
          exec_simps mbuf_simps add.assoc del: of_nat_add)
  qed
qed

lemma shrink_fails [mbuf_simps]:
  assumes "offset + len < 2 ^ 64" "len = 0 \<or> unat (data_len m) < offset + len"
  shows "shrink oc offset len m = Ret (Inl NotResized) m"
  using assms by (auto simp: shrink_def Mbuf_data_len_def exec_simps)

lemma shrink_overflow:
  assumes "0 < len" "2 ^ 64 \<le> offset + len"
  shows "shrink True offset len m = Fault Overflow m"
  using assms by (simp add: shrink_def add_ck_def exec_simps)

subsection \<open>The invariant and the bytes carried\<close>

lemma extended_wf:
  assumes "wf_mbuf m" "len \<le> mb_room m" "offset \<le> unat (data_len m)"
  shows "wf_mbuf (extended offset len m)"
    and "unat (data_len (extended offset len m)) = unat (data_len m) + len"
    and "data_off (extended offset len m) = data_off m"
    and "mb_pool (extended offset len m) = mb_pool m"
    and "mb_room (extended offset len m) = mb_room m - len"
proof -
  note b = wf_bounds [OF assms(1)]
  have dl: "unat (data_len m + of_nat len) = unat (data_len m) + len"
    and pl: "unat (pkt_len m + of_nat len) = unat (pkt_len m) + len"
    using b assms(2) by (auto simp: unat_word_ariths unat_of_nat take_bit_nat_eq_self)
  show dl': "unat (data_len (extended offset len m)) = unat (data_len m) + len"
    by (simp add: extended_def dl)
  show "wf_mbuf (extended offset len m)"
    using b assms by (simp add: wf_mbuf_def extended_def dl pl)
  show "mb_room (extended offset len m) = mb_room m - len"
    by (simp add: mb_room_def extended_def dl)
qed (simp_all add: extended_def)

lemma shrunk_wf:
  assumes "wf_mbuf m" "offset + len \<le> unat (data_len m)"
  shows "wf_mbuf (shrunk offset len m)"
    and "unat (data_len (shrunk offset len m)) = unat (data_len m) - len"
    and "data_off (shrunk offset len m) = data_off m"
    and "mb_pool (shrunk offset len m) = mb_pool m"
    and "mb_room (shrunk offset len m) = mb_room m + len"
proof -
  note b = wf_bounds [OF assms(1)]
  have small: "unat (of_nat len :: u16) = len" "unat (of_nat len :: u32) = len"
    using b assms(2) by (auto simp: unat_of_nat take_bit_nat_eq_self)
  have dl: "unat (data_len m - of_nat len) = unat (data_len m) - len"
    and pl: "unat (pkt_len m - of_nat len) = unat (pkt_len m) - len"
    using b assms(2) small by (auto simp: unat_sub word_le_nat_alt)
  show dl': "unat (data_len (shrunk offset len m)) = unat (data_len m) - len"
    by (simp add: shrunk_def dl)
  show "wf_mbuf (shrunk offset len m)"
    using b assms by (simp add: wf_mbuf_def shrunk_def dl pl)
  show "mb_room (shrunk offset len m) = mb_room m + len"
    using b assms by (simp add: mb_room_def shrunk_def dl)
qed (simp_all add: shrunk_def)

lemma extended_data:
  assumes "wf_mbuf m" "len \<le> mb_room m" "offset \<le> unat (data_len m)"
  shows "take offset (mb_data (extended offset len m)) = take offset (mb_data m)"
    and "drop (offset + len) (mb_data (extended offset len m)) = drop offset (mb_data m)"
proof -
  note b = wf_bounds [OF assms(1)] and e = extended_wf [OF assms]
  have len_e: "length (mb_data (extended offset len m)) = unat (data_len m) + len"
    using e by simp
  have nth_e: "mb_data (extended offset len m) ! k =
      (if offset + len \<le> k then drop offset (mb_data m) ! (k - offset - len)
       else mb_buf m ! (unat (data_off m) + k))"
    if "k < unat (data_len m) + len" for k
    using that b e assms
    by (auto simp: mb_data_def extended_def nth_overwrite)
  show "take offset (mb_data (extended offset len m)) = take offset (mb_data m)"
    using assms b len_e
    by (intro nth_equalityI) (auto simp: nth_e, auto simp: mb_data_def)
  show "drop (offset + len) (mb_data (extended offset len m)) = drop offset (mb_data m)"
    using assms b len_e
    by (intro nth_equalityI) (auto simp: nth_e)
qed

lemma shrunk_data:
  assumes "wf_mbuf m" "offset + len \<le> unat (data_len m)"
  shows "mb_data (shrunk offset len m) = take offset (mb_data m) @ drop (offset + len) (mb_data m)"
proof (rule nth_equalityI)
  note b = wf_bounds [OF assms(1)] and e = shrunk_wf [OF assms]
  show "length (mb_data (shrunk offset len m)) =
      length (take offset (mb_data m) @ drop (offset + len) (mb_data m))"
    using assms e by simp
  fix k assume "k < length (mb_data (shrunk offset len m))"
  then have k: "k < unat (data_len m) - len" using e by simp
  with b e assms show "mb_data (shrunk offset len m) ! k =
      (take offset (mb_data m) @ drop (offset + len) (mb_data m)) ! k"
    by (auto simp: mb_data_def shrunk_def nth_overwrite nth_append)
qed

subsection \<open>Truncating, reading and writing\<close>

lemma truncate_ok [mbuf_simps]:
  "to_len < unat (data_len m) \<Longrightarrow>
   truncate to_len m = Ret (Inr ()) (m\<lparr>data_len := of_nat to_len, pkt_len := of_nat to_len\<rparr>)"
  by (simp add: truncate_def Mbuf_data_len_def exec_simps)

lemma truncate_fails [mbuf_simps]:
  "unat (data_len m) \<le> to_len \<Longrightarrow> truncate to_len m = Ret (Inl NotResized) m"
  by (simp add: truncate_def Mbuf_data_len_def exec_simps)

lemma truncated_wf:
  assumes "wf_mbuf m" "to_len < unat (data_len m)"
  shows "wf_mbuf (m\<lparr>data_len := of_nat to_len, pkt_len := of_nat to_len\<rparr>)"
    and "mb_data (m\<lparr>data_len := of_nat to_len, pkt_len := of_nat to_len\<rparr>) = take to_len (mb_data m)"
proof -
  note b = wf_bounds [OF assms(1)]
  have "unat (of_nat to_len :: u16) = to_len" "unat (of_nat to_len :: u32) = to_len"
    using b assms(2) by (auto simp: unat_of_nat take_bit_nat_eq_self)
  with assms show "wf_mbuf (m\<lparr>data_len := of_nat to_len, pkt_len := of_nat to_len\<rparr>)"
    "mb_data (m\<lparr>data_len := of_nat to_len, pkt_len := of_nat to_len\<rparr>) = take to_len (mb_data m)"
    by (auto simp: wf_mbuf_def mb_data_def min_def)
qed

definition written :: "usize \<Rightarrow> u8 list \<Rightarrow> rte_mbuf \<Rightarrow> rte_mbuf" where
  "written offset bytes m =
     m\<lparr>mb_buf := overwrite (mb_buf m) (unat (data_off m) + offset) bytes\<rparr>"

lemma written_wf:
  assumes "wf_mbuf m" "offset + length bytes \<le> unat (data_len m)"
  shows "wf_mbuf (written offset bytes m)"
    and "data_len (written offset bytes m) = data_len m"
    and "data_off (written offset bytes m) = data_off m"
    and "mb_pool (written offset bytes m) = mb_pool m"
    and "mb_room (written offset bytes m) = mb_room m"
  using wf_bounds [OF assms(1)] assms by (simp_all add: written_def wf_mbuf_def mb_room_def)

lemma written_data:
  assumes "wf_mbuf m" "offset + length bytes \<le> unat (data_len m)"
  shows "mb_data (written offset bytes m) = overwrite (mb_data m) offset bytes"
proof (rule nth_equalityI)
  note b = wf_bounds [OF assms(1)] and e = written_wf [OF assms]
  show "length (mb_data (written offset bytes m)) = length (overwrite (mb_data m) offset bytes)"
    using assms e by simp
  fix k assume "k < length (mb_data (written offset bytes m))"
  with b e assms show "mb_data (written offset bytes m) ! k = overwrite (mb_data m) offset bytes ! k"
    by (auto simp: mb_data_def written_def nth_overwrite)
qed

lemma read_data_slice_wf [mbuf_simps]:
  assumes "wf_mbuf m" "offset < unat (data_len m)" "sz * count \<le> unat (data_len m)"
  shows "read_data_slice oc sz offset count m =
    (if unat (data_len m) - offset < offset + sz * count
     then Ret (Inl (OutOfBuffer (sz * count) (unat (data_len m) - offset))) m
     else Ret (Inr (int (unat (data_off m) + offset), count)) m)"
proof -
  have "offset < 65536" "sz * count < 18446744073709551616"
    "offset + sz * count < 18446744073709551616"
    using wf_bounds [OF assms(1)] assms by linarith+
  with assms show ?thesis
    by (simp add: read_data_slice_def Mbuf_data_len_def exec_simps mbuf_simps del: of_nat_add)
qed

lemma length_concat_const: "(\<forall>e \<in> set xss. length e = sz) \<Longrightarrow> length (concat xss) = sz * length xss"
  by (induction xss) auto

lemma write_data_slice_wf [mbuf_simps]:
  assumes "wf_mbuf m" "\<forall>e \<in> set elems. length e = sz"
    and "offset + sz * length elems \<le> unat (data_len m)" "offset < unat (data_len m)"
  shows "write_data_slice oc sz offset elems m =
    (if unat (data_len m) - offset < offset + sz * length elems
     then Ret (Inl (OutOfBuffer (sz * length elems) (unat (data_len m) - offset)))
       (written offset (concat elems) m)
     else Ret (Inr (int (unat (data_off m) + offset), length elems))
       (written offset (concat elems) m))"
proof -
  note b = wf_bounds [OF assms(1)]
  have lc: "length (concat elems) = sz * length elems"
    using assms(2) by (rule length_concat_const)
  have small: "sz * length elems < 18446744073709551616"
    "offset + sz * length elems < 18446744073709551616" "offset < 65536"
    "sz * length elems \<le> unat (data_len m)"
    using b assms(3,4) by linarith+
  have "range_ok (mb_buf m) (int (unat (data_off m) + offset)) (length (concat elems))"
    using b assms(3) lc unfolding range_ok_def by linarith
  moreover note w = written_wf [OF assms(1), of offset "concat elems", unfolded lc, OF assms(3)]
  ultimately show ?thesis
    using assms small read_data_slice_wf [OF w(1), of offset sz "length elems" oc] w
    by (simp add: write_data_slice_def written_def ptr_write_def Mbuf_data_len_def
        exec_simps mbuf_simps del: of_nat_add)
qed

lemma write_data_slice_outside [mbuf_simps]:
  assumes "offset \<le> unat (data_len m)" "offset + sz * length elems < 2 ^ 64"
    and "unat (data_len m) < offset + sz * length elems"
  shows "write_data_slice oc sz offset elems m =
    Ret (Inl (OutOfBuffer (sz * length elems) (unat (data_len m) - offset))) m"
  using assms by (simp add: write_data_slice_def Mbuf_data_len_def exec_simps)

section \<open>The interface of a byte buffer\<close>

text \<open>
  What a client of the buffer relies on: opening a gap keeps the bytes on both sides, closing
  a gap removes exactly its bytes, writing replaces bytes in place.
\<close>

locale byte_buffer =
  fixes bytes :: "'b \<Rightarrow> 'a list"
    and room :: "'b \<Rightarrow> nat"
    and invar :: "'b \<Rightarrow> bool"
    and ext_at :: "nat \<Rightarrow> nat \<Rightarrow> 'b \<Rightarrow> 'b"
    and shr_at :: "nat \<Rightarrow> nat \<Rightarrow> 'b \<Rightarrow> 'b"
    and wr_at :: "nat \<Rightarrow> 'a list \<Rightarrow> 'b \<Rightarrow> 'b"
  assumes ext_invar: "invar b \<Longrightarrow> n \<le> room b \<Longrightarrow> i \<le> length (bytes b) \<Longrightarrow> invar (ext_at i n b)"
    and ext_length: "invar b \<Longrightarrow> n \<le> room b \<Longrightarrow> i \<le> length (bytes b) \<Longrightarrow>
      length (bytes (ext_at i n b)) = length (bytes b) + n"
    and ext_take: "invar b \<Longrightarrow> n \<le> room b \<Longrightarrow> i \<le> length (bytes b) \<Longrightarrow>
      take i (bytes (ext_at i n b)) = take i (bytes b)"
    and ext_drop: "invar b \<Longrightarrow> n \<le> room b \<Longrightarrow> i \<le> length (bytes b) \<Longrightarrow>
      drop (i + n) (bytes (ext_at i n b)) = drop i (bytes b)"
    and shr_invar: "invar b \<Longrightarrow> i + n \<le> length (bytes b) \<Longrightarrow> invar (shr_at i n b)"
    and shr_bytes: "invar b \<Longrightarrow> i + n \<le> length (bytes b) \<Longrightarrow>
      bytes (shr_at i n b) = take i (bytes b) @ drop (i + n) (bytes b)"
    and wr_invar: "invar b \<Longrightarrow> i + length xs \<le> length (bytes b) \<Longrightarrow> invar (wr_at i xs b)"
    and wr_bytes: "invar b \<Longrightarrow> i + length xs \<le> length (bytes b) \<Longrightarrow>
      bytes (wr_at i xs b) = overwrite (bytes b) i xs"
begin

lemma shr_ext:
  assumes "invar b" "n \<le> room b" "i \<le> length (bytes b)"
  shows "invar (shr_at i n (ext_at i n b))" "bytes (shr_at i n (ext_at i n b)) = bytes b"
  using assms by (simp_all add: ext_invar ext_length ext_take ext_drop shr_invar shr_bytes)

lemma wr_ext:
  assumes "invar b" "length xs \<le> room b" "i \<le> length (bytes b)"
  shows "invar (wr_at i xs (ext_at i (length xs) b))"
    "bytes (wr_at i xs (ext_at i (length xs) b)) = take i (bytes b) @ xs @ drop i (bytes b)"
  using assms
  by (simp_all add: ext_invar ext_length ext_take ext_drop wr_invar wr_bytes overwrite_def)

end

interpretation mbuf: byte_buffer mb_data mb_room wf_mbuf extended shrunk written
  by unfold_locales
    (simp_all add: extended_wf extended_data shrunk_wf shrunk_data written_wf written_data)

section \<open>Sequences of operations\<close>

text \<open>
  A call on a buffer, with any arguments. The elements of a written slice all have the size
  of the slice's element type.
\<close>

datatype mbuf_call =
    Call_extend usize usize
  | Call_shrink usize usize
  | Call_resize usize int
  | Call_truncate usize
  | Call_write usize usize "u8 list list"

fun call_ok :: "mbuf_call \<Rightarrow> bool" where
  "call_ok (Call_write sz offset elems) = list_all (\<lambda>e. length e = sz) elems"
| "call_ok _ = True"

fun run_call :: "bool \<Rightarrow> mbuf_call \<Rightarrow> (rte_mbuf, unit) exec" where
  "run_call oc (Call_extend offset len) = bind (extend oc offset len) (\<lambda>_. ret ())"
| "run_call oc (Call_shrink offset len) = bind (shrink oc offset len) (\<lambda>_. ret ())"
| "run_call oc (Call_resize offset len) = bind (resize oc offset len) (\<lambda>_. ret ())"
| "run_call oc (Call_truncate to_len) = bind (truncate to_len) (\<lambda>_. ret ())"
| "run_call oc (Call_write sz offset elems) =
     bind (write_data_slice oc sz offset elems) (\<lambda>_. ret ())"

fun run_calls :: "bool \<Rightarrow> mbuf_call list \<Rightarrow> (rte_mbuf, unit) exec" where
  "run_calls oc [] = ret ()"
| "run_calls oc (c # cs) = bind (run_call oc c) (\<lambda>_. run_calls oc cs)"

text \<open>
  The run either ends with a well-formed buffer or stopped with an overflow panic, the buffer
  still well-formed; it never touches memory outside the buffer.
\<close>

fun memory_safe :: "('a, rte_mbuf) outcome \<Rightarrow> bool" where
  "memory_safe (Ret _ m) = wf_mbuf m"
| "memory_safe (Fault f m) = (f = Overflow \<and> wf_mbuf m)"
| "memory_safe (Exit _ _) = False"
| "memory_safe OutOfFuel = False"

lemma memory_safe_bind:
  "memory_safe (f m) \<Longrightarrow> (\<And>a m'. wf_mbuf m' \<Longrightarrow> memory_safe (k a m')) \<Longrightarrow> memory_safe (bind f k m)"
  by (cases "f m") (auto simp: exec_simps)

lemma extend_safe: "wf_mbuf m \<Longrightarrow> memory_safe (extend oc offset len m)"
  by (cases "len = 0 \<or> unat (data_len m) < offset \<or> mb_room m < len")
    (simp_all add: extend_fails extend_ok extended_wf)

lemma shrink_safe: "wf_mbuf m \<Longrightarrow> memory_safe (shrink True offset len m)"
proof -
  assume wf: "wf_mbuf m"
  consider "offset + len < 2 ^ 64" "len = 0 \<or> unat (data_len m) < offset + len"
    | "2 ^ 64 \<le> offset + len" "0 < len"
    | "0 < len" "offset + len \<le> unat (data_len m)"
    | "len = 0" "2 ^ 64 \<le> offset + len"
    by linarith
  then show ?thesis
    by cases (use wf in \<open>simp_all add: shrink_fails shrink_overflow shrink_ok shrunk_wf,
        simp add: shrink_def exec_simps\<close>)
qed

lemma truncate_safe: "wf_mbuf m \<Longrightarrow> memory_safe (truncate to_len m)"
  by (cases "to_len < unat (data_len m)") (simp_all add: truncate_ok truncate_fails truncated_wf)

lemma read_data_slice_safe:
  "wf_mbuf m \<Longrightarrow> memory_safe (read_data_slice True sz offset count m)"
  using u16_bound [of "data_len m"]
  by (auto simp: read_data_slice_def Mbuf_data_len_def mul_ck_def add_ck_def exec_simps mbuf_simps)

lemma write_data_slice_safe:
  assumes wf: "wf_mbuf m" and el: "\<forall>e \<in> set elems. length e = sz"
  shows "memory_safe (write_data_slice True sz offset elems m)"
proof (cases "offset + sz * length elems \<le> unat (data_len m)")
  case True
  note b = wf_bounds [OF wf]
  have lc: "length (concat elems) = sz * length elems"
    using el by (rule length_concat_const)
  have small: "sz * length elems < 18446744073709551616"
    "offset + sz * length elems < 18446744073709551616" "offset < 65536"
    using b True by linarith+
  have "range_ok (mb_buf m) (int (unat (data_off m) + offset)) (length (concat elems))"
    using b True lc unfolding range_ok_def by linarith
  moreover have "wf_mbuf (written offset (concat elems) m)"
    using written_wf [OF wf] True lc by simp
  ultimately show ?thesis
    using True small
    by (simp add: write_data_slice_def ptr_write_def Mbuf_data_len_def written_def
        read_data_slice_safe exec_simps mbuf_simps del: of_nat_add)
next
  case False
  then show ?thesis
    using wf by (auto simp: write_data_slice_def Mbuf_data_len_def mul_ck_def add_ck_def
        sub_ck_def exec_simps)
qed

lemma run_call_safe:
  assumes "wf_mbuf m" "call_ok c"
  shows "memory_safe (run_call True c m)"
  using assms
  by (cases c)
    (auto intro!: memory_safe_bind extend_safe shrink_safe truncate_safe write_data_slice_safe
      simp: resize_def exec_simps list_all_iff)

section \<open>Allocation and release\<close>

lemma concat_singletons: "concat (map (\<lambda>x. [x]) xs) = xs"
  by (induction xs) auto

context pool_api
begin

lemma Mbuf_new_ok:
  assumes "0 < v_avail (view (ext w)) mp" "finite (dom (mem w))"
  shows "\<exists>p m w'. Mbuf_new D mp w = Ret (Inr p) w' \<and> p \<noteq> null \<and> mem w p = None \<and>
     fresh_mbuf mp (v_room (view (ext w)) mp) m \<and> mem w' = (mem w)(p \<mapsto> m) \<and>
     view (ext w') = upd_avail mp (v_avail (view (ext w)) mp - 1) (view (ext w))"
  using alloc_some [OF assms] by (fastforce simp: Mbuf_new_def NonNull_new_def exec_simps)

lemma Mbuf_new_fails:
  assumes "v_avail (view (ext w)) mp = 0"
  shows "\<exists>w'. Mbuf_new D mp w = Ret (Inl NoBuf) w' \<and> mem w' = mem w \<and>
     view (ext w') = view (ext w)"
  using alloc_none [OF assms] by (auto simp: Mbuf_new_def NonNull_new_def exec_simps)

lemma Mbuf_drop_spec:
  assumes "mem w p = Some m"
  shows "\<exists>w'. Mbuf_drop D p w = Ret () w' \<and> mem w' = (mem w)(p := None) \<and>
     view (ext w') = upd_avail (mb_pool m) (v_avail (view (ext w)) (mb_pool m) + 1) (view (ext w))"
  using pktmbuf_free [OF assms] by (simp add: Mbuf_drop_def exec_simps)

lemma fresh_room: "fresh_mbuf mp n m \<Longrightarrow> wf_mbuf m \<and> mb_room m = n \<and> unat (data_len m) = 0 \<and> mb_data m = []"
  by (simp add: fresh_mbuf_def mb_room_def mb_data_def)

lemma from_bytes_ok:
  assumes "0 < v_avail (view (ext w)) mp" "finite (dom (mem w))"
    and "data \<noteq> []" "length data \<le> v_room (view (ext w)) mp"
  shows "\<exists>p m w'. from_bytes D oc data mp w = Ret (Inr p) w' \<and> mem w p = None \<and>
     mem w' = (mem w)(p \<mapsto> m) \<and> wf_mbuf m \<and> mb_data m = data \<and> mb_pool m = mp \<and>
     view (ext w') = upd_avail mp (v_avail (view (ext w)) mp - 1) (view (ext w))"
proof -
  obtain p m w1 where n: "Mbuf_new D mp w = Ret (Inr p) w1" "mem w p = None"
      "fresh_mbuf mp (v_room (view (ext w)) mp) m" "mem w1 = (mem w)(p \<mapsto> m)"
      "view (ext w1) = upd_avail mp (v_avail (view (ext w)) mp - 1) (view (ext w))"
    using Mbuf_new_ok [OF assms(1,2)] by blast
  note f = fresh_room [OF n(3)]
  let ?m1 = "extended 0 (length data) m"
  let ?m2 = "written 0 data ?m1"
  have e: "extend oc 0 (length data) m = Ret (Inr ()) ?m1"
    using f assms(3,4) by (simp add: extend_ok)
  have m1: "wf_mbuf ?m1" "unat (data_len ?m1) = length data"
    using f assms(4) extended_wf [of m "length data" 0] by simp_all
  have wr: "write_data_slice oc 1 0 (map (\<lambda>x. [x]) data) ?m1 =
      Ret (Inr (int (unat (data_off ?m1)), length data)) ?m2"
    using write_data_slice_wf [OF m1(1), of "map (\<lambda>x. [x]) data" 1 0 oc] m1 assms(3)
    by (simp add: concat_singletons)
  have "wf_mbuf ?m2" "mb_data ?m2 = data" "mb_pool ?m2 = mp"
    using mbuf.wr_ext [of m data 0] f assms(4) n(3)
    by (simp_all add: written_def extended_def fresh_mbuf_def)
  moreover have "from_bytes D oc data mp w =
      Ret (Inr p) (w1\<lparr>mem := (mem w)(p \<mapsto> ?m2)\<rparr>)"
    using n e wr by (simp add: from_bytes_def exec_simps)
  ultimately show ?thesis using n by auto
qed

lemma from_bytes_rejects:
  assumes "0 < v_avail (view (ext w)) mp" "finite (dom (mem w))"
    and "data = [] \<or> v_room (view (ext w)) mp < length data"
  shows "\<exists>w'. from_bytes D oc data mp w = Ret (Inl (Dyn_Buf NotResized)) w' \<and>
     mem w' = mem w \<and> view (ext w') = view (ext w)"
proof -
  obtain p m w1 where n: "Mbuf_new D mp w = Ret (Inr p) w1" "mem w p = None"
      "fresh_mbuf mp (v_room (view (ext w)) mp) m" "mem w1 = (mem w)(p \<mapsto> m)"
      "view (ext w1) = upd_avail mp (v_avail (view (ext w)) mp - 1) (view (ext w))"
    using Mbuf_new_ok [OF assms(1,2)] by blast
  have ext: "extend oc 0 (length data) m = Ret (Inl NotResized) m"
    using fresh_room [OF n(3)] assms(3) by (auto simp: extend_fails)
  have m: "mem w1 p = Some m" "mb_pool m = mp"
    using n(3,4) by (simp_all add: fresh_mbuf_def)
  have "on_mbuf p (extend oc 0 (length data)) w1 = Ret (Inl NotResized) w1"
    using m(1) ext by (simp add: exec_simps)
  moreover obtain w2 where "Mbuf_drop D p w1 = Ret () w2" "mem w2 = (mem w1)(p := None)"
      "view (ext w2) = upd_avail mp (v_avail (view (ext w1)) mp + 1) (view (ext w1))"
    using Mbuf_drop_spec [of w1 p m] m by auto
  ultimately show ?thesis
    using n(1,2,4,5) assms(1) by (simp add: from_bytes_def exec_simps fun_upd_idem)
qed

end

section \<open>Properties\<close>

text \<open>C1: whatever the sequence of \<open>extend\<close>, \<open>shrink\<close>, \<open>resize\<close>,
  \<open>truncate\<close> and \<open>write_data_slice\<close> calls on a well-formed buffer, and whatever their
  arguments: in a build with overflow checks the run either ends with the buffer well-formed
  or stops with an overflow panic, and no byte outside the buffer is read or written.\<close>

theorem mbuf_calls_memory_safe:
  assumes "wf_mbuf m" "list_all call_ok cs"
  shows "memory_safe (run_calls True cs m)"
  using assms
proof (induction cs arbitrary: m)
  case Nil
  then show ?case by (simp add: exec_simps)
next
  case (Cons c cs)
  then show ?case by (auto intro!: memory_safe_bind run_call_safe)
qed

theorem mbuf_calls_memory_safe_witness:
  "memory_safe (run_calls True
     [Call_extend 2 3, Call_write 1 2 [[9], [9], [9]], Call_shrink 0 1, Call_resize 1 (-2),
      Call_truncate 1, Call_shrink 18446744073709551615 1] (ref_mbuf 64 7 [1, 2, 3, 4]))"
  by (rule mbuf_calls_memory_safe) (simp_all add: ref_mbuf_wf)

text \<open>C18: opening a gap of \<open>len\<close> bytes at \<open>offset\<close> and closing it again succeeds whenever
  the offset lies in the data and the gap fits the tailroom, and gives back the same bytes.\<close>

theorem extend_shrink_roundtrip:
  assumes "wf_mbuf m" "0 < len" "len \<le> mb_room m" "offset \<le> unat (data_len m)"
  shows "\<exists>m1 m2. extend oc offset len m = Ret (Inr ()) m1 \<and> wf_mbuf m1 \<and>
     unat (data_len m1) = unat (data_len m) + len \<and>
     shrink oc offset len m1 = Ret (Inr ()) m2 \<and> wf_mbuf m2 \<and> mb_data m2 = mb_data m"
proof -
  note e = extended_wf [OF assms(1,3,4)]
  have "shrink oc offset len (extended offset len m) =
      Ret (Inr ()) (shrunk offset len (extended offset len m))"
    using e assms(2,4) by (simp add: shrink_ok)
  moreover have "wf_mbuf (shrunk offset len (extended offset len m))"
    "mb_data (shrunk offset len (extended offset len m)) = mb_data m"
    using mbuf.shr_ext [of m len offset] assms by simp_all
  ultimately show ?thesis
    using extend_ok [OF assms(1,2,3,4)] e by simp
qed

lemma ref_example:
  "mb_room (ref_mbuf 64 7 [1, 2, 3, 4]) = 60" "unat (data_len (ref_mbuf 64 7 [1, 2, 3, 4])) = 4"
  "mb_data (ref_mbuf 64 7 [1, 2, 3, 4]) = [1, 2, 3, 4]" "unat (data_off (ref_mbuf 64 7 [1, 2, 3, 4])) = 128"
  by (simp_all add: ref_mbuf_def mb_room_def mb_data_def Let_def ref_headroom_def ref_room_max_def)

theorem extend_shrink_roundtrip_witness:
  "\<exists>m1 m2. extend True 1 2 (ref_mbuf 64 7 [1, 2, 3, 4]) = Ret (Inr ()) m1 \<and>
     shrink True 1 2 m1 = Ret (Inr ()) m2 \<and> mb_data m2 = [1, 2, 3, 4]"
  using extend_shrink_roundtrip [of "ref_mbuf 64 7 [1, 2, 3, 4]" 2 1 True]
  by (auto simp: ref_mbuf_wf ref_example)

text \<open>C19: \<open>extend\<close> followed by a write of the gap inserts the bytes at the offset and moves
  the bytes behind it, losing none.\<close>

theorem extend_write_inserts:
  assumes "wf_mbuf m" "bytes \<noteq> []" "length bytes \<le> mb_room m" "offset \<le> unat (data_len m)"
  shows "\<exists>m1 r m2. extend oc offset (length bytes) m = Ret (Inr ()) m1 \<and>
     write_data_slice oc 1 offset (map (\<lambda>x. [x]) bytes) m1 = Ret r m2 \<and> wf_mbuf m2 \<and>
     mb_data m2 = take offset (mb_data m) @ bytes @ drop offset (mb_data m)"
proof -
  let ?m1 = "extended offset (length bytes) m"
  note e = extended_wf [OF assms(1,3,4)]
  have "\<exists>r. write_data_slice oc 1 offset (map (\<lambda>x. [x]) bytes) ?m1 = Ret r (written offset bytes ?m1)"
    using write_data_slice_wf [OF e(1), of "map (\<lambda>x. [x]) bytes" 1 offset oc] assms(2,4) e(2)
    by (cases bytes) (simp_all add: concat_singletons)
  moreover have "wf_mbuf (written offset bytes ?m1)"
    "mb_data (written offset bytes ?m1) = take offset (mb_data m) @ bytes @ drop offset (mb_data m)"
    using mbuf.wr_ext [of m bytes offset] assms by simp_all
  ultimately show ?thesis
    using extend_ok [OF assms(1) _ assms(3,4)] assms(2) by fastforce
qed

theorem extend_write_inserts_witness:
  "\<exists>m1 r m2. extend True 1 2 (ref_mbuf 64 7 [1, 2, 3, 4]) = Ret (Inr ()) m1 \<and>
     write_data_slice True 1 1 [[8], [9]] m1 = Ret r m2 \<and> mb_data m2 = [1, 8, 9, 2, 3, 4]"
  using extend_write_inserts [of "ref_mbuf 64 7 [1, 2, 3, 4]" "[8, 9]" 1 True]
  by (auto simp: ref_mbuf_wf ref_example numeral_2_eq_2)

text \<open>a write that lies inside the data always changes the buffer, but it is reported as
  an error exactly when twice the offset plus the size written exceeds the data length: the
  bounds check of \<open>read_data_slice\<close> counts the offset twice.\<close>

theorem write_data_slice_false_error:
  assumes "wf_mbuf m" "\<forall>e \<in> set elems. length e = sz"
    and "offset + sz * length elems \<le> unat (data_len m)" "offset < unat (data_len m)"
  shows "\<exists>r. write_data_slice oc sz offset elems m = Ret r (written offset (concat elems) m) \<and>
     mb_data (written offset (concat elems) m) = overwrite (mb_data m) offset (concat elems) \<and>
     ((\<exists>e. r = Inl e) \<longleftrightarrow> unat (data_len m) < 2 * offset + sz * length elems)"
  using write_data_slice_wf [OF assms] written_data [OF assms(1), of offset "concat elems"] assms(3)
    length_concat_const [OF assms(2)]
  by (cases "unat (data_len m) - offset < offset + sz * length elems") auto

theorem write_data_slice_false_error_witness:
  "\<exists>e m2. write_data_slice True 1 2 [[9], [9]] (ref_mbuf 64 7 [1, 2, 3, 4]) = Ret (Inl e) m2 \<and>
     mb_data m2 = [1, 2, 9, 9]"
  using write_data_slice_false_error [of "ref_mbuf 64 7 [1, 2, 3, 4]" "[[9], [9]]" 1 2 True]
  by (auto simp: ref_mbuf_wf ref_example overwrite_def)

text \<open>C20: with a free buffer in the pool, \<open>from_bytes\<close> of non-empty data that fits the room
  of a fresh buffer yields a new, well-formed buffer that carries exactly the data, and
  changes no other buffer.\<close>

theorem from_bytes_carries_data:
  assumes "pool_api D view"
    and "0 < v_avail (view (ext w)) mp" "finite (dom (mem w))"
    and "data \<noteq> []" "length data \<le> v_room (view (ext w)) mp"
  shows "\<exists>p m w'. from_bytes D oc data mp w = Ret (Inr p) w' \<and> mem w p = None \<and>
     mem w' = (mem w)(p \<mapsto> m) \<and> wf_mbuf m \<and> mb_data m = data \<and> mb_pool m = mp \<and>
     view (ext w') = upd_avail mp (v_avail (view (ext w)) mp - 1) (view (ext w))"
  by (rule pool_api.from_bytes_ok [OF assms])

theorem from_bytes_carries_data_witness:
  "\<exists>p m w'. from_bytes ref_dpdk True [10, 20, 30] 7 ref_start = Ret (Inr p) w' \<and>
     mem w' p = Some m \<and> mb_data m = [10, 20, 30]"
  using from_bytes_carries_data [OF ref.pool_api_axioms, of ref_start 7 "[10, 20, 30]" True]
  by auto

text \<open>C21: \<open>from_bytes\<close> of empty data, or of more data than a fresh buffer has room for, is an
  error (\<open>NotResized\<close>, also for the empty slice), and the buffer allocated for it goes back
  to its pool: nothing leaks.\<close>

theorem from_bytes_rejects_no_leak:
  assumes "pool_api D view"
    and "0 < v_avail (view (ext w)) mp" "finite (dom (mem w))"
    and "data = [] \<or> v_room (view (ext w)) mp < length data"
  shows "\<exists>w'. from_bytes D oc data mp w = Ret (Inl (Dyn_Buf NotResized)) w' \<and>
     mem w' = mem w \<and> view (ext w') = view (ext w)"
  by (rule pool_api.from_bytes_rejects [OF assms])

theorem from_bytes_rejects_no_leak_witness:
  "\<exists>w'. from_bytes ref_dpdk True [] 7 ref_start = Ret (Inl (Dyn_Buf NotResized)) w' \<and>
     mem w' = Map.empty \<and> v_avail (ref_view (ext w')) 7 = 4"
  using from_bytes_rejects_no_leak [OF ref.pool_api_axioms, of ref_start 7 "[]" True] by auto

text \<open>without overflow checks the guard of \<open>shrink\<close> wraps around: shrinking one byte at
  the largest offset passes it on every non-empty buffer, and on a buffer without headroom
  the copy that follows writes in front of the buffer's memory.\<close>

theorem shrink_wraps_in_release:
  assumes "wf_mbuf m" "data_off m = 0" "0 < unat (data_len m)"
  shows "shrink False 18446744073709551615 1 m = Fault BadPointer m"
proof -
  have d: "unat (data_len m) < 65536" by (rule u16_bound)
  have "data_address False 18446744073709551615 m = Ret (-1) m"
    using assms(2)
    by (simp add: data_address_def as_isize_def isize_bound_def usize_bound_def add_isize_def exec_simps)
  then show ?thesis
    using assms d
    by (simp add: shrink_def add_ck_def sub_ck_def Mbuf_data_len_def ptr_copy_def range_ok_def
        exec_simps mbuf_simps)
qed

theorem shrink_wraps_in_release_witness:
  "shrink False 18446744073709551615 1
     \<lparr>mb_buf = [1, 2], buf_len = 2, data_off = 0, data_len = 2, pkt_len = 2, mb_pool = 7\<rparr> =
   Fault BadPointer
     \<lparr>mb_buf = [1, 2], buf_len = 2, data_off = 0, data_len = 2, pkt_len = 2, mb_pool = 7\<rparr>"
  by (rule shrink_wraps_in_release) (simp_all add: wf_mbuf_def)

end
