(* ===== verification/Memring.thy ===== *)
theory Memring
  imports Mbuf
begin

text \<open>
  \<^verbatim>\<open>l3enginelib/src/apis/memring.rs\<close>: a \<open>Ring\<close> wraps a DPDK ring, a \<open>Channel\<close> is the
  pair of rings between the engine and one client, and \<open>RingClientMap\<close> maps client ids to
  channels. The map is a \<open>CHashMap\<close>, a parameter of the operations that use it.
\<close>

section \<open>Ring\<close>

datatype RingType = C2E | E2C

record Ring =
  client_id :: u16
  rtype :: RingType
  ring_raw :: ptr

definition RING_F_SP_ENQ :: u8 where "RING_F_SP_ENQ = 1"
definition RING_F_SC_DEQ :: u8 where "RING_F_SC_DEQ = 2"
definition RING_FLAGS :: u8 where "RING_FLAGS = RING_F_SP_ENQ OR RING_F_SC_DEQ"
definition RING_CAPACITY :: usize where "RING_CAPACITY = 512"

definition Ring_from_ptr :: "u16 \<Rightarrow> RingType \<Rightarrow> ptr \<Rightarrow> MemoryError + Ring" where
  "Ring_from_ptr cid rt r =
     (case NonNull_new r of
        Some raw \<Rightarrow> Inr \<lparr>client_id = cid, rtype = rt, ring_raw = raw\<rparr>
      | None \<Rightarrow> Inl NoBuf)"

fun rtype_str :: "RingType \<Rightarrow> string" where
  "rtype_str C2E = ''C2E''"
| "rtype_str E2C = ''E2C''"

text \<open>\<open>format!("{}-{}", r, client_id)\<close>, the name a ring is created and looked up under.\<close>

definition ring_key :: "RingType \<Rightarrow> u16 \<Rightarrow> string" where
  "ring_key rt cid = rtype_str rt @ ''-'' @ show_nat (unat cid)"

definition Ring_new :: "'x dpdk \<Rightarrow> u16 \<Rightarrow> RingType \<Rightarrow> int \<Rightarrow> ('x world, MemoryError + Ring) exec" where
  "Ring_new D cid rt socket_id =
     (case to_cstring (ring_key rt cid) of
        Inl e \<Rightarrow> ret (Inl e)
      | Inr nm \<Rightarrow>
          bind (call (rte_ring_create D nm (of_nat RING_CAPACITY) socket_id (ucast RING_FLAGS))) (\<lambda>r.
            case NonNull_new r of
              Some raw \<Rightarrow> ret (Inr \<lparr>client_id = cid, rtype = rt, ring_raw = raw\<rparr>)
            | None \<Rightarrow> bind MemoryError_new (\<lambda>e. ret (Inl e))))"

definition Ring_name :: "Ring \<Rightarrow> string" where
  "Ring_name self =
     (let name = (case rtype self of C2E \<Rightarrow> ''C2E-'' | E2C \<Rightarrow> ''E2C-'');
          id = show_nat (unat (client_id self))
      in name @ id)"

definition Ring_lookup :: "'x dpdk \<Rightarrow> RingType \<Rightarrow> u16 \<Rightarrow> ('x world, MemoryError + Ring) exec" where
  "Ring_lookup D rt cid =
     (case to_cstring (ring_key rt cid) of
        Inl e \<Rightarrow> ret (Inl e)
      | Inr nm \<Rightarrow>
          bind (call (rte_ring_lookup D nm)) (\<lambda>raw.
            if raw = null then ret (Inl NoEntries) else ret (Ring_from_ptr cid rt raw)))"

text \<open>
  \<open>pkt.into_ptr()\<close> gives the buffer away before the call: on an error nobody owns it.
\<close>

definition Ring_enqueue :: "'x dpdk \<Rightarrow> Ring \<Rightarrow> ptr \<Rightarrow> ('x world, MemoryError + unit) exec" where
  "Ring_enqueue D self pkt =
     bind (call (rte_ring_enqueue D (ring_raw self) pkt)) (\<lambda>rc.
       if rc = 0 then ret (Inr ()) else bind MemoryError_new (\<lambda>e. ret (Inl e)))"

text \<open>
  The slot handed to \<open>rte_ring_dequeue\<close> is a temporary holding a copy of the buffer's
  pointer; what the call stores there is not read afterwards, and \<open>pkt\<close> is unchanged.
\<close>

definition Ring_dequeue :: "'x dpdk \<Rightarrow> Ring \<Rightarrow> ptr \<Rightarrow> ('x world, MemoryError + unit) exec" where
  "Ring_dequeue D self pkt =
     bind (call (rte_ring_dequeue D (ring_raw self) pkt)) (\<lambda>(rc, slot).
       if rc = 0 then ret (Inr ()) else bind MemoryError_new (\<lambda>e. ret (Inl e)))"

text \<open>
  \<open>pkts.drain(..)\<close> moves every packet out of \<open>pkts\<close>; the length passed on is that of the
  drained vector.
\<close>

definition Ring_enqueue_bulk :: "'x dpdk \<Rightarrow> Ring \<Rightarrow> ptr list \<Rightarrow> ('x world, usize) exec" where
  "Ring_enqueue_bulk D self pkts =
     (let (ptrs, pkts) = (pkts, [] :: ptr list) in
      bind (call (rte_ring_enqueue_bulk D (ring_raw self) ptrs (of_nat (length pkts)))) (\<lambda>n.
        ret (unat n)))"

text \<open>The table of pointers is a copy: the vector \<open>pkts\<close> keeps the buffers it held.\<close>

definition Ring_dequeue_burst :: "'x dpdk \<Rightarrow> Ring \<Rightarrow> ptr list \<Rightarrow> usize \<Rightarrow> ('x world, usize) exec" where
  "Ring_dequeue_burst D self pkts rx_burst_max =
     (let ptrs = pkts in
      bind (call (rte_ring_dequeue_burst D (ring_raw self) ptrs (of_nat (length ptrs)))) (\<lambda>(n, ptrs).
        ret (unat n)))"

definition Ring_drop :: "'x dpdk \<Rightarrow> Ring \<Rightarrow> ('x world, unit) exec" where
  "Ring_drop D self = modify (rte_ring_free D (ring_raw self))"

section \<open>Channel\<close>

record Channel =
  client_to_engine :: Ring
  engine_to_client :: Ring

definition Channel_drop :: "'x dpdk \<Rightarrow> Channel \<Rightarrow> ('x world, unit) exec" where
  "Channel_drop D ch =
     bind (Ring_drop D (client_to_engine ch)) (\<lambda>_. Ring_drop D (engine_to_client ch))"

definition Channel_new :: "'x dpdk \<Rightarrow> u16 \<Rightarrow> ('x world, MemoryError + Channel) exec" where
  "Channel_new D cid =
     bind (gets (rte_socket_id D)) (\<lambda>socket_id.
     bind (Ring_new D cid E2C (sint socket_id)) (\<lambda>r. case r of
       Inl e \<Rightarrow> ret (Inl e)
     | Inr e2c \<Rightarrow>
         bind (Ring_new D cid C2E (sint socket_id)) (\<lambda>r. case r of
           Inl e \<Rightarrow> bind (Ring_drop D e2c) (\<lambda>_. ret (Inl e))
         | Inr c2e \<Rightarrow> ret (Inr \<lparr>client_to_engine = c2e, engine_to_client = e2c\<rparr>))))"

definition Channel_lookup :: "'x dpdk \<Rightarrow> u16 \<Rightarrow> ('x world, MemoryError + Channel) exec" where
  "Channel_lookup D cid =
     bind (Ring_lookup D E2C cid) (\<lambda>r. case r of
       Inl e \<Rightarrow> ret (Inl e)
     | Inr e2c \<Rightarrow>
         bind (Ring_lookup D C2E cid) (\<lambda>r. case r of
           Inl e \<Rightarrow> bind (Ring_drop D e2c) (\<lambda>_. ret (Inl e))
         | Inr c2e \<Rightarrow> ret (Inr \<lparr>client_to_engine = c2e, engine_to_client = e2c\<rparr>)))"

definition send_to_engine :: "'x dpdk \<Rightarrow> Channel \<Rightarrow> ptr \<Rightarrow> ('x world, MemoryError + unit) exec" where
  "send_to_engine D self pkt = Ring_enqueue D (client_to_engine self) pkt"

definition receive_from_engine :: "'x dpdk \<Rightarrow> Channel \<Rightarrow> ptr \<Rightarrow> ('x world, MemoryError + unit) exec" where
  "receive_from_engine D self pkt = Ring_dequeue D (engine_to_client self) pkt"

definition send_to_client :: "'x dpdk \<Rightarrow> Channel \<Rightarrow> ptr \<Rightarrow> ('x world, MemoryError + unit) exec" where
  "send_to_client D self pkt = Ring_enqueue D (engine_to_client self) pkt"

definition receive_from_client :: "'x dpdk \<Rightarrow> Channel \<Rightarrow> ptr \<Rightarrow> ('x world, MemoryError + unit) exec" where
  "receive_from_client D self pkt = Ring_dequeue D (client_to_engine self) pkt"

definition send_to_client_bulk :: "'x dpdk \<Rightarrow> Channel \<Rightarrow> ptr list \<Rightarrow> ('x world, usize) exec" where
  "send_to_client_bulk D self pkts = Ring_enqueue_bulk D (engine_to_client self) pkts"

definition recv_from_client_bulk :: "'x dpdk \<Rightarrow> Channel \<Rightarrow> ptr list \<Rightarrow> usize \<Rightarrow> ('x world, usize) exec" where
  "recv_from_client_bulk D self pkts rx_burst_max =
     Ring_dequeue_burst D (client_to_engine self) pkts rx_burst_max"

definition send_to_engine_bulk :: "'x dpdk \<Rightarrow> Channel \<Rightarrow> ptr list \<Rightarrow> ('x world, usize) exec" where
  "send_to_engine_bulk D self pkts = Ring_enqueue_bulk D (client_to_engine self) pkts"

definition recv_from_engine_burst :: "'x dpdk \<Rightarrow> Channel \<Rightarrow> ptr list \<Rightarrow> usize \<Rightarrow> ('x world, usize) exec" where
  "recv_from_engine_burst D self pkts rx_burst_max =
     Ring_dequeue_burst D (engine_to_client self) pkts rx_burst_max"

section \<open>RingClientMap\<close>

definition RingClientMap_new :: "('m, u16, Channel) chm \<Rightarrow> 'm" where
  "RingClientMap_new C = chm_new C"

definition RingClientMap_len :: "('m, u16, Channel) chm \<Rightarrow> 'm \<Rightarrow> usize" where
  "RingClientMap_len C self = chm_len C self"

text \<open>A channel that \<open>insert\<close> or \<open>remove\<close> hands back is dropped, which frees its rings.\<close>

definition drop_channel :: "'x dpdk \<Rightarrow> Channel option \<Rightarrow> ('x world, unit) exec" where
  "drop_channel D old = (case old of None \<Rightarrow> ret () | Some ch \<Rightarrow> Channel_drop D ch)"

definition RingClientMap_add_client ::
  "('m, u16, Channel) chm \<Rightarrow> 'x dpdk \<Rightarrow> 'm \<Rightarrow> u16 \<Rightarrow>
   ('x world, (RingClientMapError + unit) \<times> 'm) exec" where
  "RingClientMap_add_client C D self cid =
     bind (Channel_new D cid) (\<lambda>r. case r of
       Inl e \<Rightarrow> ret (Inl (RCM_MemoryError e), self)
     | Inr channel \<Rightarrow>
         (case chm_insert C cid channel self of (old, self') \<Rightarrow>
            bind (drop_channel D old) (\<lambda>_. ret (Inr (), self'))))"

definition RingClientMap_remove_client ::
  "('m, u16, Channel) chm \<Rightarrow> 'x dpdk \<Rightarrow> 'm \<Rightarrow> u16 \<Rightarrow> ('x world, 'm) exec" where
  "RingClientMap_remove_client C D self cid =
     (case chm_remove C cid self of (old, self') \<Rightarrow>
        bind (drop_channel D old) (\<lambda>_. ret self'))"

definition RingClientMap_send ::
  "('m, u16, Channel) chm \<Rightarrow> 'x dpdk \<Rightarrow> 'm \<Rightarrow> u16 \<Rightarrow> ptr \<Rightarrow>
   ('x world, RingClientMapError + unit) exec" where
  "RingClientMap_send C D self key pkt =
     (case chm_get C self key of
        None \<Rightarrow> bind (Mbuf_drop D pkt) (\<lambda>_. ret (Inl (ClientNotFound key)))
      | Some channel \<Rightarrow>
          bind (send_to_client D channel pkt) (\<lambda>r. case r of
            Inl e \<Rightarrow> ret (Inl (RingClientMapError_from e))
          | Inr _ \<Rightarrow> ret (Inr ())))"

definition RingClientMap_receive ::
  "('m, u16, Channel) chm \<Rightarrow> 'x dpdk \<Rightarrow> 'm \<Rightarrow> u16 \<Rightarrow> ptr \<Rightarrow>
   ('x world, RingClientMapError + unit) exec" where
  "RingClientMap_receive C D self key pkt =
     (case chm_get C self key of
        None \<Rightarrow> ret (Inl (ClientNotFound key))
      | Some channel \<Rightarrow>
          bind (receive_from_client D channel pkt) (\<lambda>r. case r of
            Inl e \<Rightarrow> ret (Inl (RingClientMapError_from e))
          | Inr _ \<Rightarrow> ret (Inr ())))"

fun Mbuf_drop_all :: "'x dpdk \<Rightarrow> ptr list \<Rightarrow> ('x world, unit) exec" where
  "Mbuf_drop_all D [] = ret ()"
| "Mbuf_drop_all D (p # ps) = bind (Mbuf_drop D p) (\<lambda>_. Mbuf_drop_all D ps)"

definition RingClientMap_send_bulk ::
  "('m, u16, Channel) chm \<Rightarrow> 'x dpdk \<Rightarrow> 'm \<Rightarrow> u16 \<Rightarrow> ptr list \<Rightarrow>
   ('x world, RingClientMapError + usize) exec" where
  "RingClientMap_send_bulk C D self key pkts =
     (case chm_get C self key of
        None \<Rightarrow> bind (Mbuf_drop_all D pkts) (\<lambda>_. ret (Inl (ClientNotFound key)))
      | Some channel \<Rightarrow>
          bind (send_to_client_bulk D channel pkts) (\<lambda>count. ret (Inr count)))"

definition RingClientMap_receive_bulk ::
  "('m, u16, Channel) chm \<Rightarrow> 'x dpdk \<Rightarrow> 'm \<Rightarrow> u16 \<Rightarrow> ptr list \<Rightarrow> usize \<Rightarrow>
   ('x world, RingClientMapError + usize) exec" where
  "RingClientMap_receive_bulk C D self key pkts rx_burst_max =
     (case chm_get C self key of
        None \<Rightarrow> ret (Inl (ClientNotFound key))
      | Some channel \<Rightarrow>
          bind (recv_from_client_bulk D channel pkts rx_burst_max) (\<lambda>count. ret (Inr count)))"

section \<open>Names\<close>

lemma ring_key_no_nul: "CHR 0x00 \<notin> set (ring_key rt cid)"
  using show_nat_no_nul by (cases rt) (auto simp: ring_key_def)

lemma to_cstring_ring_key [simp]: "to_cstring (ring_key rt cid) = Inr (ring_key rt cid)"
  by (rule to_cstring_ok [OF ring_key_no_nul])

lemma ring_key_inject [simp]: "ring_key rt cid = ring_key rt' cid' \<longleftrightarrow> rt = rt' \<and> cid = cid'"
  by (cases rt; cases rt') (auto simp: ring_key_def show_nat_inject word_unat_eq_iff)

lemma Ring_name_key: "Ring_name rg = ring_key (rtype rg) (client_id rg)"
  by (cases "rtype rg") (simp_all add: Ring_name_def ring_key_def)

section \<open>Behaviour under the laws of DPDK\<close>

text \<open>Every name in use belongs to a live ring, and no ring is the null pointer.\<close>

definition names_live :: "dview \<Rightarrow> bool" where
  "names_live v \<longleftrightarrow> (\<forall>nm r. v_names v nm = Some r \<longrightarrow> r \<noteq> null \<and> v_rings v r \<noteq> None)"

context ring_api
begin

lemma Ring_enqueue_room:
  assumes "v_rings (view (ext w)) (ring_raw rg) = Some q"
    and "length q < v_cap (view (ext w)) (ring_raw rg)"
  shows "\<exists>w'. Ring_enqueue D rg p w = Ret (Inr ()) w' \<and> mem w' = mem w \<and>
     view (ext w') = upd_ring (ring_raw rg) (q @ [p]) (view (ext w))"
  using enqueue_room [OF assms, of p] by (auto simp: Ring_enqueue_def exec_simps)

lemma Ring_enqueue_full:
  assumes "v_rings (view (ext w)) (ring_raw rg) = Some q"
    and "v_cap (view (ext w)) (ring_raw rg) \<le> length q"
  shows "\<exists>w'. Ring_enqueue D rg p w = Ret (Inl (MemoryError_of_errno (rte_errno w'))) w' \<and>
     mem w' = mem w \<and> view (ext w') = view (ext w)"
  using enqueue_full [OF assms, of p]
  by (auto simp: Ring_enqueue_def MemoryError_new_def ENOBUFS_def exec_simps)

lemma Ring_dequeue_some:
  assumes "v_rings (view (ext w)) (ring_raw rg) = Some (p # q)"
  shows "\<exists>w'. Ring_dequeue D rg pkt w = Ret (Inr ()) w' \<and> mem w' = mem w \<and>
     view (ext w') = upd_ring (ring_raw rg) q (view (ext w))"
  using dequeue_some [OF assms, of pkt] by (auto simp: Ring_dequeue_def exec_simps)

lemma Ring_dequeue_none:
  assumes "v_rings (view (ext w)) (ring_raw rg) = Some []"
  shows "\<exists>w'. Ring_dequeue D rg pkt w = Ret (Inl (MemoryError_of_errno (rte_errno w'))) w' \<and>
     mem w' = mem w \<and> view (ext w') = view (ext w)"
  using dequeue_none [OF assms, of pkt]
  by (auto simp: Ring_dequeue_def MemoryError_new_def ENOENT_def exec_simps)

lemma Ring_enqueue_bulk_nothing:
  assumes "v_rings (view (ext w)) (ring_raw rg) = Some q"
    and "length q \<le> v_cap (view (ext w)) (ring_raw rg)"
  shows "\<exists>w'. Ring_enqueue_bulk D rg pkts w = Ret 0 w' \<and> mem w' = mem w \<and>
     view (ext w') = view (ext w)"
  using enqueue_bulk_room [OF assms(1), of 0 pkts] assms
  by (auto simp: Ring_enqueue_bulk_def exec_simps upd_ring_same)

lemma Ring_dequeue_burst_spec:
  assumes "v_rings (view (ext w)) (ring_raw rg) = Some q" "length pkts < 2 ^ 32"
  shows "\<exists>w'. Ring_dequeue_burst D rg pkts k w = Ret (min (length pkts) (length q)) w' \<and>
     mem w' = mem w \<and> view (ext w') = upd_ring (ring_raw rg) (drop (length pkts) q) (view (ext w))"
proof -
  have n: "unat (of_nat (length pkts) :: u32) = length pkts"
    and k: "unat (of_nat (min (length pkts) (length q)) :: u32) = min (length pkts) (length q)"
    using assms(2) by (simp_all add: unat_of_nat_small)
  from dequeue_burst [OF assms(1), of "of_nat (length pkts)" pkts] show ?thesis
    using k by (auto simp: Ring_dequeue_burst_def Let_def n exec_simps)
qed

lemma Ring_drop_spec:
  "\<exists>w'. Ring_drop D rg w = Ret () w' \<and> mem w' = mem w \<and>
     view (ext w') = (view (ext w))\<lparr>
        v_rings := (v_rings (view (ext w)))(ring_raw rg := None),
        v_names := (\<lambda>nm. if v_names (view (ext w)) nm = Some (ring_raw rg) then None
                         else v_names (view (ext w)) nm)\<rparr>"
  using ring_free [of "ring_raw rg" w] by (simp add: Ring_drop_def exec_simps)

lemma Ring_new_exists:
  assumes "v_names (view (ext w)) (ring_key rt cid) \<noteq> None"
  shows "\<exists>w'. Ring_new D cid rt sock w = Ret (Inl Exists) w' \<and> mem w' = mem w \<and>
     view (ext w') = view (ext w)"
proof -
  obtain w' where "rte_ring_create D (ring_key rt cid) (of_nat RING_CAPACITY) sock (ucast RING_FLAGS) w
      = (null, w')" "rte_errno w' = EEXIST"
    using create_exists [OF assms] by blast
  with create_fails [of "ring_key rt cid"] show ?thesis
    by (auto simp: Ring_new_def NonNull_new_def MemoryError_new_def MemoryError_of_errno_def
        errno_defs exec_simps)
qed

lemma Ring_new_cases:
  obtains (new) rg w' where "Ring_new D cid rt sock w = Ret (Inr rg) w'" "ring_raw rg \<noteq> null"
      "client_id rg = cid" "rtype rg = rt"
      "v_names (view (ext w)) (ring_key rt cid) = None"
      "v_rings (view (ext w)) (ring_raw rg) = None" "mem w' = mem w"
      "view (ext w') = (view (ext w))\<lparr>
         v_rings := (v_rings (view (ext w)))(ring_raw rg \<mapsto> []),
         v_cap := (v_cap (view (ext w)))(ring_raw rg := 511),
         v_names := (v_names (view (ext w)))(ring_key rt cid \<mapsto> ring_raw rg)\<rparr>"
  | (error) e w' where "Ring_new D cid rt sock w = Ret (Inl e) w'" "mem w' = mem w"
      "view (ext w') = view (ext w)"
proof -
  obtain r w' where c: "rte_ring_create D (ring_key rt cid) (of_nat RING_CAPACITY) sock
      (ucast RING_FLAGS) w = (r, w')"
    by fastforce
  show thesis
  proof (cases "r = null")
    case True
    with c create_fails [of "ring_key rt cid"] show thesis
      by (intro error [of "MemoryError_of_errno (rte_errno w')" w'])
        (auto simp: Ring_new_def NonNull_new_def MemoryError_new_def exec_simps)
  next
    case False
    with c show thesis
      using create_new [OF c False]
      by (intro new [of "\<lparr>client_id = cid, rtype = rt, ring_raw = r\<rparr>" w'])
        (auto simp: Ring_new_def NonNull_new_def RING_CAPACITY_def exec_simps)
  qed
qed

lemma Ring_lookup_spec:
  assumes "v_names (view (ext w)) (ring_key rt cid) \<noteq> Some null"
  shows "\<exists>w'. Ring_lookup D rt cid w = Ret (case v_names (view (ext w)) (ring_key rt cid) of
        None \<Rightarrow> Inl NoEntries
      | Some r \<Rightarrow> Inr \<lparr>client_id = cid, rtype = rt, ring_raw = r\<rparr>) w' \<and>
     mem w' = mem w \<and> view (ext w') = view (ext w)"
  using ring_lookup [of "ring_key rt cid" w] assms
  by (auto simp: Ring_lookup_def Ring_from_ptr_def NonNull_new_def exec_simps split: option.splits)

lemma Channel_new_cases:
  assumes "names_live (view (ext w))"
  obtains (new) ch w' where "Channel_new D cid w = Ret (Inr ch) w'" "mem w' = mem w"
      "ring_raw (engine_to_client ch) \<noteq> ring_raw (client_to_engine ch)"
      "v_rings (view (ext w)) (ring_raw (engine_to_client ch)) = None"
      "v_rings (view (ext w)) (ring_raw (client_to_engine ch)) = None"
      "v_names (view (ext w)) (ring_key E2C cid) = None"
      "v_names (view (ext w)) (ring_key C2E cid) = None"
      "v_rings (view (ext w')) = (v_rings (view (ext w)))
         (ring_raw (engine_to_client ch) \<mapsto> [], ring_raw (client_to_engine ch) \<mapsto> [])"
      "v_cap (view (ext w')) = (v_cap (view (ext w)))
         (ring_raw (engine_to_client ch) := 511, ring_raw (client_to_engine ch) := 511)"
      "v_names (view (ext w')) = (v_names (view (ext w)))
         (ring_key E2C cid \<mapsto> ring_raw (engine_to_client ch),
          ring_key C2E cid \<mapsto> ring_raw (client_to_engine ch))"
      "v_avail (view (ext w')) = v_avail (view (ext w))"
      "names_live (view (ext w'))"
  | (error) e w' where "Channel_new D cid w = Ret (Inl e) w'" "mem w' = mem w"
      "v_rings (view (ext w')) = v_rings (view (ext w))"
      "v_names (view (ext w')) = v_names (view (ext w))"
      "v_avail (view (ext w')) = v_avail (view (ext w))"
proof (cases rule: Ring_new_cases [of cid E2C "sint (rte_socket_id D w)" w])
  case (error e w1)
  then show thesis
    by (intro that(2) [of e w1]) (simp_all add: Channel_new_def exec_simps)
next
  case new_e2c: (new e2c w1)
  show thesis
  proof (cases rule: Ring_new_cases [of cid C2E "sint (rte_socket_id D w)" w1])
    case new_c2e: (new c2e w2)
    then have "Channel_new D cid w = Ret (Inr \<lparr>client_to_engine = c2e, engine_to_client = e2c\<rparr>) w2"
      using new_e2c by (simp add: Channel_new_def exec_simps)
    with new_e2c new_c2e assms show thesis
      by (intro that(1) [of "\<lparr>client_to_engine = c2e, engine_to_client = e2c\<rparr>" w2])
        (auto simp: names_live_def split: if_splits)
  next
    case (error e w2)
    obtain w3 where w3: "Ring_drop D e2c w2 = Ret () w3" "mem w3 = mem w2"
        "view (ext w3) = (view (ext w2))\<lparr>
          v_rings := (v_rings (view (ext w2)))(ring_raw e2c := None),
          v_names := (\<lambda>nm. if v_names (view (ext w2)) nm = Some (ring_raw e2c) then None
                           else v_names (view (ext w2)) nm)\<rparr>"
      using Ring_drop_spec by blast
    have fresh: "v_names (view (ext w)) nm \<noteq> Some (ring_raw e2c)" for nm
      using new_e2c(6) assms unfolding names_live_def by metis
    have "Channel_new D cid w = Ret (Inl e) w3"
      using new_e2c error w3 by (simp add: Channel_new_def exec_simps)
    moreover have "v_rings (view (ext w3)) = v_rings (view (ext w))"
      "v_names (view (ext w3)) = v_names (view (ext w))"
      using new_e2c error w3 fresh by (auto simp: fun_eq_iff)
    ultimately show thesis
      using new_e2c error w3 by (intro that(2) [of e w3]) auto
  qed
qed

lemma Channel_drop_spec:
  "\<exists>w'. Channel_drop D ch w = Ret () w' \<and> mem w' = mem w \<and>
     v_rings (view (ext w')) = (v_rings (view (ext w)))
       (ring_raw (client_to_engine ch) := None, ring_raw (engine_to_client ch) := None) \<and>
     v_names (view (ext w')) = (\<lambda>nm.
       if v_names (view (ext w)) nm \<in> {Some (ring_raw (client_to_engine ch)), Some (ring_raw (engine_to_client ch))}
       then None else v_names (view (ext w)) nm) \<and>
     v_avail (view (ext w')) = v_avail (view (ext w))"
proof -
  obtain w1 where w1: "Ring_drop D (client_to_engine ch) w = Ret () w1" "mem w1 = mem w"
      "view (ext w1) = (view (ext w))\<lparr>
        v_rings := (v_rings (view (ext w)))(ring_raw (client_to_engine ch) := None),
        v_names := (\<lambda>nm. if v_names (view (ext w)) nm = Some (ring_raw (client_to_engine ch)) then None
                         else v_names (view (ext w)) nm)\<rparr>"
    using Ring_drop_spec by blast
  obtain w2 where w2: "Ring_drop D (engine_to_client ch) w1 = Ret () w2" "mem w2 = mem w1"
      "view (ext w2) = (view (ext w1))\<lparr>
        v_rings := (v_rings (view (ext w1)))(ring_raw (engine_to_client ch) := None),
        v_names := (\<lambda>nm. if v_names (view (ext w1)) nm = Some (ring_raw (engine_to_client ch)) then None
                         else v_names (view (ext w1)) nm)\<rparr>"
    using Ring_drop_spec by blast
  show ?thesis
    using w1 w2 by (auto simp: Channel_drop_def exec_simps fun_eq_iff)
qed

end

section \<open>The client map\<close>

locale client_map_env = dpdk_env D view + chash_map C entries
  for D :: "'x dpdk" and view :: "'x \<Rightarrow> dview"
    and C :: "('m, u16, Channel) chm" and entries :: "'m \<Rightarrow> u16 \<Rightarrow> Channel option"
begin

lemma send_unknown:
  assumes "entries m key = None" "mem w pkt = Some b"
  shows "\<exists>w'. RingClientMap_send C D m key pkt w = Ret (Inl (ClientNotFound key)) w' \<and>
     mem w' = (mem w)(pkt := None) \<and>
     view (ext w') = upd_avail (mb_pool b) (v_avail (view (ext w)) (mb_pool b) + 1) (view (ext w))"
  using Mbuf_drop_spec [OF assms(2)] assms(1) by (auto simp: RingClientMap_send_def exec_simps)

lemma send_room:
  assumes "entries m key = Some ch" "v_rings (view (ext w)) (ring_raw (engine_to_client ch)) = Some q"
    and "length q < v_cap (view (ext w)) (ring_raw (engine_to_client ch))"
  shows "\<exists>w'. RingClientMap_send C D m key pkt w = Ret (Inr ()) w' \<and> mem w' = mem w \<and>
     view (ext w') = upd_ring (ring_raw (engine_to_client ch)) (q @ [pkt]) (view (ext w))"
  using Ring_enqueue_room [OF assms(2,3), of pkt] assms(1)
  by (auto simp: RingClientMap_send_def send_to_client_def exec_simps)

lemma send_full:
  assumes "entries m key = Some ch" "v_rings (view (ext w)) (ring_raw (engine_to_client ch)) = Some q"
    and "v_cap (view (ext w)) (ring_raw (engine_to_client ch)) \<le> length q"
  shows "\<exists>e w'. RingClientMap_send C D m key pkt w = Ret (Inl (RCM_MemoryError e)) w' \<and>
     mem w' = mem w \<and> view (ext w') = view (ext w)"
  using Ring_enqueue_full [OF assms(2,3), of pkt] assms(1)
  by (auto simp: RingClientMap_send_def send_to_client_def RingClientMapError_from_def exec_simps)

lemma receive_unknown:
  "entries m key = None \<Longrightarrow> RingClientMap_receive C D m key pkt w = Ret (Inl (ClientNotFound key)) w"
  by (simp add: RingClientMap_receive_def exec_simps)

lemma receive_some:
  assumes "entries m key = Some ch"
    and "v_rings (view (ext w)) (ring_raw (client_to_engine ch)) = Some (p # q)"
  shows "\<exists>w'. RingClientMap_receive C D m key pkt w = Ret (Inr ()) w' \<and> mem w' = mem w \<and>
     view (ext w') = upd_ring (ring_raw (client_to_engine ch)) q (view (ext w))"
  using Ring_dequeue_some [OF assms(2), of pkt] assms(1)
  by (auto simp: RingClientMap_receive_def receive_from_client_def exec_simps)

lemma receive_none:
  assumes "entries m key = Some ch"
    and "v_rings (view (ext w)) (ring_raw (client_to_engine ch)) = Some []"
  shows "\<exists>e w'. RingClientMap_receive C D m key pkt w = Ret (Inl (RCM_MemoryError e)) w' \<and>
     mem w' = mem w \<and> view (ext w') = view (ext w)"
  using Ring_dequeue_none [OF assms(2), of pkt] assms(1)
  by (auto simp: RingClientMap_receive_def receive_from_client_def RingClientMapError_from_def exec_simps)

end

interpretation ref_clients: client_map_env ref_dpdk ref_view alist_chm map_of
  by unfold_locales

section \<open>Properties\<close>

text \<open>
  The client side of the scenario of a sender: packets sent one by one, the first error
  panicking as \<open>unwrap\<close> does.
\<close>

fun send_all :: "'x dpdk \<Rightarrow> Channel \<Rightarrow> ptr list \<Rightarrow> ('x world, unit) exec" where
  "send_all D ch [] = ret ()"
| "send_all D ch (p # ps) =
     bind (send_to_client D ch p) (\<lambda>r. bind (unwrap_result r) (\<lambda>_. send_all D ch ps))"

context ring_api
begin

lemma send_all_fifo:
  assumes "v_rings (view (ext w)) (ring_raw (engine_to_client ch)) = Some q"
    and "length q + length ps \<le> v_cap (view (ext w)) (ring_raw (engine_to_client ch))"
  shows "\<exists>w'. send_all D ch ps w = Ret () w' \<and> mem w' = mem w \<and>
     view (ext w') = upd_ring (ring_raw (engine_to_client ch)) (q @ ps) (view (ext w))"
  using assms
proof (induction ps arbitrary: q w)
  case Nil
  then show ?case by (simp add: exec_simps upd_ring_same)
next
  case (Cons p ps)
  obtain w1 where w1: "Ring_enqueue D (engine_to_client ch) p w = Ret (Inr ()) w1" "mem w1 = mem w"
      "view (ext w1) = upd_ring (ring_raw (engine_to_client ch)) (q @ [p]) (view (ext w))"
    using Ring_enqueue_room [of w "engine_to_client ch" q p] Cons.prems by auto
  with Cons.IH [of w1 "q @ [p]"] Cons.prems show ?case
    by (auto simp: send_to_client_def exec_simps)
qed

lemma Ring_new_lookup:
  assumes "Ring_new D cid rt sock w = Ret (Inr rg) w'"
  shows "\<exists>w''. Ring_lookup D rt cid w' = Ret (Inr rg) w'' \<and> view (ext w'') = view (ext w') \<and>
     Ring_name rg = ring_key rt cid"
proof (cases rule: Ring_new_cases [of cid rt sock w])
  case (new rg' w1)
  with assms have "rg' = rg" "w1 = w'" by auto
  with new Ring_lookup_spec [of w' rt cid] show ?thesis by (cases rg) (auto simp: Ring_name_key)
qed (use assms in auto)

lemma Channel_lookup_half:
  assumes "v_names (view (ext w)) (ring_key E2C cid) = Some r" "r \<noteq> null"
    and "v_names (view (ext w)) (ring_key C2E cid) = None"
  shows "\<exists>w'. Channel_lookup D cid w = Ret (Inl NoEntries) w' \<and> v_rings (view (ext w')) r = None \<and>
     v_names (view (ext w')) (ring_key E2C cid) = None"
proof -
  let ?e2c = "\<lparr>client_id = cid, rtype = E2C, ring_raw = r\<rparr>"
  obtain w1 where w1: "Ring_lookup D E2C cid w = Ret (Inr ?e2c) w1" "view (ext w1) = view (ext w)"
    using Ring_lookup_spec [of w E2C cid] assms by auto
  obtain w2 where w2: "Ring_lookup D C2E cid w1 = Ret (Inl NoEntries) w2"
      "view (ext w2) = view (ext w)"
    using Ring_lookup_spec [of w1 C2E cid] assms w1 by auto
  obtain w3 where "Ring_drop D ?e2c w2 = Ret () w3"
      "view (ext w3) = (view (ext w2))\<lparr>v_rings := (v_rings (view (ext w2)))(r := None),
        v_names := (\<lambda>nm. if v_names (view (ext w2)) nm = Some r then None
                         else v_names (view (ext w2)) nm)\<rparr>"
    using Ring_drop_spec [of ?e2c w2] by auto
  with w1 w2 assms show ?thesis by (auto simp: Channel_lookup_def exec_simps)
qed

end

context client_map_env
begin

lemma add_remove_client:
  assumes "names_live (view (ext w))" "entries m cid = None"
    and "RingClientMap_add_client C D m cid w = Ret (Inr (), m1) w1"
  shows "\<exists>m2 w2. RingClientMap_remove_client C D m1 cid w1 = Ret m2 w2 \<and>
     entries m1 cid \<noteq> None \<and> entries m2 = entries m \<and> mem w2 = mem w \<and>
     v_rings (view (ext w2)) = v_rings (view (ext w)) \<and>
     v_names (view (ext w2)) = v_names (view (ext w))"
proof (cases rule: Channel_new_cases [OF assms(1), of cid, case_names new error])
  case (new ch w')
  obtain old m' where i: "chm_insert C cid ch m = (old, m')" by fastforce
  then have m': "old = None" "entries m' = (entries m)(cid \<mapsto> ch)"
    using fst_insert [of cid ch m] entries_insert [of cid ch m] assms(2) by auto
  have r: "m1 = m'" "w1 = w'"
    using new(1) i m' assms(3)
    by (auto simp: RingClientMap_add_client_def drop_channel_def exec_simps)
  obtain old2 m2 where rm: "chm_remove C cid m1 = (old2, m2)" by fastforce
  then have m2: "old2 = Some ch" "entries m2 = entries m"
    using fst_remove [of cid m1] entries_remove [of cid m1] r m' assms(2) by auto
  obtain w2 where w2: "Channel_drop D ch w1 = Ret () w2" "mem w2 = mem w1"
      "v_rings (view (ext w2)) = (v_rings (view (ext w1)))
         (ring_raw (client_to_engine ch) := None, ring_raw (engine_to_client ch) := None)"
      "v_names (view (ext w2)) = (\<lambda>nm.
         if v_names (view (ext w1)) nm \<in> {Some (ring_raw (client_to_engine ch)), Some (ring_raw (engine_to_client ch))}
         then None else v_names (view (ext w1)) nm)"
    using Channel_drop_spec [of ch w1] by blast
  have old_names: "v_names (view (ext w)) nm \<noteq> Some (ring_raw (engine_to_client ch))"
    "v_names (view (ext w)) nm \<noteq> Some (ring_raw (client_to_engine ch))" for nm
    using new(4,5) assms(1) unfolding names_live_def by metis+
  have "RingClientMap_remove_client C D m1 cid w1 = Ret m2 w2"
    using rm m2 w2(1) by (simp add: RingClientMap_remove_client_def drop_channel_def exec_simps)
  moreover have "v_rings (view (ext w2)) = v_rings (view (ext w))"
    using w2(3) r new(4,5,8) by (auto simp: fun_eq_iff)
  moreover have "v_names (view (ext w2)) = v_names (view (ext w))"
    using w2(4) r new(6,7,10) old_names by (auto simp: fun_eq_iff)
  ultimately show ?thesis using m2 m' r w2(2) new(2) by auto
next
  case (error e w')
  with assms(3) show ?thesis by (auto simp: RingClientMap_add_client_def exec_simps)
qed

lemma add_client_twice:
  assumes "v_names (view (ext w)) (ring_key E2C cid) \<noteq> None"
  shows "\<exists>w'. RingClientMap_add_client C D m cid w = Ret (Inl (RCM_MemoryError Exists), m) w' \<and>
     mem w' = mem w \<and> view (ext w') = view (ext w)"
  using Ring_new_exists [OF assms, of "sint (rte_socket_id D w)"]
  by (auto simp: RingClientMap_add_client_def Channel_new_def exec_simps)

lemma add_client_outcomes:
  assumes "names_live (view (ext w))"
  obtains (fails) e w' where
      "RingClientMap_add_client C D m cid w = Ret (Inl e, m) w'" "mem w' = mem w"
      "v_rings (view (ext w')) = v_rings (view (ext w))" "v_names (view (ext w')) = v_names (view (ext w))"
  | (adds) ch m' w' where
      "RingClientMap_add_client C D m cid w = Ret (Inr (), m') w'" "entries m' = (entries m)(cid \<mapsto> ch)"
      "v_names (view (ext w)) (ring_key E2C cid) = None" "v_names (view (ext w)) (ring_key C2E cid) = None"
      "entries m cid = None \<longrightarrow> mem w' = mem w \<and>
         v_rings (view (ext w')) = (v_rings (view (ext w)))
           (ring_raw (engine_to_client ch) \<mapsto> [], ring_raw (client_to_engine ch) \<mapsto> []) \<and>
         v_names (view (ext w')) = (v_names (view (ext w)))
           (ring_key E2C cid \<mapsto> ring_raw (engine_to_client ch),
            ring_key C2E cid \<mapsto> ring_raw (client_to_engine ch))"
proof (cases rule: Channel_new_cases [OF assms, of cid, case_names new error])
  case (new ch w1)
  obtain old m' where i: "chm_insert C cid ch m = (old, m')" by fastforce
  then have m': "old = entries m cid" "entries m' = (entries m)(cid \<mapsto> ch)"
    using fst_insert [of cid ch m] entries_insert [of cid ch m] by auto
  have "\<exists>w'. drop_channel D old w1 = Ret () w' \<and> (old = None \<longrightarrow> w' = w1)"
  proof (cases old)
    case None
    then show ?thesis by (simp add: drop_channel_def exec_simps)
  next
    case (Some ch')
    then show ?thesis using Channel_drop_spec [of ch' w1] by (auto simp: drop_channel_def)
  qed
  then obtain w' where w': "drop_channel D old w1 = Ret () w'" "old = None \<longrightarrow> w' = w1" by blast
  show thesis
  proof (rule adds)
    show "RingClientMap_add_client C D m cid w = Ret (Inr (), m') w'"
      using new(1) i w'(1) by (simp add: RingClientMap_add_client_def exec_simps)
  qed (use new m' w'(2) in auto)
next
  case (error e w')
  then show thesis by (intro fails [of "RCM_MemoryError e" w']) (simp_all add: RingClientMap_add_client_def exec_simps)
qed

end

text \<open>Rings and channels of the concrete states the witnesses run in.\<close>

definition ring_at :: "RingType \<Rightarrow> ptr \<Rightarrow> Ring" where
  "ring_at rt r = \<lparr>client_id = 3, rtype = rt, ring_raw = r\<rparr>"

definition chan_at :: "ptr \<Rightarrow> ptr \<Rightarrow> Channel" where
  "chan_at c2e e2c = \<lparr>client_to_engine = ring_at C2E c2e, engine_to_client = ring_at E2C e2c\<rparr>"

lemma ring_at_sel [simp]:
  "ring_raw (ring_at rt r) = r" "client_to_engine (chan_at c e) = ring_at C2E c"
  "engine_to_client (chan_at c e) = ring_at E2C e"
  by (simp_all add: ring_at_def chan_at_def)

lemma ref_Ring_new: "\<exists>w'. Ring_new ref_dpdk 3 E2C 0 ref_start = Ret (Inr (ring_at E2C 100)) w'"
  by (simp add: Ring_new_def ref_ring_create_def ref_start_def NonNull_new_def Let_def ring_at_def
      exec_simps)

text \<open>C22: A ring that \<open>Ring::new\<close> created is the one \<open>Ring::lookup\<close> of the same type and
  client finds; its \<open>name()\<close> is the name it was created under, and rings of another type or
  another client have another name.\<close>

theorem ring_new_lookup_roundtrip:
  assumes "ring_api D view" and "Ring_new D cid rt sock w = Ret (Inr rg) w'"
  shows "\<exists>w''. Ring_lookup D rt cid w' = Ret (Inr rg) w'' \<and> view (ext w'') = view (ext w') \<and>
     Ring_name rg = ring_key rt cid \<and>
     (ring_key rt' cid' = ring_key rt cid \<longleftrightarrow> rt' = rt \<and> cid' = cid)"
  using ring_api.Ring_new_lookup [OF assms] by simp

theorem ring_new_lookup_roundtrip_witness:
  "\<exists>w' w''. Ring_new ref_dpdk 3 E2C 0 ref_start = Ret (Inr (ring_at E2C 100)) w' \<and>
     Ring_lookup ref_dpdk E2C 3 w' = Ret (Inr (ring_at E2C 100)) w''"
  using ref_Ring_new ring_new_lookup_roundtrip [OF ref.ring_api_axioms] by metis

text \<open>C11: Packets sent one by one to a client whose ring has room for all of them are all
  accepted, and stand in the ring behind what it held, in the order they were sent; no buffer
  is touched and no other ring changes.\<close>

theorem channel_send_fifo:
  assumes "ring_api D view"
    and "v_rings (view (ext w)) (ring_raw (engine_to_client ch)) = Some q"
    and "length q + length ps \<le> v_cap (view (ext w)) (ring_raw (engine_to_client ch))"
  shows "\<exists>w'. send_all D ch ps w = Ret () w' \<and> mem w' = mem w \<and>
     view (ext w') = upd_ring (ring_raw (engine_to_client ch)) (q @ ps) (view (ext w))"
  using ring_api.send_all_fifo [OF assms] .

theorem channel_send_fifo_witness:
  "\<exists>w'. send_all ref_dpdk (chan_at 5 6) [1, 2] (ref_rings [5 \<mapsto> [], 6 \<mapsto> [9]] Map.empty 511) = Ret () w' \<and>
     v_rings (ref_view (ext w')) 6 = Some [9, 1, 2] \<and> v_rings (ref_view (ext w')) 5 = Some []"
  using channel_send_fifo [OF ref.ring_api_axioms,
      of "ref_rings [5 \<mapsto> [], 6 \<mapsto> [9]] Map.empty 511" "chan_at 5 6" "[9]" "[1, 2]"]
  by auto

text \<open>\<open>Ring::dequeue\<close> and \<open>Ring::dequeue_burst\<close> report success and take the oldest objects
  out of the ring, but hand none of them to the caller: the buffers the caller passed keep their
  contents, and every other buffer stays allocated, so a dequeued packet is lost.\<close>

theorem ring_dequeue_loses_packets:
  assumes "ring_api D view"
    and "v_rings (view (ext w)) (ring_raw rg) = Some (p # q)" "length pkts < 2 ^ 32"
  shows "(\<exists>w'. Ring_dequeue D rg pkt w = Ret (Inr ()) w' \<and> mem w' = mem w \<and>
           view (ext w') = upd_ring (ring_raw rg) q (view (ext w))) \<and>
     (\<exists>w'. Ring_dequeue_burst D rg pkts k w = Ret (min (length pkts) (Suc (length q))) w' \<and>
           mem w' = mem w \<and>
           view (ext w') = upd_ring (ring_raw rg) (drop (length pkts) (p # q)) (view (ext w)))"
  using ring_api.Ring_dequeue_some [OF assms(1,2), of pkt]
    ring_api.Ring_dequeue_burst_spec [OF assms, of k] by simp

theorem ring_dequeue_loses_packets_witness:
  "\<exists>w'. Ring_dequeue_burst ref_dpdk (ring_at E2C 6) [21, 22] 32 (ref_rings [6 \<mapsto> [1, 2, 3]] Map.empty 511)
       = Ret 2 w' \<and> mem w' = Map.empty \<and> v_rings (ref_view (ext w')) 6 = Some [3]"
  using ring_dequeue_loses_packets [OF ref.ring_api_axioms,
      of "ref_rings [6 \<mapsto> [1, 2, 3]] Map.empty 511" "ring_at E2C 6" 1 "[2, 3]" "[21, 22]" 21 32]
  by auto

text \<open>\<open>Ring::enqueue_bulk\<close> always reports 0 and leaves the ring as it was, whatever it is
  given: the count it passes on is the length of the vector it has just drained. The packets
  stay allocated and are in no ring.\<close>

theorem ring_enqueue_bulk_sends_nothing:
  assumes "ring_api D view"
    and "v_rings (view (ext w)) (ring_raw rg) = Some q"
    and "length q \<le> v_cap (view (ext w)) (ring_raw rg)"
  shows "\<exists>w'. Ring_enqueue_bulk D rg pkts w = Ret 0 w' \<and> mem w' = mem w \<and>
     view (ext w') = view (ext w)"
  using ring_api.Ring_enqueue_bulk_nothing [OF assms] .

theorem ring_enqueue_bulk_sends_nothing_witness:
  "\<exists>w'. Ring_enqueue_bulk ref_dpdk (ring_at E2C 6) [1, 2] (ref_rings [6 \<mapsto> []] Map.empty 511) = Ret 0 w' \<and>
     v_rings (ref_view (ext w')) 6 = Some []"
  using ring_enqueue_bulk_sends_nothing [OF ref.ring_api_axioms,
      of "ref_rings [6 \<mapsto> []] Map.empty 511" "ring_at E2C 6" "[]" "[1, 2]"]
  by auto

text \<open>\<open>Channel::lookup\<close> is not a pure query: when a client's E2C ring exists but its C2E
  ring does not, the lookup fails with \<open>NoEntries\<close> and, because a \<open>Ring\<close> frees its
  DPDK ring when it is dropped, destroys the E2C ring that the engine still uses.\<close>

theorem channel_lookup_failure_frees_ring:
  assumes "ring_api D view"
    and "v_names (view (ext w)) (ring_key E2C cid) = Some r" "r \<noteq> null"
    and "v_names (view (ext w)) (ring_key C2E cid) = None"
  shows "\<exists>w'. Channel_lookup D cid w = Ret (Inl NoEntries) w' \<and> v_rings (view (ext w')) r = None \<and>
     v_names (view (ext w')) (ring_key E2C cid) = None"
  using ring_api.Channel_lookup_half [OF assms] .

theorem channel_lookup_failure_frees_ring_witness:
  "\<exists>w'. Channel_lookup ref_dpdk 3 (ref_rings [6 \<mapsto> [1]] [ring_key E2C 3 \<mapsto> 6] 511) = Ret (Inl NoEntries) w' \<and>
     v_rings (ref_view (ext w')) 6 = None"
  using channel_lookup_failure_frees_ring [OF ref.ring_api_axioms,
      of "ref_rings [6 \<mapsto> [1]] [ring_key E2C 3 \<mapsto> 6] 511" 3 6]
  by auto

text \<open>C8: Removing a client that was just added gives the map its old entries back and leaves
  DPDK with exactly the rings and ring names it had before; no buffer is touched.\<close>

theorem add_remove_client_roundtrip:
  assumes "client_map_env D view C entries"
    and "names_live (view (ext w))" "entries m cid = None"
    and "RingClientMap_add_client C D m cid w = Ret (Inr (), m1) w1"
  shows "\<exists>m2 w2. RingClientMap_remove_client C D m1 cid w1 = Ret m2 w2 \<and>
     entries m1 cid \<noteq> None \<and> entries m2 = entries m \<and> mem w2 = mem w \<and>
     v_rings (view (ext w2)) = v_rings (view (ext w)) \<and>
     v_names (view (ext w2)) = v_names (view (ext w))"
  using client_map_env.add_remove_client [OF assms] .

lemma ref_add_client:
  "\<exists>m1 w1. RingClientMap_add_client alist_chm ref_dpdk [] 3 ref_start = Ret (Inr (), m1) w1 \<and>
     map_of m1 = [3 \<mapsto> chan_at 101 100]"
proof -
  have "rte_socket_id ref_dpdk = (\<lambda>w. 0)" by (simp add: ref_dpdk_def)
  then show ?thesis
    by (simp add: RingClientMap_add_client_def Channel_new_def Ring_new_def ref_ring_create_def
        ref_start_def NonNull_new_def Let_def alist_chm_def drop_channel_def exec_simps
        chan_at_def ring_at_def)
qed

theorem add_remove_client_roundtrip_witness:
  "\<exists>m1 w1 m2 w2. RingClientMap_add_client alist_chm ref_dpdk [] 3 ref_start = Ret (Inr (), m1) w1 \<and>
     RingClientMap_remove_client alist_chm ref_dpdk m1 3 w1 = Ret m2 w2 \<and> map_of m2 = Map.empty \<and>
     v_rings (ref_view (ext w2)) = Map.empty"
proof -
  obtain m1 w1 where a: "RingClientMap_add_client alist_chm ref_dpdk [] 3 ref_start = Ret (Inr (), m1) w1"
    using ref_add_client by blast
  have "names_live (ref_view (ext ref_start))" by (simp add: names_live_def)
  from add_remove_client_roundtrip [OF ref_clients.client_map_env_axioms this _ a] a
  show ?thesis by auto
qed

text \<open>C12: Adding a client is all or nothing. The call always returns. When it fails, for whatever
  reason, the map, the buffers, the rings and their names are those from before; it does fail when
  a ring of the id exists, and with \<open>Exists\<close> when it is the first of the two. When it succeeds,
  neither name was in use, the map has one new channel, and for a new id DPDK has exactly the two
  new, empty rings of that channel under their names.\<close>

theorem add_client_all_or_nothing:
  assumes "client_map_env D view C entries" and "names_live (view (ext w))"
  shows "\<exists>r m' w'. RingClientMap_add_client C D m cid w = Ret (r, m') w' \<and>
     (v_names (view (ext w)) (ring_key E2C cid) \<noteq> None \<longrightarrow> r = Inl (RCM_MemoryError Exists)) \<and>
     (v_names (view (ext w)) (ring_key C2E cid) \<noteq> None \<longrightarrow> r \<noteq> Inr ()) \<and>
     (case r of
        Inl e \<Rightarrow> m' = m \<and> mem w' = mem w \<and> v_rings (view (ext w')) = v_rings (view (ext w)) \<and>
          v_names (view (ext w')) = v_names (view (ext w))
      | Inr _ \<Rightarrow> \<exists>ch. entries m' = (entries m)(cid \<mapsto> ch) \<and>
          (entries m cid = None \<longrightarrow> mem w' = mem w \<and>
             v_rings (view (ext w')) = (v_rings (view (ext w)))
               (ring_raw (engine_to_client ch) \<mapsto> [], ring_raw (client_to_engine ch) \<mapsto> []) \<and>
             v_names (view (ext w')) = (v_names (view (ext w)))
               (ring_key E2C cid \<mapsto> ring_raw (engine_to_client ch),
                ring_key C2E cid \<mapsto> ring_raw (client_to_engine ch))))"
proof (rule client_map_env.add_client_outcomes [OF assms, of m cid])
  fix e w'
  assume f: "RingClientMap_add_client C D m cid w = Ret (Inl e, m) w'" "mem w' = mem w"
      "v_rings (view (ext w')) = v_rings (view (ext w))" "v_names (view (ext w')) = v_names (view (ext w))"
  then have "v_names (view (ext w)) (ring_key E2C cid) \<noteq> None \<longrightarrow> e = RCM_MemoryError Exists"
    using client_map_env.add_client_twice [OF assms(1), of w cid m] by auto
  with f show ?thesis by (intro exI [of _ "Inl e"] exI [of _ m] exI [of _ w']) simp
next
  fix ch m' w'
  assume "RingClientMap_add_client C D m cid w = Ret (Inr (), m') w'" "entries m' = (entries m)(cid \<mapsto> ch)"
      "v_names (view (ext w)) (ring_key E2C cid) = None" "v_names (view (ext w)) (ring_key C2E cid) = None"
      "entries m cid = None \<longrightarrow> mem w' = mem w \<and>
         v_rings (view (ext w')) = (v_rings (view (ext w)))
           (ring_raw (engine_to_client ch) \<mapsto> [], ring_raw (client_to_engine ch) \<mapsto> []) \<and>
         v_names (view (ext w')) = (v_names (view (ext w)))
           (ring_key E2C cid \<mapsto> ring_raw (engine_to_client ch),
            ring_key C2E cid \<mapsto> ring_raw (client_to_engine ch))"
  then show ?thesis by (intro exI [of _ "Inr ()"] exI [of _ m'] exI [of _ w']) (simp, blast)
qed

theorem add_client_all_or_nothing_witness:
  "\<exists>w'. RingClientMap_add_client alist_chm ref_dpdk [] 3 (ref_rings [6 \<mapsto> [1]] [ring_key E2C 3 \<mapsto> 6] 511)
       = Ret (Inl (RCM_MemoryError Exists), []) w' \<and> v_rings (ref_view (ext w')) = [6 \<mapsto> [1]]"
proof -
  let ?w = "ref_rings [6 \<mapsto> [1]] [ring_key E2C 3 \<mapsto> 6] 511"
  have "names_live (ref_view (ext ?w))" by (simp add: names_live_def)
  from add_client_all_or_nothing [OF ref_clients.client_map_env_axioms this, of "[]" 3]
  show ?thesis by auto
qed

text \<open>C13: \<open>RingClientMap::send\<close> on every branch: for an unknown client the packet is freed
  into its pool; a known client's ring with room gets it at the tail; a full ring makes the call
  fail with the ring and all buffers unchanged, so the packet, which the sender gave up, is
  leaked.\<close>

theorem client_map_send_outcomes:
  assumes "client_map_env D view C entries" and "mem w pkt = Some b"
    and "\<And>ch. entries m key = Some ch \<Longrightarrow> v_rings (view (ext w)) (ring_raw (engine_to_client ch)) = Some q"
  shows "\<exists>w'. case entries m key of
       None \<Rightarrow> RingClientMap_send C D m key pkt w = Ret (Inl (ClientNotFound key)) w' \<and>
         mem w' pkt = None \<and>
         view (ext w') = upd_avail (mb_pool b) (v_avail (view (ext w)) (mb_pool b) + 1) (view (ext w))
     | Some ch \<Rightarrow> mem w' = mem w \<and>
         (if length q < v_cap (view (ext w)) (ring_raw (engine_to_client ch))
          then RingClientMap_send C D m key pkt w = Ret (Inr ()) w' \<and>
            view (ext w') = upd_ring (ring_raw (engine_to_client ch)) (q @ [pkt]) (view (ext w))
          else (\<exists>e. RingClientMap_send C D m key pkt w = Ret (Inl (RCM_MemoryError e)) w') \<and>
            view (ext w') = view (ext w))"
proof (cases "entries m key")
  case None
  with client_map_env.send_unknown [OF assms(1) None assms(2)] show ?thesis by auto
next
  case (Some ch)
  note q = assms(3) [OF Some]
  show ?thesis
    using client_map_env.send_room [OF assms(1) Some q, of pkt]
      client_map_env.send_full [OF assms(1) Some q, of pkt] Some
    by (cases "length q < v_cap (view (ext w)) (ring_raw (engine_to_client ch))") auto
qed

theorem client_map_send_outcomes_witness:
  "\<exists>w' e. RingClientMap_send alist_chm ref_dpdk [(3, chan_at 5 6)] 3 1
       ((ref_rings [6 \<mapsto> [8, 9]] Map.empty 2)\<lparr>mem := [1 \<mapsto> ref_mbuf 64 7 []]\<rparr>)
     = Ret (Inl (RCM_MemoryError e)) w' \<and> v_rings (ref_view (ext w')) 6 = Some [8, 9]"
  using client_map_send_outcomes [OF ref_clients.client_map_env_axioms,
      of "(ref_rings [6 \<mapsto> [8, 9]] Map.empty 2)\<lparr>mem := [1 \<mapsto> ref_mbuf 64 7 []]\<rparr>" 1 "ref_mbuf 64 7 []"
         "[(3, chan_at 5 6)]" 3 "[8, 9]"]
  by auto

end
