(* ===== verification/Pools.thy ===== *)
theory Pools
  imports Apis
begin

text \<open>
  \<^verbatim>\<open>l3enginelib/src/apis/mempool.rs\<close> and \<^verbatim>\<open>memzone.rs\<close>: creating, finding and dropping
  the memory pool and memory zones. A Rust \<open>Mempool\<close> or \<open>Memzone\<close> is its pointer.
\<close>

section \<open>Mempool\<close>

text \<open>The sizes of \<open>rte_mbuf\<close> and \<open>rte_pktmbuf_pool_private\<close> in the bindings.\<close>

definition size_of_rte_mbuf :: u32 where "size_of_rte_mbuf = 128"
definition size_of_rte_pktmbuf_pool_private :: u32 where "size_of_rte_pktmbuf_pool_private = 8"

definition RX_MBUF_DATA_SIZE :: u32 where "RX_MBUF_DATA_SIZE = 2048"
definition RTE_PKTMBUF_HEADROOM :: u32 where "RTE_PKTMBUF_HEADROOM = 128"
definition MBUF_OVERHEAD :: u32 where "MBUF_OVERHEAD = size_of_rte_mbuf + RTE_PKTMBUF_HEADROOM"
definition NUM_MBUFS :: u32 where "NUM_MBUFS = 32767"
definition MBUF_SIZE :: u32 where "MBUF_SIZE = RX_MBUF_DATA_SIZE + MBUF_OVERHEAD"
definition MBUF_CACHE_SIZE :: u32 where "MBUF_CACHE_SIZE = 512"
definition NO_FLAGS :: u32 where "NO_FLAGS = 0"

definition Mempool_new :: "'x dpdk \<Rightarrow> string \<Rightarrow> ('x world, MemoryError + ptr) exec" where
  "Mempool_new D name =
     (case to_cstring name of
        Inl e \<Rightarrow> ret (Inl e)
      | Inr n \<Rightarrow>
          bind (gets (rte_socket_id D)) (\<lambda>sock.
          bind (call (rte_mempool_create D n NUM_MBUFS MBUF_SIZE MBUF_CACHE_SIZE
                  size_of_rte_pktmbuf_pool_private (sint sock) NO_FLAGS)) (\<lambda>raw.
            case NonNull_new raw of
              Some m \<Rightarrow> ret (Inr m)
            | None \<Rightarrow> bind MemoryError_new (\<lambda>e. ret (Inl e)))))"

definition Mempool_lookup :: "'x dpdk \<Rightarrow> string \<Rightarrow> ('x world, MemoryError + ptr) exec" where
  "Mempool_lookup D name =
     (case to_cstring name of
        Inl e \<Rightarrow> ret (Inl e)
      | Inr nm \<Rightarrow>
          bind (call (rte_mempool_lookup D nm)) (\<lambda>r.
            case NonNull_new r of
              Some raw \<Rightarrow> ret (Inr raw)
            | None \<Rightarrow> ret (Inl NoEntries)))"

definition Mempool_drop :: "'x dpdk \<Rightarrow> ptr \<Rightarrow> ('x world, unit) exec" where
  "Mempool_drop D mp = modify (rte_mempool_free D mp)"

section \<open>Memzone\<close>

definition RTE_MEMZONE_2MB :: u32 where "RTE_MEMZONE_2MB = 1"

definition Memzone_new :: "'x dpdk \<Rightarrow> string \<Rightarrow> usize \<Rightarrow> ('x world, MemoryError + ptr) exec" where
  "Memzone_new D name len =
     (case to_cstring name of
        Inl e \<Rightarrow> ret (Inl e)
      | Inr nm \<Rightarrow>
          bind (gets (rte_socket_id D)) (\<lambda>sock.
          bind (call (rte_memzone_reserve D nm (of_nat len) (sint sock) RTE_MEMZONE_2MB)) (\<lambda>raw.
            if raw = null then bind MemoryError_new (\<lambda>e. ret (Inl e)) else ret (Inr raw))))"

definition Memzone_lookup :: "'x dpdk \<Rightarrow> string \<Rightarrow> ('x world, MemoryError + ptr) exec" where
  "Memzone_lookup D name =
     (case to_cstring name of
        Inl e \<Rightarrow> ret (Inl e)
      | Inr nm \<Rightarrow>
          bind (call (rte_memzone_lookup D nm)) (\<lambda>raw.
            if raw = null then bind MemoryError_new (\<lambda>e. ret (Inl e)) else ret (Inr raw)))"

definition virt_addr :: "'x dpdk \<Rightarrow> ptr \<Rightarrow> ('x world, u64) exec" where
  "virt_addr D zone = gets (rte_memzone_addr D zone)"

text \<open>A failed release is logged and otherwise ignored.\<close>

definition Memzone_drop :: "'x dpdk \<Rightarrow> ptr \<Rightarrow> ('x world, unit) exec" where
  "Memzone_drop D zone = bind (call (rte_memzone_free D zone)) (\<lambda>rc. ret ())"

section \<open>Facts\<close>

text \<open>
  An element of the pool holds the \<open>rte_mbuf\<close>, the headroom and the data room of a
  received frame; a full frame of 1518 bytes fits.
\<close>

lemma mbuf_size_value: "MBUF_SIZE = 2304" "unat MBUF_SIZE - unat size_of_rte_mbuf = 2176"
  by (simp_all add: MBUF_SIZE_def MBUF_OVERHEAD_def RX_MBUF_DATA_SIZE_def
      RTE_PKTMBUF_HEADROOM_def size_of_rte_mbuf_def)

end
