(* ===== verification/Port.thy ===== *)
theory Port
  imports Mbuf
begin

text \<open>
  \<^verbatim>\<open>l3enginelib/src/apis/port.rs\<close>: a \<open>Port\<close> is one NIC port, from its configuration
  over receiving a burst of packets to sending one.
\<close>

section \<open>Port\<close>

record Port =
  port_id :: u16
  device :: string
  dev_info :: rte_eth_dev_info

definition PORTMASK :: u8 where "PORTMASK = 3"

definition ETH_RSS_IP :: u32 where "ETH_RSS_IP = 41868"
definition ETH_RSS_TCP :: u32 where "ETH_RSS_TCP = 66576"
definition ETH_RSS_UDP :: u32 where "ETH_RSS_UDP = 133152"
definition ETH_RSS_SCTP :: u32 where "ETH_RSS_SCTP = 4160"
definition ETH_RSS_L2_PAYLOAD :: u32 where "ETH_RSS_L2_PAYLOAD = 16384"
definition ETH_MQ_RX_RSS :: u32 where "ETH_MQ_RX_RSS = 1"
definition RTE_ETHER_MAX_LEN :: u32 where "RTE_ETHER_MAX_LEN = 1518"
definition DEV_RX_OFFLOAD_CHECKSUM :: u32 where "DEV_RX_OFFLOAD_CHECKSUM = 14"
definition DEV_TX_OFFLOAD_MBUF_FAST_FREE :: u32 where "DEV_TX_OFFLOAD_MBUF_FAST_FREE = 65536"

definition DEFAULT_RSS_HF :: u64 where
  "DEFAULT_RSS_HF =
     ucast (ETH_RSS_IP OR ETH_RSS_TCP OR ETH_RSS_UDP OR ETH_RSS_SCTP OR ETH_RSS_L2_PAYLOAD)"

definition RX_BURST_MAX :: u16 where "RX_BURST_MAX = 32"
definition RTE_MP_RX_DESC_DEFAULT :: u16 where "RTE_MP_RX_DESC_DEFAULT = 512"
definition RTE_MP_TX_DESC_DEFAULT :: u16 where "RTE_MP_TX_DESC_DEFAULT = 512"

definition RSS_SYMMETRIC_KEY :: "u8 list" where
  "RSS_SYMMETRIC_KEY = concat (replicate 20 [0x6d, 0x5a])"

definition Port_new :: "'x dpdk \<Rightarrow> string \<Rightarrow> u16 \<Rightarrow> ('x world, PortError + Port) exec" where
  "Port_new D dev pid =
     bind (call (rte_eth_dev_info_get D pid)) (\<lambda>(rc, info).
       if rc = 0 then ret (Inr \<lparr>port_id = pid, device = dev, dev_info = info\<rparr>)
       else bind PortError_new (\<lambda>e. ret (Inl e)))"

text \<open>The configuration that \<open>configure\<close> fills in before the first call.\<close>

definition Port_conf :: "Port \<Rightarrow> rte_eth_conf" where
  "Port_conf self = \<lparr>
     rxmode = \<lparr>rx_mq_mode = ETH_MQ_RX_RSS, max_rx_pkt_len = RTE_ETHER_MAX_LEN,
               split_hdr_size = 0, rx_offloads = ucast DEV_RX_OFFLOAD_CHECKSUM\<rparr>,
     rss_conf = \<lparr>rss_key = Some RSS_SYMMETRIC_KEY,
                 rss_hf = DEFAULT_RSS_HF AND flow_type_rss_offloads (dev_info self)\<rparr>,
     txmode = \<lparr>tx_mq_mode = 0,
               tx_offloads =
                 (let offloads = 0x00000002 OR 0x00000004 OR 0x00000008 in
                  if tx_offload_capa (dev_info self) AND ucast DEV_TX_OFFLOAD_MBUF_FAST_FREE > 0
                  then offloads OR ucast DEV_TX_OFFLOAD_MBUF_FAST_FREE else offloads)\<rparr>\<rparr>"

fun setup_queues :: "'x dpdk \<Rightarrow> Port \<Rightarrow> ptr \<Rightarrow> u16 list \<Rightarrow> ('x world, PortError + unit) exec" where
  "setup_queues D self mempool [] = ret (Inr ())"
| "setup_queues D self mempool (i # is) =
     bind (gets (rte_eth_dev_socket_id D (port_id self))) (\<lambda>sock.
     bind (call (rte_eth_rx_queue_setup D (port_id self) i RTE_MP_RX_DESC_DEFAULT (of_int sock)
             (default_rxconf (dev_info self)) mempool)) (\<lambda>rc.
       if rc \<noteq> 0 then bind PortError_new (\<lambda>e. ret (Inl e))
       else
         bind (gets (rte_eth_dev_socket_id D (port_id self))) (\<lambda>sock.
         bind (call (rte_eth_tx_queue_setup D (port_id self) i RTE_MP_TX_DESC_DEFAULT (of_int sock)
                 (default_txconf (dev_info self)))) (\<lambda>rc.
           if rc \<noteq> 0 then bind PortError_new (\<lambda>e. ret (Inl e))
           else setup_queues D self mempool is))))"

text \<open>\<open>n_cores += 1\<close> is checked in a debug build and wraps in a release build.\<close>

definition round_up_cores :: "bool \<Rightarrow> u16 \<Rightarrow> ('s, nat) exec" where
  "round_up_cores oc num_cores =
     (if unat num_cores mod 2 = 1 then add_ck oc 16 (unat num_cores) 1
      else ret (unat num_cores))"

definition Port_configure ::
  "'x dpdk \<Rightarrow> bool \<Rightarrow> Port \<Rightarrow> u16 \<Rightarrow> ptr \<Rightarrow> ('x world, PortError + unit) exec" where
  "Port_configure D oc self num_cores mempool =
     bind (call (rte_eth_dev_configure D (port_id self) num_cores num_cores (Port_conf self))) (\<lambda>rc.
       if rc \<noteq> 0 then bind PortError_new (\<lambda>e. ret (Inl e))
       else
         bind (round_up_cores oc num_cores) (\<lambda>n_cores.
         bind (setup_queues D self mempool (map of_nat [0..<n_cores])) (\<lambda>r. case r of
           Inl e \<Rightarrow> ret (Inl e)
         | Inr _ \<Rightarrow>
             bind (call (rte_eth_promiscuous_enable D (port_id self))) (\<lambda>rc.
               if rc = 0 then ret (Inr ()) else bind PortError_new (\<lambda>e. ret (Inl e))))))"

definition Port_start :: "'x dpdk \<Rightarrow> Port \<Rightarrow> ('x world, PortError + unit) exec" where
  "Port_start D self =
     bind (call (rte_eth_dev_start D (port_id self))) (\<lambda>rc.
       if rc = 0 then ret (Inr ()) else bind PortError_new (\<lambda>e. ret (Inl e)))"

definition get_name :: "Port \<Rightarrow> string" where
  "get_name self = device self"

text \<open>The vector of received pointers becomes the vector of \<open>Mbuf\<close>s, in order.\<close>

definition Port_receive :: "'x dpdk \<Rightarrow> Port \<Rightarrow> u16 \<Rightarrow> ('x world, ptr list) exec" where
  "Port_receive D self queue_id =
     bind (call (rte_eth_rx_burst D (port_id self) queue_id RX_BURST_MAX)) (\<lambda>ptrs. ret ptrs)"

definition Port_send :: "'x dpdk \<Rightarrow> Port \<Rightarrow> ptr list \<Rightarrow> u16 \<Rightarrow> ('x world, usize) exec" where
  "Port_send D self pkts queue_id =
     (let len = length pkts; ptrs = pkts in
      bind (call (rte_eth_tx_burst D (port_id self) queue_id ptrs (of_nat (length ptrs)))) (\<lambda>n.
        let count = unat n in
        if count < len then bind (mbuf_free_bulk D ptrs) (\<lambda>_. ret count) else ret count))"

section \<open>Configuration\<close>

context eth_api
begin

lemma setup_queues_in_range:
  assumes "setup_queues D self mp is w = Ret (Inr ()) w'"
  shows "\<forall>i \<in> set is. unat i < queues (ext w) (port_id self)"
  using assms
proof (induction "is" arbitrary: w)
  case (Cons i "is")
  obtain rc w1 where rx: "rte_eth_rx_queue_setup D (port_id self) i RTE_MP_RX_DESC_DEFAULT
      (of_int (rte_eth_dev_socket_id D (port_id self) w)) (default_rxconf (dev_info self)) mp w = (rc, w1)"
    by fastforce
  have rc: "rc = 0"
    using Cons.prems rx by (auto simp: exec_simps bind_eq_Ret PortError_new_def split: if_splits)
  obtain rc' w2 where tx: "rte_eth_tx_queue_setup D (port_id self) i RTE_MP_TX_DESC_DEFAULT
      (of_int (rte_eth_dev_socket_id D (port_id self) w1)) (default_txconf (dev_info self)) w1 = (rc', w2)"
    by fastforce
  have rc': "rc' = 0"
    using Cons.prems rx rc tx by (auto simp: exec_simps bind_eq_Ret PortError_new_def split: if_splits)
  then have "setup_queues D self mp is w2 = Ret (Inr ()) w'"
    using Cons.prems rx rc tx by (simp add: exec_simps)
  from Cons.IH [OF this] rx_setup [OF rx] tx_setup [OF tx] rc show ?case by simp
qed simp

lemma Port_configure_ok:
  assumes "Port_configure D oc self n mp w = Ret (Inr ()) w'"
  shows "even (unat n) \<or> n = 65535"
proof (rule ccontr)
  assume "\<not> ?thesis"
  then have odd: "unat n mod 2 = 1" and "n \<noteq> 65535" by (auto simp: odd_iff_mod_2_eq_one)
  then have "unat n \<noteq> 65535" by (simp add: word_unat_eq_iff)
  then have lt: "unat n + 1 < 2 ^ 16" using u16_bound [of n] by simp
  obtain rc w1 where c: "rte_eth_dev_configure D (port_id self) n n (Port_conf self) w = (rc, w1)"
    by fastforce
  with assms have rc: "rc = 0"
    by (auto simp: Port_configure_def exec_simps bind_eq_Ret PortError_new_def split: if_splits)
  have cont: "bind (setup_queues D self mp (map of_nat [0..<unat n + 1])) (case_sum (\<lambda>e. ret (Inl e))
      (\<lambda>_. bind (call (rte_eth_promiscuous_enable D (port_id self)))
        (\<lambda>rc. if rc = 0 then ret (Inr ()) else bind PortError_new (\<lambda>e. ret (Inl e))))) w1 = Ret (Inr ()) w'"
    using assms c rc odd lt
    by (simp add: Port_configure_def round_up_cores_def exec_simps del: upt_Suc map_append)
  obtain r w2 where s: "setup_queues D self mp (map of_nat [0..<unat n + 1]) w1 = Ret r w2"
      and k: "case_sum (\<lambda>e. ret (Inl e)) (\<lambda>_. bind (call (rte_eth_promiscuous_enable D (port_id self)))
        (\<lambda>rc. if rc = 0 then ret (Inr ()) else bind PortError_new (\<lambda>e. ret (Inl e)))) r w2 = Ret (Inr ()) w'"
    using cont unfolding bind_eq_Ret by blast
  have r: "r = Inr ()"
    using k by (cases r) (simp_all add: ret_exec)
  have "of_nat (unat n) \<in> set (map of_nat [0..<unat n + 1] :: u16 list)"
    by (intro image_eqI [of _ _ "unat n"] | simp)+
  then have "unat n < queues (ext w1) (port_id self)"
    using setup_queues_in_range [OF s [unfolded r]] by force
  then show False using dev_configure c rc by force
qed

end

section \<open>Bursts\<close>

context dpdk_env
begin

lemma Port_receive_spec:
  assumes "finite (dom (mem w))"
  obtains ps w' where "Port_receive D self q w = Ret ps w'" "length ps \<le> 32" "distinct ps"
    "null \<notin> set ps" "\<forall>p \<in> set ps. mem w p = None"
    "dom (mem w') = dom (mem w) \<union> set ps" "\<forall>p. p \<notin> set ps \<longrightarrow> mem w' p = mem w p"
    "\<forall>p \<in> set ps. \<exists>m. mem w' p = Some m \<and> wf_mbuf m \<and> 14 \<le> unat (data_len m)"
    "v_rings (view (ext w')) = v_rings (view (ext w))"
    "v_cap (view (ext w')) = v_cap (view (ext w))"
    "v_names (view (ext w')) = v_names (view (ext w))"
proof -
  obtain ps w' where r: "rte_eth_rx_burst D (port_id self) q RX_BURST_MAX w = (ps, w')" by fastforce
  from rx_burst [OF assms this] r show thesis
    by (intro that [of ps w']) (simp_all add: Port_receive_def exec_simps RX_BURST_MAX_def)
qed

lemma Port_send_partial:
  assumes tx: "rte_eth_tx_burst D (port_id self) q (p # ps) (of_nat (length (p # ps))) w = (n, w1)"
    and n: "unat n < length (p # ps)"
    and ps: "distinct (p # ps)" "set (p # ps) \<subseteq> dom (mem w1)" "length (p # ps) < 2 ^ 16"
    and b: "mem w1 p = Some b"
  shows "\<exists>w'. Port_send D self (p # ps) q w = Ret (unat n) w' \<and>
     (\<forall>x \<in> set (p # ps). mem w' x = None) \<and>
     v_avail (view (ext w')) (mb_pool b) = v_avail (view (ext w1)) (mb_pool b) + length (p # ps)"
  using mbuf_free_bulk_spec [OF ps(1,2) _ b] ps(3) tx n
  by (auto simp: Port_send_def Let_def exec_simps simp del: set_simps length_Cons)

lemma Port_send_dead:
  assumes tx: "rte_eth_tx_burst D (port_id self) q (p # ps) (of_nat (length (p # ps))) w = (n, w1)"
    and n: "unat n < length (p # ps)" and dead: "mem w1 p = None"
  shows "Port_send D self (p # ps) q w = Fault BadPointer w1"
  using tx n dead by (simp add: Port_send_def Let_def mbuf_free_bulk_def exec_simps)

end

section \<open>Properties\<close>

text \<open>What \<open>configure\<close> asks of the device: every RSS hash function it requests is one the
  device offers and one of the program's own, the fast-free transmit offload is requested exactly
  when the device has it, and the three checksum offloads are requested whether or not the device
  has them.\<close>

theorem port_conf_supported:
  "(bit (rss_hf (rss_conf (Port_conf self))) k \<longleftrightarrow>
     bit DEFAULT_RSS_HF k \<and> bit (flow_type_rss_offloads (dev_info self)) k) \<and>
   (bit (tx_offloads (txmode (Port_conf self))) 16 \<longleftrightarrow> bit (tx_offload_capa (dev_info self)) 16) \<and>
   {1, 2, 3} \<subseteq> {k. bit (tx_offloads (txmode (Port_conf self))) k}"
proof -
  have "tx_offload_capa (dev_info self) AND 65536 > 0 \<longleftrightarrow> bit (tx_offload_capa (dev_info self)) 16"
    by (simp add: bit_iff_and_push_bit_not_eq_0 [of _ 16] word_neq_0_conv)
  moreover have "(2 OR 4 OR 8 :: u64) = 14" "(14 OR 65536 :: u64) = 65550" by simp_all
  ultimately show ?thesis
    by (simp add: Port_conf_def bit_and_iff DEV_TX_OFFLOAD_MBUF_FAST_FREE_def)
qed

text \<open>A port can only be configured for an even number of cores. With an odd number the
  loop that sets up the queues runs one past the number the device was configured with, and
  DPDK refuses that queue, so \<open>configure\<close> never returns \<open>Ok\<close>. (The one odd number left
  out, 65535, overflows the 16 bit counter.)\<close>

theorem port_configure_needs_even_cores:
  assumes "eth_api D queues" and "Port_configure D oc self num_cores mempool w = Ret (Inr ()) w'"
  shows "even (unat num_cores) \<or> num_cores = 65535"
  using eth_api.Port_configure_ok [OF assms] .

definition ref_port :: Port where
  "ref_port = \<lparr>port_id = 0, device = ''port0'', dev_info = \<lparr>tx_offload_capa = 65536,
     flow_type_rss_offloads = 41868, default_rxconf = 0, default_txconf = 0\<rparr>\<rparr>"

lemma ref_configure_any:
  "\<exists>w'. Port_configure ref_dpdk True ref_port 2 7 w = Ret (Inr ()) w' \<and> mem w' = mem w \<and>
     rv (ext w') = rv (ext w) \<and> r_next (ext w') = r_next (ext w)"
proof -
  have "[0..<2] = [0, 1 :: nat]" by (simp add: upt_rec)
  then show ?thesis
    by (simp add: Port_configure_def round_up_cores_def ref_queue_setup_def exec_simps)
qed

lemma ref_configure: "\<exists>w'. Port_configure ref_dpdk True ref_port 2 7 ref_start = Ret (Inr ()) w'"
  using ref_configure_any by blast

theorem port_configure_needs_even_cores_witness:
  "(\<exists>w'. Port_configure ref_dpdk True ref_port 2 7 ref_start = Ret (Inr ()) w') \<and> even (unat (2 :: u16))"
  using ref_configure port_configure_needs_even_cores [OF ref_eth.eth_api_axioms, of True ref_port 2 7 ref_start]
  by auto

text \<open>C29: When the NIC accepts only part of a burst, \<open>Port::send\<close> frees every packet of the
  burst, those the NIC accepted and now owns included, and credits all of them to one pool; and
  if the NIC has already released the first one, it reads through a dangling pointer.\<close>

theorem port_send_frees_accepted:
  assumes "dpdk_env D view"
    and "rte_eth_tx_burst D (port_id self) q (p # ps) (of_nat (length (p # ps))) w = (n, w1)"
    and "unat n < length (p # ps)" and "distinct (p # ps)" "length (p # ps) < 2 ^ 16"
  shows "(\<forall>b. mem w1 p = Some b \<and> set ps \<subseteq> dom (mem w1) \<longrightarrow>
       (\<exists>w'. Port_send D self (p # ps) q w = Ret (unat n) w' \<and>
         (\<forall>x \<in> set (p # ps). mem w' x = None) \<and>
         v_avail (view (ext w')) (mb_pool b) = v_avail (view (ext w1)) (mb_pool b) + length (p # ps))) \<and>
     (mem w1 p = None \<longrightarrow> Port_send D self (p # ps) q w = Fault BadPointer w1)"
  using dpdk_env.Port_send_partial [OF assms(1,2,3,4) _ assms(5)]
    dpdk_env.Port_send_dead [OF assms(1,2,3)] by auto

theorem port_send_frees_accepted_witness:
  "\<exists>w'. Port_send ref_dpdk ref_port [1, 2, 3]
       1 (ref_start\<lparr>mem := [1 \<mapsto> ref_mbuf 64 7 [], 2 \<mapsto> ref_mbuf 64 7 [], 3 \<mapsto> ref_mbuf 64 7 []]\<rparr>)
     = Ret 2 w' \<and> mem w' 1 = None \<and> mem w' 2 = None \<and> mem w' 3 = None"
proof -
  let ?w = "ref_start\<lparr>mem := [1 \<mapsto> ref_mbuf 64 7 [], 2 \<mapsto> ref_mbuf 64 7 [], 3 \<mapsto> ref_mbuf 64 7 []]\<rparr>"
  obtain w1 where "ref_tx [1, 2, 3] 3 ?w = (2, w1)" "mem w1 = mem ?w"
    by (simp add: ref_tx_def ref_start_def)
  then show ?thesis
    using port_send_frees_accepted [OF ref.dpdk_env_axioms, of ref_port 1 1 "[2, 3]" ?w 2 w1]
    by auto
qed

end
