(* ===== verification/Shim.thy ===== *)
theory Shim
  imports Mbuf
begin

text \<open>
  The hand-written C of \<^verbatim>\<open>dpdk-sys/src/shim.c\<close> that the Rust code calls: locating the
  protocol headers of a packet, recognising and answering ARP requests, updating an ICMP
  checksum, and closing the ports. The wrappers that only forward to a DPDK function of the
  same name are the fields of the \<open>dpdk\<close> record. The machine is little-endian (x86-64). A header
  pointer is its index in the memory of the packet's buffer, or none for \<open>NULL\<close>.
\<close>

section \<open>Words in memory\<close>

fun le_word :: "u8 list \<Rightarrow> 'a::len word" where
  "le_word [] = 0"
| "le_word (b # bs) = ucast b OR push_bit 8 (le_word bs)"

fun le_bytes :: "nat \<Rightarrow> 'a::len word \<Rightarrow> u8 list" where
  "le_bytes 0 x = []"
| "le_bytes (Suc n) x = ucast x # le_bytes n (drop_bit 8 x)"

declare le_word.simps [simp del]

text \<open>\<open>rte_cpu_to_be_16\<close>, \<open>rte_be_to_cpu_32\<close> and \<open>htons\<close> on a little-endian machine.\<close>

definition bswap16 :: "u16 \<Rightarrow> u16" where "bswap16 x = le_word (rev (le_bytes 2 x))"
definition bswap32 :: "u32 \<Rightarrow> u32" where "bswap32 x = le_word (rev (le_bytes 4 x))"

definition load :: "nat \<Rightarrow> nat \<Rightarrow> (rte_mbuf, u8 list) exec" where
  "load n i = (\<lambda>m. if range_ok (mb_buf m) (int i) n then Ret (take n (drop i (mb_buf m))) m
                   else Fault BadPointer m)"

definition load16 :: "nat \<Rightarrow> (rte_mbuf, u16) exec" where
  "load16 i = bind (load 2 i) (\<lambda>bs. ret (le_word bs))"

definition load32 :: "nat \<Rightarrow> (rte_mbuf, u32) exec" where
  "load32 i = bind (load 4 i) (\<lambda>bs. ret (le_word bs))"

definition load8 :: "nat \<Rightarrow> (rte_mbuf, u8) exec" where
  "load8 i = bind (load 1 i) (\<lambda>bs. ret (le_word bs))"

definition store :: "nat \<Rightarrow> u8 list \<Rightarrow> (rte_mbuf, unit) exec" where
  "store i bs = ptr_write (int i) bs"

section \<open>Headers\<close>

definition sizeof_ether_hdr :: nat where "sizeof_ether_hdr = 14"
definition sizeof_ipv4_hdr :: nat where "sizeof_ipv4_hdr = 20"
definition sizeof_arp_hdr :: nat where "sizeof_arp_hdr = 28"

definition IP_PROTOCOL_ICMP :: u8 where "IP_PROTOCOL_ICMP = 1"
definition IP_PROTOCOL_TCP :: u8 where "IP_PROTOCOL_TCP = 6"
definition IP_PROTOCOL_UDP :: u8 where "IP_PROTOCOL_UDP = 17"

definition RTE_ETHER_TYPE_IPV4 :: u16 where "RTE_ETHER_TYPE_IPV4 = 0x0800"
definition RTE_ETHER_TYPE_ARP :: u16 where "RTE_ETHER_TYPE_ARP = 0x0806"
definition RTE_ARP_HRD_ETHER :: u16 where "RTE_ARP_HRD_ETHER = 1"
definition RTE_ARP_OP_REQUEST :: u16 where "RTE_ARP_OP_REQUEST = 1"
definition RTE_ARP_OP_REPLY :: u16 where "RTE_ARP_OP_REPLY = 2"
definition RTE_ETHER_ADDR_LEN :: nat where "RTE_ETHER_ADDR_LEN = 6"
definition RTE_IP_ICMP_ECHO_REPLY :: u16 where "RTE_IP_ICMP_ECHO_REPLY = 0"
definition RTE_IP_ICMP_ECHO_REQUEST :: u16 where "RTE_IP_ICMP_ECHO_REQUEST = 8"

definition rte_pktmbuf_mtod :: "rte_mbuf \<Rightarrow> nat" where
  "rte_pktmbuf_mtod m = unat (data_off m)"

definition pkt_ether_hdr :: "ptr \<Rightarrow> ('x world, nat option) exec" where
  "pkt_ether_hdr pkt =
     (if pkt = null then ret None else on_mbuf pkt (gets (\<lambda>m. Some (rte_pktmbuf_mtod m))))"

text \<open>The field \<open>ether_type\<close> behind a header pointer, in host order.\<close>

definition ether_type_of :: "ptr \<Rightarrow> nat option \<Rightarrow> ('x world, u16) exec" where
  "ether_type_of pkt hdr =
     (case hdr of None \<Rightarrow> fail BadPointer | Some e \<Rightarrow> on_mbuf pkt (load16 (e + 12)))"

text \<open>
  \<open>eth_hdr + 1\<close> is never \<open>NULL\<close>, so the test for it does nothing; a \<open>NULL\<close> packet is
  dereferenced.
\<close>

definition pkt_ipv4_hdr :: "ptr \<Rightarrow> ('x world, nat option) exec" where
  "pkt_ipv4_hdr pkt =
     bind (pkt_ether_hdr pkt) (\<lambda>eth_hdr.
     bind (ether_type_of pkt eth_hdr) (\<lambda>ether_type.
       if ether_type = 8 then ret (map_option (\<lambda>e. e + sizeof_ether_hdr) eth_hdr) else ret None))"

text \<open>The common body of the three transport headers: they differ in the protocol number.\<close>

definition pkt_l4_hdr :: "u8 \<Rightarrow> ptr \<Rightarrow> ('x world, nat option) exec" where
  "pkt_l4_hdr proto pkt =
     bind (pkt_ipv4_hdr pkt) (\<lambda>ipv4. case ipv4 of
       None \<Rightarrow> ret None
     | Some i \<Rightarrow>
         bind (on_mbuf pkt (load8 (i + 9))) (\<lambda>next_proto_id.
           if next_proto_id \<noteq> proto then ret None
           else on_mbuf pkt (gets (\<lambda>m.
             Some (rte_pktmbuf_mtod m + sizeof_ether_hdr + sizeof_ipv4_hdr)))))"

definition pkt_tcp_hdr :: "ptr \<Rightarrow> ('x world, nat option) exec" where
  "pkt_tcp_hdr pkt = pkt_l4_hdr IP_PROTOCOL_TCP pkt"

definition pkt_udp_hdr :: "ptr \<Rightarrow> ('x world, nat option) exec" where
  "pkt_udp_hdr pkt = pkt_l4_hdr IP_PROTOCOL_UDP pkt"

definition pkt_icmp_hdr :: "ptr \<Rightarrow> ('x world, nat option) exec" where
  "pkt_icmp_hdr pkt = pkt_l4_hdr IP_PROTOCOL_ICMP pkt"

text \<open>
  The accumulator is a \<open>uint16_t\<close>: each assignment keeps 16 bits, and shifting it right by
  16 gives 0.
\<close>

definition pkt_icmp_checksum :: "u16 \<Rightarrow> u16" where
  "pkt_icmp_checksum cksum0 =
     (let cksum = NOT cksum0 AND 0xffff;
          cksum = cksum + (NOT (bswap16 (push_bit 8 RTE_IP_ICMP_ECHO_REQUEST)) AND 0xffff);
          cksum = cksum + bswap16 (push_bit 8 RTE_IP_ICMP_ECHO_REPLY);
          cksum = (cksum AND 0xffff) + drop_bit 16 cksum;
          cksum = (cksum AND 0xffff) + drop_bit 16 cksum
      in NOT cksum)"

section \<open>ARP\<close>

definition pkt_arp_hdr :: "rte_mbuf \<Rightarrow> nat" where
  "pkt_arp_hdr m = rte_pktmbuf_mtod m + sizeof_ether_hdr"

text \<open>Whether the packet is an ARP request: the two guards both ARP functions start with.\<close>

definition is_arp_request :: "(rte_mbuf, bool) exec" where
  "is_arp_request =
     bind (gets rte_pktmbuf_mtod) (\<lambda>e.
     bind (load16 (e + 12)) (\<lambda>ether_type.
       if bswap16 ether_type \<noteq> RTE_ETHER_TYPE_ARP then ret False
       else
         bind (gets pkt_arp_hdr) (\<lambda>a.
         bind (load16 (a + 6)) (\<lambda>arp_opcode. ret (bswap16 arp_opcode = RTE_ARP_OP_REQUEST)))))"

definition pkt_detect_arp :: "ptr \<Rightarrow> u32 \<Rightarrow> ('x world, int) exec" where
  "pkt_detect_arp pkt local_ip =
     on_mbuf pkt (bind is_arp_request (\<lambda>req.
       if \<not> req then ret 0
       else
         bind (gets pkt_arp_hdr) (\<lambda>a.
         bind (load32 (a + 24)) (\<lambda>arp_tip.
           ret (if bswap32 arp_tip = local_ip then 1 else 0)))))"

text \<open>The packet that \<open>_pkt_arp_response\<close> fills in: every store it makes, in its order.\<close>

definition arp_fill :: "u8 list \<Rightarrow> u8 list \<Rightarrow> u32 \<Rightarrow> u32 \<Rightarrow> (rte_mbuf, unit) exec" where
  "arp_fill frm tha sip tip =
     bind (modify (\<lambda>m. m\<lparr>data_len := of_nat (sizeof_ether_hdr + sizeof_arp_hdr),
                         pkt_len := of_nat (sizeof_ether_hdr + sizeof_arp_hdr)\<rparr>)) (\<lambda>_.
     bind (gets rte_pktmbuf_mtod) (\<lambda>e.
     bind (store (e + 6) frm) (\<lambda>_.
     bind (store (e + 12) (le_bytes 2 (bswap16 RTE_ETHER_TYPE_ARP))) (\<lambda>_.
     bind (store e tha) (\<lambda>_.
     bind (gets pkt_arp_hdr) (\<lambda>a.
     bind (store a (le_bytes 2 (bswap16 RTE_ARP_HRD_ETHER))) (\<lambda>_.
     bind (store (a + 2) (le_bytes 2 (bswap16 RTE_ETHER_TYPE_IPV4))) (\<lambda>_.
     bind (store (a + 4) [of_nat RTE_ETHER_ADDR_LEN]) (\<lambda>_.
     bind (store (a + 5) [4]) (\<lambda>_.
     bind (store (a + 6) (le_bytes 2 (bswap16 RTE_ARP_OP_REPLY))) (\<lambda>_.
     bind (store (a + 8) frm) (\<lambda>_.
     bind (store (a + 14) (le_bytes 4 sip)) (\<lambda>_.
     bind (store (a + 18) tha) (\<lambda>_.
       store (a + 24) (le_bytes 4 tip)))))))))))))))"

definition pkt_arp_response :: "'x dpdk \<Rightarrow> ptr \<Rightarrow> ptr \<Rightarrow> ('x world, ptr) exec" where
  "pkt_arp_response D pkt mp =
     bind (on_mbuf pkt is_arp_request) (\<lambda>req.
       if \<not> req then ret null
       else
         bind (on_mbuf pkt (bind (gets rte_pktmbuf_mtod) (load 6))) (\<lambda>tha.
         bind (on_mbuf pkt (bind (gets rte_pktmbuf_mtod) (\<lambda>e. load 6 (e + 6)))) (\<lambda>frm.
         bind (on_mbuf pkt (bind (gets pkt_arp_hdr) (\<lambda>a. load32 (a + 14)))) (\<lambda>tip.
         bind (on_mbuf pkt (bind (gets pkt_arp_hdr) (\<lambda>a. load32 (a + 24)))) (\<lambda>sip.
         bind (call (rte_pktmbuf_alloc D mp)) (\<lambda>out_pkt.
           if out_pkt = null then ret null
           else bind (on_mbuf out_pkt (arp_fill frm tha sip tip)) (\<lambda>_. ret out_pkt)))))))"

section \<open>Ports\<close>

fun stop_and_close :: "'x dpdk \<Rightarrow> u16 list \<Rightarrow> 'x world \<Rightarrow> 'x world" where
  "stop_and_close D [] w = w"
| "stop_and_close D (p # ps) w =
     stop_and_close D ps (rte_eth_dev_close D p (rte_eth_dev_stop D p w))"

text \<open>The function ends in \<open>exit(0)\<close>: nothing after the call runs.\<close>

definition pkt_stop_and_close_ports :: "'x dpdk \<Rightarrow> ('x world, unit) exec" where
  "pkt_stop_and_close_ports D = (\<lambda>w. Exit 0 (stop_and_close D (rte_eth_ports D w) w))"

section \<open>Facts\<close>

named_theorems shim_simps "memory access of the shim"

lemma load_ok [shim_simps]:
  "i + n \<le> length (mb_buf m) \<Longrightarrow> load n i m = Ret (take n (drop i (mb_buf m))) m"
  by (simp add: load_def range_ok_def)

lemma load16_ok [shim_simps]:
  "i + 2 \<le> length (mb_buf m) \<Longrightarrow> load16 i m = Ret (le_word (take 2 (drop i (mb_buf m)))) m"
  by (simp add: load16_def load_ok exec_simps)

lemma load32_ok [shim_simps]:
  "i + 4 \<le> length (mb_buf m) \<Longrightarrow> load32 i m = Ret (le_word (take 4 (drop i (mb_buf m)))) m"
  by (simp add: load32_def load_ok exec_simps)

lemma load8_ok [shim_simps]:
  "i + 1 \<le> length (mb_buf m) \<Longrightarrow> load8 i m = Ret (mb_buf m ! i) m"
  by (simp add: load8_def load_ok exec_simps take_Suc_conv_app_nth [of 0] hd_drop_conv_nth
      le_word.simps)

lemma num_unat_commute [shim_simps]: "numeral k + unat x = unat x + numeral k"
  by simp

lemma take2_drop: "i + 2 \<le> length xs \<Longrightarrow> take 2 (drop i xs) = [xs ! i, xs ! (i + 1)]"
  by (simp add: numeral_2_eq_2 take_Suc_conv_app_nth)

lemma take4_drop:
  "i + 4 \<le> length xs \<Longrightarrow> take 4 (drop i xs) = [xs ! i, xs ! (i + 1), xs ! (i + 2), xs ! (i + 3)]"
  by (simp add: numeral_eq_Suc take_Suc_conv_app_nth)

lemma bit_le_word:
  "bit (le_word bs :: 'a::len word) k \<longleftrightarrow>
     k < LENGTH('a) \<and> k div 8 < length bs \<and> bit (bs ! (k div 8)) (k mod 8)"
proof (induction bs arbitrary: k)
  case (Cons b bs)
  show ?case
  proof (cases "k < 8")
    case True
    then show ?thesis by (auto simp: le_word.simps bit_simps)
  next
    case False
    moreover from False have "k div 8 = Suc ((k - 8) div 8)" "k mod 8 = (k - 8) mod 8"
      by (simp_all add: le_div_geq le_mod_geq)
    moreover have "\<not> bit b k"
      using False by (auto dest: bit_imp_le_length)
    ultimately show ?thesis using Cons.IH [of "k - 8"] by (auto simp: le_word.simps bit_simps)
  qed
qed (simp add: le_word.simps)

lemma length_le_bytes [simp]: "length (le_bytes n x) = n"
  by (induction n arbitrary: x) simp_all

lemma le_bytes_2: "le_bytes 2 x = [ucast x, ucast (drop_bit 8 x)]"
  by (simp add: numeral_2_eq_2)

lemma nth_le_bytes: "i < n \<Longrightarrow> le_bytes n x ! i = ucast (drop_bit (8 * i) x)"
  by (induction n arbitrary: x i) (auto simp: nth_Cons drop_bit_drop_bit add.commute split: nat.split)

lemma le_bytes_le_word:
  assumes "8 * length bs \<le> LENGTH('a::len)"
  shows "le_bytes (length bs) (le_word bs :: 'a word) = bs"
proof (rule nth_equalityI)
  fix i assume i: "i < length (le_bytes (length bs) (le_word bs :: 'a word))"
  have "bit (ucast (drop_bit (8 * i) (le_word bs :: 'a word)) :: u8) k = bit (bs ! i) k" for k
  proof (cases "k < 8")
    case True
    with i assms have "8 * i + k < LENGTH('a)" by simp
    with True i show ?thesis by (simp add: bit_simps bit_le_word)
  next
    case False
    then show ?thesis by (auto simp: bit_simps dest: bit_imp_le_length)
  qed
  with i show "le_bytes (length bs) (le_word bs :: 'a word) ! i = bs ! i"
    by (simp add: nth_le_bytes bit_eq_iff)
qed simp

lemma le_word_le_bytes:
  assumes "LENGTH('a::len) = 8 * n"
  shows "le_word (le_bytes n x) = (x :: 'a word)"
proof (rule bit_word_eqI)
  fix k assume k: "k < LENGTH('a)"
  then have "k div 8 < n" using assms by simp
  with k show "bit (le_word (le_bytes n x) :: 'a word) k = bit x k"
    by (simp add: bit_le_word nth_le_bytes bit_simps)
qed

lemma le_word_inject:
  assumes "length bs = length cs" "8 * length bs \<le> LENGTH('a::len)"
  shows "(le_word bs :: 'a word) = le_word cs \<longleftrightarrow> bs = cs"
  using le_bytes_le_word [of bs, where 'a = 'a] le_bytes_le_word [of cs, where 'a = 'a] assms
  by metis

lemma bswap_le_word:
  "bswap16 (le_word [a, b]) = le_word [b, a]" "bswap32 (le_word [a, b, c, d]) = le_word [d, c, b, a]"
  using le_bytes_le_word [of "[a, b]", where 'a = 16] le_bytes_le_word [of "[a, b, c, d]", where 'a = 32]
  by (simp_all add: bswap16_def bswap32_def numeral_eq_Suc)

lemma le_word_16: "(le_word [a, b] :: u16) = le_word [c, d] \<longleftrightarrow> a = c \<and> b = d"
  by (subst le_word_inject) auto

lemma bswap16_eq: "bswap16 (le_word [a, b]) = x \<longleftrightarrow> [b, a] = le_bytes 2 x"
proof -
  have "(le_word [b, a] = x) = ((le_word [b, a] :: u16) = le_word (le_bytes 2 x))"
    by (simp add: le_word_le_bytes)
  also have "\<dots> = ([b, a] = le_bytes 2 x)"
    by (rule le_word_inject) simp_all
  finally show ?thesis unfolding bswap_le_word .
qed

text \<open>The byte at position \<open>k\<close> of the packet's data.\<close>

lemma nth_mb_data:
  "wf_mbuf m \<Longrightarrow> k < length (mb_data m) \<Longrightarrow> mb_data m ! k = mb_buf m ! (unat (data_off m) + k)"
  using wf_bounds [of m] by (simp add: mb_data_def)

lemma data_in_buffer:
  "wf_mbuf m \<Longrightarrow> k \<le> length (mb_data m) \<Longrightarrow> unat (data_off m) + k \<le> length (mb_buf m)"
  by (simp add: wf_mbuf_def)

lemma ether_type_exec:
  assumes "wf_mbuf m" "14 \<le> length (mb_data m)"
  shows "load16 (unat (data_off m) + 12) m = Ret (le_word [mb_data m ! 12, mb_data m ! 13]) m"
  using data_in_buffer [OF assms] nth_mb_data [OF assms(1), of 12] nth_mb_data [OF assms(1), of 13] assms(2)
  by (simp add: load16_ok take2_drop shim_simps)

lemma pkt_ipv4_hdr_exec:
  assumes "wf_mbuf m" "14 \<le> length (mb_data m)" "mem w p = Some m" "p \<noteq> null"
  shows "pkt_ipv4_hdr p w = Ret (if mb_data m ! 12 = 8 \<and> mb_data m ! 13 = 0
      then Some (unat (data_off m) + 14) else None) w"
proof -
  have "(le_word [mb_data m ! 12, mb_data m ! 13] :: u16) = 8 \<longleftrightarrow> mb_data m ! 12 = 8 \<and> mb_data m ! 13 = 0"
    using le_word_16 [of "mb_data m ! 12" "mb_data m ! 13" 8 0] by (simp add: le_word.simps(2) [of 8] le_word.simps(2) [of 0] le_word.simps(1))
  with ether_type_exec [OF assms(1,2)] assms(3,4) show ?thesis
    by (simp add: pkt_ipv4_hdr_def pkt_ether_hdr_def ether_type_of_def rte_pktmbuf_mtod_def
        sizeof_ether_hdr_def exec_simps)
qed

lemma pkt_l4_hdr_exec:
  assumes "wf_mbuf m" "34 \<le> length (mb_data m)" "mem w p = Some m" "p \<noteq> null"
  shows "pkt_l4_hdr proto p w = Ret (if mb_data m ! 12 = 8 \<and> mb_data m ! 13 = 0 \<and> mb_data m ! 23 = proto
      then Some (unat (data_off m) + 34) else None) w"
proof -
  have "load8 (unat (data_off m) + 23) m = Ret (mb_data m ! 23) m"
    using data_in_buffer [OF assms(1), of 34] nth_mb_data [OF assms(1), of 23] assms(2)
    by (simp add: load8_ok)
  with pkt_ipv4_hdr_exec [OF assms(1) _ assms(3,4)] assms show ?thesis
    by (simp add: pkt_l4_hdr_def rte_pktmbuf_mtod_def sizeof_ether_hdr_def sizeof_ipv4_hdr_def shim_simps exec_simps)
qed

lemma is_arp_request_exec:
  assumes "wf_mbuf m" "42 \<le> length (mb_data m)"
  shows "is_arp_request m = Ret (mb_data m ! 12 = 8 \<and> mb_data m ! 13 = 6 \<and>
      mb_data m ! 20 = 0 \<and> mb_data m ! 21 = 1) m"
proof -
  have arp: "bswap16 (le_word [a, b]) = RTE_ETHER_TYPE_ARP \<longleftrightarrow> a = 8 \<and> b = 6"
    and req: "bswap16 (le_word [a, b]) = RTE_ARP_OP_REQUEST \<longleftrightarrow> a = 0 \<and> b = 1" for a b
    by (auto simp: bswap16_eq RTE_ETHER_TYPE_ARP_def RTE_ARP_OP_REQUEST_def le_bytes_2)
  have "load16 (unat (data_off m) + 20) m = Ret (le_word [mb_data m ! 20, mb_data m ! 21]) m"
    using data_in_buffer [OF assms(1), of 42] nth_mb_data [OF assms(1), of 20]
      nth_mb_data [OF assms(1), of 21] assms(2)
    by (simp add: load16_ok take2_drop shim_simps)
  with ether_type_exec [OF assms(1)] assms(2) show ?thesis
    by (auto simp: is_arp_request_def pkt_arp_hdr_def rte_pktmbuf_mtod_def sizeof_ether_hdr_def
        arp req shim_simps exec_simps)
qed

lemma load32_data:
  assumes "wf_mbuf m" "k + 4 \<le> length (mb_data m)"
  shows "load32 (unat (data_off m) + k) m = Ret (le_word (take 4 (drop k (mb_data m)))) m"
  using data_in_buffer [OF assms] nth_mb_data [OF assms(1), of k] nth_mb_data [OF assms(1), of "k + 1"]
    nth_mb_data [OF assms(1), of "k + 2"] nth_mb_data [OF assms(1), of "k + 3"] assms(2)
  by (simp add: load32_ok take4_drop add.assoc)

lemma load_data:
  assumes "wf_mbuf m" "k + n \<le> length (mb_data m)"
  shows "load n (unat (data_off m) + k) m = Ret (take n (drop k (mb_data m))) m"
  using data_in_buffer [OF assms] assms(2) wf_length_data [OF assms(1)]
  by (simp add: load_ok mb_data_def drop_take min_def add.commute)

section \<open>Properties\<close>

text \<open>C23: A packet with a complete Ethernet and IPv4 header has a TCP, UDP or ICMP header
  exactly when its EtherType bytes are 08 00 and its protocol byte is 6, 17 or 1: at most one of
  the three functions finds a header, and it is always the byte 34 of the data.\<close>

theorem transport_header_located:
  assumes "wf_mbuf m" "34 \<le> length (mb_data m)" "mem w p = Some m" "p \<noteq> null"
  shows "\<forall>(f, proto) \<in> {(pkt_tcp_hdr, 6), (pkt_udp_hdr, 17), (pkt_icmp_hdr, 1)}.
     f p w = Ret (if mb_data m ! 12 = 8 \<and> mb_data m ! 13 = 0 \<and> mb_data m ! 23 = proto
                  then Some (unat (data_off m) + 34) else None) w"
  using pkt_l4_hdr_exec [OF assms]
  by (simp add: pkt_tcp_hdr_def pkt_udp_hdr_def pkt_icmp_hdr_def IP_PROTOCOL_TCP_def
      IP_PROTOCOL_UDP_def IP_PROTOCOL_ICMP_def)

text \<open>An Ethernet and IPv4 header of a TCP packet from 10.0.0.1 to 10.0.0.2.\<close>

definition tcp_frame :: "u8 list" where
  "tcp_frame = [2, 0, 0, 0, 0, 2, 2, 0, 0, 0, 0, 1, 8, 0, 0x45, 0, 0, 20, 0, 0, 0, 0, 64, 6, 0, 0,
     10, 0, 0, 1, 10, 0, 0, 2]"

lemma ref_mbuf_data: "mb_data (ref_mbuf n mp bytes) = take (min ref_room_max n) bytes"
  unfolding mb_data_def ref_mbuf_def Let_def rte_mbuf.simps ref_data_off ref_data_len
  by (simp add: min_def)

lemma tcp_frame_data: "mb_data (ref_mbuf 64 7 tcp_frame) = tcp_frame" "length tcp_frame = 34"
  by (simp_all add: ref_mbuf_data ref_room_max_def ref_headroom_def tcp_frame_def)

lemma tcp_frame_fields:
  "tcp_frame ! 12 = 8" "tcp_frame ! 13 = 0" "tcp_frame ! 23 = 6"
  "take 4 (drop 26 tcp_frame) = [10, 0, 0, 1]" "take 4 (drop 30 tcp_frame) = [10, 0, 0, 2]"
  by (simp_all add: tcp_frame_def)

theorem transport_header_located_witness:
  "\<exists>(w :: ref_ext world) k. pkt_tcp_hdr 1 w = Ret (Some k) w \<and> pkt_udp_hdr 1 w = Ret None w \<and>
     mem w 1 = Some (ref_mbuf 64 7 tcp_frame)"
  using transport_header_located [OF ref_mbuf_wf, of 64 7 tcp_frame
      "ref_start\<lparr>mem := [1 \<mapsto> ref_mbuf 64 7 tcp_frame]\<rparr>" 1]
  by (intro exI [of _ "ref_start\<lparr>mem := [1 \<mapsto> ref_mbuf 64 7 tcp_frame]\<rparr>"])
    (simp add: tcp_frame_data tcp_frame_fields del: wf_length_data)

text \<open>\<open>_pkt_detect_arp\<close> returns 1 exactly for an ARP request whose target protocol address
  is the local one, and 0 for every other packet long enough to be one.\<close>

theorem detect_arp_exact:
  assumes "wf_mbuf m" "42 \<le> length (mb_data m)" "mem w p = Some m"
  shows "pkt_detect_arp p ip w = Ret (if mb_data m ! 12 = 8 \<and> mb_data m ! 13 = 6 \<and>
       mb_data m ! 20 = 0 \<and> mb_data m ! 21 = 1 \<and> le_word (rev (take 4 (drop 38 (mb_data m)))) = ip
     then 1 else 0) w"
proof -
  have t: "take 4 (drop 38 (mb_data m)) = [mb_data m ! 38, mb_data m ! 39, mb_data m ! 40, mb_data m ! 41]"
    using take4_drop [of 38 "mb_data m"] assms(2) by simp
  show ?thesis
  proof (cases "mb_data m ! 12 = 8 \<and> mb_data m ! 13 = 6 \<and> mb_data m ! 20 = 0 \<and> mb_data m ! 21 = 1")
    case True
    then show ?thesis
      using is_arp_request_exec [OF assms(1,2)] load32_data [OF assms(1), of 38] assms(2,3)
      by (simp add: pkt_detect_arp_def pkt_arp_hdr_def rte_pktmbuf_mtod_def sizeof_ether_hdr_def t
          bswap_le_word shim_simps exec_simps)
  next
    case False
    then have "is_arp_request m = Ret False m"
      using is_arp_request_exec [OF assms(1,2)] by auto
    with False assms(3) show ?thesis by (auto simp: pkt_detect_arp_def exec_simps)
  qed
qed

text \<open>The bytes of a small frame for the witnesses: an ARP request for 10.0.0.2 from 10.0.0.1.\<close>

definition arp_request_frame :: "u8 list" where
  "arp_request_frame = [255, 255, 255, 255, 255, 255, 2, 0, 0, 0, 0, 1, 8, 6, 0, 1, 8, 0, 6, 4, 0, 1,
     2, 0, 0, 0, 0, 1, 10, 0, 0, 1, 0, 0, 0, 0, 0, 0, 10, 0, 0, 2]"

lemma arp_frame_length: "length arp_request_frame = 42"
  by (simp add: arp_request_frame_def)

lemma arp_frame_data: "mb_data (ref_mbuf 64 7 arp_request_frame) = arp_request_frame"
  by (simp add: ref_mbuf_data ref_room_max_def ref_headroom_def arp_frame_length)

lemma arp_frame_fields:
  "arp_request_frame ! 12 = 8" "arp_request_frame ! 13 = 6" "arp_request_frame ! 20 = 0"
  "arp_request_frame ! 21 = 1" "take 4 (drop 38 arp_request_frame) = [10, 0, 0, 2]"
  by (simp_all add: arp_request_frame_def)

theorem detect_arp_exact_witness:
  "pkt_detect_arp 1 0x0A000002 (ref_start\<lparr>mem := [1 \<mapsto> ref_mbuf 64 7 arp_request_frame]\<rparr>)
     = Ret 1 (ref_start\<lparr>mem := [1 \<mapsto> ref_mbuf 64 7 arp_request_frame]\<rparr>)"
  using detect_arp_exact [OF ref_mbuf_wf, of 64 7 arp_request_frame
      "ref_start\<lparr>mem := [1 \<mapsto> ref_mbuf 64 7 arp_request_frame]\<rparr>" 1 "0x0A000002"]
  by (simp add: arp_frame_data arp_frame_length arp_frame_fields le_word.simps del: wf_length_data)

text \<open>
  The checksum update of RFC 1624 for a changed 16 bit field, in one's complement arithmetic,
  where the carry out of the top bit is added back.
\<close>

definition ones_add :: "u16 \<Rightarrow> u16 \<Rightarrow> u16" where
  "ones_add x y = (let s = unat x + unat y in of_nat (s mod 65536 + s div 65536))"

definition rfc1624_update :: "u16 \<Rightarrow> u16 \<Rightarrow> u16 \<Rightarrow> u16" where
  "rfc1624_update cksum old new = NOT (ones_add (ones_add (NOT cksum) (NOT old)) new)"

lemma bswap_icmp: "bswap16 (push_bit 8 RTE_IP_ICMP_ECHO_REQUEST) = 8" "bswap16 (push_bit 8 RTE_IP_ICMP_ECHO_REPLY) = 0"
  by (simp_all add: bswap16_def le_bytes_2 le_word.simps RTE_IP_ICMP_ECHO_REQUEST_def RTE_IP_ICMP_ECHO_REPLY_def)

lemma pkt_icmp_checksum_add: "pkt_icmp_checksum c = c + 9"
proof -
  have m: "x AND 0xffff = x" "drop_bit 16 x = 0" for x :: u16
  proof -
    have "(0xffff :: u16) = mask 16" by (simp add: mask_eq_exp_minus_1)
    then have "x AND 0xffff = take_bit 16 x" by (simp only: take_bit_eq_mask)
    then show "x AND 0xffff = x" by (simp add: take_bit_word_eq_self)
    show "drop_bit 16 x = 0" by (rule bit_word_eqI) (simp add: bit_simps bit_imp_le_length)
  qed
  show ?thesis
    by (simp add: pkt_icmp_checksum_def Let_def bswap_icmp m not_eq_complement)
qed

lemma ones_complement_update: "rfc1624_update c 8 0 = (if unat c \<le> 65526 then c + 8 else c + 9)"
proof -
  have c: "unat c < 65536" by (rule u16_bound)
  have nc: "unat (NOT c) = 65535 - unat c"
  proof -
    have "NOT c = of_nat (65535 - unat c)"
      using c by (simp add: not_eq_complement of_nat_diff)
    then show ?thesis by (simp add: unat_of_nat_small)
  qed
  have n8: "unat (NOT 8 :: u16) = 65527" by simp
  define s where "s = (if unat c \<le> 65526 then 65527 - unat c else 131062 - unat c)"
  have s: "ones_add (NOT c) (NOT 8) = of_nat s" "s < 65536"
  proof -
    show "s < 65536" using c by (auto simp: s_def)
    have "(65535 - unat c + 65527) mod 65536 + (65535 - unat c + 65527) div 65536 = s"
      using c by (auto simp: s_def mod_if div_if)
    then show "ones_add (NOT c) (NOT 8) = of_nat s"
      by (simp add: ones_add_def Let_def nc n8 del: of_nat_add)
  qed
  have "ones_add (of_nat s) 0 = of_nat s"
    using s(2) by (simp add: ones_add_def Let_def unat_of_nat_small)
  then have "rfc1624_update c 8 0 = NOT (of_nat s)"
    by (simp only: rfc1624_update_def s(1))
  then show ?thesis
    using c by (simp add: s_def not_eq_complement of_nat_diff)
qed

text \<open>C37: \<open>_pkt_icmp_checksum\<close> adds 9 to the checksum. The one's complement update of RFC 1624
  for turning an echo request into an echo reply adds 8, with the carry folded back in; the
  16 bit accumulator has lost that carry, so the result is right only for the nine checksums
  from 0xfff7 on.\<close>

theorem icmp_checksum_loses_carry:
  "pkt_icmp_checksum c = c + 9 \<and> (pkt_icmp_checksum c = rfc1624_update c 8 0 \<longleftrightarrow> 0xfff7 \<le> unat c)"
proof -
  have "c + 9 \<noteq> c + 8" by simp
  then show ?thesis
    by (auto simp: pkt_icmp_checksum_add ones_complement_update)
qed

section \<open>Answering an ARP request\<close>

lemma overwrite_append1 [simp]:
  "length xs \<le> k \<Longrightarrow> overwrite (xs @ ys) k zs = xs @ overwrite ys (k - length xs) zs"
  by (simp add: overwrite_def)

lemma overwrite_append2:
  "length zs = length xs \<Longrightarrow> overwrite (xs @ ys) 0 zs = zs @ ys"
  by (simp add: overwrite_def)

lemma overwrite_drop:
  "overwrite (drop n xs) 0 zs = zs @ drop (n + length zs) xs"
  by (simp add: overwrite_def add.commute)

lemma overwrite_Cons: "0 < k \<Longrightarrow> overwrite (x # xs) k zs = x # overwrite xs (k - 1) zs"
  by (cases k) (simp_all add: overwrite_def)

lemma store_ok:
  "i + length bs \<le> length (mb_buf m) \<Longrightarrow>
   store i bs m = Ret () (m\<lparr>mb_buf := overwrite (mb_buf m) i bs\<rparr>)"
  by (simp add: store_def ptr_write_def range_ok_def)

text \<open>The 42 bytes of an ARP reply with the given addresses.\<close>

definition arp_reply_bytes :: "u8 list \<Rightarrow> u8 list \<Rightarrow> u8 list \<Rightarrow> u8 list \<Rightarrow> u8 list" where
  "arp_reply_bytes frm tha sip tip =
     tha @ frm @ [8, 6] @ [0, 1] @ [8, 0] @ [6] @ [4] @ [0, 2] @ frm @ sip @ tha @ tip"

lemma arp_fill_exec:
  assumes "length (mb_buf m) = off + 42 + n" "off = unat (data_off m)"
    and "length frm = 6" "length tha = 6"
  shows "arp_fill frm tha sip tip m = Ret () (m\<lparr>
     mb_buf := take off (mb_buf m) @ arp_reply_bytes frm tha (le_bytes 4 sip) (le_bytes 4 tip) @
       drop (off + 42) (mb_buf m),
     data_len := 42, pkt_len := 42\<rparr>)"
proof -
  define pre a where "pre = take off (mb_buf m)" and "a = take 6 (drop off (mb_buf m))"
  define r where "r = drop off (mb_buf m)"
  have "r = a @ drop 6 r" unfolding a_def r_def by (simp only: append_take_drop_id)
  then have buf: "mb_buf m = pre @ a @ drop 6 r"
    unfolding pre_def r_def by (metis append_take_drop_id)
  have len: "length pre = off" "length a = 6" "length r = 42 + n"
    using assms(1) by (simp_all add: pre_def a_def r_def)
  have be: "le_bytes 2 (bswap16 RTE_ETHER_TYPE_ARP) = [8, 6]"
    "le_bytes 2 (bswap16 RTE_ARP_HRD_ETHER) = [0, 1]"
    "le_bytes 2 (bswap16 RTE_ETHER_TYPE_IPV4) = [8, 0]"
    "le_bytes 2 (bswap16 RTE_ARP_OP_REPLY) = [0, 2]"
    by (simp_all add: bswap16_def le_bytes_2 le_word.simps RTE_ETHER_TYPE_ARP_def
        RTE_ARP_HRD_ETHER_def RTE_ETHER_TYPE_IPV4_def RTE_ARP_OP_REPLY_def)
  show ?thesis
    using assms(2-4) len
    by (simp add: arp_fill_def rte_pktmbuf_mtod_def pkt_arp_hdr_def sizeof_ether_hdr_def sizeof_arp_hdr_def
        RTE_ETHER_ADDR_LEN_def be exec_simps store_ok buf overwrite_append2 overwrite_drop
        overwrite_Cons arp_reply_bytes_def)
qed

context pool_api
begin

lemma pkt_arp_response_exec:
  assumes wf: "wf_mbuf m" "42 \<le> length (mb_data m)" "mem w p = Some m"
    and arp: "mb_data m ! 12 = 8" "mb_data m ! 13 = 6" "mb_data m ! 20 = 0" "mb_data m ! 21 = 1"
    and pool: "0 < v_avail (view (ext w)) mp" "finite (dom (mem w))" "42 \<le> v_room (view (ext w)) mp"
  shows "\<exists>out mo w'. pkt_arp_response D p mp w = Ret out w' \<and> mem w out = None \<and>
     mem w' = (mem w)(out \<mapsto> mo) \<and> wf_mbuf mo \<and> mb_data mo = arp_reply_bytes
       (take 6 (drop 6 (mb_data m))) (take 6 (mb_data m))
       (take 4 (drop 38 (mb_data m))) (take 4 (drop 28 (mb_data m)))"
proof -
  let ?d = "mb_data m"
  obtain out m1 w1 where al: "rte_pktmbuf_alloc D mp w = (out, w1)" "out \<noteq> null" "mem w out = None"
      "fresh_mbuf mp (v_room (view (ext w)) mp) m1" "mem w1 = (mem w)(out \<mapsto> m1)"
    using alloc_some [OF pool(1,2)] by blast
  define n off where "n = v_room (view (ext w)) mp - 42" and "off = unat (data_off m1)"
  have m1: "wf_mbuf m1" "length (mb_buf m1) = off + 42 + n"
  proof -
    show "wf_mbuf m1" using al(4) by (simp add: fresh_mbuf_def)
    then have "length (mb_buf m1) = off + v_room (view (ext w)) mp"
      using fresh_room [OF al(4)] wf_bounds(3) [of m1] by (simp add: off_def)
    then show "length (mb_buf m1) = off + 42 + n" using pool(3) by (simp add: n_def)
  qed
  let ?sip = "le_word (take 4 (drop 38 ?d)) :: u32" and ?tip = "le_word (take 4 (drop 28 ?d)) :: u32"
  have four: "length (take 4 (drop 38 ?d)) = 4" "length (take 4 (drop 28 ?d)) = 4"
    using wf(2) by (simp_all del: wf_length_data)
  have b: "le_bytes 4 ?sip = take 4 (drop 38 ?d)" "le_bytes 4 ?tip = take 4 (drop 28 ?d)"
    using le_bytes_le_word [of "take 4 (drop 38 ?d)", where 'a = 32, unfolded four(1)]
      le_bytes_le_word [of "take 4 (drop 28 ?d)", where 'a = 32, unfolded four(2)] by simp_all
  define mo where "mo = m1\<lparr>mb_buf := take off (mb_buf m1) @
      arp_reply_bytes (take 6 (drop 6 ?d)) (take 6 ?d) (take 4 (drop 38 ?d)) (take 4 (drop 28 ?d)) @
      drop (off + 42) (mb_buf m1), data_len := 42, pkt_len := 42\<rparr>"
  have fill: "arp_fill (take 6 (drop 6 ?d)) (take 6 ?d) ?sip ?tip m1 = Ret () mo"
    using arp_fill_exec [OF m1(2) off_def, of "take 6 (drop 6 ?d)" "take 6 ?d" ?sip ?tip] wf(2)
    by (simp add: b mo_def del: wf_length_data)
  have "length (arp_reply_bytes (take 6 (drop 6 ?d)) (take 6 ?d) (take 4 (drop 38 ?d)) (take 4 (drop 28 ?d))) = 42"
    using wf(2) by (simp add: arp_reply_bytes_def del: wf_length_data)
  then have mo: "wf_mbuf mo" "mb_data mo = arp_reply_bytes (take 6 (drop 6 ?d)) (take 6 ?d)
      (take 4 (drop 38 ?d)) (take 4 (drop 28 ?d))"
    using m1 by (simp_all add: mo_def wf_mbuf_def mb_data_def off_def)
  have loads: "load 6 (unat (data_off m)) m = Ret (take 6 ?d) m"
    "load 6 (unat (data_off m) + 6) m = Ret (take 6 (drop 6 ?d)) m"
    "load32 (unat (data_off m) + 28) m = Ret ?tip m" "load32 (unat (data_off m) + 38) m = Ret ?sip m"
    using load_data [OF wf(1), of 0 6] load_data [OF wf(1), of 6 6] load32_data [OF wf(1), of 28]
      load32_data [OF wf(1), of 38] wf(2) by (simp_all del: wf_length_data)
  have "pkt_arp_response D p mp w = Ret out (w1\<lparr>mem := (mem w1)(out \<mapsto> mo)\<rparr>)"
    using is_arp_request_exec [OF wf(1,2)] arp wf(3) al loads fill
    by (simp add: pkt_arp_response_def rte_pktmbuf_mtod_def pkt_arp_hdr_def sizeof_ether_hdr_def
        shim_simps exec_simps)
  then show ?thesis using al mo by auto
qed

end

text \<open>C36: \<open>_pkt_arp_response\<close> answers every ARP request, given a free buffer with room for it, with
  a well-formed packet of 42 bytes. It swaps the protocol addresses but not the hardware
  addresses: the reply goes to the Ethernet destination of the request, comes from the requester
  and maps the requested address to the requester's own hardware address.\<close>

theorem arp_response_bytes:
  assumes "pool_api D view"
    and "wf_mbuf m" "42 \<le> length (mb_data m)" "mem w p = Some m"
    and "mb_data m ! 12 = 8" "mb_data m ! 13 = 6" "mb_data m ! 20 = 0" "mb_data m ! 21 = 1"
    and "0 < v_avail (view (ext w)) mp" "finite (dom (mem w))" "42 \<le> v_room (view (ext w)) mp"
  shows "\<exists>out mo w'. pkt_arp_response D p mp w = Ret out w' \<and> mem w out = None \<and>
     mem w' = (mem w)(out \<mapsto> mo) \<and> wf_mbuf mo \<and> mb_data mo = arp_reply_bytes
       (take 6 (drop 6 (mb_data m))) (take 6 (mb_data m))
       (take 4 (drop 38 (mb_data m))) (take 4 (drop 28 (mb_data m)))"
  using pool_api.pkt_arp_response_exec [OF assms] .

theorem arp_response_bytes_witness:
  "\<exists>out mo w'. pkt_arp_response ref_dpdk 1 7 (ref_start\<lparr>mem := [1 \<mapsto> ref_mbuf 64 7 arp_request_frame]\<rparr>)
       = Ret out w' \<and> mem w' out = Some mo \<and>
     take 14 (mb_data mo) = take 14 arp_request_frame"
proof -
  have "take 14 (arp_reply_bytes (take 6 (drop 6 arp_request_frame)) (take 6 arp_request_frame) s t) =
      take 14 arp_request_frame" for s t
    by (simp add: arp_reply_bytes_def arp_request_frame_def)
  then show ?thesis
    using arp_response_bytes [OF ref.pool_api_axioms ref_mbuf_wf, of 64 7 arp_request_frame
      "ref_start\<lparr>mem := [1 \<mapsto> ref_mbuf 64 7 arp_request_frame]\<rparr>" 1 7]
    by (auto simp: arp_frame_data arp_frame_length arp_frame_fields simp del: wf_length_data)
qed

end
