(* ===== verification/Net.thy ===== *)
theory Net
  imports Shim
begin

text \<open>
  \<^verbatim>\<open>l3enginelib/src/net\<close>: reading the IPv4 addresses of a packet, the error of MAC address
  queries, and the MAC address wrapper. An \<open>Ipv4Addr\<close> is the quadruple of its octets.
\<close>

type_synonym Ipv4Addr = "u8 \<times> u8 \<times> u8 \<times> u8"

section \<open>IPv4 headers\<close>

record rte_ipv4_hdr =
  version_ihl :: u8
  type_of_service :: u8
  total_length :: u16
  packet_id :: u16
  fragment_offset :: u16
  time_to_live :: u8
  next_proto_id :: u8
  hdr_checksum :: u16
  src_addr :: u32
  dst_addr :: u32

definition ipv4_hdr_of_bytes :: "u8 list \<Rightarrow> rte_ipv4_hdr" where
  "ipv4_hdr_of_bytes bs = \<lparr>version_ihl = bs ! 0, type_of_service = bs ! 1,
     total_length = le_word (take 2 (drop 2 bs)), packet_id = le_word (take 2 (drop 4 bs)),
     fragment_offset = le_word (take 2 (drop 6 bs)), time_to_live = bs ! 8, next_proto_id = bs ! 9,
     hdr_checksum = le_word (take 2 (drop 10 bs)), src_addr = le_word (take 4 (drop 12 bs)),
     dst_addr = le_word (take 4 (drop 16 bs))\<rparr>"

text \<open>\<open>Ipv4Hdr::from_mbuf\<close> dereferences what \<open>_pkt_ipv4_hdr\<close> returns without a test.\<close>

definition Ipv4Hdr_from_mbuf :: "ptr \<Rightarrow> ('x world, rte_ipv4_hdr) exec" where
  "Ipv4Hdr_from_mbuf buf =
     bind (pkt_ipv4_hdr buf) (\<lambda>hdr. case hdr of
       None \<Rightarrow> fail BadPointer
     | Some i \<Rightarrow> on_mbuf buf (bind (load sizeof_ipv4_hdr i) (\<lambda>bs. ret (ipv4_hdr_of_bytes bs))))"

definition convert :: "u32 \<Rightarrow> Ipv4Addr" where
  "convert ip = (ucast (drop_bit 24 ip AND 0xFF), ucast (drop_bit 16 ip AND 0xFF),
                 ucast (drop_bit 8 ip AND 0xFF), ucast (ip AND 0xFF))"

definition get_src_addr :: "rte_ipv4_hdr \<Rightarrow> Ipv4Addr" where
  "get_src_addr self = convert (src_addr self)"

definition get_dst_addr :: "rte_ipv4_hdr \<Rightarrow> Ipv4Addr" where
  "get_dst_addr self = convert (dst_addr self)"

section \<open>MAC addresses\<close>

datatype MacError = InvalidID u8 | OtherErr int

definition MacError_of_errno :: "u8 \<Rightarrow> int \<Rightarrow> MacError" where
  "MacError_of_errno mid errno = (if errno = ENODEV then InvalidID mid else OtherErr errno)"

definition MacError_new :: "u8 \<Rightarrow> ('x world, MacError) exec" where
  "MacError_new mid = gets (\<lambda>w. MacError_of_errno mid (rte_errno w))"

record rte_ether_addr =
  addr_bytes :: "u8 list"

datatype MacAddr = MacAddr "u8 list"

fun into_ether_addr :: "MacAddr \<Rightarrow> rte_ether_addr" where
  "into_ether_addr (MacAddr b) = \<lparr>addr_bytes = b\<rparr>"

definition from_ether_addr :: "rte_ether_addr \<Rightarrow> MacAddr" where
  "from_ether_addr mac = MacAddr (addr_bytes mac)"

text \<open>\<open>EthernetAddress::from_bytes\<close> of smoltcp is a parameter.\<close>

fun to_ethernetaddr :: "(u8 list \<Rightarrow> 'e) \<Rightarrow> MacAddr \<Rightarrow> 'e" where
  "to_ethernetaddr EthernetAddress_from_bytes (MacAddr b) = EthernetAddress_from_bytes b"

section \<open>Facts\<close>

lemma ucast_and_FF: "(ucast (x AND 0xFF :: u32) :: u8) = ucast x"
proof -
  have "(0xFF :: u32) = mask 8" by (simp add: mask_eq_exp_minus_1)
  then have "x AND 0xFF = take_bit 8 x" by (simp only: take_bit_eq_mask)
  then show ?thesis by (auto simp: bit_eq_iff bit_simps)
qed

lemma convert_le_word: "convert (le_word [a, b, c, d]) = (d, c, b, a)"
  using le_bytes_le_word [of "[a, b, c, d]", where 'a = 32]
  by (simp add: convert_def ucast_and_FF numeral_eq_Suc drop_bit_drop_bit)

lemma Ipv4Hdr_from_mbuf_exec:
  assumes "wf_mbuf m" "34 \<le> length (mb_data m)" "mem w p = Some m" "p \<noteq> null"
  shows "Ipv4Hdr_from_mbuf p w =
     (if mb_data m ! 12 = 8 \<and> mb_data m ! 13 = 0
      then Ret (ipv4_hdr_of_bytes (take 20 (drop 14 (mb_data m)))) w else Fault BadPointer w)"
  using pkt_ipv4_hdr_exec [OF assms(1) _ assms(3,4)] load_data [OF assms(1), of 14 20] assms(2,3)
  by (simp add: Ipv4Hdr_from_mbuf_def sizeof_ipv4_hdr_def exec_simps)

lemma take4_drop20:
  "34 \<le> length d \<Longrightarrow> k \<le> 16 \<Longrightarrow>
   take 4 (drop k (take 20 (drop 14 d))) = [d ! (14 + k), d ! (15 + k), d ! (16 + k), d ! (17 + k)]"
  by (subst take4_drop) (auto simp: add.commute add.left_commute)

section \<open>Properties\<close>

text \<open>C32: For an IPv4 packet of at least 34 bytes, \<open>get_src_addr\<close> and \<open>get_dst_addr\<close> give the octets of the header's
  addresses in reverse: the field holds network byte order and is taken apart as a host integer,
  so 10.0.0.1 reads as 1.0.0.10. For any other packet of that length \<open>from_mbuf\<close> dereferences a null pointer.\<close>

theorem ipv4_addresses_reversed:
  assumes "wf_mbuf m" "34 \<le> length (mb_data m)" "mem w p = Some m" "p \<noteq> null"
  shows "if mb_data m ! 12 = 8 \<and> mb_data m ! 13 = 0
     then \<exists>h. Ipv4Hdr_from_mbuf p w = Ret h w \<and>
       get_src_addr h = (mb_data m ! 29, mb_data m ! 28, mb_data m ! 27, mb_data m ! 26) \<and>
       get_dst_addr h = (mb_data m ! 33, mb_data m ! 32, mb_data m ! 31, mb_data m ! 30)
     else Ipv4Hdr_from_mbuf p w = Fault BadPointer w"
  using Ipv4Hdr_from_mbuf_exec [OF assms] take4_drop20 [OF assms(2), of 12] take4_drop20 [OF assms(2), of 16]
  by (simp add: get_src_addr_def get_dst_addr_def ipv4_hdr_of_bytes_def convert_le_word del: wf_length_data)

theorem ipv4_addresses_reversed_witness:
  "\<exists>h (w :: ref_ext world). Ipv4Hdr_from_mbuf 1 w = Ret h w \<and> get_src_addr h = (1, 0, 0, 10) \<and>
     mem w 1 = Some (ref_mbuf 64 7 tcp_frame)"
proof -
  let ?w = "ref_start\<lparr>mem := [1 \<mapsto> ref_mbuf 64 7 tcp_frame]\<rparr>"
  have "tcp_frame ! 26 = 10" "tcp_frame ! 27 = 0" "tcp_frame ! 28 = 0" "tcp_frame ! 29 = 1"
    by (simp_all add: tcp_frame_def)
  then show ?thesis
    using ipv4_addresses_reversed [OF ref_mbuf_wf, of 64 7 tcp_frame ?w 1]
    by (auto simp: tcp_frame_data tcp_frame_fields simp del: wf_length_data intro!: exI [of _ ?w])
qed

end
