(* ===== verification/Engine.thy ===== *)
theory Engine
  imports Memring Pools Port Net
begin

text \<open>
  The engine process: \<^verbatim>\<open>l3enginelib/src/main.rs\<close> and its modules \<^verbatim>\<open>rxbin.rs\<close> and
  \<^verbatim>\<open>txbin.rs\<close>. The global \<open>Storage\<close> cells are the fields of the engine's state; the
  queues are \<open>SegQueue\<close>s and the channel map is a \<open>RingClientMap\<close>, both parameters.
\<close>

section \<open>State\<close>

record ('q, 'm, 'x) engine =
  wld :: "'x world"
  MEMPOOL :: ptr
  PROC_CHANNEL :: 'm
  OUT_PKTS :: 'q
  TO_PACKETISER :: 'q
  FROM_PACKETISER :: 'q

definition PACKETISER_ID :: u16 where "PACKETISER_ID = 1"
definition PROCESSOR_THREAD :: u16 where "PROCESSOR_THREAD = 1"
definition G_MEMPOOL_NAME :: string where "G_MEMPOOL_NAME = ''GLOBAL_MEMPOOL''"

text \<open>A call that only touches DPDK and the message buffers.\<close>

definition in_world :: "('x world, 'a) exec \<Rightarrow> (('q, 'm, 'x) engine, 'a) exec" where
  "in_world f = (\<lambda>s. case f (wld s) of
       Ret a w \<Rightarrow> Ret a (s\<lparr>wld := w\<rparr>)
     | Fault e w \<Rightarrow> Fault e (s\<lparr>wld := w\<rparr>)
     | Exit c w \<Rightarrow> Exit c (s\<lparr>wld := w\<rparr>)
     | OutOfFuel \<Rightarrow> OutOfFuel)"

text \<open>\<open>ports[0]\<close>.\<close>

definition first_port :: "Port list \<Rightarrow> ('s, Port) exec" where
  "first_port ports = (case ports of [] \<Rightarrow> fail IndexOutOfBounds | p # _ \<Rightarrow> ret p)"

definition lcore_queue :: "'x dpdk \<Rightarrow> (('q, 'm, 'x) engine, u16) exec" where
  "lcore_queue D = gets (\<lambda>s. ucast (rte_lcore_id D (wld s)))"

section \<open>rxbin\<close>

text \<open>The loop over the received packets; its result is \<open>cnt\<close>.\<close>

fun classify_pkts ::
  "'x dpdk \<Rightarrow> ('q, ptr) segq \<Rightarrow> nat \<Rightarrow> ptr list \<Rightarrow> (('q, 'm, 'x) engine, nat) exec" where
  "classify_pkts D Q cnt [] = ret cnt"
| "classify_pkts D Q cnt (pkt # pkts) =
     bind (in_world (pkt_ether_hdr pkt)) (\<lambda>ether_hdr.
       if ether_hdr \<noteq> None then
         bind (in_world (ether_type_of pkt ether_hdr)) (\<lambda>ether_type.
           if ether_type \<noteq> 0 then
             bind (modify (\<lambda>s. s\<lparr>TO_PACKETISER := sq_push Q pkt (TO_PACKETISER s)\<rparr>)) (\<lambda>_.
               classify_pkts D Q (cnt + 1) pkts)
           else bind (in_world (Mbuf_drop D pkt)) (\<lambda>_. classify_pkts D Q cnt pkts))
       else bind (in_world (Mbuf_drop D pkt)) (\<lambda>_. classify_pkts D Q cnt pkts))"

definition get_external_pkts ::
  "'x dpdk \<Rightarrow> ('q, ptr) segq \<Rightarrow> Port list \<Rightarrow> (('q, 'm, 'x) engine, usize) exec" where
  "get_external_pkts D Q ports =
     bind (lcore_queue D) (\<lambda>queue_id.
     bind (first_port ports) (\<lambda>port.
     bind (in_world (Port_receive D port queue_id)) (\<lambda>pkts.
     bind (classify_pkts D Q 0 pkts) (\<lambda>cnt. ret (length pkts)))))"

text \<open>The loop that allocates up to \<open>n\<close> buffers and stops at the first failure.\<close>

fun alloc_bufs :: "'x dpdk \<Rightarrow> ptr list \<Rightarrow> nat \<Rightarrow> (('q, 'm, 'x) engine, ptr list) exec" where
  "alloc_bufs D pkts 0 = ret pkts"
| "alloc_bufs D pkts (Suc n) =
     bind (gets MEMPOOL) (\<lambda>mp.
     bind (in_world (Mbuf_new D mp)) (\<lambda>r. case r of
       Inr buf \<Rightarrow> alloc_bufs D (pkts @ [buf]) n
     | Inl _ \<Rightarrow> ret pkts))"

text \<open>
  The receiving loop: a buffer that got a packet goes to \<open>OUT_PKTS\<close>; at the first error
  the buffer in hand and the rest are dropped. The result is \<open>s_len\<close>.
\<close>

fun receive_bufs ::
  "('m, u16, Channel) chm \<Rightarrow> 'x dpdk \<Rightarrow> ('q, ptr) segq \<Rightarrow> nat \<Rightarrow> ptr list \<Rightarrow>
   (('q, 'm, 'x) engine, nat) exec" where
  "receive_bufs C D Q s_len [] = ret s_len"
| "receive_bufs C D Q s_len (pkt # pkts) =
     bind (gets PROC_CHANNEL) (\<lambda>ch.
     bind (in_world (RingClientMap_receive C D ch PROCESSOR_THREAD pkt)) (\<lambda>r. case r of
       Inr _ \<Rightarrow>
         bind (modify (\<lambda>s. s\<lparr>OUT_PKTS := sq_push Q pkt (OUT_PKTS s)\<rparr>)) (\<lambda>_.
           receive_bufs C D Q (s_len + 1) pkts)
     | Inl _ \<Rightarrow> bind (in_world (Mbuf_drop_all D (pkt # pkts))) (\<lambda>_. ret s_len)))"

definition get_from_packetiser ::
  "('m, u16, Channel) chm \<Rightarrow> 'x dpdk \<Rightarrow> ('q, ptr) segq \<Rightarrow> (('q, 'm, 'x) engine, usize) exec" where
  "get_from_packetiser C D Q =
     bind (gets (\<lambda>s. sq_len Q (FROM_PACKETISER s))) (\<lambda>len.
     bind (alloc_bufs D [] len) (\<lambda>pkts.
     bind (receive_bufs C D Q 0 pkts) (\<lambda>s_len. ret (len - s_len))))"

section \<open>txbin\<close>

text \<open>
  \<open>while let Some(pkt) = q.pop()\<close>. The fuel of each loop is one more than the length of the
  queue it empties, which is enough.
\<close>

fun drain_out :: "('q, ptr) segq \<Rightarrow> nat \<Rightarrow> ptr list \<Rightarrow> (('q, 'm, 'x) engine, ptr list) exec" where
  "drain_out Q 0 pkts = (\<lambda>s. OutOfFuel)"
| "drain_out Q (Suc n) pkts =
     bind (call (\<lambda>s. case sq_pop Q (OUT_PKTS s) of (r, q) \<Rightarrow> (r, s\<lparr>OUT_PKTS := q\<rparr>))) (\<lambda>r. case r of
       None \<Rightarrow> ret pkts
     | Some pkt \<Rightarrow> drain_out Q n (pkts @ [pkt]))"

definition tx_queue :: "u16 \<Rightarrow> u16" where "tx_queue queue_id = queue_id XOR 1"

definition send_pkts_out ::
  "'x dpdk \<Rightarrow> ('q, ptr) segq \<Rightarrow> Port list \<Rightarrow> (('q, 'm, 'x) engine, usize) exec" where
  "send_pkts_out D Q ports =
     bind (lcore_queue D) (\<lambda>queue_id.
     bind (gets OUT_PKTS) (\<lambda>out_pkts.
       if sq_is_empty Q out_pkts then ret 0
       else
         bind (drain_out Q (Suc (sq_len Q out_pkts)) []) (\<lambda>pkts.
         bind (first_port ports) (\<lambda>port. in_world (Port_send D port pkts (tx_queue queue_id))))))"

fun drain_to_packetiser ::
  "('m, u16, Channel) chm \<Rightarrow> 'x dpdk \<Rightarrow> ('q, ptr) segq \<Rightarrow> nat \<Rightarrow> nat \<Rightarrow>
   (('q, 'm, 'x) engine, usize) exec" where
  "drain_to_packetiser C D Q 0 len = (\<lambda>s. OutOfFuel)"
| "drain_to_packetiser C D Q (Suc n) len =
     bind (call (\<lambda>s. case sq_pop Q (TO_PACKETISER s) of (r, q) \<Rightarrow> (r, s\<lparr>TO_PACKETISER := q\<rparr>))) (\<lambda>r.
       case r of
         None \<Rightarrow> ret len
       | Some pkt \<Rightarrow>
           bind (gets PROC_CHANNEL) (\<lambda>ch.
           bind (in_world (RingClientMap_send C D ch PROCESSOR_THREAD pkt)) (\<lambda>r. case r of
             Inr _ \<Rightarrow> drain_to_packetiser C D Q n (len + 1)
           | Inl _ \<Rightarrow> ret len)))"

definition send_to_packetiser ::
  "('m, u16, Channel) chm \<Rightarrow> 'x dpdk \<Rightarrow> ('q, ptr) segq \<Rightarrow> (('q, 'm, 'x) engine, usize) exec" where
  "send_to_packetiser C D Q =
     bind (gets TO_PACKETISER) (\<lambda>ring_pkts.
       if sq_is_empty Q ring_pkts then ret 0
       else drain_to_packetiser C D Q (Suc (sq_len Q ring_pkts)) 0)"

section \<open>main\<close>

definition rx_iteration ::
  "('m, u16, Channel) chm \<Rightarrow> 'x dpdk \<Rightarrow> ('q, ptr) segq \<Rightarrow> Port list \<Rightarrow> (('q, 'm, 'x) engine, unit) exec" where
  "rx_iteration C D Q ports =
     bind (get_external_pkts D Q ports) (\<lambda>_.
     bind (send_to_packetiser C D Q) (\<lambda>_. ret ()))"

definition tx_iteration ::
  "('m, u16, Channel) chm \<Rightarrow> 'x dpdk \<Rightarrow> ('q, ptr) segq \<Rightarrow> Port list \<Rightarrow> (('q, 'm, 'x) engine, unit) exec" where
  "tx_iteration C D Q ports =
     bind (get_from_packetiser C D Q) (\<lambda>_.
     bind (send_pkts_out D Q ports) (\<lambda>_. ret ()))"

text \<open>
  A loop \<open>while kr.load()\<close> whose flag is found set \<open>n\<close> times before the signal handler
  clears it.
\<close>

fun run_loop :: "nat \<Rightarrow> ('s, unit) exec \<Rightarrow> ('s, unit) exec" where
  "run_loop 0 body = ret ()"
| "run_loop (Suc n) body = bind body (\<lambda>_. run_loop n body)"

definition rx_thread_main ::
  "('m, u16, Channel) chm \<Rightarrow> 'x dpdk \<Rightarrow> ('q, ptr) segq \<Rightarrow> nat \<Rightarrow> Port list \<Rightarrow>
   (('q, 'm, 'x) engine, unit) exec" where
  "rx_thread_main C D Q n ports = run_loop n (rx_iteration C D Q ports)"

definition tx_thread_main ::
  "('m, u16, Channel) chm \<Rightarrow> 'x dpdk \<Rightarrow> ('q, ptr) segq \<Rightarrow> nat \<Rightarrow> Port list \<Rightarrow>
   (('q, 'm, 'x) engine, unit) exec" where
  "tx_thread_main C D Q n ports = run_loop n (tx_iteration C D Q ports)"

definition engine_iteration ::
  "('m, u16, Channel) chm \<Rightarrow> 'x dpdk \<Rightarrow> ('q, ptr) segq \<Rightarrow> Port list \<Rightarrow> (('q, 'm, 'x) engine, unit) exec" where
  "engine_iteration C D Q ports =
     bind (get_external_pkts D Q ports) (\<lambda>rx_sz.
     bind (send_to_packetiser C D Q) (\<lambda>_.
     bind (get_from_packetiser C D Q) (\<lambda>_.
     bind (send_pkts_out D Q ports) (\<lambda>tx_sz. ret ()))))"

definition main_args :: "string list" where
  "main_args = [''-l 0-1'', ''-n 4'', ''--proc-type=primary'', ''--base-virtaddr=0x7f000000000'',
     ''--'', ''-p 3'', ''-n 2'']"

definition main_cores :: "u32 list" where "main_cores = [0, 1]"

text \<open>
  The part of \<open>main\<close> up to the loop. Whether ZeroMQ gives a socket, binds it and delivers
  the packetiser's message is decided by the outside: \<open>zmq_socket\<close>, \<open>zmq_bind\<close> and
  \<open>zmq_recv\<close>.
\<close>

definition main_setup ::
  "('m, u16, Channel) chm \<Rightarrow> 'x dpdk \<Rightarrow> bool \<Rightarrow> bool \<Rightarrow> bool \<Rightarrow> bool \<Rightarrow>
   ('x world, ptr \<times> Port list \<times> 'm) exec" where
  "main_setup C D oc zmq_socket zmq_bind zmq_recv =
     bind (eal_init D main_args) (\<lambda>r.
     bind (unwrap_result r) (\<lambda>_.
     bind (Mempool_new D G_MEMPOOL_NAME) (\<lambda>r. case r of
       Inl e \<Rightarrow> fail Explicit
     | Inr mempool \<Rightarrow>
         bind (Port_new D ''port0'' 0) (\<lambda>r.
         bind (unwrap_result r) (\<lambda>p.
         bind (Port_configure D oc p (of_nat (length main_cores)) mempool) (\<lambda>r.
         bind (unwrap_result r) (\<lambda>_.
         bind (Port_start D p) (\<lambda>r.
         bind (unwrap_result r) (\<lambda>_.
         bind (Memzone_new D ''TEST_MEMZONE'' (unat size_of_rte_mbuf * 10)) (\<lambda>r.
         bind (unwrap_result r) (\<lambda>memzone.
         bind (RingClientMap_add_client C D (RingClientMap_new C) PACKETISER_ID) (\<lambda>(r, ringmap).
         bind (unwrap_result r) (\<lambda>_.
           if \<not> zmq_socket then fail Unwrap
           else if \<not> zmq_bind then fail Assertion
           else if \<not> zmq_recv then fail Unwrap
           else ret (mempool, [p], ringmap))))))))))))))"

text \<open>Running an engine from the world \<open>main\<close> has set up.\<close>

definition with_engine ::
  "('q, 'm, 'x) engine \<Rightarrow> (('q, 'm, 'x) engine, 'a) exec \<Rightarrow> ('x world, 'a) exec" where
  "with_engine s0 f = (\<lambda>w. case f (s0\<lparr>wld := w\<rparr>) of
       Ret a s \<Rightarrow> Ret a (wld s)
     | Fault e s \<Rightarrow> Fault e (wld s)
     | Exit c s \<Rightarrow> Exit c (wld s)
     | OutOfFuel \<Rightarrow> OutOfFuel)"

definition main_shutdown :: "'x dpdk \<Rightarrow> ptr \<Rightarrow> ('x world, unit) exec" where
  "main_shutdown D mempool =
     bind (pkt_stop_and_close_ports D) (\<lambda>_.
     bind (eal_cleanup D mempool) (\<lambda>r. unwrap_result r))"

definition main ::
  "('m, u16, Channel) chm \<Rightarrow> 'x dpdk \<Rightarrow> ('q, ptr) segq \<Rightarrow> bool \<Rightarrow> bool \<Rightarrow> bool \<Rightarrow> bool \<Rightarrow> nat \<Rightarrow>
   ('x world, unit) exec" where
  "main C D Q oc zmq_socket zmq_bind zmq_recv n =
     bind (main_setup C D oc zmq_socket zmq_bind zmq_recv) (\<lambda>(mempool, ports, ringmap).
     bind (gets (\<lambda>w. \<lparr>wld = w, MEMPOOL = mempool, PROC_CHANNEL = ringmap, OUT_PKTS = sq_new Q,
        TO_PACKETISER = sq_new Q, FROM_PACKETISER = sq_new Q\<rparr>)) (\<lambda>s0.
     bind (with_engine s0 (run_loop n (engine_iteration C D Q ports))) (\<lambda>_.
       main_shutdown D mempool)))"

section \<open>Execution\<close>

lemma in_world_Ret [exec_simps]:
  "f (wld s) = Ret a w \<Longrightarrow> in_world f s = Ret a (s\<lparr>wld := w\<rparr>)"
  by (simp add: in_world_def)

lemma in_world_Fault [exec_simps]:
  "f (wld s) = Fault e w \<Longrightarrow> in_world f s = Fault e (s\<lparr>wld := w\<rparr>)"
  by (simp add: in_world_def)

lemma wld_same [simp]: "s\<lparr>wld := wld s\<rparr> = s"
  by simp

text \<open>The packets the engine keeps: those whose EtherType is not 0.\<close>

definition kept :: "'x world \<Rightarrow> ptr \<Rightarrow> bool" where
  "kept w p \<longleftrightarrow> (case mem w p of None \<Rightarrow> False | Some m \<Rightarrow> mb_data m ! 12 \<noteq> 0 \<or> mb_data m ! 13 \<noteq> 0)"

definition is_frame :: "'x world \<Rightarrow> ptr \<Rightarrow> bool" where
  "is_frame w p \<longleftrightarrow> p \<noteq> null \<and> (\<exists>m. mem w p = Some m \<and> wf_mbuf m \<and> 14 \<le> unat (data_len m))"

lemma ether_type_kept:
  assumes "is_frame w p"
  obtains e ty where "pkt_ether_hdr p w = Ret (Some e) w" "ether_type_of p (Some e) w = Ret ty w"
    "ty \<noteq> 0 \<longleftrightarrow> kept w p"
proof -
  obtain m where m: "p \<noteq> null" "mem w p = Some m" "wf_mbuf m" "14 \<le> length (mb_data m)"
    using assms by (auto simp: is_frame_def)
  have "(le_word [mb_data m ! 12, mb_data m ! 13] :: u16) = 0 \<longleftrightarrow> mb_data m ! 12 = 0 \<and> mb_data m ! 13 = 0"
    using le_word_16 [of "mb_data m ! 12" "mb_data m ! 13" 0 0] by (simp add: le_word.simps)
  with m ether_type_exec [OF m(3,4)] show thesis
    by (intro that [of "unat (data_off m)" "le_word [mb_data m ! 12, mb_data m ! 13]"])
      (simp_all add: pkt_ether_hdr_def ether_type_of_def rte_pktmbuf_mtod_def kept_def exec_simps)
qed

text \<open>
  The invariant of the loop: the two queues towards the NIC are empty, the packetiser's channel
  is in the map, and both its rings are alive. \<open>view\<close>, \<open>entries\<close> and \<open>items\<close> are the
  abstractions of DPDK's state, of the channel map and of a queue; \<open>q0\<close> is what the ring from
  the packetiser holds.
\<close>

definition engine_inv ::
  "('x \<Rightarrow> dview) \<Rightarrow> ('m \<Rightarrow> u16 \<Rightarrow> Channel option) \<Rightarrow> ('q \<Rightarrow> ptr list) \<Rightarrow> Channel \<Rightarrow> ptr list \<Rightarrow>
   ('q, 'm, 'x) engine \<Rightarrow> bool" where
  "engine_inv view entries items ch q0 s \<longleftrightarrow> items (OUT_PKTS s) = [] \<and> items (FROM_PACKETISER s) = [] \<and>
     entries (PROC_CHANNEL s) PROCESSOR_THREAD = Some ch \<and> finite (dom (mem (wld s))) \<and>
     ring_raw (client_to_engine ch) \<noteq> ring_raw (engine_to_client ch) \<and>
     v_rings (view (ext (wld s))) (ring_raw (client_to_engine ch)) = Some q0 \<and>
     (\<exists>q. v_rings (view (ext (wld s))) (ring_raw (engine_to_client ch)) = Some q \<and>
        length q \<le> v_cap (view (ext (wld s))) (ring_raw (engine_to_client ch)))"

text \<open>Freeing and receiving packets leave all rings as they are.\<close>

definition same_rings :: "dview \<Rightarrow> dview \<Rightarrow> bool" where
  "same_rings v v' \<longleftrightarrow> v_rings v' = v_rings v \<and> v_cap v' = v_cap v \<and> v_names v' = v_names v"

locale engine_env = client_map_env D view C entries + seg_queue Q items
  for D :: "'x dpdk" and view :: "'x \<Rightarrow> dview"
    and C :: "('m, u16, Channel) chm" and entries :: "'m \<Rightarrow> u16 \<Rightarrow> Channel option"
    and Q :: "('q, ptr) segq" and items :: "'q \<Rightarrow> ptr list"
begin

lemma classify_keep:
  assumes "is_frame (wld s) p" "kept (wld s) p"
  shows "classify_pkts D Q cnt (p # ps) (s :: ('q, 'm, 'x) engine) =
     classify_pkts D Q (cnt + 1) ps (s\<lparr>TO_PACKETISER := sq_push Q p (TO_PACKETISER s)\<rparr>)"
  by (rule ether_type_kept [OF assms(1)]) (simp add: assms(2) exec_simps)

lemma classify_free:
  assumes "is_frame (wld s) p" "\<not> kept (wld s) p"
  shows "\<exists>w1. classify_pkts D Q cnt (p # ps) (s :: ('q, 'm, 'x) engine) = classify_pkts D Q cnt ps (s\<lparr>wld := w1\<rparr>) \<and>
     mem w1 = (mem (wld s))(p := None) \<and> same_rings (view (ext (wld s))) (view (ext w1))"
proof -
  from assms(1) obtain m where m: "mem (wld s) p = Some m" by (auto simp: is_frame_def)
  obtain w1 where "Mbuf_drop D p (wld s) = Ret () w1" "mem w1 = (mem (wld s))(p := None)"
      "view (ext w1) = upd_avail (mb_pool m) (v_avail (view (ext (wld s))) (mb_pool m) + 1) (view (ext (wld s)))"
    using Mbuf_drop_spec [OF m] by blast
  with assms(2) show ?thesis
    by - (rule ether_type_kept [OF assms(1)], auto simp: same_rings_def exec_simps)
qed

lemma classify_pkts_spec:
  assumes "distinct pkts" "\<forall>p \<in> set pkts. is_frame (wld s) p"
  shows "\<exists>w' q'. classify_pkts D Q cnt pkts (s :: ('q, 'm, 'x) engine) =
       Ret (cnt + length (filter (kept (wld s)) pkts)) (s\<lparr>wld := w', TO_PACKETISER := q'\<rparr>) \<and>
     items q' = items (TO_PACKETISER s) @ filter (kept (wld s)) pkts \<and>
     mem w' = (\<lambda>p. if p \<in> set pkts \<and> \<not> kept (wld s) p then None else mem (wld s) p) \<and>
     same_rings (view (ext (wld s))) (view (ext w'))"
  using assms
proof (induction pkts arbitrary: s cnt)
  case Nil
  then show ?case
    by (intro exI [of _ "wld s"] exI [of _ "TO_PACKETISER s"]) (simp add: same_rings_def exec_simps)
next
  case (Cons p ps)
  then have p: "is_frame (wld s) p" "p \<notin> set ps" "distinct ps" "\<forall>x \<in> set ps. is_frame (wld s) x" by auto
  show ?case
  proof (cases "kept (wld s) p")
    case True
    have "(\<lambda>x. if x \<in> set ps \<and> \<not> kept (wld s) x then None else mem (wld s) x) =
        (\<lambda>x. if x \<in> set (p # ps) \<and> \<not> kept (wld s) x then None else mem (wld s) x)"
      using True by auto
    then show ?thesis
      using Cons.IH [of "s\<lparr>TO_PACKETISER := sq_push Q p (TO_PACKETISER s)\<rparr>" "cnt + 1"] p True
      unfolding classify_keep [OF p(1) True] by (simp cong: if_cong)
  next
    case False
    obtain w1 where w1: "classify_pkts D Q cnt (p # ps) s = classify_pkts D Q cnt ps (s\<lparr>wld := w1\<rparr>)"
        "mem w1 = (mem (wld s))(p := None)" "same_rings (view (ext (wld s))) (view (ext w1))"
      using classify_free [OF p(1) False] by blast
    have k: "kept w1 x = kept (wld s) x" "is_frame w1 x = is_frame (wld s) x" if "x \<in> set ps" for x
      using that p(2) w1(2) by (auto simp: kept_def is_frame_def)
    then have "filter (kept w1) ps = filter (kept (wld s)) ps" by (simp cong: filter_cong)
    moreover have "(\<lambda>x. if x \<in> set ps \<and> \<not> kept w1 x then None else mem w1 x) =
        (\<lambda>x. if x \<in> set (p # ps) \<and> \<not> kept (wld s) x then None else mem (wld s) x)"
      using k False p(2) w1(2) by (intro ext) auto
    ultimately show ?thesis
      using Cons.IH [of "s\<lparr>wld := w1\<rparr>" cnt] p(3,4) k w1 False
      by (auto simp: same_rings_def cong: if_cong)
  qed
qed

lemma drain_to_packetiser_spec:
  assumes "entries (PROC_CHANNEL s) PROCESSOR_THREAD = Some ch"
    and "e = ring_raw (engine_to_client ch)"
    and "v_rings (view (ext (wld s))) e = Some q" "length q \<le> v_cap (view (ext (wld s))) e"
    and "items (TO_PACKETISER s) = xs" "length xs < n"
    and "k = v_cap (view (ext (wld s))) e - length q"
  shows "\<exists>w' t. drain_to_packetiser C D Q n len (s :: ('q, 'm, 'x) engine) =
       Ret (len + min (length xs) k) (s\<lparr>wld := w', TO_PACKETISER := t\<rparr>) \<and>
     items t = drop (Suc k) xs \<and> mem w' = mem (wld s) \<and>
     view (ext w') = upd_ring e (q @ take k xs) (view (ext (wld s)))"
  using assms
proof (induction xs arbitrary: s q n len k)
  case Nil
  then obtain t where t: "sq_pop Q (TO_PACKETISER s) = (None, t)" "items t = []"
    using pop_empty by blast
  from Nil.prems(6) obtain n' where "n = Suc n'" by (cases n) auto
  with t Nil.prems show ?case
    by (intro exI [of _ "wld s"] exI [of _ t]) (simp add: exec_simps upd_ring_same)
next
  case (Cons x xs)
  then obtain t where t: "sq_pop Q (TO_PACKETISER s) = (Some x, t)" "items t = xs"
    using pop_cons by blast
  from Cons.prems(6) obtain n' where n: "n = Suc n'" "length xs < n'" by (cases n) auto
  let ?s = "s\<lparr>TO_PACKETISER := t\<rparr>"
  show ?case
  proof (cases "length q < v_cap (view (ext (wld s))) e")
    case True
    obtain w1 where w1: "RingClientMap_send C D (PROC_CHANNEL s) PROCESSOR_THREAD x (wld s) = Ret (Inr ()) w1"
        "mem w1 = mem (wld s)" "view (ext w1) = upd_ring e (q @ [x]) (view (ext (wld s)))"
      using send_room [OF Cons.prems(1) Cons.prems(3) [unfolded Cons.prems(2)]] True Cons.prems(2) by blast
    obtain k' where k': "k = Suc k'" "k' = v_cap (view (ext (wld s))) e - length (q @ [x])"
      using True Cons.prems(7) by (cases k) auto
    from Cons.IH [of "?s\<lparr>wld := w1\<rparr>" "q @ [x]" n' k' "len + 1"] Cons.prems w1 t n k' True
    obtain w' t' where "drain_to_packetiser C D Q n' (len + 1) (?s\<lparr>wld := w1\<rparr>) =
          Ret (len + 1 + min (length xs) k') (s\<lparr>wld := w', TO_PACKETISER := t'\<rparr>)"
        "items t' = drop (Suc k') xs" "mem w' = mem (wld s)"
        "view (ext w') = upd_ring e (q @ x # take k' xs) (view (ext (wld s)))"
      by auto
    with t n w1 k' show ?thesis
      by (intro exI [of _ w'] exI [of _ t']) (simp add: exec_simps)
  next
    case False
    obtain er w1 where w1: "RingClientMap_send C D (PROC_CHANNEL s) PROCESSOR_THREAD x (wld s)
          = Ret (Inl (RCM_MemoryError er)) w1"
        "mem w1 = mem (wld s)" "view (ext w1) = view (ext (wld s))"
      using send_full [OF Cons.prems(1) Cons.prems(3) [unfolded Cons.prems(2)]] False Cons.prems(2)
      by (metis not_less)
    have "k = 0" using False Cons.prems(7) by simp
    with t n w1 Cons.prems(3) show ?thesis
      by (intro exI [of _ w1] exI [of _ t]) (simp add: exec_simps upd_ring_same)
  qed
qed

lemma get_external_pkts_spec:
  assumes fin: "finite (dom (mem (wld s)))"
  obtains ps w1 w2 q' where
    "Port_receive D port (ucast (rte_lcore_id D (wld s))) (wld s) = Ret ps w1"
    "get_external_pkts D Q (port # ports) (s :: ('q, 'm, 'x) engine) =
       Ret (length ps) (s\<lparr>wld := w2, TO_PACKETISER := q'\<rparr>)"
    "items q' = items (TO_PACKETISER s) @ filter (kept w1) ps"
    "mem w2 = (\<lambda>p. if p \<in> set ps \<and> \<not> kept w1 p then None else mem w1 p)"
    "\<forall>p. p \<notin> set ps \<longrightarrow> mem w1 p = mem (wld s) p" "\<forall>p \<in> set ps. is_frame w1 p"
    "finite (dom (mem w2))" "distinct ps" "length ps \<le> 32" "\<forall>p \<in> set ps. mem (wld s) p = None"
    "v_rings (view (ext w2)) = v_rings (view (ext (wld s)))"
    "v_cap (view (ext w2)) = v_cap (view (ext (wld s)))"
proof -
  obtain ps w1 where r: "Port_receive D port (ucast (rte_lcore_id D (wld s))) (wld s) = Ret ps w1"
      "length ps \<le> 32" "distinct ps" "null \<notin> set ps" "\<forall>p \<in> set ps. mem (wld s) p = None"
      "dom (mem w1) = dom (mem (wld s)) \<union> set ps"
      "\<forall>p. p \<notin> set ps \<longrightarrow> mem w1 p = mem (wld s) p"
      "\<forall>p \<in> set ps. \<exists>m. mem w1 p = Some m \<and> wf_mbuf m \<and> 14 \<le> unat (data_len m)"
      "v_rings (view (ext w1)) = v_rings (view (ext (wld s)))"
      "v_cap (view (ext w1)) = v_cap (view (ext (wld s)))"
      "v_names (view (ext w1)) = v_names (view (ext (wld s)))"
    by (rule Port_receive_spec [OF fin, of port "ucast (rte_lcore_id D (wld s))"])
  have fr: "\<forall>p \<in> set ps. is_frame w1 p" using r(4,8) by (auto simp: is_frame_def intro: gr0I)
  obtain w2 q' where c: "classify_pkts D Q 0 ps (s\<lparr>wld := w1\<rparr>) =
        Ret (0 + length (filter (kept w1) ps)) (s\<lparr>wld := w2, TO_PACKETISER := q'\<rparr>)"
      "items q' = items (TO_PACKETISER s) @ filter (kept w1) ps"
      "mem w2 = (\<lambda>p. if p \<in> set ps \<and> \<not> kept w1 p then None else mem w1 p)"
      "v_rings (view (ext w2)) = v_rings (view (ext w1))" "v_cap (view (ext w2)) = v_cap (view (ext w1))"
    using classify_pkts_spec [of ps "s\<lparr>wld := w1\<rparr>" 0] r(3) fr by (auto simp: same_rings_def cong: if_cong)
  have "dom (mem w2) \<subseteq> dom (mem w1)" using c(3) by (auto split: if_splits)
  then have "finite (dom (mem w2))" using fin r(6) by (metis finite_UnI finite_set finite_subset)
  moreover have "get_external_pkts D Q (port # ports) s =
       Ret (length ps) (s\<lparr>wld := w2, TO_PACKETISER := q'\<rparr>)"
    using r(1) c(1) by (simp add: get_external_pkts_def lcore_queue_def first_port_def exec_simps)
  ultimately show thesis using that r c fr by simp
qed

lemma send_to_packetiser_spec:
  assumes "entries (PROC_CHANNEL s) PROCESSOR_THREAD = Some ch"
    and "e = ring_raw (engine_to_client ch)"
    and "v_rings (view (ext (wld s))) e = Some q" "length q \<le> v_cap (view (ext (wld s))) e"
    and "k = v_cap (view (ext (wld s))) e - length q"
  shows "\<exists>w' t. send_to_packetiser C D Q (s :: ('q, 'm, 'x) engine) =
       Ret (min (length (items (TO_PACKETISER s))) k) (s\<lparr>wld := w', TO_PACKETISER := t\<rparr>) \<and>
     items t = drop (Suc k) (items (TO_PACKETISER s)) \<and> mem w' = mem (wld s) \<and>
     view (ext w') = upd_ring e (q @ take k (items (TO_PACKETISER s))) (view (ext (wld s)))"
proof (cases "items (TO_PACKETISER s) = []")
  case True
  then show ?thesis
    using assms(3) by (intro exI [of _ "wld s"] exI [of _ "TO_PACKETISER s"])
      (simp add: send_to_packetiser_def exec_simps upd_ring_same)
next
  case False
  with drain_to_packetiser_spec [OF assms(1-4) refl _ assms(5), of "Suc (length (items (TO_PACKETISER s)))" 0]
  show ?thesis by (simp add: send_to_packetiser_def exec_simps)
qed

lemma get_from_packetiser_idle:
  "items (FROM_PACKETISER s) = [] \<Longrightarrow> get_from_packetiser C D Q (s :: ('q, 'm, 'x) engine) = Ret 0 s"
  by (simp add: get_from_packetiser_def exec_simps)

lemma send_pkts_out_idle:
  "items (OUT_PKTS s) = [] \<Longrightarrow> send_pkts_out D Q ports (s :: ('q, 'm, 'x) engine) = Ret 0 s"
  by (simp add: send_pkts_out_def lcore_queue_def exec_simps)

lemma engine_iteration_spec:
  assumes inv: "engine_inv view entries items ch q0 s"
    and e: "e = ring_raw (engine_to_client ch)" "v_rings (view (ext (wld s))) e = Some q"
    and k: "k = v_cap (view (ext (wld s))) e - length q"
  shows "\<exists>ps w1 s'. Port_receive D port (ucast (rte_lcore_id D (wld s))) (wld s) = Ret ps w1 \<and>
     engine_iteration C D Q (port # ports) (s :: ('q, 'm, 'x) engine) = Ret () s' \<and> engine_inv view entries items ch q0 s' \<and>
     v_rings (view (ext (wld s'))) e =
       Some (q @ take k (items (TO_PACKETISER s) @ filter (kept w1) ps)) \<and>
     items (TO_PACKETISER s') = drop (Suc k) (items (TO_PACKETISER s) @ filter (kept w1) ps) \<and>
     distinct ps \<and> (\<forall>p \<in> set ps. mem (wld s) p = None \<and> mem (wld s') p = (if kept w1 p then mem w1 p else None)) \<and>
     (\<forall>p. p \<notin> set ps \<longrightarrow> mem (wld s') p = mem (wld s) p) \<and>
     v_cap (view (ext (wld s'))) = v_cap (view (ext (wld s)))"
proof -
  have fin: "finite (dom (mem (wld s)))" using inv by (simp add: engine_inv_def)
  obtain ps w1 w2 q' where x: "Port_receive D port (ucast (rte_lcore_id D (wld s))) (wld s) = Ret ps w1"
      "get_external_pkts D Q (port # ports) s = Ret (length ps) (s\<lparr>wld := w2, TO_PACKETISER := q'\<rparr>)"
      "items q' = items (TO_PACKETISER s) @ filter (kept w1) ps"
      "mem w2 = (\<lambda>p. if p \<in> set ps \<and> \<not> kept w1 p then None else mem w1 p)"
      "\<forall>p. p \<notin> set ps \<longrightarrow> mem w1 p = mem (wld s) p" "\<forall>p \<in> set ps. is_frame w1 p"
      "finite (dom (mem w2))" "distinct ps" "length ps \<le> 32" "\<forall>p \<in> set ps. mem (wld s) p = None"
      "v_rings (view (ext w2)) = v_rings (view (ext (wld s)))"
      "v_cap (view (ext w2)) = v_cap (view (ext (wld s)))"
    by (rule get_external_pkts_spec [OF fin, of port ports])
  let ?s1 = "s\<lparr>wld := w2, TO_PACKETISER := q'\<rparr>"
  have "\<exists>w3 t. send_to_packetiser C D Q ?s1 =
        Ret (min (length (items q')) k) (s\<lparr>wld := w3, TO_PACKETISER := t\<rparr>) \<and>
      items t = drop (Suc k) (items q') \<and> mem w3 = mem w2 \<and>
      view (ext w3) = upd_ring e (q @ take k (items q')) (view (ext w2))"
    using send_to_packetiser_spec [of ?s1 ch e q k] inv e k x by (auto simp: engine_inv_def)
  then obtain w3 t where y: "send_to_packetiser C D Q ?s1 =
        Ret (min (length (items q')) k) (s\<lparr>wld := w3, TO_PACKETISER := t\<rparr>)"
      "items t = drop (Suc k) (items q')" "mem w3 = mem w2"
      "view (ext w3) = upd_ring e (q @ take k (items q')) (view (ext w2))" by blast
  let ?s' = "s\<lparr>wld := w3, TO_PACKETISER := t\<rparr>"
  have "engine_iteration C D Q (port # ports) s = Ret () ?s'"
    using x(2) y(1) get_from_packetiser_idle [of ?s'] send_pkts_out_idle [of ?s'] inv
    by (simp add: engine_iteration_def engine_inv_def exec_simps)
  moreover have "engine_inv view entries items ch q0 ?s'"
    using inv e k x y by (auto simp: engine_inv_def)
  ultimately show ?thesis
    using x y by (intro exI [of _ ps] exI [of _ w1] exI [of _ ?s']) simp
qed

lemma run_loop_inv:
  assumes "engine_inv view entries items ch q0 s"
  shows "\<exists>s'. run_loop n (engine_iteration C D Q (port # ports)) (s :: ('q, 'm, 'x) engine) = Ret () s' \<and>
     engine_inv view entries items ch q0 s'"
  using assms
proof (induction n arbitrary: s)
  case 0
  then show ?case by (simp add: exec_simps)
next
  case (Suc n)
  then obtain q where "v_rings (view (ext (wld s))) (ring_raw (engine_to_client ch)) = Some q"
    by (auto simp: engine_inv_def)
  with engine_iteration_spec [OF Suc.prems refl this refl, of port ports] obtain s1 where
    "engine_iteration C D Q (port # ports) s = Ret () s1" "engine_inv view entries items ch q0 s1" by blast
  with Suc.IH [of s1] show ?case by (auto simp: exec_simps)
qed

lemma drain_out_spec:
  assumes "items (OUT_PKTS s) = xs" "length xs < n"
  shows "\<exists>q'. drain_out Q n acc (s :: ('q, 'm, 'x) engine) = Ret (acc @ xs) (s\<lparr>OUT_PKTS := q'\<rparr>) \<and> items q' = []"
  using assms
proof (induction xs arbitrary: s n acc)
  case Nil
  then obtain n' q' where "n = Suc n'" "sq_pop Q (OUT_PKTS s) = (None, q')" "items q' = []"
    using pop_empty by (metis less_imp_Suc_add list.size(3) add_0)
  then show ?case by (intro exI [of _ q']) (simp add: exec_simps)
next
  case (Cons x xs)
  then obtain n' q' where n: "n = Suc n'" "sq_pop Q (OUT_PKTS s) = (Some x, q')" "items q' = xs"
    using pop_cons by (metis less_imp_Suc_add)
  with Cons.IH [of "s\<lparr>OUT_PKTS := q'\<rparr>" n' "acc @ [x]"] Cons.prems show ?case
    by (auto simp: exec_simps)
qed

lemma send_pkts_out_spec:
  assumes "items (OUT_PKTS s) \<noteq> []"
  shows "\<exists>q'. items q' = [] \<and> send_pkts_out D Q (port # ports) (s :: ('q, 'm, 'x) engine) =
     in_world (Port_send D port (items (OUT_PKTS s)) (tx_queue (ucast (rte_lcore_id D (wld s)))))
       (s\<lparr>OUT_PKTS := q'\<rparr>)"
  using drain_out_spec [OF refl, of s "Suc (length (items (OUT_PKTS s)))" "[]"] assms
  by (auto simp: send_pkts_out_def lcore_queue_def first_port_def exec_simps)

lemma add_packetiser_inv:
  assumes "RingClientMap_add_client C D (RingClientMap_new C) PACKETISER_ID w = Ret (Inr (), m) w1"
    and "finite (dom (mem w1))"
  shows "\<exists>ch. engine_inv view entries items ch []
     \<lparr>wld = w1, MEMPOOL = mp, PROC_CHANNEL = m, OUT_PKTS = sq_new Q, TO_PACKETISER = sq_new Q,
      FROM_PACKETISER = sq_new Q\<rparr>"
proof (cases rule: Ring_new_cases [of PACKETISER_ID E2C "sint (rte_socket_id D w)" w])
  case e2c: (new e w2)
  show ?thesis
  proof (cases rule: Ring_new_cases [of PACKETISER_ID C2E "sint (rte_socket_id D w)" w2])
    case c2e: (new c w3)
    let ?ch = "\<lparr>client_to_engine = c, engine_to_client = e\<rparr>"
    obtain old m' where i: "chm_insert C PACKETISER_ID ?ch (chm_new C) = (old, m')" by fastforce
    then have m': "old = None" "entries m' = [PACKETISER_ID \<mapsto> ?ch]"
      using fst_insert [of PACKETISER_ID ?ch "chm_new C"] entries_insert [of PACKETISER_ID ?ch "chm_new C"]
      by auto
    have "m = m'" "w1 = w3"
      using assms(1) e2c(1) c2e(1) i m'
      by (simp_all add: RingClientMap_add_client_def RingClientMap_new_def Channel_new_def
          drop_channel_def exec_simps)
    with m' e2c c2e assms(2) show ?thesis
      by (intro exI [of _ ?ch]) (auto simp: engine_inv_def PROCESSOR_THREAD_def PACKETISER_ID_def)
  next
    case (error er w3)
    with e2c assms(1) show ?thesis
      by (auto simp: RingClientMap_add_client_def Channel_new_def bind_eq_Ret exec_simps)
  qed
next
  case (error er w2)
  with assms(1) show ?thesis
    by (auto simp: RingClientMap_add_client_def Channel_new_def exec_simps)
qed

lemma main_setup_Ret:
  assumes "main_setup C D oc zs zb zr w = Ret (mp, ports, m) w1"
  shows "(\<exists>p. ports = [p]) \<and> (\<exists>w0. RingClientMap_add_client C D (RingClientMap_new C) PACKETISER_ID w0 = Ret (Inr (), m) w1)"
  using assms unfolding main_setup_def
  by (auto simp: bind_eq_Ret unwrap_result_eq_Ret case_sum_fail_eq_Ret ret_exec fail_exec split: if_splits)

lemma main_exits:
  assumes "main_setup C D oc zs zb zr w = Ret (mp, ports, m) w1" "finite (dom (mem w1))"
  shows "\<exists>w2. main C D Q oc zs zb zr n w = Exit 0 w2"
proof -
  obtain p w0 where p: "ports = [p]"
      "RingClientMap_add_client C D (RingClientMap_new C) PACKETISER_ID w0 = Ret (Inr (), m) w1"
    using main_setup_Ret [OF assms(1)] by blast
  let ?s = "\<lparr>wld = w1, MEMPOOL = mp, PROC_CHANNEL = m, OUT_PKTS = sq_new Q, TO_PACKETISER = sq_new Q,
      FROM_PACKETISER = sq_new Q\<rparr>"
  obtain ch where "engine_inv view entries items ch [] ?s"
    using add_packetiser_inv [OF p(2) assms(2)] by blast
  from run_loop_inv [OF this, of n p "[]"] obtain s' where
    "run_loop n (engine_iteration C D Q [p]) ?s = Ret () s'" by blast
  with assms(1) p(1) show ?thesis
    by (simp add: main_def main_shutdown_def with_engine_def pkt_stop_and_close_ports_def exec_simps)
qed

end

interpretation ref_engine: engine_env ref_dpdk ref_view alist_chm map_of list_segq "\<lambda>q. q"
  by unfold_locales

text \<open>A concrete engine: ring 5 leads from the packetiser, ring 6 to it, each with two slots.\<close>

definition ref_engine :: "ptr list \<Rightarrow> (ptr list, (u16 \<times> Channel) list, ref_ext) engine" where
  "ref_engine to_pk = \<lparr>wld = ref_rings [5 \<mapsto> [4], 6 \<mapsto> [9]] Map.empty 2, MEMPOOL = 7,
     PROC_CHANNEL = [(1, chan_at 5 6)], OUT_PKTS = [], TO_PACKETISER = to_pk, FROM_PACKETISER = []\<rparr>"

lemma ref_engine_inv: "engine_inv ref_view map_of (\<lambda>q. q) (chan_at 5 6) [4] (ref_engine to_pk)"
  by (simp add: engine_inv_def ref_engine_def PROCESSOR_THREAD_def)

lemma ref_engine_receive:
  "Port_receive ref_dpdk p q (wld (ref_engine to_pk)) = Ret [] (wld (ref_engine to_pk))"
proof -
  have "ref_rx n (wld (ref_engine to_pk)) = ([], wld (ref_engine to_pk))" for n
    by (cases n) (simp_all add: ref_engine_def ref_rings_def ref_start_def)
  then show ?thesis by (simp add: Port_receive_def exec_simps)
qed

section \<open>Properties\<close>

text \<open>C2: One iteration of the engine's main loop always returns and keeps the loop invariant.
  The packets the NIC delivered are sorted by their EtherType: those with EtherType 0 are freed,
  the others queue up behind what was waiting for the packetiser. As many as fit are appended, in
  order, to the ring to the packetiser. When they do not all fit, the first one that does not is
  taken from the queue and lost (it is in no queue and still allocated); the rest keep waiting. The
  received buffers were free before, and no other buffer changes.\<close>

theorem engine_iteration_delivers:
  assumes "engine_env D view C entries Q items"
    and "engine_inv view entries items ch q0 s"
    and "e = ring_raw (engine_to_client ch)" "v_rings (view (ext (wld s))) e = Some q"
    and "k = v_cap (view (ext (wld s))) e - length q"
  shows "\<exists>ps w1 s'. Port_receive D port (ucast (rte_lcore_id D (wld s))) (wld s) = Ret ps w1 \<and>
     engine_iteration C D Q (port # ports) s = Ret () s' \<and> engine_inv view entries items ch q0 s' \<and>
     v_rings (view (ext (wld s'))) e =
       Some (q @ take k (items (TO_PACKETISER s) @ filter (kept w1) ps)) \<and>
     items (TO_PACKETISER s') = drop (Suc k) (items (TO_PACKETISER s) @ filter (kept w1) ps) \<and>
     distinct ps \<and> (\<forall>p \<in> set ps. mem (wld s) p = None \<and> mem (wld s') p = (if kept w1 p then mem w1 p else None)) \<and>
     (\<forall>p. p \<notin> set ps \<longrightarrow> mem (wld s') p = mem (wld s) p) \<and>
     v_cap (view (ext (wld s'))) = v_cap (view (ext (wld s)))"
  using engine_env.engine_iteration_spec [OF assms] .

theorem engine_iteration_delivers_witness:
  "\<exists>s'. engine_iteration alist_chm ref_dpdk list_segq [ref_port] (ref_engine [1, 2, 3]) = Ret () s' \<and>
     v_rings (ref_view (ext (wld s'))) 6 = Some [9, 1] \<and> TO_PACKETISER s' = [3]"
proof -
  have "v_rings (ref_view (ext (wld (ref_engine [1, 2, 3])))) 6 = Some [9]"
    "v_cap (ref_view (ext (wld (ref_engine [1, 2, 3])))) 6 = 2" "TO_PACKETISER (ref_engine [1, 2, 3]) = [1, 2, 3]"
    by (simp_all add: ref_engine_def)
  then show ?thesis
    using engine_iteration_delivers [OF ref_engine.engine_env_axioms ref_engine_inv refl,
        of "[1, 2, 3]" "[9]" 1 ref_port "[]"]
    by (auto simp: ref_engine_receive)
qed

text \<open>However often the main loop runs, it never fails, and nothing ever travels from the
  packetiser to the NIC: \<open>OUT_PKTS\<close> and \<open>FROM_PACKETISER\<close> stay empty and the ring from the
  packetiser keeps exactly what the packetiser put there, because \<open>get_from_packetiser\<close> asks for
  as many packets as \<open>FROM_PACKETISER\<close> holds, and nothing ever pushes to that queue.\<close>

theorem engine_loop_never_sends_out:
  assumes "engine_env D view C entries Q items" and "engine_inv view entries items ch q0 s"
  shows "\<exists>s'. run_loop n (engine_iteration C D Q (port # ports)) s = Ret () s' \<and>
     items (OUT_PKTS s') = [] \<and> items (FROM_PACKETISER s') = [] \<and>
     v_rings (view (ext (wld s'))) (ring_raw (client_to_engine ch)) = Some q0"
  using engine_env.run_loop_inv [OF assms, of n port ports] unfolding engine_inv_def by blast

theorem engine_loop_never_sends_out_witness:
  "\<exists>s'. run_loop 1000 (engine_iteration alist_chm ref_dpdk list_segq [ref_port]) (ref_engine []) = Ret () s' \<and>
     OUT_PKTS s' = [] \<and> v_rings (ref_view (ext (wld s'))) 5 = Some [4]"
  using engine_loop_never_sends_out [OF ref_engine.engine_env_axioms ref_engine_inv, of 1000 ref_port "[]" "[]"]
  by auto

text \<open>\<open>send_pkts_out\<close> empties \<open>OUT_PKTS\<close> and hands all its packets, oldest first, to one
  transmit burst of the first port, on the queue next to the one the core receives from.\<close>

theorem send_pkts_out_burst:
  fixes C :: "('m, u16, Channel) chm" and s :: "('q, 'm, 'x) engine"
  assumes "engine_env D view C entries Q items" and "items (OUT_PKTS s) \<noteq> []"
  shows "\<exists>q'. items q' = [] \<and> send_pkts_out D Q (port # ports) s =
     in_world (Port_send D port (items (OUT_PKTS s)) (tx_queue (ucast (rte_lcore_id D (wld s)))))
       (s\<lparr>OUT_PKTS := q'\<rparr>)"
  using engine_env.send_pkts_out_spec [OF assms] .

theorem send_pkts_out_burst_witness:
  "\<exists>s'. send_pkts_out ref_dpdk list_segq [ref_port] ((ref_engine [])\<lparr>OUT_PKTS := [1, 2]\<rparr>) = Ret 2 s' \<and>
     OUT_PKTS s' = [] \<and> r_sent (ext (wld s')) = [1, 2]"
  using send_pkts_out_burst [OF ref_engine.engine_env_axioms, of "(ref_engine [])\<lparr>OUT_PKTS := [1, 2]\<rparr>" ref_port "[]"]
  by (auto simp: in_world_def Port_send_def ref_tx_def ref_engine_def ref_rings_def ref_start_def Let_def exec_simps)

lemma xor_one_parity: "unat (q XOR 1 :: u16) = (if even (unat q) then unat q + 1 else unat q - 1)"
proof -
  have "unat (q XOR 1) = unat q XOR 1" by (simp only: unsigned_xor_eq unsigned_1)
  also have "\<dots> = unat q + of_bool (even (unat q)) - of_bool (odd (unat q))" by (rule xor_one_eq)
  finally show ?thesis by auto
qed

text \<open>C28: A port that was configured for some number of cores has a transmit queue for each of
  them: the queue \<open>send_pkts_out\<close> uses on a core is below the configured number of queues and
  differs from the core's receive queue.\<close>

theorem tx_queue_configured:
  assumes "eth_api D queues" and "Port_configure D oc port num_cores mp w = Ret (Inr ()) w'"
    and "num_cores \<noteq> 65535" "queue_id < num_cores"
  shows "tx_queue queue_id < num_cores \<and> tx_queue queue_id \<noteq> queue_id"
proof -
  have "even (unat num_cores)"
    using eth_api.Port_configure_ok [OF assms(1,2)] assms(3) by simp
  moreover have "unat queue_id < unat num_cores" using assms(4) by (simp add: word_less_nat_alt)
  ultimately have "unat (tx_queue queue_id) < unat num_cores \<and> unat (tx_queue queue_id) \<noteq> unat queue_id"
    by (auto simp: tx_queue_def xor_one_parity) presburger+
  then show ?thesis by (auto simp: word_less_nat_alt)
qed

theorem tx_queue_configured_witness: "tx_queue 1 < 2 \<and> tx_queue 1 \<noteq> 1"
  using ref_configure tx_queue_configured [OF ref_eth.eth_api_axioms, of True ref_port 2 7 ref_start _ 1]
  by auto

lemma ref_add_packetiser:
  assumes "v_names (rv (ext w)) = Map.empty" "v_rings (rv (ext w)) = Map.empty" "r_next (ext w) \<noteq> 0"
  shows "\<exists>m w'. RingClientMap_add_client alist_chm ref_dpdk [] PACKETISER_ID w = Ret (Inr (), m) w' \<and> mem w' = mem w"
  using assms
  by (simp add: RingClientMap_add_client_def Channel_new_def Ring_new_def ref_ring_create_def
      NonNull_new_def Let_def alist_chm_def drop_channel_def exec_simps)

lemma ref_main_setup:
  "\<exists>mp ports m w1. main_setup alist_chm ref_dpdk True True True True ref_start = Ret (mp, ports, m) w1 \<and>
     mem w1 = Map.empty"
proof -
  have a: "eal_init ref_dpdk main_args ref_start = Ret (Inr ()) ref_start"
    by (simp add: eal_init_def main_args_def CString_new_def exec_simps)
  define w1 where "w1 = upd_rv (\<lambda>v. upd_avail 7 (unat NUM_MBUFS) v) ref_start"
  have b: "Mempool_new ref_dpdk G_MEMPOOL_NAME ref_start = Ret (Inr 7) w1"
    by (simp add: Mempool_new_def to_cstring_ok G_MEMPOOL_NAME_def NonNull_new_def w1_def exec_simps)
  have c: "Port_new ref_dpdk ''port0'' 0 w1 = Ret (Inr ref_port) w1"
    by (simp add: Port_new_def ref_port_def exec_simps)
  obtain w2 where d: "Port_configure ref_dpdk True ref_port 2 7 w1 = Ret (Inr ()) w2" "mem w2 = mem w1"
      "rv (ext w2) = rv (ext w1)" "r_next (ext w2) = r_next (ext w1)"
    using ref_configure_any [of w1] by auto
  have e: "Port_start ref_dpdk ref_port w2 = Ret (Inr ()) w2"
    "Memzone_new ref_dpdk ''TEST_MEMZONE'' (unat size_of_rte_mbuf * 10) w2 = Ret (Inr 9) w2"
    by (simp_all add: Port_start_def Memzone_new_def to_cstring_ok NonNull_new_def exec_simps)
  have w1: "v_names (rv (ext w1)) = Map.empty" "v_rings (rv (ext w1)) = Map.empty" "r_next (ext w1) \<noteq> 0"
    "mem w1 = Map.empty"
    by (simp_all add: w1_def ref_start_def upd_rv_def)
  obtain m w3 where f: "RingClientMap_add_client alist_chm ref_dpdk [] PACKETISER_ID w2 = Ret (Inr (), m) w3"
      "mem w3 = mem w2"
    using ref_add_packetiser [of w2] d w1 by auto
  have "RingClientMap_new alist_chm = []" by (simp add: RingClientMap_new_def alist_chm_def)
  then have "main_setup alist_chm ref_dpdk True True True True ref_start = Ret (7, [ref_port], m) w3"
    using a b c d(1) e f(1) by (simp add: main_setup_def main_cores_def exec_simps)
  then show ?thesis using f(2) d(2) w1(4) by auto
qed

text \<open>C30: Once the set-up of \<open>main\<close> has succeeded, the process runs all its loop iterations without
  a fault and then terminates through the \<open>exit(0)\<close> inside \<open>_pkt_stop_and_close_ports\<close>, so the
  call of \<open>eal_cleanup\<close> behind it is never reached.\<close>

theorem main_exits_without_cleanup:
  assumes "engine_env D view C entries Q items"
    and "main_setup C D oc zs zb zr w = Ret (mp, ports, m) w1" "finite (dom (mem w1))"
  shows "\<exists>w2. main C D Q oc zs zb zr n w = Exit 0 w2"
  using engine_env.main_exits [OF assms] .

theorem main_exits_without_cleanup_witness:
  "\<exists>w2. main alist_chm ref_dpdk list_segq True True True True 5 ref_start = Exit 0 w2"
proof -
  obtain mp ports m w1 where
    "main_setup alist_chm ref_dpdk True True True True ref_start = Ret (mp, ports, m) w1"
    "mem w1 = Map.empty"
    using ref_main_setup by blast
  then show ?thesis
    using main_exits_without_cleanup [OF ref_engine.engine_env_axioms, of True True True True ref_start mp ports m w1 5]
    by simp
qed

end
