(* ===== verification/Routing.thy ===== *)
theory Routing
  imports Net
begin

text \<open>
  The \<open>RoutingTable\<close> of \<^verbatim>\<open>l3enginepacketiser/src/packetiser/mod.rs\<close>: two \<open>CHashMap\<close>s, from
  IP addresses to client ids and back, which the table's operations keep or do not keep in step.
\<close>

record ('i, 'd) RoutingTable =
  ip_id_map :: 'i
  id_ip_map :: 'd

definition RoutingTable_new ::
  "('i, Ipv4Addr, u16) chm \<Rightarrow> ('d, u16, Ipv4Addr) chm \<Rightarrow> ('i, 'd) RoutingTable" where
  "RoutingTable_new CI CD = \<lparr>ip_id_map = chm_new CI, id_ip_map = chm_new CD\<rparr>"

definition RoutingTable_add_client ::
  "('i, Ipv4Addr, u16) chm \<Rightarrow> ('d, u16, Ipv4Addr) chm \<Rightarrow> u16 \<Rightarrow> Ipv4Addr \<Rightarrow>
   ('i, 'd) RoutingTable \<Rightarrow> ('i, 'd) RoutingTable" where
  "RoutingTable_add_client CI CD client_id client_ip self =
     (let self = self\<lparr>ip_id_map := snd (chm_insert CI client_ip client_id (ip_id_map self))\<rparr>
      in self\<lparr>id_ip_map := snd (chm_insert CD client_id client_ip (id_ip_map self))\<rparr>)"

definition remove_by_id ::
  "('d, u16, Ipv4Addr) chm \<Rightarrow> u16 \<Rightarrow> ('i, 'd) RoutingTable \<Rightarrow> ('i, 'd) RoutingTable" where
  "remove_by_id CD client_id self =
     self\<lparr>id_ip_map := snd (chm_remove CD client_id (id_ip_map self))\<rparr>"

definition remove_by_ip ::
  "('i, Ipv4Addr, u16) chm \<Rightarrow> Ipv4Addr \<Rightarrow> ('i, 'd) RoutingTable \<Rightarrow> ('i, 'd) RoutingTable" where
  "remove_by_ip CI client_ip self =
     self\<lparr>ip_id_map := snd (chm_remove CI client_ip (ip_id_map self))\<rparr>"

definition lookup_by_ip :: "('i, Ipv4Addr, u16) chm \<Rightarrow> ('i, 'd) RoutingTable \<Rightarrow> Ipv4Addr \<Rightarrow> bool" where
  "lookup_by_ip CI self client_ip = chm_contains_key CI (ip_id_map self) client_ip"

definition lookup_by_id :: "('d, u16, Ipv4Addr) chm \<Rightarrow> ('i, 'd) RoutingTable \<Rightarrow> u16 \<Rightarrow> bool" where
  "lookup_by_id CD self client_id = chm_contains_key CD (id_ip_map self) client_id"

definition id_from_ip :: "('i, Ipv4Addr, u16) chm \<Rightarrow> ('i, 'd) RoutingTable \<Rightarrow> Ipv4Addr \<Rightarrow> u16" where
  "id_from_ip CI self client_ip =
     (case chm_get CI (ip_id_map self) client_ip of Some rg \<Rightarrow> rg | None \<Rightarrow> 0)"

section \<open>The table against its specification\<close>

text \<open>
  What a reader of the interface expects of the table: a relation between clients and addresses
  in which both directions agree.
\<close>

definition inverse_maps :: "('a \<Rightarrow> 'b option) \<Rightarrow> ('b \<Rightarrow> 'a option) \<Rightarrow> bool" where
  "inverse_maps f g \<longleftrightarrow> (\<forall>a b. f a = Some b \<longleftrightarrow> g b = Some a)"

definition table_consistent ::
  "('i \<Rightarrow> Ipv4Addr \<Rightarrow> u16 option) \<Rightarrow> ('d \<Rightarrow> u16 \<Rightarrow> Ipv4Addr option) \<Rightarrow> ('i, 'd) RoutingTable \<Rightarrow> bool" where
  "table_consistent ei ed t \<longleftrightarrow> inverse_maps (ei (ip_id_map t)) (ed (id_ip_map t))"

lemma inverse_maps_empty: "inverse_maps Map.empty Map.empty"
  by (simp add: inverse_maps_def)

lemma inverse_maps_upd:
  assumes "inverse_maps f g" "f a = None" "g b = None"
  shows "inverse_maps (f(a \<mapsto> b)) (g(b \<mapsto> a))"
  unfolding inverse_maps_def
proof (intro allI)
  fix x y
  have "f x = Some y \<longleftrightarrow> g y = Some x" "f a = Some y \<longleftrightarrow> g y = Some a" "f x = Some b \<longleftrightarrow> g b = Some x"
    using assms(1) by (simp_all add: inverse_maps_def)
  with assms(2-) show "(f(a \<mapsto> b)) x = Some y \<longleftrightarrow> (g(b \<mapsto> a)) y = Some x"
    by (cases "x = a"; cases "y = b") auto
qed

lemma inverse_maps_del:
  assumes "inverse_maps f g" "g b = Some a"
  shows "inverse_maps (f(a := None)) (g(b := None))"
  unfolding inverse_maps_def
proof (intro allI)
  fix x y
  have "f x = Some y \<longleftrightarrow> g y = Some x" "f a = Some y \<longleftrightarrow> g y = Some a" "f x = Some b \<longleftrightarrow> g b = Some x"
    using assms(1) by (simp_all add: inverse_maps_def)
  with assms(2-) show "(f(a := None)) x = Some y \<longleftrightarrow> (g(b := None)) y = Some x"
    by (cases "x = a"; cases "y = b") auto
qed

declare split_paired_All [simp del] split_paired_Ex [simp del]

locale routing_env = ips: chash_map CI ei + ids: chash_map CD ed
  for CI :: "('i, Ipv4Addr, u16) chm" and ei :: "'i \<Rightarrow> Ipv4Addr \<Rightarrow> u16 option"
    and CD :: "('d, u16, Ipv4Addr) chm" and ed :: "'d \<Rightarrow> u16 \<Rightarrow> Ipv4Addr option"
begin

lemma maps_after_add:
  "ei (ip_id_map (RoutingTable_add_client CI CD cid ip t)) = (ei (ip_id_map t))(ip \<mapsto> cid)"
  "ed (id_ip_map (RoutingTable_add_client CI CD cid ip t)) = (ed (id_ip_map t))(cid \<mapsto> ip)"
  by (simp_all add: RoutingTable_add_client_def Let_def)

lemma add_lookup:
  "id_from_ip CI (RoutingTable_add_client CI CD cid ip t) x = (if x = ip then cid else id_from_ip CI t x)"
  "lookup_by_ip CI (RoutingTable_add_client CI CD cid ip t) x \<longleftrightarrow> x = ip \<or> lookup_by_ip CI t x"
  "lookup_by_id CD (RoutingTable_add_client CI CD cid ip t) y \<longleftrightarrow> y = cid \<or> lookup_by_id CD t y"
  by (simp_all add: id_from_ip_def lookup_by_ip_def lookup_by_id_def maps_after_add)

lemma new_consistent: "table_consistent ei ed (RoutingTable_new CI CD)"
  by (simp add: table_consistent_def RoutingTable_new_def inverse_maps_empty)

lemma add_consistent:
  assumes "table_consistent ei ed t" "\<not> lookup_by_ip CI t ip" "\<not> lookup_by_id CD t cid"
  shows "table_consistent ei ed (RoutingTable_add_client CI CD cid ip t)"
  using assms inverse_maps_upd
  by (simp add: table_consistent_def lookup_by_ip_def lookup_by_id_def maps_after_add)

lemma remove_both_consistent:
  assumes "table_consistent ei ed t" "ed (id_ip_map t) cid = Some ip"
  shows "table_consistent ei ed (remove_by_ip CI ip (remove_by_id CD cid t))"
  using assms by (simp add: table_consistent_def remove_by_ip_def remove_by_id_def inverse_maps_del)

lemma registered_inverse:
  assumes "table_consistent ei ed t" "lookup_by_ip CI t a"
  shows "ed (id_ip_map t) (id_from_ip CI t a) = Some a"
proof -
  obtain k where k: "ei (ip_id_map t) a = Some k" using assms(2) by (auto simp: lookup_by_ip_def)
  then have "id_from_ip CI t a = k" by (simp add: id_from_ip_def)
  with k assms(1) show ?thesis by (simp add: table_consistent_def inverse_maps_def)
qed

lemma lookup_by_id_Some: "ed (id_ip_map t) k = Some a \<Longrightarrow> lookup_by_id CD t k"
  by (simp add: lookup_by_id_def)

lemma remove_one_side:
  "id_from_ip CI (remove_by_id CD cid t) x = id_from_ip CI t x"
  "id_from_ip CI (remove_by_ip CI ip t) x = (if x = ip then 0 else id_from_ip CI t x)"
  "lookup_by_ip CI (remove_by_id CD cid t) x \<longleftrightarrow> lookup_by_ip CI t x"
  "lookup_by_id CD (remove_by_id CD cid t) y \<longleftrightarrow> y \<noteq> cid \<and> lookup_by_id CD t y"
  "lookup_by_ip CI (remove_by_ip CI ip t) x \<longleftrightarrow> x \<noteq> ip \<and> lookup_by_ip CI t x"
  "lookup_by_id CD (remove_by_ip CI ip t) y \<longleftrightarrow> lookup_by_id CD t y"
  by (simp_all add: id_from_ip_def lookup_by_id_def lookup_by_ip_def remove_by_id_def remove_by_ip_def)

end

interpretation ref_routing: routing_env alist_chm map_of alist_chm map_of
  by unfold_locales

section \<open>Properties\<close>

text \<open>C25: The routing table stores and forgets exactly what it is told to. Adding a client with a
  new id and a new address registers both, routes the address to the id and changes no other entry;
  removing both sides of any registered client, the new one or an older one, unregisters exactly its
  address and its id. In both cases the two maps of the table stay inverse to each other, and
  removing the client that was just added gives back the answers of the old table.\<close>

theorem routing_table_roundtrip:
  assumes "routing_env CI ei CD ed" and "table_consistent ei ed t"
    and "\<not> lookup_by_ip CI t ip" "\<not> lookup_by_id CD t cid"
    and t': "t' = RoutingTable_add_client CI CD cid ip t"
    and "lookup_by_ip CI t' a" and k: "k = id_from_ip CI t' a"
    and t'': "t'' = remove_by_ip CI a (remove_by_id CD k t')"
  shows "(lookup_by_ip CI t' x \<longleftrightarrow> x = ip \<or> lookup_by_ip CI t x) \<and>
     (lookup_by_id CD t' y \<longleftrightarrow> y = cid \<or> lookup_by_id CD t y) \<and>
     id_from_ip CI t' x = (if x = ip then cid else id_from_ip CI t x) \<and>
     (lookup_by_ip CI t'' x \<longleftrightarrow> x \<noteq> a \<and> lookup_by_ip CI t' x) \<and>
     (lookup_by_id CD t'' y \<longleftrightarrow> y \<noteq> k \<and> lookup_by_id CD t' y) \<and>
     id_from_ip CI t'' x = (if x = a then 0 else id_from_ip CI t' x) \<and>
     lookup_by_id CD t' k \<and> table_consistent ei ed t' \<and> table_consistent ei ed t''"
proof -
  note env = assms(1)
  have c: "table_consistent ei ed t'"
    unfolding t' by (rule routing_env.add_consistent [OF assms(1-4)])
  have m: "ed (id_ip_map t') k = Some a"
    unfolding k by (rule routing_env.registered_inverse [OF env c assms(6)])
  note c' = routing_env.remove_both_consistent [OF env c m, folded t'']
  have "lookup_by_id CD t' k" using m by (rule routing_env.lookup_by_id_Some [OF env])
  moreover have "lookup_by_ip CI t' x \<longleftrightarrow> x = ip \<or> lookup_by_ip CI t x"
    "lookup_by_id CD t' y \<longleftrightarrow> y = cid \<or> lookup_by_id CD t y"
    "id_from_ip CI t' x = (if x = ip then cid else id_from_ip CI t x)"
    unfolding t' by (simp_all add: routing_env.add_lookup [OF env])
  moreover have "lookup_by_ip CI t'' x \<longleftrightarrow> x \<noteq> a \<and> lookup_by_ip CI t' x"
    "lookup_by_id CD t'' y \<longleftrightarrow> y \<noteq> k \<and> lookup_by_id CD t' y"
    "id_from_ip CI t'' x = (if x = a then 0 else id_from_ip CI t' x)"
    unfolding t'' by (simp_all add: routing_env.remove_one_side [OF env])
  ultimately show ?thesis using c c' by blast
qed

text \<open>Client 4 joins a table that has client 3, and client 3 leaves.\<close>

theorem routing_table_roundtrip_witness:
  "let t = RoutingTable_add_client alist_chm alist_chm 3 (10, 0, 0, 1) (RoutingTable_new alist_chm alist_chm);
       t' = RoutingTable_add_client alist_chm alist_chm 4 (10, 0, 0, 2) t;
       t'' = remove_by_ip alist_chm (10, 0, 0, 1) (remove_by_id alist_chm 3 t')
   in id_from_ip alist_chm t' (10, 0, 0, 2) = 4 \<and> id_from_ip alist_chm t'' (10, 0, 0, 2) = 4 \<and>
     lookup_by_id alist_chm t'' 4 \<and> \<not> lookup_by_ip alist_chm t'' (10, 0, 0, 1) \<and> \<not> lookup_by_id alist_chm t'' 3"
proof -
  let ?empty = "RoutingTable_new alist_chm alist_chm"
  let ?t = "RoutingTable_add_client alist_chm alist_chm 3 (10, 0, 0, 1) ?empty"
  let ?t' = "RoutingTable_add_client alist_chm alist_chm 4 (10, 0, 0, 2) ?t"
  have n: "\<not> lookup_by_ip alist_chm ?empty x" "\<not> lookup_by_id alist_chm ?empty y" for x y
    by (simp_all add: lookup_by_ip_def lookup_by_id_def RoutingTable_new_def alist_chm_def)
  have c: "table_consistent map_of map_of ?t"
    by (rule ref_routing.add_consistent [OF ref_routing.new_consistent n])
  have "\<not> lookup_by_ip alist_chm ?t (10, 0, 0, 2)" "\<not> lookup_by_id alist_chm ?t 4"
    "lookup_by_ip alist_chm ?t' (10, 0, 0, 1)" "3 = id_from_ip alist_chm ?t' (10, 0, 0, 1)"
    by (simp_all add: ref_routing.add_lookup n)
  from routing_table_roundtrip [OF ref_routing.routing_env_axioms c this(1,2) refl this(3,4) refl,
      of "(10, 0, 0, 2)" 4]
    routing_table_roundtrip [OF ref_routing.routing_env_axioms c this(1,2) refl this(3,4) refl,
      of "(10, 0, 0, 1)" 3]
  show ?thesis by (simp add: Let_def)
qed

text \<open>Removing a client by its id alone leaves its route: packets for its address are still
  sent to the removed id, and removing by address alone leaves the id registered. Giving a client
  a second address keeps the first one routed to it as well.\<close>

theorem routing_table_stale_routes:
  assumes "routing_env CI ei CD ed"
  shows "id_from_ip CI (remove_by_id CD cid (RoutingTable_add_client CI CD cid ip t)) ip = cid \<and>
     \<not> lookup_by_id CD (remove_by_id CD cid (RoutingTable_add_client CI CD cid ip t)) cid \<and>
     lookup_by_id CD (remove_by_ip CI ip (RoutingTable_add_client CI CD cid ip t)) cid \<and>
     (ip' \<noteq> ip \<longrightarrow> id_from_ip CI (RoutingTable_add_client CI CD cid ip'
        (RoutingTable_add_client CI CD cid ip t)) ip = cid)"
  by (simp add: routing_env.remove_one_side [OF assms] routing_env.add_lookup [OF assms])

theorem routing_table_stale_routes_witness:
  "id_from_ip alist_chm (remove_by_id alist_chm 4 (RoutingTable_add_client alist_chm alist_chm 4 (10, 0, 0, 2)
     (RoutingTable_new alist_chm alist_chm))) (10, 0, 0, 2) = 4"
  using routing_table_stale_routes [OF ref_routing.routing_env_axioms,
      of 4 "(10, 0, 0, 2)" "RoutingTable_new alist_chm alist_chm" "(10, 0, 0, 3)"]
  by simp

end
