(* ===== verification/Packetiser.thy ===== *)
theory Packetiser
  imports Memring Pools Routing
begin

text \<open>
  The packetiser process, \<^verbatim>\<open>l3enginepacketiser/src/packetiser/mod.rs\<close> and
  \<^verbatim>\<open>l3enginepacketiser/src/main.rs\<close>: it receives packets from the engine, routes them to clients
  and collects the clients' packets. The state is the \<open>Packetiser\<close> struct together with the
  static \<open>LAST_ALLOCATED_ID\<close>, the static \<open>TABLE\<close> and the world of the process.
\<close>

section \<open>State\<close>

record ('q, 'm, 'i, 'd, 'x) Packetiser =
  pk_wld :: "'x world"
  channel :: Channel
  mempool :: ptr
  clientmap :: 'm
  i_bufqueue :: 'q
  o_bufqueue :: 'q
  cap :: usize
  allocated_ids :: "u16 list"
  LAST_ALLOCATED_ID :: u16
  TABLE :: "('i, 'd) RoutingTable"

definition PACKETISER_CLIENT :: u16 where "PACKETISER_CLIENT = 1"

definition BURST_MAX :: "build \<Rightarrow> usize" where
  "BURST_MAX b = (if feature_debug b then 32 else 512)"

definition in_pk :: "('x world, 'a) exec \<Rightarrow> (('q, 'm, 'i, 'd, 'x) Packetiser, 'a) exec" where
  "in_pk f = (\<lambda>s. case f (pk_wld s) of
       Ret a w \<Rightarrow> Ret a (s\<lparr>pk_wld := w\<rparr>)
     | Fault e w \<Rightarrow> Fault e (s\<lparr>pk_wld := w\<rparr>)
     | Exit c w \<Rightarrow> Exit c (s\<lparr>pk_wld := w\<rparr>)
     | OutOfFuel \<Rightarrow> OutOfFuel)"

definition Packetiser_new ::
  "('m, u16, Channel) chm \<Rightarrow> 'x dpdk \<Rightarrow> ('q, ptr) segq \<Rightarrow> ('i, 'd) RoutingTable \<Rightarrow> usize \<Rightarrow>
   ('x world, ('q, 'm, 'i, 'd, 'x) Packetiser) exec" where
  "Packetiser_new C D Q table cap0 =
     bind (Channel_lookup D PACKETISER_CLIENT) (\<lambda>r.
     bind (unwrap_result r) (\<lambda>ch.
     bind (Mempool_lookup D ''GLOBAL_MEMPOOL'') (\<lambda>r.
     bind (unwrap_result r) (\<lambda>mp.
     bind (gets (\<lambda>w. w)) (\<lambda>w.
       ret \<lparr>pk_wld = w, channel = ch, mempool = mp, clientmap = RingClientMap_new C,
            i_bufqueue = sq_new Q, o_bufqueue = sq_new Q, cap = cap0, allocated_ids = [],
            LAST_ALLOCATED_ID = 1, TABLE = table\<rparr>)))))"

section \<open>Clients\<close>

text \<open>The loop of \<open>add_client\<close>: the first id below the bound that is not in use, else 0.\<close>

fun find_free :: "u16 list \<Rightarrow> u16 list \<Rightarrow> u16" where
  "find_free used [] = 0"
| "find_free used (i # is) = (if i \<notin> set used then i else find_free used is)"

definition Packetiser_add_client ::
  "('m, u16, Channel) chm \<Rightarrow> 'x dpdk \<Rightarrow> bool \<Rightarrow>
   (('q, 'm, 'i, 'd, 'x) Packetiser, RingClientMapError + unit) exec" where
  "Packetiser_add_client C D oc =
     bind (gets (\<lambda>s. find_free (allocated_ids s) (map of_nat [0..<unat (LAST_ALLOCATED_ID s)]))) (\<lambda>key.
     bind (if key = 0 then
             bind (gets LAST_ALLOCATED_ID) (\<lambda>last.
             bind (add_ck oc 16 (unat last) 1) (\<lambda>k.
             bind (add_ck oc 16 (unat last) 1) (\<lambda>last'.
             bind (modify (\<lambda>s. s\<lparr>LAST_ALLOCATED_ID := of_nat last'\<rparr>)) (\<lambda>_. ret (of_nat k)))))
           else ret key) (\<lambda>key.
     bind (modify (\<lambda>s. s\<lparr>allocated_ids := allocated_ids s @ [key]\<rparr>)) (\<lambda>_.
     bind (gets clientmap) (\<lambda>m.
     bind (in_pk (RingClientMap_add_client C D m key)) (\<lambda>(r, m').
     bind (modify (\<lambda>s. s\<lparr>clientmap := m'\<rparr>)) (\<lambda>_. ret r))))))"

text \<open>The loop of \<open>remove_clients\<close>: the position of the key, the length if it is absent.\<close>

fun index_of :: "u16 \<Rightarrow> u16 list \<Rightarrow> nat" where
  "index_of key [] = 0"
| "index_of key (i # is) = (if i = key then 0 else Suc (index_of key is))"

text \<open>\<open>Vec::remove\<close> panics out of range.\<close>

definition Packetiser_remove_clients ::
  "('m, u16, Channel) chm \<Rightarrow> 'x dpdk \<Rightarrow> u16 \<Rightarrow> (('q, 'm, 'i, 'd, 'x) Packetiser, unit) exec" where
  "Packetiser_remove_clients C D key =
     bind (gets (\<lambda>s. index_of key (allocated_ids s))) (\<lambda>index.
     bind (gets allocated_ids) (\<lambda>ids.
       if index < length ids then
         bind (modify (\<lambda>s. s\<lparr>allocated_ids := take index ids @ drop (Suc index) ids\<rparr>)) (\<lambda>_.
         bind (gets clientmap) (\<lambda>m.
         bind (in_pk (RingClientMap_remove_client C D m key)) (\<lambda>m'.
           modify (\<lambda>s. s\<lparr>clientmap := m'\<rparr>))))
       else fail IndexOutOfBounds))"

section \<open>From and to the engine\<close>

text \<open>The allocation loops: up to \<open>n\<close> buffers, stopping at the first failure.\<close>

fun new_bufs :: "'x dpdk \<Rightarrow> ptr list \<Rightarrow> nat \<Rightarrow> (('q, 'm, 'i, 'd, 'x) Packetiser, ptr list) exec" where
  "new_bufs D pkts 0 = ret pkts"
| "new_bufs D pkts (Suc n) =
     bind (gets mempool) (\<lambda>mp.
     bind (in_pk (Mbuf_new D mp)) (\<lambda>r. case r of
       Inr buf \<Rightarrow> new_bufs D (pkts @ [buf]) n
     | Inl _ \<Rightarrow> ret pkts))"

definition push_incoming :: "('q, ptr) segq \<Rightarrow> ptr list \<Rightarrow> (('q, 'm, 'i, 'd, 'x) Packetiser, unit) exec" where
  "push_incoming Q pkts = modify (\<lambda>s. s\<lparr>i_bufqueue := fold (sq_push Q) pkts (i_bufqueue s)\<rparr>)"

text \<open>\<open>pkts.drain(0..count)\<close> panics when \<open>count\<close> exceeds the length.\<close>

definition drain_front :: "nat \<Rightarrow> ptr list \<Rightarrow> ('s, ptr list \<times> ptr list) exec" where
  "drain_front n pkts =
     (if n \<le> length pkts then ret (take n pkts, drop n pkts) else fail IndexOutOfBounds)"

text \<open>The buffers left in the vector are dropped when it goes out of scope.\<close>

definition Packetiser_recv_from_engine_burst ::
  "'x dpdk \<Rightarrow> ('q, ptr) segq \<Rightarrow> build \<Rightarrow> (('q, 'm, 'i, 'd, 'x) Packetiser, MemoryError + usize) exec" where
  "Packetiser_recv_from_engine_burst D Q b =
     bind (new_bufs D [] (BURST_MAX b)) (\<lambda>pkts.
       if length pkts = 0 then bind (in_pk MemoryError_new) (\<lambda>e. ret (Inl e))
       else
         bind (gets channel) (\<lambda>ch.
         bind (in_pk (recv_from_engine_burst D ch pkts (length pkts))) (\<lambda>count.
         bind (if count \<noteq> 0 then
                 bind (drain_front count pkts) (\<lambda>(taken, rest).
                 bind (push_incoming Q taken) (\<lambda>_. ret rest))
               else ret pkts) (\<lambda>rest.
         bind (in_pk (Mbuf_drop_all D rest)) (\<lambda>_. ret (Inr count))))))"

text \<open>\<open>for pkt in self.o_bufqueue.pop()\<close> iterates over an \<open>Option\<close>: at most one packet.\<close>

definition Packetiser_send_to_engine_bulk ::
  "'x dpdk \<Rightarrow> ('q, ptr) segq \<Rightarrow> (('q, 'm, 'i, 'd, 'x) Packetiser, usize) exec" where
  "Packetiser_send_to_engine_bulk D Q =
     bind (gets o_bufqueue) (\<lambda>oq.
       if sq_is_empty Q oq then ret 0
       else
         bind (call (\<lambda>s. case sq_pop Q (o_bufqueue s) of (r, q) \<Rightarrow> (r, s\<lparr>o_bufqueue := q\<rparr>))) (\<lambda>r.
         bind (gets channel) (\<lambda>ch.
           in_pk (send_to_engine_bulk D ch (case r of None \<Rightarrow> [] | Some pkt \<Rightarrow> [pkt])))))"

definition recv_from_clients ::
  "('m, u16, Channel) chm \<Rightarrow> 'x dpdk \<Rightarrow> u16 \<Rightarrow> ptr \<Rightarrow>
   (('q, 'm, 'i, 'd, 'x) Packetiser, RingClientMapError + unit) exec" where
  "recv_from_clients C D key pkt =
     bind (gets clientmap) (\<lambda>m. in_pk (RingClientMap_send C D m key pkt))"

definition send_to_clients ::
  "('m, u16, Channel) chm \<Rightarrow> 'x dpdk \<Rightarrow> u16 \<Rightarrow> ptr \<Rightarrow>
   (('q, 'm, 'i, 'd, 'x) Packetiser, RingClientMapError + unit) exec" where
  "send_to_clients C D key pkt =
     bind (gets clientmap) (\<lambda>m. in_pk (RingClientMap_receive C D m key pkt))"

definition ipv4hdr :: "ptr \<Rightarrow> (('q, 'm, 'i, 'd, 'x) Packetiser, rte_ipv4_hdr) exec" where
  "ipv4hdr pkt = in_pk (Ipv4Hdr_from_mbuf pkt)"

definition store_incoming ::
  "'x dpdk \<Rightarrow> ('q, ptr) segq \<Rightarrow> build \<Rightarrow> (('q, 'm, 'i, 'd, 'x) Packetiser, MemoryError + unit) exec" where
  "store_incoming D Q b =
     bind (new_bufs D [] (BURST_MAX b)) (\<lambda>pkts.
     bind (gets channel) (\<lambda>ch.
     bind (in_pk (recv_from_engine_burst D ch pkts (length pkts))) (\<lambda>count.
     bind (drain_front count pkts) (\<lambda>(taken, rest).
     bind (push_incoming Q taken) (\<lambda>_.
     bind (in_pk (Mbuf_drop_all D rest)) (\<lambda>_. ret (Inr ())))))))"

definition forward_one ::
  "('m, u16, Channel) chm \<Rightarrow> ('i, Ipv4Addr, u16) chm \<Rightarrow> 'x dpdk \<Rightarrow> ('q, ptr) segq \<Rightarrow>
   (('q, 'm, 'i, 'd, 'x) Packetiser, unit) exec" where
  "forward_one C CI D Q =
     bind (call (\<lambda>s. case sq_pop Q (i_bufqueue s) of (r, q) \<Rightarrow> (r, s\<lparr>i_bufqueue := q\<rparr>))) (\<lambda>r.
     bind (unwrap_option r) (\<lambda>pkt.
     bind (in_pk (Ipv4Hdr_from_mbuf pkt)) (\<lambda>iphdr.
     bind (gets TABLE) (\<lambda>table.
     bind (gets clientmap) (\<lambda>m.
     bind (in_pk (RingClientMap_send C D m (id_from_ip CI table (get_dst_addr iphdr)) pkt)) (\<lambda>r.
       unwrap_result r))))))"

fun repeat_n :: "nat \<Rightarrow> ('s, unit) exec \<Rightarrow> ('s, unit) exec" where
  "repeat_n 0 body = ret ()"
| "repeat_n (Suc n) body = bind body (\<lambda>_. repeat_n n body)"

lemma repeat_n_add: "repeat_n (m + n) body = bind (repeat_n m body) (\<lambda>_. repeat_n n body)"
  by (induction m) (simp_all add: bind_assoc)

definition forward_incoming_packets ::
  "('m, u16, Channel) chm \<Rightarrow> ('i, Ipv4Addr, u16) chm \<Rightarrow> 'x dpdk \<Rightarrow> ('q, ptr) segq \<Rightarrow>
   (('q, 'm, 'i, 'd, 'x) Packetiser, unit) exec" where
  "forward_incoming_packets C CI D Q =
     bind (gets (\<lambda>s. sq_len Q (i_bufqueue s))) (\<lambda>n. repeat_n n (forward_one C CI D Q))"

text \<open>One round over the allocated ids; a failed allocation ends the function with its error.\<close>

fun collect_round ::
  "('m, u16, Channel) chm \<Rightarrow> 'x dpdk \<Rightarrow> ('q, ptr) segq \<Rightarrow> u16 list \<Rightarrow>
   (('q, 'm, 'i, 'd, 'x) Packetiser, MemoryError + unit) exec" where
  "collect_round C D Q [] = ret (Inr ())"
| "collect_round C D Q (key # keys) =
     bind (gets mempool) (\<lambda>mp.
     bind (in_pk (Mbuf_new D mp)) (\<lambda>r. case r of
       Inl e \<Rightarrow> ret (Inl e)
     | Inr pkt \<Rightarrow>
         bind (gets clientmap) (\<lambda>m.
         bind (in_pk (RingClientMap_receive C D m key pkt)) (\<lambda>r. case r of
           Inr _ \<Rightarrow>
             bind (modify (\<lambda>s. s\<lparr>o_bufqueue := sq_push Q pkt (o_bufqueue s)\<rparr>)) (\<lambda>_.
               collect_round C D Q keys)
         | Inl _ \<Rightarrow> bind (in_pk (Mbuf_drop D pkt)) (\<lambda>_. collect_round C D Q keys)))))"

fun collect_rounds ::
  "('m, u16, Channel) chm \<Rightarrow> 'x dpdk \<Rightarrow> ('q, ptr) segq \<Rightarrow> nat \<Rightarrow>
   (('q, 'm, 'i, 'd, 'x) Packetiser, MemoryError + unit) exec" where
  "collect_rounds C D Q 0 = ret (Inr ())"
| "collect_rounds C D Q (Suc n) =
     bind (gets allocated_ids) (\<lambda>ids.
     bind (collect_round C D Q ids) (\<lambda>r. case r of
       Inl e \<Rightarrow> ret (Inl e)
     | Inr _ \<Rightarrow> collect_rounds C D Q n))"

text \<open>The buffers \<open>pkts\<close> allocated up front only count the rounds; they are dropped at the end.\<close>

definition store_outgoing ::
  "('m, u16, Channel) chm \<Rightarrow> 'x dpdk \<Rightarrow> ('q, ptr) segq \<Rightarrow> build \<Rightarrow>
   (('q, 'm, 'i, 'd, 'x) Packetiser, MemoryError + unit) exec" where
  "store_outgoing C D Q b =
     bind (new_bufs D [] (BURST_MAX b)) (\<lambda>pkts.
     bind (collect_rounds C D Q (length pkts)) (\<lambda>r.
     bind (in_pk (Mbuf_drop_all D pkts)) (\<lambda>_. ret r)))"

definition send_one ::
  "'x dpdk \<Rightarrow> ('q, ptr) segq \<Rightarrow> (('q, 'm, 'i, 'd, 'x) Packetiser, unit) exec" where
  "send_one D Q =
     bind (call (\<lambda>s. case sq_pop Q (o_bufqueue s) of (r, q) \<Rightarrow> (r, s\<lparr>o_bufqueue := q\<rparr>))) (\<lambda>mb.
       case mb of
         Some buf \<Rightarrow>
           bind (gets channel) (\<lambda>ch. bind (in_pk (send_to_engine D ch buf)) (\<lambda>_. ret ()))
       | None \<Rightarrow> ret ())"

definition send_outgoing_packets ::
  "'x dpdk \<Rightarrow> ('q, ptr) segq \<Rightarrow> (('q, 'm, 'i, 'd, 'x) Packetiser, RingClientMapError + unit) exec" where
  "send_outgoing_packets D Q =
     bind (gets (\<lambda>s. sq_len Q (o_bufqueue s))) (\<lambda>len.
     bind (repeat_n len (send_one D Q)) (\<lambda>_. ret (Inr ())))"

definition u32_to_ipaddr :: "u32 \<Rightarrow> Ipv4Addr" where
  "u32_to_ipaddr ip = (ucast (drop_bit 24 ip AND 0xFF), ucast (drop_bit 16 ip AND 0xFF),
                       ucast (drop_bit 8 ip AND 0xFF), ucast (ip AND 0xFF))"

definition get_ip_hdr :: "ptr \<Rightarrow> ('x world, Ipv4Addr option) exec" where
  "get_ip_hdr buf =
     bind (pkt_ipv4_hdr buf) (\<lambda>hdr. case hdr of
       None \<Rightarrow> ret None
     | Some i \<Rightarrow> bind (on_mbuf buf (load32 (i + 16))) (\<lambda>dst. ret (Some (u32_to_ipaddr dst))))"

definition start_args :: "string list" where
  "start_args = [''-l 2-3'', ''-n 4'', ''--proc-type=secondary'', ''--'', ''-n 0'']"

definition Packetiser_start :: "'x dpdk \<Rightarrow> ('x world, unit) exec" where
  "Packetiser_start D = bind (eal_init D start_args) (\<lambda>r. unwrap_result r)"

section \<open>main\<close>

text \<open>\<open>while !proc.i_bufqueue.is_empty() {}\<close> of the debug build, with fuel.\<close>

fun spin :: "('q, ptr) segq \<Rightarrow> nat \<Rightarrow> (('q, 'm, 'i, 'd, 'x) Packetiser, unit) exec" where
  "spin Q fuel = (\<lambda>s.
     if sq_is_empty Q (i_bufqueue s) then Ret () s
     else case fuel of 0 \<Rightarrow> OutOfFuel | Suc n \<Rightarrow> spin Q n s)"

declare spin.simps [simp del]

text \<open>
  One iteration of the main loop: \<open>process_pkts\<close> is the poll of the sockets. The result says whether the loop goes on; it ends at the first receive error.
\<close>

definition packetiser_iteration ::
  "'x dpdk \<Rightarrow> ('q, ptr) segq \<Rightarrow> build \<Rightarrow> (('q, 'm, 'i, 'd, 'x) Packetiser, unit) exec \<Rightarrow> nat \<Rightarrow>
   (('q, 'm, 'i, 'd, 'x) Packetiser, bool) exec" where
  "packetiser_iteration D Q b process_pkts fuel =
     bind process_pkts (\<lambda>_.
     bind (Packetiser_recv_from_engine_burst D Q b) (\<lambda>r. case r of
       Inl e \<Rightarrow> ret False
     | Inr count \<Rightarrow>
         if feature_debug b then
           bind (spin Q fuel) (\<lambda>_.
           bind (send_outgoing_packets D Q) (\<lambda>_. ret True))
         else ret True))"

text \<open>
  The sockets are a local variable of \<open>main\<close>, with a state of their own: polling them leaves the
  packetiser alone, but a poll that panics, exits or does not return does so for the whole process.
\<close>

definition beside :: "('k, unit) exec \<Rightarrow> 'k \<Rightarrow> ('s, unit) exec" where
  "beside poll k = (\<lambda>s. case poll k of
       Ret _ _ \<Rightarrow> Ret () s
     | Fault e _ \<Rightarrow> Fault e s
     | Exit c _ \<Rightarrow> Exit c s
     | OutOfFuel \<Rightarrow> OutOfFuel)"

definition after_poll :: "('k, unit) exec \<Rightarrow> 'k \<Rightarrow> 'k" where
  "after_poll poll k = (case poll k of Ret _ k' \<Rightarrow> k' | _ \<Rightarrow> k)"

text \<open>The loop also ends when the flag is cleared, after \<open>n\<close> iterations.\<close>

fun packetiser_loop ::
  "'x dpdk \<Rightarrow> ('q, ptr) segq \<Rightarrow> build \<Rightarrow> ('k, unit) exec \<Rightarrow> nat \<Rightarrow> nat \<Rightarrow> 'k \<Rightarrow>
   (('q, 'm, 'i, 'd, 'x) Packetiser, unit) exec" where
  "packetiser_loop D Q b poll fuel 0 k = ret ()"
| "packetiser_loop D Q b poll fuel (Suc n) k =
     bind (packetiser_iteration D Q b (beside poll k) fuel) (\<lambda>go_on.
       if go_on then packetiser_loop D Q b poll fuel n (after_poll poll k) else ret ())"

text \<open>
  Dropping the \<open>Packetiser\<close> at the end of \<open>main\<close>, its fields in order; \<open>drop_map\<close> stands for
  the destructor of the \<open>CHashMap\<close> of channels.
\<close>

fun drop_queue :: "'x dpdk \<Rightarrow> ('q, ptr) segq \<Rightarrow> nat \<Rightarrow> 'q \<Rightarrow> ('x world, unit) exec" where
  "drop_queue D Q 0 q = ret ()"
| "drop_queue D Q (Suc n) q =
     (case sq_pop Q q of
        (None, _) \<Rightarrow> ret ()
      | (Some pkt, q') \<Rightarrow> bind (Mbuf_drop D pkt) (\<lambda>_. drop_queue D Q n q'))"

definition Packetiser_drop ::
  "'x dpdk \<Rightarrow> ('q, ptr) segq \<Rightarrow> ('m \<Rightarrow> ('x world, unit) exec) \<Rightarrow> ('q, 'm, 'i, 'd, 'x) Packetiser \<Rightarrow>
   ('x world, unit) exec" where
  "Packetiser_drop D Q drop_map s =
     bind (Channel_drop D (channel s)) (\<lambda>_.
     bind (Mempool_drop D (mempool s)) (\<lambda>_.
     bind (drop_map (clientmap s)) (\<lambda>_.
     bind (drop_queue D Q (sq_len Q (i_bufqueue s)) (i_bufqueue s)) (\<lambda>_.
       drop_queue D Q (sq_len Q (o_bufqueue s)) (o_bufqueue s)))))"

text \<open>
  \<open>zmq_socket\<close>, \<open>zmq_connect\<close>, \<open>zmq_send\<close> and \<open>set_handler\<close> say whether these calls of other
  packages succeed; \<open>socks\<close> is what \<open>SockSet::new\<close> gives, nothing if it panics.
\<close>

definition packetiser_main ::
  "('m, u16, Channel) chm \<Rightarrow> ('i, Ipv4Addr, u16) chm \<Rightarrow> ('d, u16, Ipv4Addr) chm \<Rightarrow> 'x dpdk \<Rightarrow>
   ('q, ptr) segq \<Rightarrow> ('m \<Rightarrow> ('x world, unit) exec) \<Rightarrow> build \<Rightarrow> bool \<Rightarrow> bool \<Rightarrow> bool \<Rightarrow> bool \<Rightarrow> 'k option \<Rightarrow>
   ('k, unit) exec \<Rightarrow> nat \<Rightarrow> nat \<Rightarrow> ('x world, unit) exec" where
  "packetiser_main C CI CD D Q drop_map b zmq_socket zmq_connect zmq_send set_handler socks process_pkts fuel n =
     bind (Packetiser_start D) (\<lambda>_.
     bind (Packetiser_new C D Q (RoutingTable_new CI CD) (BURST_MAX b)) (\<lambda>proc.
       if \<not> zmq_socket then fail Unwrap
       else if \<not> zmq_connect then fail Assertion
       else if \<not> zmq_send then fail Unwrap
       else if \<not> set_handler then fail Unwrap
       else case socks of None \<Rightarrow> fail Explicit | Some k \<Rightarrow>
         (\<lambda>w. case packetiser_loop D Q b process_pkts fuel n k (proc\<lparr>pk_wld := w\<rparr>) of
           Ret _ s \<Rightarrow> Packetiser_drop D Q drop_map s (pk_wld s)
         | Fault e s \<Rightarrow> Fault e (pk_wld s)
         | Exit c s \<Rightarrow> Exit c (pk_wld s)
         | OutOfFuel \<Rightarrow> OutOfFuel)))"

section \<open>Client ids\<close>

lemma in_pk_Ret [exec_simps]:
  "f (pk_wld s) = Ret a w \<Longrightarrow> in_pk f s = Ret a (s\<lparr>pk_wld := w\<rparr>)"
  by (simp add: in_pk_def)

lemma in_pk_Fault [exec_simps]:
  "f (pk_wld s) = Fault e w \<Longrightarrow> in_pk f s = Fault e (s\<lparr>pk_wld := w\<rparr>)"
  by (simp add: in_pk_def)

lemma in_pk_eq_Ret: "in_pk f s = Ret a t \<longleftrightarrow> (\<exists>w. f (pk_wld s) = Ret a w \<and> t = s\<lparr>pk_wld := w\<rparr>)"
  by (cases "f (pk_wld s)") (auto simp: in_pk_def)

text \<open>
  The invariant of the id bookkeeping: ids in use are distinct, above the packetiser's own and
  at most the last one handed out.
\<close>

definition ids_inv :: "('q, 'm, 'i, 'd, 'x) Packetiser \<Rightarrow> bool" where
  "ids_inv s \<longleftrightarrow> distinct (allocated_ids s) \<and> 1 \<le> LAST_ALLOCATED_ID s \<and>
     (\<forall>i \<in> set (allocated_ids s). 2 \<le> i \<and> i \<le> LAST_ALLOCATED_ID s)"

lemma find_free_zero:
  assumes "ids_inv s"
  shows "find_free (allocated_ids s) (map of_nat [0..<unat (LAST_ALLOCATED_ID s)]) = 0"
proof -
  have "0 < unat (LAST_ALLOCATED_ID s)"
    using assms by (simp add: ids_inv_def word_le_nat_alt)
  then have "[0..<unat (LAST_ALLOCATED_ID s)] = 0 # [1..<unat (LAST_ALLOCATED_ID s)]"
    by (simp add: upt_conv_Cons)
  moreover have "0 \<notin> set (allocated_ids s)"
    using assms by (force simp: ids_inv_def word_le_nat_alt)
  ultimately show ?thesis by simp
qed

lemma index_of_spec:
  "key \<in> set ids \<Longrightarrow> index_of key ids < length ids \<and>
     take (index_of key ids) ids @ drop (Suc (index_of key ids)) ids = remove1 key ids"
  "key \<notin> set ids \<Longrightarrow> index_of key ids = length ids"
  by (induction ids) auto

text \<open>An operation that, when it returns, leaves the ids alone.\<close>

definition keeps_ids :: "(('q, 'm, 'i, 'd, 'x) Packetiser, 'a) exec \<Rightarrow> bool" where
  "keeps_ids f \<longleftrightarrow> (\<forall>s a t. f s = Ret a t \<longrightarrow>
     allocated_ids t = allocated_ids s \<and> LAST_ALLOCATED_ID t = LAST_ALLOCATED_ID s)"

named_theorems keeps_intros "operations that leave the client ids alone"

lemma keeps_bind [keeps_intros]: "keeps_ids m \<Longrightarrow> (\<And>a. keeps_ids (k a)) \<Longrightarrow> keeps_ids (bind m k)"
  unfolding keeps_ids_def bind_eq_Ret by metis

lemma keeps_basic [keeps_intros]:
  "keeps_ids (ret a)" "keeps_ids (fail e)" "keeps_ids (gets g)" "keeps_ids (in_pk f)"
  "keeps_ids (unwrap_option x)" "keeps_ids (unwrap_result y)"
  by (auto simp: keeps_ids_def ret_def fail_def gets_def in_pk_eq_Ret unwrap_option_def
      unwrap_result_def split: option.splits sum.splits)

lemma keeps_queues [keeps_intros]:
  "keeps_ids (modify (\<lambda>s. s\<lparr>i_bufqueue := f s\<rparr>))" "keeps_ids (modify (\<lambda>s. s\<lparr>o_bufqueue := f s\<rparr>))"
  "keeps_ids (call (\<lambda>s. case pop (i_bufqueue s) of (r, q) \<Rightarrow> (r, s\<lparr>i_bufqueue := q\<rparr>)))"
  "keeps_ids (call (\<lambda>s. case pop (o_bufqueue s) of (r, q) \<Rightarrow> (r, s\<lparr>o_bufqueue := q\<rparr>)))"
  by (auto simp: keeps_ids_def modify_def call_def split: prod.splits)

lemma keeps_new_bufs [keeps_intros]: "keeps_ids (new_bufs D pkts n)"
  by (induction n arbitrary: pkts) (auto intro!: keeps_intros split: sum.split)

lemma keeps_repeat [keeps_intros]: "keeps_ids body \<Longrightarrow> keeps_ids (repeat_n n body)"
  by (induction n) (auto intro!: keeps_intros)

lemma keeps_recv: "keeps_ids (Packetiser_recv_from_engine_burst D Q b)"
  by (auto simp: Packetiser_recv_from_engine_burst_def push_incoming_def drain_front_def
      intro!: keeps_intros split: if_split prod.split)

lemma keeps_store_incoming: "keeps_ids (store_incoming D Q b)"
  by (auto simp: store_incoming_def push_incoming_def drain_front_def
      intro!: keeps_intros split: if_split prod.split)

lemma keeps_forward: "keeps_ids (forward_incoming_packets C CI D Q)"
  by (auto simp: forward_incoming_packets_def forward_one_def intro!: keeps_intros)

lemma keeps_collect_round [keeps_intros]: "keeps_ids (collect_round C D Q keys)"
  by (induction keys) (auto intro!: keeps_intros split: sum.split)

lemma keeps_collect_rounds [keeps_intros]: "keeps_ids (collect_rounds C D Q n)"
  by (induction n) (auto intro!: keeps_intros split: sum.split)

lemma keeps_store_outgoing: "keeps_ids (store_outgoing C D Q b)"
  by (auto simp: store_outgoing_def intro!: keeps_intros)

lemma keeps_send_outgoing: "keeps_ids (send_outgoing_packets D Q)"
  by (auto simp: send_outgoing_packets_def send_one_def intro!: keeps_intros split: option.split)

lemma keeps_send_to_engine_bulk: "keeps_ids (Packetiser_send_to_engine_bulk D Q)"
  by (auto simp: Packetiser_send_to_engine_bulk_def intro!: keeps_intros split: if_split)

lemma keeps_client_io:
  "keeps_ids (recv_from_clients C D key pkt)" "keeps_ids (send_to_clients C D key pkt)"
  by (auto simp: recv_from_clients_def send_to_clients_def intro!: keeps_intros)

text \<open>The operations of the packetiser as a step relation. Whether the arithmetic of \<open>add_client\<close>
  is checked is the build's matter.\<close>

inductive pk_step ::
  "('m, u16, Channel) chm \<Rightarrow> ('i, Ipv4Addr, u16) chm \<Rightarrow> 'x dpdk \<Rightarrow> ('q, ptr) segq \<Rightarrow> build \<Rightarrow>
   ('q, 'm, 'i, 'd, 'x) Packetiser \<Rightarrow> ('q, 'm, 'i, 'd, 'x) Packetiser \<Rightarrow> bool"
  for C CI D Q b where
  add: "Packetiser_add_client C D (overflow_checks b) s = Ret r t \<Longrightarrow> pk_step C CI D Q b s t"
| remove: "Packetiser_remove_clients C D key s = Ret () t \<Longrightarrow> pk_step C CI D Q b s t"
| recv: "Packetiser_recv_from_engine_burst D Q b s = Ret n t \<Longrightarrow> pk_step C CI D Q b s t"
| send_bulk: "Packetiser_send_to_engine_bulk D Q s = Ret k t \<Longrightarrow> pk_step C CI D Q b s t"
| from_client: "recv_from_clients C D key pkt s = Ret u t \<Longrightarrow> pk_step C CI D Q b s t"
| to_client: "send_to_clients C D key pkt s = Ret u t \<Longrightarrow> pk_step C CI D Q b s t"
| store_in: "store_incoming D Q b s = Ret v t \<Longrightarrow> pk_step C CI D Q b s t"
| forward: "forward_incoming_packets C CI D Q s = Ret () t \<Longrightarrow> pk_step C CI D Q b s t"
| store_out: "store_outgoing C D Q b s = Ret v t \<Longrightarrow> pk_step C CI D Q b s t"
| send_out: "send_outgoing_packets D Q s = Ret u t \<Longrightarrow> pk_step C CI D Q b s t"
| route: "pk_step C CI D Q b s (s\<lparr>TABLE := table\<rparr>)"

inductive pk_reachable ::
  "('m, u16, Channel) chm \<Rightarrow> ('i, Ipv4Addr, u16) chm \<Rightarrow> 'x dpdk \<Rightarrow> ('q, ptr) segq \<Rightarrow> build \<Rightarrow>
   ('q, 'm, 'i, 'd, 'x) Packetiser \<Rightarrow> ('q, 'm, 'i, 'd, 'x) Packetiser \<Rightarrow> bool"
  for C CI D Q b s0 where
  start: "pk_reachable C CI D Q b s0 s0"
| step: "pk_reachable C CI D Q b s0 s \<Longrightarrow> pk_step C CI D Q b s t \<Longrightarrow> pk_reachable C CI D Q b s0 t"

lemma add_client_Ret:
  assumes "ids_inv s" "Packetiser_add_client C D True s = Ret r t"
  shows "LAST_ALLOCATED_ID t = LAST_ALLOCATED_ID s + 1 \<and> LAST_ALLOCATED_ID s < LAST_ALLOCATED_ID t \<and>
     allocated_ids t = allocated_ids s @ [LAST_ALLOCATED_ID s + 1]"
proof -
  have fits: "unat (LAST_ALLOCATED_ID s) + 1 < 2 ^ 16"
  proof (rule ccontr)
    assume "\<not> ?thesis"
    then show False
      using assms(2) find_free_zero [OF assms(1)]
      by (simp add: Packetiser_add_client_def add_ck_def bind_eq_Ret gets_def fail_exec)
  qed
  then have "unat (LAST_ALLOCATED_ID s + 1) = unat (LAST_ALLOCATED_ID s) + 1"
    by (simp add: unat_word_ariths)
  then have lt: "LAST_ALLOCATED_ID s < LAST_ALLOCATED_ID s + 1" by (simp add: word_less_nat_alt)
  have "LAST_ALLOCATED_ID t = LAST_ALLOCATED_ID s + 1 \<and>
     allocated_ids t = allocated_ids s @ [LAST_ALLOCATED_ID s + 1]"
    using assms(2) find_free_zero [OF assms(1)] fits
    by (auto simp: Packetiser_add_client_def add_ck_fits bind_eq_Ret in_pk_eq_Ret gets_def modify_def
        ret_exec split: prod.splits)
  with lt show ?thesis by simp
qed

lemma remove_clients_Ret:
  assumes "Packetiser_remove_clients C D key s = Ret () t"
  shows "key \<in> set (allocated_ids s) \<and> allocated_ids t = remove1 key (allocated_ids s) \<and>
     LAST_ALLOCATED_ID t = LAST_ALLOCATED_ID s"
proof -
  have i: "index_of key (allocated_ids s) < length (allocated_ids s)"
    using assms by (auto simp: Packetiser_remove_clients_def exec_simps split: if_splits)
  then have "key \<in> set (allocated_ids s)" using index_of_spec(2) by fastforce
  with i assms index_of_spec(1) [of key "allocated_ids s"] show ?thesis
    by (auto simp: Packetiser_remove_clients_def bind_eq_Ret in_pk_eq_Ret gets_def modify_def)
qed

text \<open>With overflow checks the invariant is kept; without them it is not, as is shown below.\<close>

lemma pk_step_ids: "pk_step C CI D Q b s t \<Longrightarrow> overflow_checks b \<Longrightarrow> ids_inv s \<Longrightarrow> ids_inv t"
proof (induction rule: pk_step.induct)
  case (add s r t)
  from add(1,2) have "Packetiser_add_client C D True s = Ret r t" by simp
  from add_client_Ret [OF add(3) this] add(3) show ?case
    by (auto simp: ids_inv_def intro: order_trans less_imp_le) (auto simp: word_le_nat_alt word_less_nat_alt)
next
  case (remove key s t)
  with remove_clients_Ret [OF remove(1)] show ?case
    by (auto simp: ids_inv_def dest: notin_set_remove1)
qed (use keeps_recv keeps_send_to_engine_bulk keeps_client_io keeps_store_incoming keeps_forward
      keeps_store_outgoing keeps_send_outgoing in \<open>fastforce simp: keeps_ids_def ids_inv_def\<close>)+

lemma pk_reachable_ids: "pk_reachable C CI D Q b s0 s \<Longrightarrow> overflow_checks b \<Longrightarrow> ids_inv s0 \<Longrightarrow> ids_inv s"
  by (induction rule: pk_reachable.induct) (auto intro: pk_step_ids)

section \<open>Receiving from the engine\<close>

text \<open>From \<open>w\<close> to \<open>w'\<close> exactly the buffers \<open>bufs\<close> have been taken out of a pool.\<close>

definition allocated :: "ptr \<Rightarrow> nat \<Rightarrow> ptr list \<Rightarrow> 'x world \<Rightarrow> 'x world \<Rightarrow> bool" where
  "allocated mp room bufs w w' \<longleftrightarrow> distinct bufs \<and>
     (\<forall>p \<in> set bufs. mem w p = None \<and> (\<exists>m. mem w' p = Some m \<and> fresh_mbuf mp room m)) \<and>
     (\<forall>p. p \<notin> set bufs \<longrightarrow> mem w' p = mem w p)"

lemma allocated_Nil: "allocated mp room [] w w' \<longleftrightarrow> mem w' = mem w"
  by (auto simp: allocated_def)

lemma allocated_Cons:
  assumes "mem w p = None" "fresh_mbuf mp room m" "mem w1 = (mem w)(p \<mapsto> m)"
    and "allocated mp room bufs w1 w'"
  shows "allocated mp room (p # bufs) w w'"
proof -
  have "p \<notin> set bufs" using assms(3,4) by (auto simp: allocated_def)
  with assms show ?thesis by (auto simp: allocated_def split: if_splits)
qed

lemma allocated_take:
  assumes "allocated mp room bufs w w1" "mem w' = (\<lambda>p. if p \<in> set (drop k bufs) then None else mem w1 p)"
  shows "allocated mp room (take k bufs) w w'"
proof -
  have d: "distinct bufs" using assms(1) by (simp add: allocated_def)
  have s: "set bufs = set (take k bufs) \<union> set (drop k bufs)" by (metis append_take_drop_id set_append)
  have i: "set (take k bufs) \<inter> set (drop k bufs) = {}" using d by (rule set_take_disj_set_drop_if_distinct) simp
  have "mem w' p = mem w p" if "p \<notin> set (take k bufs)" for p
    using that assms s by (cases "p \<in> set (drop k bufs)") (auto simp: allocated_def)
  moreover have "mem w p = None \<and> (\<exists>m. mem w' p = Some m \<and> fresh_mbuf mp room m)" if "p \<in> set (take k bufs)" for p
    using that assms s i by (auto simp: allocated_def)
  ultimately show ?thesis using d by (simp add: allocated_def)
qed

locale packetiser_env = client_map_env D view C entries + seg_queue Q items
  for D :: "'x dpdk" and view :: "'x \<Rightarrow> dview"
    and C :: "('m, u16, Channel) chm" and entries :: "'m \<Rightarrow> u16 \<Rightarrow> Channel option"
    and Q :: "('q, ptr) segq" and items :: "'q \<Rightarrow> ptr list"
begin

lemma items_fold_push: "items (fold (sq_push Q) ps q) = items q @ ps"
  by (induction ps arbitrary: q) simp_all

lemma Mbuf_drop_all_spec:
  assumes "distinct ps" "\<forall>p \<in> set ps. \<exists>m. mem w p = Some m \<and> mb_pool m = mp"
  shows "\<exists>w'. Mbuf_drop_all D ps w = Ret () w' \<and>
     mem w' = (\<lambda>p. if p \<in> set ps then None else mem w p) \<and>
     view (ext w') = upd_avail mp (v_avail (view (ext w)) mp + length ps) (view (ext w))"
  using assms
proof (induction ps arbitrary: w)
  case Nil
  then show ?case by (simp add: exec_simps)
next
  case (Cons p ps)
  then obtain m where m: "mem w p = Some m" "mb_pool m = mp" by auto
  obtain w1 where w1: "Mbuf_drop D p w = Ret () w1" "mem w1 = (mem w)(p := None)"
      "view (ext w1) = upd_avail mp (v_avail (view (ext w)) mp + 1) (view (ext w))"
    using Mbuf_drop_spec [OF m(1)] m(2) by auto
  have "\<forall>x \<in> set ps. \<exists>m. mem w1 x = Some m \<and> mb_pool m = mp" using Cons.prems w1(2) by auto
  from Cons.IH [OF _ this] Cons.prems(1) w1 show ?case
    by (auto simp: exec_simps fun_eq_iff)
qed

lemma new_bufs_spec:
  assumes "finite (dom (mem (pk_wld s)))" and "mp = mempool s"
    and "a = v_avail (view (ext (pk_wld s))) mp" "room = v_room (view (ext (pk_wld s))) mp"
  shows "\<exists>bufs w'. new_bufs D acc n (s :: ('q, 'm, 'i, 'd, 'x) Packetiser) = Ret (acc @ bufs) (s\<lparr>pk_wld := w'\<rparr>) \<and>
     length bufs = min n a \<and> allocated mp room bufs (pk_wld s) w' \<and>
     view (ext w') = upd_avail mp (a - min n a) (view (ext (pk_wld s)))"
  using assms
proof (induction n arbitrary: s acc a)
  case 0
  then show ?case
    by (intro exI [of _ "[]"] exI [of _ "pk_wld s"]) (simp add: allocated_Nil exec_simps)
next
  case (Suc n)
  show ?case
  proof (cases "a = 0")
    case True
    obtain w' where "Mbuf_new D mp (pk_wld s) = Ret (Inl NoBuf) w'" "mem w' = mem (pk_wld s)"
        "view (ext w') = view (ext (pk_wld s))"
      using Mbuf_new_fails [of "pk_wld s" mp] True Suc.prems by auto
    then show ?thesis
      using True Suc.prems upd_avail_same [of mp "view (ext (pk_wld s))"]
      by (intro exI [of _ "[]"] exI [of _ w']) (simp add: allocated_Nil exec_simps)
  next
    case False
    then have a: "0 < v_avail (view (ext (pk_wld s))) mp" using Suc.prems by simp
    obtain p m w1 where p: "Mbuf_new D mp (pk_wld s) = Ret (Inr p) w1" "mem (pk_wld s) p = None"
        "fresh_mbuf mp room m" "mem w1 = (mem (pk_wld s))(p \<mapsto> m)"
        "view (ext w1) = upd_avail mp (a - 1) (view (ext (pk_wld s)))"
      using Mbuf_new_ok [OF a Suc.prems(1)] Suc.prems by blast
    have "finite (dom (mem w1))" using p(4) Suc.prems(1) by simp
    then obtain bufs w' where "new_bufs D (acc @ [p]) n (s\<lparr>pk_wld := w1\<rparr>) = Ret (acc @ p # bufs) (s\<lparr>pk_wld := w'\<rparr>)"
        "length bufs = min n (a - 1)" "allocated mp room bufs w1 w'"
        "view (ext w') = upd_avail mp (a - 1 - min n (a - 1)) (view (ext w1))"
      using Suc.IH [of "s\<lparr>pk_wld := w1\<rparr>" "a - 1" "acc @ [p]"] Suc.prems p(5) by auto
    moreover have "Suc (min n (a - Suc 0)) = min (Suc n) a" using False by simp
    ultimately show ?thesis
      using allocated_Cons [OF p(2,3,4)] p(1,5) False Suc.prems(2)
      by (intro exI [of _ "p # bufs"] exI [of _ w']) (auto simp: exec_simps)
  qed
qed

text \<open>The second half of a burst: some buffers are kept, the others go back to the pool.\<close>

lemma dequeue_and_free:
  assumes al: "allocated mp room bufs w w1" and small: "length bufs < 2 ^ 32"
    and ring: "e = ring_raw (engine_to_client ch)" "v_rings (view (ext w1)) e = Some q"
    and k: "k = min (length bufs) (length q)"
  shows "\<exists>w2 w3. recv_from_engine_burst D ch bufs (length bufs) w1 = Ret k w2 \<and>
     Mbuf_drop_all D (drop k bufs) w2 = Ret () w3 \<and> allocated mp room (take k bufs) w w3 \<and>
     view (ext w3) = upd_avail mp (v_avail (view (ext w1)) mp + (length bufs - k))
       (upd_ring e (drop k q) (view (ext w1)))"
proof -
  have "drop (length bufs) q = drop k q" unfolding k by (simp add: min_def)
  then obtain w2 where dq: "recv_from_engine_burst D ch bufs (length bufs) w1 = Ret k w2"
      "mem w2 = mem w1" "view (ext w2) = upd_ring e (drop k q) (view (ext w1))"
    using Ring_dequeue_burst_spec [OF _ small, of w1 "engine_to_client ch" q "length bufs"] ring k
    by (auto simp: Memring.recv_from_engine_burst_def)
  have "distinct bufs" "\<forall>p \<in> set (drop k bufs). \<exists>m. mem w2 p = Some m \<and> mb_pool m = mp"
    using al dq(2) by (auto simp: allocated_def fresh_mbuf_def dest!: in_set_dropD)
  from Mbuf_drop_all_spec [OF distinct_drop [OF this(1)] this(2)] obtain w3 where
    dr: "Mbuf_drop_all D (drop k bufs) w2 = Ret () w3"
      "mem w3 = (\<lambda>p. if p \<in> set (drop k bufs) then None else mem w2 p)"
      "view (ext w3) = upd_avail mp (v_avail (view (ext w2)) mp + length (drop k bufs)) (view (ext w2))"
    by blast
  have "allocated mp room (take k bufs) w w3" using allocated_take [OF al dr(2) [unfolded dq(2)]] .
  with dq dr show ?thesis by auto
qed

lemma recv_from_engine_burst_step:
  assumes fin: "finite (dom (mem (pk_wld s)))"
    and ring: "e = ring_raw (engine_to_client (channel s))" "v_rings (view (ext (pk_wld s))) e = Some q"
    and av: "a = v_avail (view (ext (pk_wld s))) (mempool s)"
    and n: "n = min (BURST_MAX b) a"
  shows "\<exists>r bufs w' iq. Packetiser_recv_from_engine_burst D Q b (s :: ('q, 'm, 'i, 'd, 'x) Packetiser) =
       Ret r (s\<lparr>pk_wld := w', i_bufqueue := iq\<rparr>) \<and> (if a = 0 then \<exists>err. r = Inl err else r = Inr (length bufs)) \<and>
     length bufs = min n (length q) \<and> distinct bufs \<and> items iq = items (i_bufqueue s) @ bufs \<and>
     (\<forall>p \<in> set bufs. mem (pk_wld s) p = None \<and> (\<exists>m. mem w' p = Some m \<and> mb_data m = [])) \<and>
     (\<forall>p. p \<notin> set bufs \<longrightarrow> mem w' p = mem (pk_wld s) p) \<and>
     view (ext w') = upd_avail (mempool s) (a - length bufs) (upd_ring e (drop (length bufs) q) (view (ext (pk_wld s))))"
proof -
  let ?mp = "mempool s" and ?room = "v_room (view (ext (pk_wld s))) (mempool s)" and ?k = "min n (length q)"
  obtain bufs w1 where nb: "new_bufs D [] (BURST_MAX b) s = Ret bufs (s\<lparr>pk_wld := w1\<rparr>)"
      and b: "length bufs = n" "allocated ?mp ?room bufs (pk_wld s) w1"
      "view (ext w1) = upd_avail ?mp (a - n) (view (ext (pk_wld s)))"
    using new_bufs_spec [OF fin refl av(1) refl, of "[]" "BURST_MAX b"] n by auto
  show ?thesis
  proof (cases "a = 0")
    case True
    then have "bufs = []" "n = 0" using b(1) n by simp_all
    with nb have "Packetiser_recv_from_engine_burst D Q b s =
        Ret (Inl (MemoryError_of_errno (rte_errno w1))) (s\<lparr>pk_wld := w1, i_bufqueue := i_bufqueue s\<rparr>)"
      by (simp add: Packetiser_recv_from_engine_burst_def MemoryError_new_def exec_simps)
    then show ?thesis
      using True b(2,3) \<open>bufs = []\<close> \<open>n = 0\<close> upd_ring_same [OF ring(2)]
      by (intro exI [of _ "Inl (MemoryError_of_errno (rte_errno w1))"] exI [of _ "[]"] exI [of _ w1]
          exI [of _ "i_bufqueue s"]) (simp add: allocated_def)
  next
    case False
    have "length bufs < 2 ^ 32" using b(1) n by (auto simp: BURST_MAX_def min_def)
    then obtain w2 w3 where w: "recv_from_engine_burst D (channel s) bufs n w1 = Ret ?k w2"
        "Mbuf_drop_all D (drop ?k bufs) w2 = Ret () w3" "allocated ?mp ?room (take ?k bufs) (pk_wld s) w3"
        "view (ext w3) = upd_avail ?mp (v_avail (view (ext w1)) ?mp + (n - ?k)) (upd_ring e (drop ?k q) (view (ext w1)))"
      using dequeue_and_free [OF b(2) _ ring(1), of q ?k] ring(2) b(1,3) by auto
    let ?iq = "fold (sq_push Q) (take ?k bufs) (i_bufqueue s)"
    have "n \<noteq> 0" using n False by (simp add: BURST_MAX_def)
    then have "Packetiser_recv_from_engine_burst D Q b s = Ret (Inr ?k) (s\<lparr>pk_wld := w3, i_bufqueue := ?iq\<rparr>)"
      using nb b(1) w(1,2)
      by (auto simp: Packetiser_recv_from_engine_burst_def drain_front_def push_incoming_def
          exec_simps min_def split: if_splits)
    moreover have "a - n + (n - ?k) = a - ?k" using n by linarith
    ultimately show ?thesis
      using w(3,4) b(1,3) False
      by (intro exI [of _ "Inr ?k"] exI [of _ "take ?k bufs"] exI [of _ w3] exI [of _ ?iq])
        (auto simp: items_fold_push allocated_def fresh_mbuf_def mb_data_def upd_ring_upd_avail)
  qed
qed

lemma recv_from_engine_burst_spec:
  assumes "finite (dom (mem (pk_wld s)))"
    and "e = ring_raw (engine_to_client (channel s))" "v_rings (view (ext (pk_wld s))) e = Some q"
    and "a = v_avail (view (ext (pk_wld s))) (mempool s)" "0 < a"
    and "n = min (BURST_MAX b) a"
  shows "\<exists>bufs s'. Packetiser_recv_from_engine_burst D Q b (s :: ('q, 'm, 'i, 'd, 'x) Packetiser) =
       Ret (Inr (min n (length q))) s' \<and>
     length bufs = min n (length q) \<and> items (i_bufqueue s') = items (i_bufqueue s) @ bufs \<and>
     (\<forall>p \<in> set bufs. mem (pk_wld s) p = None \<and> (\<exists>m. mem (pk_wld s') p = Some m \<and> mb_data m = [])) \<and>
     (\<forall>p. mem (pk_wld s) p \<noteq> None \<longrightarrow> mem (pk_wld s') p = mem (pk_wld s) p) \<and>
     v_rings (view (ext (pk_wld s'))) e = Some (drop n q) \<and>
     v_avail (view (ext (pk_wld s'))) (mempool s) = a - min n (length q)"
proof -
  obtain r bufs w' iq where r: "Packetiser_recv_from_engine_burst D Q b s = Ret r (s\<lparr>pk_wld := w', i_bufqueue := iq\<rparr>)"
      "r = Inr (length bufs)" "length bufs = min n (length q)" "items iq = items (i_bufqueue s) @ bufs"
      "\<forall>p \<in> set bufs. mem (pk_wld s) p = None \<and> (\<exists>m. mem w' p = Some m \<and> mb_data m = [])"
      "\<forall>p. p \<notin> set bufs \<longrightarrow> mem w' p = mem (pk_wld s) p"
      "view (ext w') = upd_avail (mempool s) (a - length bufs) (upd_ring e (drop (length bufs) q) (view (ext (pk_wld s))))"
    using recv_from_engine_burst_step [OF assms(1-4,6)] assms(5) by auto
  moreover have "drop (min n (length q)) q = drop n q" by (simp add: min_def)
  ultimately show ?thesis
    by (intro exI [of _ bufs] exI [of _ "s\<lparr>pk_wld := w', i_bufqueue := iq\<rparr>"]) force
qed

lemma send_to_engine_bulk_loses:
  assumes "items (o_bufqueue s) = x # xs"
    and "v_rings (view (ext (pk_wld s))) (ring_raw (client_to_engine (channel s))) = Some q"
    and "length q \<le> v_cap (view (ext (pk_wld s))) (ring_raw (client_to_engine (channel s)))"
  shows "\<exists>s'. Packetiser_send_to_engine_bulk D Q (s :: ('q, 'm, 'i, 'd, 'x) Packetiser) = Ret 0 s' \<and>
     items (o_bufqueue s') = xs \<and> mem (pk_wld s') = mem (pk_wld s) \<and>
     view (ext (pk_wld s')) = view (ext (pk_wld s))"
proof -
  obtain oq where p: "sq_pop Q (o_bufqueue s) = (Some x, oq)" "items oq = xs"
    using pop_cons [OF assms(1)] by blast
  obtain w' where "Ring_enqueue_bulk D (client_to_engine (channel s)) [x] (pk_wld s) = Ret 0 w'"
      "mem w' = mem (pk_wld s)" "view (ext w') = view (ext (pk_wld s))"
    using Ring_enqueue_bulk_nothing [OF assms(2,3)] by blast
  with p assms(1) show ?thesis
    by (simp add: Packetiser_send_to_engine_bulk_def Memring.send_to_engine_bulk_def exec_simps)
qed

text \<open>The ring accepts as many packets as it has room for; the others are popped all the same.\<close>

lemma send_outgoing_loop:
  assumes "items (o_bufqueue s) = xs" "e = ring_raw (client_to_engine (channel s))"
    and "v_rings (view (ext (pk_wld s))) e = Some q"
    and "k = v_cap (view (ext (pk_wld s))) e - length q"
  shows "\<exists>w' oq. repeat_n (length xs) (send_one D Q) (s :: ('q, 'm, 'i, 'd, 'x) Packetiser) =
       Ret () (s\<lparr>pk_wld := w', o_bufqueue := oq\<rparr>) \<and> items oq = [] \<and> mem w' = mem (pk_wld s) \<and>
     view (ext w') = upd_ring e (q @ take k xs) (view (ext (pk_wld s)))"
  using assms
proof (induction xs arbitrary: s q k)
  case Nil
  then show ?case
    by (intro exI [of _ "pk_wld s"] exI [of _ "o_bufqueue s"]) (simp add: exec_simps upd_ring_same)
next
  case (Cons x xs)
  then obtain oq where p: "sq_pop Q (o_bufqueue s) = (Some x, oq)" "items oq = xs"
    using pop_cons by blast
  have "\<exists>w1 r q' k'. Ring_enqueue D (client_to_engine (channel s)) x (pk_wld s) = Ret r w1 \<and>
      mem w1 = mem (pk_wld s) \<and> view (ext w1) = upd_ring e q' (view (ext (pk_wld s))) \<and>
      k' = v_cap (view (ext (pk_wld s))) e - length q' \<and> q' @ take k' xs = q @ take k (x # xs)"
  proof (cases "length q < v_cap (view (ext (pk_wld s))) e")
    case True
    then have "k = Suc (v_cap (view (ext (pk_wld s))) e - length (q @ [x]))" using Cons.prems(4) by simp
    with Ring_enqueue_room [of "pk_wld s" "client_to_engine (channel s)" q x] True Cons.prems show ?thesis
      by fastforce
  next
    case False
    then have "k = 0" using Cons.prems(4) by simp
    obtain w1 er where "Ring_enqueue D (client_to_engine (channel s)) x (pk_wld s) = Ret (Inl er) w1"
        "mem w1 = mem (pk_wld s)" "view (ext w1) = view (ext (pk_wld s))"
      using Ring_enqueue_full [of "pk_wld s" "client_to_engine (channel s)" q x] False Cons.prems by auto
    with \<open>k = 0\<close> Cons.prems show ?thesis
      by (intro exI [of _ w1] exI [of _ "Inl er"] exI [of _ q] exI [of _ 0]) (simp add: upd_ring_same)
  qed
  then obtain w1 r q' k' where e: "Ring_enqueue D (client_to_engine (channel s)) x (pk_wld s) = Ret r w1"
      "mem w1 = mem (pk_wld s)" "view (ext w1) = upd_ring e q' (view (ext (pk_wld s)))"
      "k' = v_cap (view (ext (pk_wld s))) e - length q'" "q' @ take k' xs = q @ take k (x # xs)" by blast
  let ?s = "s\<lparr>pk_wld := w1, o_bufqueue := oq\<rparr>"
  have "\<exists>w' oq. repeat_n (length xs) (send_one D Q) ?s = Ret () (s\<lparr>pk_wld := w', o_bufqueue := oq\<rparr>) \<and>
     items oq = [] \<and> mem w' = mem w1 \<and> view (ext w') = upd_ring e (q' @ take k' xs) (view (ext w1))"
    using Cons.IH [of ?s q' k'] p(2) Cons.prems(2) e(3,4) by simp
  moreover have "send_one D Q s = Ret () ?s"
    using p(1) e(1) by (simp add: send_one_def send_to_engine_def exec_simps)
  ultimately show ?case
    using e by (auto simp: exec_simps)
qed

lemma send_outgoing_spec:
  assumes "items (o_bufqueue s) = xs" "e = ring_raw (client_to_engine (channel s))"
    and "v_rings (view (ext (pk_wld s))) e = Some q"
    and "k = v_cap (view (ext (pk_wld s))) e - length q"
  shows "\<exists>s'. send_outgoing_packets D Q (s :: ('q, 'm, 'i, 'd, 'x) Packetiser) = Ret (Inr ()) s' \<and>
     items (o_bufqueue s') = [] \<and> mem (pk_wld s') = mem (pk_wld s) \<and>
     view (ext (pk_wld s')) = upd_ring e (q @ take k xs) (view (ext (pk_wld s)))"
  using send_outgoing_loop [OF assms] assms(1)
  by (auto simp: send_outgoing_packets_def exec_simps)

lemma spin_forever: "items (i_bufqueue s) \<noteq> [] \<Longrightarrow> spin Q fuel (s :: ('q, 'm, 'i, 'd, 'x) Packetiser) = OutOfFuel"
  by (induction fuel) (simp_all add: spin.simps)

lemma drop_channel_live:
  assumes "names_live (view (ext w))"
  shows "\<exists>w'. drop_channel D old w = Ret () w' \<and> names_live (view (ext w'))"
proof (cases old)
  case None
  then show ?thesis using assms by (simp add: drop_channel_def exec_simps)
next
  case (Some ch)
  then show ?thesis
    using Channel_drop_spec [of ch w] assms by (fastforce simp: drop_channel_def names_live_def split: if_splits)
qed

lemma RingClientMap_add_client_returns:
  assumes "names_live (view (ext w))"
  shows "\<exists>r m' w'. RingClientMap_add_client C D m cid w = Ret (r, m') w' \<and> names_live (view (ext w'))"
proof (cases rule: Channel_new_cases [OF assms, of cid, case_names new error])
  case (new ch w1)
  obtain w2 where "drop_channel D (entries m cid) w1 = Ret () w2" "names_live (view (ext w2))"
    using drop_channel_live [OF new(12)] by blast
  with new(1) fst_insert [of cid ch m] show ?thesis
    by (cases "chm_insert C cid ch m") (simp add: RingClientMap_add_client_def exec_simps)
next
  case (error e w1)
  then show ?thesis using assms by (simp add: RingClientMap_add_client_def names_live_def exec_simps)
qed

text \<open>One call whose search for a free id finds none, whatever the arithmetic does.\<close>

lemma add_client_next:
  assumes "find_free (allocated_ids s) (map of_nat [0..<unat (LAST_ALLOCATED_ID s)]) = 0"
    and "names_live (view (ext (pk_wld s)))" and "\<not> oc \<or> LAST_ALLOCATED_ID s \<noteq> 65535"
  shows "\<exists>r t. Packetiser_add_client C D oc (s :: ('q, 'm, 'i, 'd, 'x) Packetiser) = Ret r t \<and>
     names_live (view (ext (pk_wld t))) \<and> LAST_ALLOCATED_ID t = LAST_ALLOCATED_ID s + 1 \<and>
     allocated_ids t = allocated_ids s @ [LAST_ALLOCATED_ID s + 1]"
proof -
  let ?last = "LAST_ALLOCATED_ID s"
  have "\<exists>n. (\<forall>u :: ('q, 'm, 'i, 'd, 'x) Packetiser. add_ck oc 16 (unat ?last) (Suc 0) u = Ret n u) \<and>
      of_nat n = ?last + 1"
  proof (cases "oc")
    case True
    with assms(3) have "unat ?last \<noteq> 65535" by (auto simp: word_unat_eq_iff)
    then have "unat ?last + 1 < 2 ^ 16" using u16_bound [of ?last] by simp
    then show ?thesis by (intro exI [of _ "unat ?last + 1"]) (simp add: add_ck_fits ret_exec)
  next
    case False
    then show ?thesis
      by (intro exI [of _ "(unat ?last + 1) mod 2 ^ 16"])
        (simp add: add_ck_def ret_exec word_unat_eq_iff unat_of_nat unat_word_ariths)
  qed
  then obtain n where k: "add_ck oc 16 (unat ?last) (Suc 0) u = Ret n u" "of_nat n = ?last + 1"
    for u :: "('q, 'm, 'i, 'd, 'x) Packetiser" by blast
  obtain r m' w' where "RingClientMap_add_client C D (clientmap s) (?last + 1) (pk_wld s) = Ret (r, m') w'"
      "names_live (view (ext w'))"
    using RingClientMap_add_client_returns [OF assms(2)] by blast
  then show ?thesis
    by (simp add: Packetiser_add_client_def assms(1) k exec_simps)
qed

lemma Packetiser_add_client_spec:
  assumes inv: "ids_inv s" and live: "names_live (view (ext (pk_wld s)))"
  shows "if LAST_ALLOCATED_ID s = 65535
     then Packetiser_add_client C D True (s :: ('q, 'm, 'i, 'd, 'x) Packetiser) = Fault Overflow s
     else \<exists>r t. Packetiser_add_client C D True s = Ret r t \<and> ids_inv t \<and>
       LAST_ALLOCATED_ID t = LAST_ALLOCATED_ID s + 1 \<and>
       allocated_ids t = allocated_ids s @ [LAST_ALLOCATED_ID s + 1]"
proof (cases "LAST_ALLOCATED_ID s = 65535")
  case True
  then show ?thesis
    using find_free_zero [OF inv] by (simp add: Packetiser_add_client_def add_ck_def exec_simps)
next
  case False
  with add_client_next [OF find_free_zero [OF inv] live, of True] obtain r t where
    t: "Packetiser_add_client C D True s = Ret r t" by auto
  have "pk_step C (undefined :: ('i, Ipv4Addr, u16) chm) D Q
      \<lparr>overflow_checks = True, feature_debug = False\<rparr> s t" using t by (intro pk_step.add) simp
  from pk_step_ids [OF this _ inv] have "ids_inv t" by simp
  with add_client_Ret [OF inv t] t False show ?thesis by auto
qed

lemma add_client_wraps:
  assumes inv: "ids_inv s" and live: "names_live (view (ext (pk_wld s)))" and last: "LAST_ALLOCATED_ID s = 65535"
  shows "\<exists>r0 r1 r2 t u v. Packetiser_add_client C D False (s :: ('q, 'm, 'i, 'd, 'x) Packetiser) = Ret r0 t \<and>
     Packetiser_add_client C D False t = Ret r1 u \<and> Packetiser_add_client C D False u = Ret r2 v \<and>
     allocated_ids v = allocated_ids s @ [0, 1, 2] \<and> LAST_ALLOCATED_ID v = 2"
proof -
  obtain r0 t where t: "Packetiser_add_client C D False s = Ret r0 t" "names_live (view (ext (pk_wld t)))"
      "LAST_ALLOCATED_ID t = 0" "allocated_ids t = allocated_ids s @ [0]"
    using add_client_next [OF find_free_zero [OF inv] live, of False] last by auto
  obtain r1 u where u: "Packetiser_add_client C D False t = Ret r1 u" "names_live (view (ext (pk_wld u)))"
      "LAST_ALLOCATED_ID u = 1" "allocated_ids u = allocated_ids s @ [0, 1]"
    using add_client_next [OF _ t(2), of False] t(3,4) by auto
  obtain r2 v where "Packetiser_add_client C D False u = Ret r2 v"
      "LAST_ALLOCATED_ID v = 2" "allocated_ids v = allocated_ids s @ [0, 1, 2]"
    using add_client_next [OF _ u(2), of False] u(3,4) by auto
  with t(1) u(1) show ?thesis by blast
qed

lemma Packetiser_remove_clients_spec:
  "if key \<in> set (allocated_ids s)
   then \<exists>t. Packetiser_remove_clients C D key (s :: ('q, 'm, 'i, 'd, 'x) Packetiser) = Ret () t \<and>
     allocated_ids t = remove1 key (allocated_ids s) \<and>
     entries (clientmap t) = (entries (clientmap s))(key := None)
   else Packetiser_remove_clients C D key s = Fault IndexOutOfBounds s"
proof (cases "key \<in> set (allocated_ids s)")
  case True
  obtain old m' where r: "chm_remove C key (clientmap s) = (old, m')" by fastforce
  have "entries m' = (entries (clientmap s))(key := None)" using entries_remove [of key "clientmap s"] r by simp
  moreover obtain w' where "drop_channel D old (pk_wld s) = Ret () w'"
    using Channel_drop_spec by (cases old) (auto simp: drop_channel_def exec_simps)
  ultimately show ?thesis
    using True index_of_spec(1) [OF True] r
    by (simp add: Packetiser_remove_clients_def RingClientMap_remove_client_def exec_simps)
next
  case False
  then show ?thesis
    using index_of_spec(2) [OF False] by (simp add: Packetiser_remove_clients_def exec_simps)
qed

lemma debug_loop_hangs:
  assumes "finite (dom (mem (pk_wld s)))" "v_rings (view (ext (pk_wld s))) (ring_raw (engine_to_client (channel s))) = Some (p # q)"
    and "0 < v_avail (view (ext (pk_wld s))) (mempool s)" "feature_debug b"
    and "poll k = Ret () k'"
  shows "packetiser_loop D Q b poll fuel (Suc n) k (s :: ('q, 'm, 'i, 'd, 'x) Packetiser) = OutOfFuel"
proof -
  obtain bufs s' where r: "Packetiser_recv_from_engine_burst D Q b s = Ret (Inr (length bufs)) s'"
      "length bufs = min (min (BURST_MAX b) (v_avail (view (ext (pk_wld s))) (mempool s))) (length (p # q))"
      "items (i_bufqueue s') = items (i_bufqueue s) @ bufs"
    using recv_from_engine_burst_spec [OF assms(1) refl assms(2) refl assms(3) refl, of b] by auto
  have "bufs \<noteq> []" using r(2) assms(3) by (auto simp: BURST_MAX_def min_def split: if_splits)
  then have "spin Q fuel s' = OutOfFuel" using r(3) by (intro spin_forever) simp
  with r(1) assms(4,5) show ?thesis by (simp add: packetiser_iteration_def beside_def exec_simps)
qed

end

interpretation ref_packetiser: packetiser_env ref_dpdk ref_view alist_chm map_of list_segq "\<lambda>q. q"
  by unfold_locales

text \<open>A concrete packetiser: ring 5 leads to the engine, ring 6 from it; no clients.\<close>

type_synonym ref_pk_state =
  "(ptr list, (u16 \<times> Channel) list, (Ipv4Addr \<times> u16) list, (u16 \<times> Ipv4Addr) list, ref_ext) Packetiser"

definition ref_pk :: "ref_pk_state" where
  "ref_pk = \<lparr>pk_wld = ref_rings [5 \<mapsto> [], 6 \<mapsto> [8, 9]] Map.empty 2, channel = chan_at 5 6, mempool = 7,
     clientmap = [], i_bufqueue = [], o_bufqueue = [], cap = 512, allocated_ids = [],
     LAST_ALLOCATED_ID = 1, TABLE = RoutingTable_new alist_chm alist_chm\<rparr>"

lemma ref_pk_ids: "ids_inv ref_pk"
  by (simp add: ids_inv_def ref_pk_def)

section \<open>Properties\<close>

text \<open>C7: In a build with overflow checks, in every state the packetiser can reach from its start by
  any interleaving of its operations, the ids in use are pairwise distinct, none is the
  packetiser's own id 1 or the reserved 0, and none exceeds the last one handed out: no two
  clients share a channel. Without overflow checks this ends with the id 65535, as the next property says.\<close>

theorem client_ids_distinct:
  assumes "pk_reachable C CI D Q b s0 s" "allocated_ids s0 = []" "LAST_ALLOCATED_ID s0 = 1"
    and "overflow_checks b"
  shows "distinct (allocated_ids s) \<and>
     (\<forall>i \<in> set (allocated_ids s). 2 \<le> i \<and> i \<le> LAST_ALLOCATED_ID s)"
  using pk_reachable_ids [OF assms(1,4)] assms(2,3) by (simp add: ids_inv_def)

theorem client_ids_distinct_witness:
  "\<exists>t. pk_reachable alist_chm alist_chm ref_dpdk list_segq \<lparr>overflow_checks = True, feature_debug = False\<rparr>
       ref_pk t \<and> allocated_ids t = [2] \<and> distinct (allocated_ids t)"
proof -
  let ?b = "\<lparr>overflow_checks = True, feature_debug = False\<rparr>"
  have "names_live (ref_view (ext (pk_wld ref_pk)))" by (simp add: names_live_def ref_pk_def)
  then obtain r t where t: "Packetiser_add_client alist_chm ref_dpdk True ref_pk = Ret r t" "allocated_ids t = [2]"
    using ref_packetiser.Packetiser_add_client_spec [OF ref_pk_ids] by (auto simp: ref_pk_def)
  have "pk_step alist_chm alist_chm ref_dpdk list_segq ?b ref_pk t"
    by (rule pk_step.add) (simp add: t(1))
  then have "pk_reachable alist_chm alist_chm ref_dpdk list_segq ?b ref_pk t"
    by (meson pk_reachable.intros)
  with client_ids_distinct [OF this] t(2) show ?thesis by (auto simp: ref_pk_def)
qed

text \<open>C31: Without overflow checks (a release build) \<open>LAST_ALLOCATED_ID\<close> wraps around. After the id
  65535 the next three registrations hand out 0, which the code itself takes for "no id", 1, which
  is the packetiser's own id, and 2, whether or not client 2 is still there: if it is, two clients
  have the same id and the ids are no longer distinct.\<close>

theorem client_ids_wrap_in_release:
  fixes Q :: "('q, ptr) segq" and s :: "('q, 'm, 'i, 'd, 'x) Packetiser"
  assumes "packetiser_env D view C entries Q items" and "ids_inv s" "names_live (view (ext (pk_wld s)))"
    and "LAST_ALLOCATED_ID s = 65535"
  shows "\<exists>r0 r1 r2 t u v. Packetiser_add_client C D False s = Ret r0 t \<and>
     Packetiser_add_client C D False t = Ret r1 u \<and> Packetiser_add_client C D False u = Ret r2 v \<and>
     allocated_ids v = allocated_ids s @ [0, 1, 2] \<and> LAST_ALLOCATED_ID v = 2 \<and>
     (distinct (allocated_ids v) \<longleftrightarrow> 2 \<notin> set (allocated_ids s))"
proof -
  have "distinct (allocated_ids s)" "0 \<notin> set (allocated_ids s)" "1 \<notin> set (allocated_ids s)"
    using assms(2) by (force simp: ids_inv_def word_le_nat_alt)+
  then have "distinct (allocated_ids s @ [0, 1, 2]) \<longleftrightarrow> 2 \<notin> set (allocated_ids s)" by simp
  with packetiser_env.add_client_wraps [OF assms] show ?thesis by metis
qed

theorem client_ids_wrap_in_release_witness:
  "\<exists>r0 r1 r2 t u v.
     Packetiser_add_client alist_chm ref_dpdk False (ref_pk\<lparr>allocated_ids := [2], LAST_ALLOCATED_ID := 65535\<rparr>) =
       Ret r0 t \<and>
     Packetiser_add_client alist_chm ref_dpdk False t = Ret r1 u \<and>
     Packetiser_add_client alist_chm ref_dpdk False u = Ret r2 v \<and> allocated_ids v = [2, 0, 1, 2]"
proof -
  let ?s = "ref_pk\<lparr>allocated_ids := [2], LAST_ALLOCATED_ID := 65535\<rparr>"
  have "ids_inv ?s" "names_live (ref_view (ext (pk_wld ?s)))"
    by (simp_all add: ids_inv_def names_live_def ref_pk_def)
  from client_ids_wrap_in_release [OF ref_packetiser.packetiser_env_axioms this] show ?thesis by fastforce
qed

text \<open>\<open>Packetiser::add_client\<close> never reuses an id: although it searches the ids below the last
  one for a free one, it finds 0, which it takes for "none", and hands out the next higher id,
  whatever ids have become free. After the id 65535 every further registration panics.\<close>

theorem add_client_never_reuses:
  fixes Q :: "('q, ptr) segq" and s :: "('q, 'm, 'i, 'd, 'x) Packetiser"
  assumes "packetiser_env D view C entries Q items" and "ids_inv s" "names_live (view (ext (pk_wld s)))"
  shows "if LAST_ALLOCATED_ID s = 65535 then Packetiser_add_client C D True s = Fault Overflow s
     else \<exists>r t. Packetiser_add_client C D True s = Ret r t \<and> ids_inv t \<and>
       LAST_ALLOCATED_ID t = LAST_ALLOCATED_ID s + 1 \<and>
       allocated_ids t = allocated_ids s @ [LAST_ALLOCATED_ID s + 1]"
  using packetiser_env.Packetiser_add_client_spec [OF assms] .

theorem add_client_never_reuses_witness:
  "\<exists>r t. Packetiser_add_client alist_chm ref_dpdk True (ref_pk\<lparr>LAST_ALLOCATED_ID := 9\<rparr>) = Ret r t \<and>
     allocated_ids t = [10]"
proof -
  have "ids_inv (ref_pk\<lparr>LAST_ALLOCATED_ID := 9\<rparr>)" by (simp add: ids_inv_def ref_pk_def)
  moreover have "names_live (ref_view (ext (pk_wld (ref_pk\<lparr>LAST_ALLOCATED_ID := 9\<rparr>))))"
    by (simp add: names_live_def ref_pk_def)
  ultimately show ?thesis
    using add_client_never_reuses [OF ref_packetiser.packetiser_env_axioms] by (fastforce simp: ref_pk_def)
qed

text \<open>\<open>remove_clients\<close> takes exactly the given client out of the list of ids and out of the
  client map; for an id that is not registered it panics.\<close>

theorem remove_clients_exact:
  fixes Q :: "('q, ptr) segq" and s :: "('q, 'm, 'i, 'd, 'x) Packetiser"
  assumes "packetiser_env D view C entries Q items"
  shows "if key \<in> set (allocated_ids s)
   then \<exists>t. Packetiser_remove_clients C D key s = Ret () t \<and>
     allocated_ids t = remove1 key (allocated_ids s) \<and>
     entries (clientmap t) = (entries (clientmap s))(key := None)
   else Packetiser_remove_clients C D key s = Fault IndexOutOfBounds s"
  using packetiser_env.Packetiser_remove_clients_spec [OF assms] .

theorem remove_clients_exact_witness:
  "Packetiser_remove_clients alist_chm ref_dpdk 5 ref_pk = Fault IndexOutOfBounds ref_pk"
  using remove_clients_exact [OF ref_packetiser.packetiser_env_axioms, of 5 ref_pk]
  by (simp add: ref_pk_def)

text \<open>\<open>recv_from_engine_burst\<close> reports as many packets as it took from the engine's ring, but
  what it puts into the incoming queue are as many empty buffers it has just allocated: the
  packets are out of the ring, still allocated, and in no queue. The buffers it did not need go
  back to the pool.\<close>

theorem recv_burst_queues_empty_buffers:
  fixes C :: "('m, u16, Channel) chm" and s :: "('q, 'm, 'i, 'd, 'x) Packetiser"
  assumes "packetiser_env D view C entries Q items"
    and "finite (dom (mem (pk_wld s)))"
    and "e = ring_raw (engine_to_client (channel s))" "v_rings (view (ext (pk_wld s))) e = Some q"
    and "a = v_avail (view (ext (pk_wld s))) (mempool s)" "0 < a" "n = min (BURST_MAX b) a"
  shows "\<exists>bufs s'. Packetiser_recv_from_engine_burst D Q b s = Ret (Inr (min n (length q))) s' \<and>
     length bufs = min n (length q) \<and> items (i_bufqueue s') = items (i_bufqueue s) @ bufs \<and>
     (\<forall>p \<in> set bufs. mem (pk_wld s) p = None \<and> (\<exists>m. mem (pk_wld s') p = Some m \<and> mb_data m = [])) \<and>
     (\<forall>p. mem (pk_wld s) p \<noteq> None \<longrightarrow> mem (pk_wld s') p = mem (pk_wld s) p) \<and>
     v_rings (view (ext (pk_wld s'))) e = Some (drop n q) \<and>
     v_avail (view (ext (pk_wld s'))) (mempool s) = a - min n (length q)"
  using packetiser_env.recv_from_engine_burst_spec [OF assms] .

theorem recv_burst_queues_empty_buffers_witness:
  "\<exists>bufs s'. Packetiser_recv_from_engine_burst ref_dpdk list_segq
       \<lparr>overflow_checks = True, feature_debug = False\<rparr> ref_pk = Ret (Inr 2) s' \<and> length bufs = 2 \<and>
     i_bufqueue s' = bufs \<and> (\<forall>p \<in> set bufs. \<exists>m. mem (pk_wld s') p = Some m \<and> mb_data m = []) \<and>
     v_rings (ref_view (ext (pk_wld s'))) 6 = Some []"
  using recv_burst_queues_empty_buffers [OF ref_packetiser.packetiser_env_axioms, of ref_pk 6 "[8, 9]" 4 4
      "\<lparr>overflow_checks = True, feature_debug = False\<rparr>"]
  by (fastforce simp: ref_pk_def BURST_MAX_def)

text \<open>\<open>send_to_engine_bulk\<close> takes one packet out of the outgoing queue and sends nothing: it
  reports 0, the ring to the engine is unchanged, and the packet is leaked.\<close>

theorem send_bulk_loses_one:
  fixes C :: "('m, u16, Channel) chm" and s :: "('q, 'm, 'i, 'd, 'x) Packetiser"
  assumes "packetiser_env D view C entries Q items"
    and "items (o_bufqueue s) = x # xs"
    and "v_rings (view (ext (pk_wld s))) (ring_raw (client_to_engine (channel s))) = Some q"
    and "length q \<le> v_cap (view (ext (pk_wld s))) (ring_raw (client_to_engine (channel s)))"
  shows "\<exists>s'. Packetiser_send_to_engine_bulk D Q s = Ret 0 s' \<and>
     items (o_bufqueue s') = xs \<and> mem (pk_wld s') = mem (pk_wld s) \<and>
     view (ext (pk_wld s')) = view (ext (pk_wld s))"
  using packetiser_env.send_to_engine_bulk_loses [OF assms] .

theorem send_bulk_loses_one_witness:
  "\<exists>s'. Packetiser_send_to_engine_bulk ref_dpdk list_segq (ref_pk\<lparr>o_bufqueue := [1, 2]\<rparr>) = Ret 0 s' \<and>
     o_bufqueue s' = [2]"
  using send_bulk_loses_one [OF ref_packetiser.packetiser_env_axioms, of "ref_pk\<lparr>o_bufqueue := [1, 2]\<rparr>" 1 "[2]" "[]"]
  by (auto simp: ref_pk_def)

text \<open>C27: \<open>send_outgoing_packets\<close> always succeeds and empties the outgoing queue. As many packets as
  the ring to the engine has room for are appended to it in order; the rest are dropped without
  being freed.\<close>

theorem send_outgoing_prefix:
  fixes C :: "('m, u16, Channel) chm" and s :: "('q, 'm, 'i, 'd, 'x) Packetiser"
  assumes "packetiser_env D view C entries Q items"
    and "items (o_bufqueue s) = xs" "e = ring_raw (client_to_engine (channel s))"
    and "v_rings (view (ext (pk_wld s))) e = Some q"
    and "k = v_cap (view (ext (pk_wld s))) e - length q"
  shows "\<exists>s'. send_outgoing_packets D Q s = Ret (Inr ()) s' \<and> items (o_bufqueue s') = [] \<and>
     mem (pk_wld s') = mem (pk_wld s) \<and>
     view (ext (pk_wld s')) = upd_ring e (q @ take k xs) (view (ext (pk_wld s)))"
  using packetiser_env.send_outgoing_spec [OF assms] .

theorem send_outgoing_prefix_witness:
  "\<exists>s'. send_outgoing_packets ref_dpdk list_segq (ref_pk\<lparr>o_bufqueue := [1, 2, 3]\<rparr>) = Ret (Inr ()) s' \<and>
     v_rings (ref_view (ext (pk_wld s'))) 5 = Some [1, 2] \<and> o_bufqueue s' = []"
proof -
  let ?s = "ref_pk\<lparr>o_bufqueue := [1, 2, 3]\<rparr>"
  have "v_rings (ref_view (ext (pk_wld ?s))) 5 = Some []" "2 = v_cap (ref_view (ext (pk_wld ?s))) 5 - length []"
    "5 = ring_raw (client_to_engine (channel ?s))" "o_bufqueue ?s = [1, 2, 3]"
    by (simp_all add: ref_pk_def)
  from send_outgoing_prefix [OF ref_packetiser.packetiser_env_axioms this(4,3,1,2)]
  obtain s' where "send_outgoing_packets ref_dpdk list_segq ?s = Ret (Inr ()) s'" "o_bufqueue s' = []"
    "ref_view (ext (pk_wld s')) = upd_ring 5 ([] @ take 2 [1, 2, 3]) (ref_view (ext (pk_wld ?s)))"
    by blast
  then show ?thesis by (intro exI [of _ s']) simp
qed

text \<open>C39: In the debug build the packetiser's main loop stops making progress with the first packet
  it receives: the loop that waits for the incoming queue to become empty has no body, so, however
  the poll of the sockets is done (as long as it returns), no amount of fuel lets it finish.\<close>

theorem debug_loop_never_finishes:
  fixes C :: "('m, u16, Channel) chm" and s :: "('q, 'm, 'i, 'd, 'x) Packetiser"
  assumes "packetiser_env D view C entries Q items"
    and "finite (dom (mem (pk_wld s)))"
    and "v_rings (view (ext (pk_wld s))) (ring_raw (engine_to_client (channel s))) = Some (p # q)"
    and "0 < v_avail (view (ext (pk_wld s))) (mempool s)" "feature_debug b"
    and "poll k = Ret () k'"
  shows "\<forall>fuel. packetiser_loop D Q b poll fuel (Suc n) k s = OutOfFuel"
  using packetiser_env.debug_loop_hangs [OF assms(1-5), of poll k k'] assms(6) by simp

theorem debug_loop_never_finishes_witness:
  "packetiser_loop ref_dpdk list_segq \<lparr>overflow_checks = True, feature_debug = True\<rparr> (ret ()) 100 1 (0 :: nat) ref_pk
     = OutOfFuel"
  using debug_loop_never_finishes [OF ref_packetiser.packetiser_env_axioms, of ref_pk 8 "[9]"
      "\<lparr>overflow_checks = True, feature_debug = True\<rparr>" "ret ()" "0 :: nat" 0 0]
  by (simp add: ref_pk_def exec_simps)

end
