(* ===== verification/Device.thy ===== *)
theory Device
  imports Net
begin

text \<open>
  \<^verbatim>\<open>l3enginepacketiser/src/net/device.rs\<close>: the emulated Ethernet device that the packetiser gives to
  the \<open>smoltcp\<close> stack, and the interface built on it.
\<close>

section \<open>EthDevEmulator\<close>

record EthDevEmulator =
  dev_incoming :: "u8 list"
  dev_outgoing :: "u8 list"

definition MTU :: usize where "MTU = 1536"

text \<open>\<open>Vec::with_capacity\<close> reserves memory; the length is 0.\<close>

definition EthDevEmulator_new :: EthDevEmulator where
  "EthDevEmulator_new = \<lparr>dev_incoming = [], dev_outgoing = []\<rparr>"

text \<open>
  A token lends a slice to the stack's function, which may change its bytes but not its length;
  the function returns its result and the slice it leaves.
\<close>

definition RxToken_consume ::
  "(u8 list \<Rightarrow> 'r \<times> u8 list) \<Rightarrow> (EthDevEmulator, 'r) exec" where
  "RxToken_consume f = call (\<lambda>d. case f (dev_incoming d) of (r, bs) \<Rightarrow> (r, d\<lparr>dev_incoming := bs\<rparr>))"

definition TxToken_consume ::
  "usize \<Rightarrow> (u8 list \<Rightarrow> 'r \<times> u8 list) \<Rightarrow> (EthDevEmulator, 'r) exec" where
  "TxToken_consume len f =
     bind (gets dev_outgoing) (\<lambda>s.
       if len \<le> length s then
         call (\<lambda>d. case f (take len s) of (r, bs) \<Rightarrow> (r, d\<lparr>dev_outgoing := bs @ drop len s\<rparr>))
       else fail IndexOutOfBounds)"

definition EthDevEmulator_receive :: "EthDevEmulator \<Rightarrow> (u8 list \<times> u8 list) option" where
  "EthDevEmulator_receive d = Some (dev_incoming d, dev_outgoing d)"

definition EthDevEmulator_transmit :: "EthDevEmulator \<Rightarrow> u8 list option" where
  "EthDevEmulator_transmit d = Some (dev_outgoing d)"

record DeviceCapabilities =
  max_transmission_unit :: usize
  max_burst_size :: "usize option"

definition EthDevEmulator_capabilities :: "EthDevEmulator \<Rightarrow> DeviceCapabilities \<Rightarrow> DeviceCapabilities" where
  "EthDevEmulator_capabilities d default_caps =
     default_caps\<lparr>max_transmission_unit := MTU, max_burst_size := Some 1\<rparr>"

section \<open>IfaceEmulator\<close>

text \<open>\<open>'c\<close> is the type of an address with its prefix length, smoltcp's \<open>IpCidr\<close>; its constructor
  \<open>IpCidr_new\<close> is a parameter and gives nothing where the library panics.\<close>

record 'c IfaceEmulator =
  ie_device :: EthDevEmulator
  ie_mac :: "u8 list"
  ie_ip :: 'c

definition IfaceEmulator_new ::
  "(Ipv4Addr \<Rightarrow> u8 \<Rightarrow> 'c option) \<Rightarrow> u8 list \<Rightarrow> u8 list \<Rightarrow> u8 \<Rightarrow> 'c IfaceEmulator option" where
  "IfaceEmulator_new IpCidr_new m addr prefix =
     (case IpCidr_new (addr ! 0, addr ! 0, addr ! 0, addr ! 0) prefix of
        None \<Rightarrow> None
      | Some ip \<Rightarrow> Some \<lparr>ie_device = EthDevEmulator_new, ie_mac = m, ie_ip = ip\<rparr>)"

section \<open>What the stack can do with the device\<close>

datatype 'r token_use =
    Rx "u8 list \<Rightarrow> 'r \<times> u8 list"
  | Tx usize "u8 list \<Rightarrow> 'r \<times> u8 list"

fun use_token :: "'r token_use \<Rightarrow> (EthDevEmulator, 'r) exec" where
  "use_token (Rx f) = RxToken_consume f"
| "use_token (Tx len f) = TxToken_consume len f"

fun use_tokens :: "'r token_use list \<Rightarrow> (EthDevEmulator, unit) exec" where
  "use_tokens [] = ret ()"
| "use_tokens (u # us) = bind (use_token u) (\<lambda>_. use_tokens us)"

fun token_fun :: "'r token_use \<Rightarrow> u8 list \<Rightarrow> 'r \<times> u8 list" where
  "token_fun (Rx f) = f"
| "token_fun (Tx _ f) = f"

text \<open>A closure cannot change the length of the slice it is lent.\<close>

definition keeps_length :: "(u8 list \<Rightarrow> 'r \<times> u8 list) \<Rightarrow> bool" where
  "keeps_length f \<longleftrightarrow> (\<forall>bs. length (snd (f bs)) = length bs)"

lemma use_token_empty:
  assumes "keeps_length (token_fun u)" "use_token u EthDevEmulator_new = Ret r d"
  shows "d = EthDevEmulator_new"
proof -
  have "snd (token_fun u []) = []" using assms(1) by (metis keeps_length_def length_0_conv)
  with assms(2) show ?thesis
    by (cases u) (auto simp: RxToken_consume_def TxToken_consume_def EthDevEmulator_new_def call_def
        exec_simps split: prod.splits if_splits)
qed

lemma use_tokens_empty:
  assumes "\<forall>u \<in> set us. keeps_length (token_fun u)" "use_tokens us EthDevEmulator_new = Ret () d"
  shows "d = EthDevEmulator_new"
  using assms
proof (induction us)
  case Nil
  then show ?case by (simp add: exec_simps)
next
  case (Cons u us)
  then obtain r d1 where u: "use_token u EthDevEmulator_new = Ret r d1" "use_tokens us d1 = Ret () d"
    by (auto simp: bind_eq_Ret)
  then have "d1 = EthDevEmulator_new" using use_token_empty Cons.prems(1) by (metis list.set_intros(1))
  with u(2) Cons show ?case by simp
qed

section \<open>Properties\<close>

text \<open>C24: The emulated device can never carry a byte. Whatever the stack has done with the tokens of a
  new device, as long as that returned, each receive offers an empty frame, and each attempt to transmit a frame of
  non-zero length panics, because the device's buffers have capacity but length 0.\<close>

theorem device_carries_nothing:
  assumes "\<forall>u \<in> set us. keeps_length (token_fun u)" "use_tokens us EthDevEmulator_new = Ret () d"
  shows "EthDevEmulator_receive d = Some ([], []) \<and> EthDevEmulator_transmit d = Some [] \<and>
     (0 < len \<longrightarrow> TxToken_consume len f d = Fault IndexOutOfBounds d)"
  using use_tokens_empty [OF assms]
  by (simp add: EthDevEmulator_receive_def EthDevEmulator_transmit_def EthDevEmulator_new_def
      TxToken_consume_def exec_simps)

theorem device_carries_nothing_witness:
  "TxToken_consume 60 (\<lambda>bs. ((), bs)) EthDevEmulator_new = Fault IndexOutOfBounds EthDevEmulator_new"
proof -
  have "use_tokens [Rx (\<lambda>bs. ((), bs))] EthDevEmulator_new = Ret () EthDevEmulator_new"
    by (simp add: RxToken_consume_def EthDevEmulator_new_def call_def exec_simps)
  from device_carries_nothing [OF _ this, of 60 "\<lambda>bs. ((), bs)"] show ?thesis
    by (simp add: keeps_length_def)
qed

text \<open>The address of an emulated interface repeats the first octet of the address it was given
  four times, so the other three make no difference; for the packetiser's \<open>main\<close> it is 10.10.10.10
  instead of 10.10.1.1.\<close>

theorem iface_address_repeats_first_octet:
  "IfaceEmulator_new cidr m [a, b, c, d] prefix = IfaceEmulator_new cidr m [a, a, a, a] prefix \<and>
   map_option ie_ip (IfaceEmulator_new cidr m [a, b, c, d] prefix) = cidr (a, a, a, a) prefix \<and>
   map_option ie_ip (IfaceEmulator_new cidr [0x90, 0xe2, 0xba, 0xb2, 0x98, 0x48] [10, 10, 1, 1] 24) =
     cidr (10, 10, 10, 10) 24"
  by (auto simp: IfaceEmulator_new_def split: option.split)

end
