(* ===== verification/Sockets.thy ===== *)
theory Sockets
  imports Device
begin

text \<open>
  \<^verbatim>\<open>l3enginepacketiser/src/net/tcp.rs\<close>: the sockets of the packetiser and their polling. The \<open>smoltcp\<close>
  stack is a parameter: its constructors and the operations on a set of sockets. Where the library
  documents a panic the parameter gives nothing; a poll may return, panic or not return.
\<close>

section \<open>The stack\<close>

text \<open>
  \<open>'c\<close> is the type of addresses with a prefix, \<open>'f\<close> of interfaces, \<open>'ss\<close> of socket sets, \<open>'h\<close> of
  handles, \<open>'tb\<close>, \<open>'t\<close>, \<open>'ib\<close>, \<open>'i\<close> of TCP and ICMP buffers and sockets. \<open>IpCidr_new\<close> gives nothing for a
  prefix that is too long, and \<open>finalize_iface\<close>, the builder with its addresses, nothing for
  addresses that are not unicast. \<open>iface_poll\<close> works on the interface, the device in it included,
  and the sockets; it uses the tokens of \<open>Device\<close>, so it can panic. \<open>get\<close> gives nothing for a handle
  that is not in the set or whose socket has another type, where the library panics; a socket that
  was borrowed mutably is written back by \<open>put_icmp\<close>. The metadata of a packet is its number of
  slots here.
\<close>

record ('c, 'f, 'ss, 'h, 'tb, 't, 'ib, 'i) smoltcp =
  IpCidr_new :: "Ipv4Addr \<Rightarrow> u8 \<Rightarrow> 'c option"
  finalize_iface :: "EthDevEmulator \<Rightarrow> u8 list \<Rightarrow> 'c list \<Rightarrow> 'f option"
  TcpSocketBuffer_new :: "u8 list \<Rightarrow> 'tb"
  TcpSocket_new :: "'tb \<Rightarrow> 'tb \<Rightarrow> 't"
  IcmpSocketBuffer_new :: "nat \<Rightarrow> u8 list \<Rightarrow> 'ib"
  IcmpSocket_new :: "'ib \<Rightarrow> 'ib \<Rightarrow> 'i"
  SocketSet_new :: 'ss
  add_tcp :: "'t \<Rightarrow> 'ss \<Rightarrow> 'h \<times> 'ss"
  add_icmp :: "'i \<Rightarrow> 'ss \<Rightarrow> 'h \<times> 'ss"
  get_tcp :: "'ss \<Rightarrow> 'h \<Rightarrow> 't option"
  get_icmp :: "'ss \<Rightarrow> 'h \<Rightarrow> 'i option"
  put_icmp :: "'h \<Rightarrow> 'i \<Rightarrow> 'ss \<Rightarrow> 'ss"
  iface_poll :: "('f \<times> 'ss, bool) exec"
  icmp_is_open :: "'i \<Rightarrow> bool"
  icmp_bind :: "u16 \<Rightarrow> 'i \<Rightarrow> bool \<times> 'i"

section \<open>Sockets\<close>

definition new_iface ::
  "('c, 'f, 'ss, 'h, 'tb, 't, 'ib, 'i) smoltcp \<Rightarrow> 'c IfaceEmulator \<Rightarrow> 'f option" where
  "new_iface S self = finalize_iface S (ie_device self) (ie_mac self) [ie_ip self]"

definition TcpSock_new :: "('c, 'f, 'ss, 'h, 'tb, 't, 'ib, 'i) smoltcp \<Rightarrow> 't" where
  "TcpSock_new S =
     (let rx_buf = TcpSocketBuffer_new S (replicate 1024 0);
          tx_buf = TcpSocketBuffer_new S (replicate 1024 0)
      in TcpSocket_new S rx_buf tx_buf)"

definition IDENT :: u16 where "IDENT = 0x22b"

definition IcmpSock_new :: "('c, 'f, 'ss, 'h, 'tb, 't, 'ib, 'i) smoltcp \<Rightarrow> 'i" where
  "IcmpSock_new S =
     (let rx_buffer = IcmpSocketBuffer_new S 1 (replicate 256 0);
          tx_buffer = IcmpSocketBuffer_new S 1 (replicate 256 0)
      in IcmpSocket_new S rx_buffer tx_buffer)"

record ('f, 'ss, 'h) SockSet =
  iface :: 'f
  sock_set :: 'ss
  icmp_handle :: 'h
  tcp_handle :: 'h

text \<open>Nothing if the address or the interface cannot be built, where the library panics.\<close>

definition SockSet_new ::
  "('c, 'f, 'ss, 'h, 'tb, 't, 'ib, 'i) smoltcp \<Rightarrow> u8 list \<Rightarrow> u8 list \<Rightarrow> u8 \<Rightarrow> ('f, 'ss, 'h) SockSet option" where
  "SockSet_new S mac addr prefix =
     (case IfaceEmulator_new (IpCidr_new S) mac addr prefix of
        None \<Rightarrow> None
      | Some ie \<Rightarrow> (case new_iface S ie of
          None \<Rightarrow> None
        | Some ifc \<Rightarrow>
            let ss = SocketSet_new S;
                (hi, ss) = add_icmp S (IcmpSock_new S) ss;
                (ht, ss) = add_tcp S (TcpSock_new S) ss
            in Some \<lparr>iface = ifc, sock_set = ss, icmp_handle = hi, tcp_handle = ht\<rparr>))"

text \<open>The poll, on the two fields it borrows.\<close>

definition poll_iface ::
  "('c, 'f, 'ss, 'h, 'tb, 't, 'ib, 'i) smoltcp \<Rightarrow> (('f, 'ss, 'h) SockSet, bool) exec" where
  "poll_iface S = (\<lambda>k. case iface_poll S (iface k, sock_set k) of
       Ret ok (f, ss) \<Rightarrow> Ret ok (k\<lparr>iface := f, sock_set := ss\<rparr>)
     | Fault e (f, ss) \<Rightarrow> Fault e (k\<lparr>iface := f, sock_set := ss\<rparr>)
     | Exit c (f, ss) \<Rightarrow> Exit c (k\<lparr>iface := f, sock_set := ss\<rparr>)
     | OutOfFuel \<Rightarrow> OutOfFuel)"

text \<open>A poll error is logged; looking up a handle that is not there, and a failed \<open>bind\<close>, panic.\<close>

definition process_pkts ::
  "('c, 'f, 'ss, 'h, 'tb, 't, 'ib, 'i) smoltcp \<Rightarrow> (('f, 'ss, 'h) SockSet, unit) exec" where
  "process_pkts S =
     bind (poll_iface S) (\<lambda>poll_ok.
     bind (gets (\<lambda>k. get_icmp S (sock_set k) (icmp_handle k))) (\<lambda>r.
     bind (case r of None \<Rightarrow> fail Explicit | Some sock \<Rightarrow> ret sock) (\<lambda>icmp_sock.
     bind (if \<not> icmp_is_open S icmp_sock then
             bind (ret (icmp_bind S IDENT icmp_sock)) (\<lambda>(bound, sock).
             bind (modify (\<lambda>k. k\<lparr>sock_set := put_icmp S (icmp_handle k) sock (sock_set k)\<rparr>)) (\<lambda>_.
               if bound then ret () else fail Unwrap))
           else ret ()) (\<lambda>_.
     bind (gets (\<lambda>k. get_tcp S (sock_set k) (tcp_handle k))) (\<lambda>r. case r of
       None \<Rightarrow> fail Explicit
     | Some tcp_sock \<Rightarrow> ret ())))))"

text \<open>Both handles of a \<open>SockSet\<close> lead to sockets of their type.\<close>

definition handles_valid ::
  "('c, 'f, 'ss, 'h, 'tb, 't, 'ib, 'i) smoltcp \<Rightarrow> ('f, 'ss, 'h) SockSet \<Rightarrow> bool" where
  "handles_valid S k \<longleftrightarrow>
     get_icmp S (sock_set k) (icmp_handle k) \<noteq> None \<and> get_tcp S (sock_set k) (tcp_handle k) \<noteq> None"

definition icmp_bound ::
  "('c, 'f, 'ss, 'h, 'tb, 't, 'ib, 'i) smoltcp \<Rightarrow> ('f, 'ss, 'h) SockSet \<Rightarrow> bool" where
  "icmp_bound S k \<longleftrightarrow>
     (case get_icmp S (sock_set k) (icmp_handle k) of None \<Rightarrow> False | Some i \<Rightarrow> icmp_is_open S i)"

section \<open>The contract of the stack\<close>

text \<open>
  What the code relies on, nothing of which concerns panics of the poll: a socket that was added is
  found under the handle it got, and the others stay where they are; a poll that returns has kept
  every socket under its handle; a closed ICMP socket can be bound to an identifier. An address is
  refused exactly when its prefix is longer than 32 bits.
\<close>

locale smoltcp_api =
  fixes S :: "('c, 'f, 'ss, 'h, 'tb, 't, 'ib, 'i) smoltcp"
  assumes cidr_new: "IpCidr_new S ip prefix = None \<longleftrightarrow> 32 < prefix"
    and add_icmp_get: "add_icmp S i ss = (h, ss') \<Longrightarrow> get_icmp S ss' h = Some i"
    and add_tcp_get: "add_tcp S t ss = (h, ss') \<Longrightarrow> get_tcp S ss' h = Some t"
    and add_tcp_icmp: "add_tcp S t ss = (h, ss') \<Longrightarrow> get_icmp S ss h' = Some i \<Longrightarrow> get_icmp S ss' h' = Some i"
    and poll_icmp: "iface_poll S (f, ss) = Ret ok (f', ss') \<Longrightarrow> get_icmp S ss h \<noteq> None \<Longrightarrow> get_icmp S ss' h \<noteq> None"
    and poll_tcp: "iface_poll S (f, ss) = Ret ok (f', ss') \<Longrightarrow> get_tcp S ss h \<noteq> None \<Longrightarrow> get_tcp S ss' h \<noteq> None"
    and put_icmp_get: "get_icmp S ss h \<noteq> None \<Longrightarrow> get_icmp S (put_icmp S h i ss) h = Some i"
    and put_icmp_tcp: "get_tcp S ss h' \<noteq> None \<Longrightarrow> get_tcp S (put_icmp S h i ss) h' \<noteq> None"
    and bind_closed: "\<not> icmp_is_open S i \<Longrightarrow> \<exists>i'. icmp_bind S ident i = (True, i') \<and> icmp_is_open S i'"
begin

lemma SockSet_new_valid: "SockSet_new S mac addr prefix = Some k \<Longrightarrow> handles_valid S k"
proof -
  assume new: "SockSet_new S mac addr prefix = Some k"
  obtain hi ss1 where i: "add_icmp S (IcmpSock_new S) (SocketSet_new S) = (hi, ss1)" by fastforce
  obtain ht ss2 where t: "add_tcp S (TcpSock_new S) ss1 = (ht, ss2)" by fastforce
  from new add_icmp_get [OF i] add_tcp_icmp [OF t] add_tcp_get [OF t] show ?thesis
    by (auto simp: handles_valid_def SockSet_new_def i t Let_def split: option.splits)
qed

lemma SockSet_new_long_prefix: "32 < prefix \<Longrightarrow> SockSet_new S mac addr prefix = None"
  using cidr_new [of _ prefix] by (simp add: SockSet_new_def IfaceEmulator_new_def)

lemma process_pkts_valid:
  assumes "handles_valid S k" "poll_iface S k = Ret ok k1"
  shows "\<exists>k'. process_pkts S k = Ret () k' \<and> handles_valid S k' \<and> icmp_bound S k'"
proof -
  obtain f ss where p: "iface_poll S (iface k, sock_set k) = Ret ok (f, ss)" "k1 = k\<lparr>iface := f, sock_set := ss\<rparr>"
    using assms(2) by (auto simp: poll_iface_def split: outcome.splits)
  obtain i t where g: "get_icmp S ss (icmp_handle k) = Some i" "get_tcp S ss (tcp_handle k) = Some t"
    using assms(1) poll_icmp [OF p(1)] poll_tcp [OF p(1)] unfolding handles_valid_def by blast
  show ?thesis
  proof (cases "icmp_is_open S i")
    case True
    then have "process_pkts S k = Ret () k1" using assms(2) p(2) g by (simp add: process_pkts_def exec_simps)
    with g True p(2) show ?thesis by (simp add: handles_valid_def icmp_bound_def)
  next
    case False
    obtain i' where b: "icmp_bind S IDENT i = (True, i')" "icmp_is_open S i'" using bind_closed [OF False] by blast
    let ?ss = "put_icmp S (icmp_handle k) i' ss"
    have "get_icmp S ?ss (icmp_handle k) = Some i'" "get_tcp S ?ss (tcp_handle k) \<noteq> None"
      using put_icmp_get g put_icmp_tcp by auto
    moreover from this(2) have "process_pkts S k = Ret () (k1\<lparr>sock_set := ?ss\<rparr>)"
      using assms(2) p(2) g(1) b(1) False by (auto simp: process_pkts_def exec_simps)
    ultimately show ?thesis using b(2) p(2) by (simp add: handles_valid_def icmp_bound_def)
  qed
qed

end

section \<open>A stack\<close>

text \<open>
  An executable stack: a set of sockets is a list, a handle an index. A poll offers the received
  frame to the stack, and sends the frame that is to be sent through a transmit token, if there is
  one.
\<close>

datatype ref_socket = TcpS "u8 list" "u8 list" | IcmpS "u16 option"

text \<open>The interface is the device with the frame that waits to be sent.\<close>

definition ref_poll :: "((EthDevEmulator \<times> u8 list) \<times> ref_socket list, bool) exec" where
  "ref_poll = (\<lambda>((d, frame), ss).
     if frame = [] then Ret True ((d, frame), ss)
     else case TxToken_consume (length frame) (\<lambda>_. ((), frame)) d of
         Ret _ d' \<Rightarrow> Ret True ((d', []), ss)
       | Fault e d' \<Rightarrow> Fault e ((d', frame), ss)
       | Exit c d' \<Rightarrow> Exit c ((d', frame), ss)
       | OutOfFuel \<Rightarrow> OutOfFuel)"

lemma ref_poll_Ret: "ref_poll (f, ss) = Ret ok (f', ss') \<Longrightarrow> ss' = ss"
  by (cases f) (auto simp: ref_poll_def split: outcome.splits if_splits)

definition ref_smoltcp ::
  "(Ipv4Addr \<times> u8, EthDevEmulator \<times> u8 list, ref_socket list, nat, u8 list, u8 list \<times> u8 list, u8 list, u16 option) smoltcp" where
  "ref_smoltcp = \<lparr>IpCidr_new = (\<lambda>ip prefix. if 32 < prefix then None else Some (ip, prefix)),
     finalize_iface = (\<lambda>d m ips. if bit (m ! 0) 0 then None else Some (d, [])),
     TcpSocketBuffer_new = (\<lambda>b. b), TcpSocket_new = (\<lambda>r t. (r, t)),
     IcmpSocketBuffer_new = (\<lambda>n b. b), IcmpSocket_new = (\<lambda>r t. None), SocketSet_new = [],
     add_tcp = (\<lambda>t ss. (length ss, ss @ [TcpS (fst t) (snd t)])),
     add_icmp = (\<lambda>i ss. (length ss, ss @ [IcmpS i])),
     get_tcp = (\<lambda>ss h. if h < length ss then (case ss ! h of TcpS r t \<Rightarrow> Some (r, t) | _ \<Rightarrow> None) else None),
     get_icmp = (\<lambda>ss h. if h < length ss then (case ss ! h of IcmpS i \<Rightarrow> Some i | _ \<Rightarrow> None) else None),
     put_icmp = (\<lambda>h i ss. case ss ! h of IcmpS _ \<Rightarrow> ss[h := IcmpS i] | _ \<Rightarrow> ss),
     iface_poll = ref_poll, icmp_is_open = (\<lambda>i. i \<noteq> None),
     icmp_bind = (\<lambda>ident i. (True, Some ident))\<rparr>"

interpretation ref_stack: smoltcp_api ref_smoltcp
  by unfold_locales
    (auto simp: ref_smoltcp_def nth_append nth_list_update split: if_splits ref_socket.splits dest!: ref_poll_Ret,
     metis nth_list_update_neq ref_socket.distinct(1))

section \<open>Properties\<close>

text \<open>Polling the sockets panics exactly when the poll of the interface does: on sockets whose handles
  are good, \<open>process_pkts\<close> ends like the poll (a panic or an exit with the state the poll left), and if
  the poll returns, so does \<open>process_pkts\<close>, with good handles and a bound ICMP socket.
  Handles are good after \<open>SockSet::new\<close>, which panics for a prefix longer than 32 bits.\<close>

theorem process_pkts_outcome:
  fixes S :: "('c, 'f, 'ss, 'h, 'tb, 't, 'ib, 'i) smoltcp"
  assumes "smoltcp_api S" "handles_valid S k"
  shows "case poll_iface S k of
       Ret ok k1 \<Rightarrow> \<exists>k'. process_pkts S k = Ret () k' \<and> handles_valid S k' \<and> icmp_bound S k'
     | Fault e k1 \<Rightarrow> process_pkts S k = Fault e k1
     | Exit c k1 \<Rightarrow> process_pkts S k = Exit c k1
     | OutOfFuel \<Rightarrow> process_pkts S k = OutOfFuel"
  using smoltcp_api.process_pkts_valid [OF assms]
  by (cases "poll_iface S k") (simp_all add: process_pkts_def exec_simps)

text \<open>A stack that has a frame to send makes \<open>process_pkts\<close> panic, since the device has no room.\<close>

theorem process_pkts_outcome_witness:
  "\<exists>k. SockSet_new ref_smoltcp [0x90, 0xe2, 0xba, 0xb2, 0x98, 0x48] [10, 10, 1, 1] 24 = Some k \<and>
     (\<exists>k'. process_pkts ref_smoltcp k = Ret () k' \<and> icmp_bound ref_smoltcp k') \<and>
     process_pkts ref_smoltcp (k\<lparr>iface := (EthDevEmulator_new, [1, 2, 3])\<rparr>) =
       Fault IndexOutOfBounds (k\<lparr>iface := (EthDevEmulator_new, [1, 2, 3])\<rparr>)"
proof -
  let ?mac = "[0x90, 0xe2, 0xba, 0xb2, 0x98, 0x48] :: u8 list"
  obtain k where k: "SockSet_new ref_smoltcp ?mac [10, 10, 1, 1] 24 = Some k" "iface k = (EthDevEmulator_new, [])"
    by (simp add: SockSet_new_def IfaceEmulator_new_def new_iface_def ref_smoltcp_def Let_def)
  let ?k = "k\<lparr>iface := (EthDevEmulator_new, [1, 2, 3])\<rparr>"
  have v: "handles_valid ref_smoltcp k" "handles_valid ref_smoltcp ?k"
    using ref_stack.SockSet_new_valid [OF k(1)] by (simp_all add: handles_valid_def)
  have "poll_iface ref_smoltcp k = Ret True k"
    using k(2) by (simp add: poll_iface_def ref_poll_def ref_smoltcp_def)
  moreover have "poll_iface ref_smoltcp ?k = Fault IndexOutOfBounds ?k"
    by (simp add: poll_iface_def ref_poll_def ref_smoltcp_def TxToken_consume_def EthDevEmulator_new_def exec_simps)
  ultimately show ?thesis
    using k(1) process_pkts_outcome [OF ref_stack.smoltcp_api_axioms v(1)]
      process_pkts_outcome [OF ref_stack.smoltcp_api_axioms v(2)] by auto
qed

theorem SockSet_new_panics:
  assumes "smoltcp_api S" "32 < prefix"
  shows "SockSet_new S mac addr prefix = None"
  using smoltcp_api.SockSet_new_long_prefix [OF assms] .

end
