(* ===== verification/System.thy ===== *)
theory System
  imports Engine Packetiser Sockets "HOL-Library.Sublist"
begin

text \<open>
  The two processes together: the main loops of the engine (\<^verbatim>\<open>l3enginelib/src/main.rs\<close>) and of the
  packetiser (\<^verbatim>\<open>l3enginepacketiser/src/main.rs\<close>) run on the same buffers, pools and rings. A step of
  the system is one of the four operations of the engine's loop, in the order of the loop, or one
  iteration of the packetiser's loop, with the poll of its sockets; what is proved holds for every
  interleaving of such steps. Both loops are running throughout: an iteration after which the
  packetiser leaves its loop (its pool is empty, or it panics) is no step, nor are the destructors
  that follow, which free the rings that the engine still uses.
\<close>

section \<open>The interleaved system\<close>

text \<open>Where the engine's loop stands: in front of one of its four operations.\<close>

datatype phase = At_receive | At_send | At_fetch | At_transmit

fun next_phase :: "phase \<Rightarrow> phase" where
  "next_phase At_receive = At_send"
| "next_phase At_send = At_fetch"
| "next_phase At_fetch = At_transmit"
| "next_phase At_transmit = At_receive"

fun engine_op ::
  "('m, u16, Channel) chm \<Rightarrow> 'x dpdk \<Rightarrow> ('q, ptr) segq \<Rightarrow> Port list \<Rightarrow> phase \<Rightarrow> (('q, 'm, 'x) engine, unit) exec" where
  "engine_op C D Q ports At_receive = bind (get_external_pkts D Q ports) (\<lambda>_. ret ())"
| "engine_op C D Q ports At_send = bind (send_to_packetiser C D Q) (\<lambda>_. ret ())"
| "engine_op C D Q ports At_fetch = bind (get_from_packetiser C D Q) (\<lambda>_. ret ())"
| "engine_op C D Q ports At_transmit = bind (send_pkts_out D Q ports) (\<lambda>_. ret ())"

text \<open>The four operations in their order are the body of the loop.\<close>

lemma engine_iteration_ops:
  "engine_iteration C D Q ports =
     bind (engine_op C D Q ports At_receive) (\<lambda>_. bind (engine_op C D Q ports At_send) (\<lambda>_.
     bind (engine_op C D Q ports At_fetch) (\<lambda>_. engine_op C D Q ports At_transmit)))"
  by (simp add: engine_iteration_def bind_assoc)

record ('q, 'm, 'i, 'd, 'x, 'k) system =
  eng :: "('q, 'm, 'x) engine"
  pkt :: "('q, 'm, 'i, 'd, 'x) Packetiser"
  at :: phase
  socks :: 'k
  arrived :: "ptr list"
  departed :: "ptr list"

text \<open>
  The buffers and the state of DPDK lie in memory that both processes map; the error number is
  each process's own.
\<close>

definition share :: "'x world \<Rightarrow> 'x world \<Rightarrow> 'x world" where
  "share w own = own\<lparr>mem := mem w, ext := ext w\<rparr>"

lemma share_sel [simp]: "mem (share w own) = mem w" "ext (share w own) = ext w"
  by (simp_all add: share_def)

text \<open>
  The frames the engine reads from the NIC and keeps; \<open>arrived\<close> is the history of them.
\<close>

definition frames_in :: "'x dpdk \<Rightarrow> Port list \<Rightarrow> ('q, 'm, 'x) engine \<Rightarrow> ptr list" where
  "frames_in D ports s = (case ports of
       [] \<Rightarrow> []
     | port # _ \<Rightarrow> (case Port_receive D port (ucast (rte_lcore_id D (wld s))) (wld s) of
         Ret ps w1 \<Rightarrow> filter (kept w1) ps
       | _ \<Rightarrow> []))"

definition after_engine ::
  "'x dpdk \<Rightarrow> Port list \<Rightarrow> ('q, 'm, 'x) engine \<Rightarrow> ('q, 'm, 'i, 'd, 'x, 'k) system \<Rightarrow>
   ('q, 'm, 'i, 'd, 'x, 'k) system" where
  "after_engine D ports e' S =
     S\<lparr>eng := e', pkt := (pkt S)\<lparr>pk_wld := share (wld e') (pk_wld (pkt S))\<rparr>,
       at := next_phase (at S),
       arrived := arrived S @ (if at S = At_receive then frames_in D ports (eng S) else [])\<rparr>"

definition after_packetiser ::
  "('q, 'm, 'i, 'd, 'x) Packetiser \<Rightarrow> 'k \<Rightarrow> ('q, 'm, 'i, 'd, 'x, 'k) system \<Rightarrow> ('q, 'm, 'i, 'd, 'x, 'k) system" where
  "after_packetiser p' k' S =
     S\<lparr>pkt := p', socks := k', eng := (eng S)\<lparr>wld := share (pk_wld p') (wld (eng S))\<rparr>\<rparr>"

text \<open>
  The second history, \<open>departed\<close>: after every step, the packets that were on the ring to the
  packetiser before it and are not there any more are added to it, in the order they had there.
\<close>

definition ring_now :: "('x \<Rightarrow> dview) \<Rightarrow> ('q, 'm, 'i, 'd, 'x, 'k) system \<Rightarrow> ptr list" where
  "ring_now view S = the (v_rings (view (ext (wld (eng S)))) (ring_raw (engine_to_client (channel (pkt S)))))"

definition observe ::
  "('x \<Rightarrow> dview) \<Rightarrow> ('q, 'm, 'i, 'd, 'x, 'k) system \<Rightarrow> ('q, 'm, 'i, 'd, 'x, 'k) system \<Rightarrow>
   ('q, 'm, 'i, 'd, 'x, 'k) system" where
  "observe view S S' =
     S'\<lparr>departed := departed S @ filter (\<lambda>p. p \<notin> set (ring_now view S')) (ring_now view S)\<rparr>"

text \<open>\<open>poll\<close> is the poll of the sockets, \<open>process_pkts\<close> on whatever state it has.\<close>

inductive sys_step ::
  "('m, u16, Channel) chm \<Rightarrow> 'x dpdk \<Rightarrow> ('q, ptr) segq \<Rightarrow> build \<Rightarrow> Port list \<Rightarrow> ('x \<Rightarrow> dview) \<Rightarrow> ('k, unit) exec \<Rightarrow>
   ('q, 'm, 'i, 'd, 'x, 'k) system \<Rightarrow> ('q, 'm, 'i, 'd, 'x, 'k) system \<Rightarrow> bool"
  for C D Q b ports view poll where
  engine_step:
    "engine_op C D Q ports (at S) (eng S) = Ret () e' \<Longrightarrow>
     sys_step C D Q b ports view poll S (observe view S (after_engine D ports e' S))"
| packetiser_step:
    "packetiser_iteration D Q b (beside poll (socks S)) fuel (pkt S) = Ret True p' \<Longrightarrow>
     sys_step C D Q b ports view poll S (observe view S (after_packetiser p' (after_poll poll (socks S)) S))"

inductive sys_reachable ::
  "('m, u16, Channel) chm \<Rightarrow> 'x dpdk \<Rightarrow> ('q, ptr) segq \<Rightarrow> build \<Rightarrow> Port list \<Rightarrow> ('x \<Rightarrow> dview) \<Rightarrow> ('k, unit) exec \<Rightarrow>
   ('q, 'm, 'i, 'd, 'x, 'k) system \<Rightarrow> ('q, 'm, 'i, 'd, 'x, 'k) system \<Rightarrow> bool"
  for C D Q b ports view poll S0 where
  start: "sys_reachable C D Q b ports view poll S0 S0"
| next_step: "sys_reachable C D Q b ports view poll S0 S \<Longrightarrow> sys_step C D Q b ports view poll S S' \<Longrightarrow>
    sys_reachable C D Q b ports view poll S0 S'"

inductive_cases sys_stepE: "sys_step C D Q b ports view poll S S'"

section \<open>The invariant\<close>

text \<open>
  The buffers on the way from the NIC to the packetiser: on the ring between the processes, in the
  engine's queue before it and in the packetiser's queue behind it.
\<close>

definition in_transit ::
  "('x \<Rightarrow> dview) \<Rightarrow> ('q \<Rightarrow> ptr list) \<Rightarrow> Channel \<Rightarrow> ('q, 'm, 'i, 'd, 'x, 'k) system \<Rightarrow> ptr list" where
  "in_transit view items ch S =
     the (v_rings (view (ext (wld (eng S)))) (ring_raw (engine_to_client ch))) @
     items (TO_PACKETISER (eng S)) @ items (i_bufqueue (pkt S))"

definition empty_bufs :: "'x world \<Rightarrow> ptr list \<Rightarrow> bool" where
  "empty_bufs w ps \<longleftrightarrow> (\<forall>p \<in> set ps. \<exists>m. mem w p = Some m \<and> mb_data m = [])"

definition sys_inv ::
  "('x \<Rightarrow> dview) \<Rightarrow> ('m \<Rightarrow> u16 \<Rightarrow> Channel option) \<Rightarrow> ('q \<Rightarrow> ptr list) \<Rightarrow> Channel \<Rightarrow>
   ('q, 'm, 'i, 'd, 'x, 'k) system \<Rightarrow> bool" where
  "sys_inv view entries items ch S \<longleftrightarrow>
     engine_inv view entries items ch [] (eng S) \<and> channel (pkt S) = ch \<and>
     mem (pk_wld (pkt S)) = mem (wld (eng S)) \<and> ext (pk_wld (pkt S)) = ext (wld (eng S)) \<and>
     items (o_bufqueue (pkt S)) = [] \<and> distinct (in_transit view items ch S) \<and>
     set (in_transit view items ch S) \<subseteq> dom (mem (wld (eng S))) \<and>
     empty_bufs (wld (eng S)) (items (i_bufqueue (pkt S)))"

text \<open>
  The state in which both loops start: the packetiser has found the engine's channel, and all
  rings and queues are empty.
\<close>

definition sys_init ::
  "('x \<Rightarrow> dview) \<Rightarrow> ('m \<Rightarrow> u16 \<Rightarrow> Channel option) \<Rightarrow> ('q \<Rightarrow> ptr list) \<Rightarrow> Channel \<Rightarrow>
   ('q, 'm, 'i, 'd, 'x, 'k) system \<Rightarrow> bool" where
  "sys_init view entries items ch S \<longleftrightarrow>
     at S = At_receive \<and> engine_inv view entries items ch [] (eng S) \<and> channel (pkt S) = ch \<and>
     mem (pk_wld (pkt S)) = mem (wld (eng S)) \<and> ext (pk_wld (pkt S)) = ext (wld (eng S)) \<and>
     v_rings (view (ext (wld (eng S)))) (ring_raw (engine_to_client ch)) = Some [] \<and>
     items (TO_PACKETISER (eng S)) = [] \<and> items (i_bufqueue (pkt S)) = [] \<and> items (o_bufqueue (pkt S)) = [] \<and>
     arrived S = [] \<and> departed S = []"

lemma empty_bufs_share [simp]: "empty_bufs (share w own) ps = empty_bufs w ps"
  by (simp add: empty_bufs_def)

lemma observe_sel [simp]:
  "eng (observe view S S') = eng S'" "pkt (observe view S S') = pkt S'" "at (observe view S S') = at S'"
  "socks (observe view S S') = socks S'" "arrived (observe view S S') = arrived S'"
  by (simp_all add: observe_def)

lemma sys_inv_observe [simp]:
  "sys_inv view entries items ch (observe v S S') \<longleftrightarrow> sys_inv view entries items ch S'"
  by (simp add: sys_inv_def in_transit_def)

lemma sys_init_inv: "sys_init view entries items ch S \<Longrightarrow> sys_inv view entries items ch S"
  by (simp add: sys_init_def sys_inv_def in_transit_def empty_bufs_def)

section \<open>The link, abstractly\<close>

text \<open>
  What the two loops make of the ring between them: a bounded queue with a waiting room. Offered
  packets wait; a push appends as many of them as fit, and if some do not fit, the first of them
  is lost and the others keep waiting. \<open>taken\<close> are the packets that have left the ring.
\<close>

record link =
  offered :: "ptr list"
  taken :: "ptr list"
  on_ring :: "ptr list"
  waiting :: "ptr list"
  lost :: nat

definition link_init :: link where
  "link_init = \<lparr>offered = [], taken = [], on_ring = [], waiting = [], lost = 0\<rparr>"

definition offer :: "ptr list \<Rightarrow> link \<Rightarrow> link" where
  "offer xs l = l\<lparr>offered := offered l @ xs, waiting := waiting l @ xs\<rparr>"

definition push :: "nat \<Rightarrow> link \<Rightarrow> link" where
  "push room l = (let k = room - length (on_ring l) in
     l\<lparr>on_ring := on_ring l @ take k (waiting l), waiting := drop (Suc k) (waiting l),
       lost := (if k < length (waiting l) then Suc (lost l) else lost l)\<rparr>)"

definition take_off :: "nat \<Rightarrow> link \<Rightarrow> link" where
  "take_off n l = l\<lparr>taken := taken l @ take n (on_ring l), on_ring := drop n (on_ring l)\<rparr>"

inductive link_step :: "nat \<Rightarrow> link \<Rightarrow> link \<Rightarrow> bool" for room where
  offers: "link_step room l (offer xs l)"
| pushes: "link_step room l (push room l)"
| takes: "n \<le> length (on_ring l) \<Longrightarrow> link_step room l (take_off n l)"

definition link_inv :: "nat \<Rightarrow> link \<Rightarrow> bool" where
  "link_inv room l \<longleftrightarrow> subseq (taken l @ on_ring l @ waiting l) (offered l) \<and>
     length (offered l) = length (taken l @ on_ring l @ waiting l) + lost l \<and> length (on_ring l) \<le> room"

lemma subseq_take_drop_Suc: "subseq (take k xs @ drop (Suc k) xs) xs"
proof -
  have "subseq (drop (Suc k) xs) (drop k xs)"
    by (metis drop_Suc suffix_drop suffix_imp_subseq tl_drop drop_drop plus_1_eq_Suc)
  then have "subseq (take k xs @ drop (Suc k) xs) (take k xs @ drop k xs)"
    by (rule list_emb_append_mono [OF subseq_order.order_refl])
  then show ?thesis by simp
qed

lemma link_step_inv: "link_step room l l' \<Longrightarrow> link_inv room l \<Longrightarrow> link_inv room l'"
proof (induction rule: link_step.induct)
  case (offers l xs)
  then have "subseq ((taken l @ on_ring l @ waiting l) @ xs) (offered l @ xs)"
    by (simp only: link_inv_def subseq_append)
  with offers show ?case by (simp add: link_inv_def offer_def)
next
  case (pushes l)
  let ?k = "room - length (on_ring l)" and ?h = "taken l @ on_ring l"
  have "subseq (?h @ take ?k (waiting l) @ drop (Suc ?k) (waiting l)) (?h @ waiting l)"
    using list_emb_append_mono [OF subseq_order.order_refl subseq_take_drop_Suc] by blast
  also have "subseq (?h @ waiting l) (offered l)" using pushes by (simp add: link_inv_def)
  finally show ?case using pushes by (auto simp: link_inv_def push_def Let_def min_def)
next
  case (takes n l)
  have eq: "take n (on_ring l) @ drop n (on_ring l) @ waiting l = on_ring l @ waiting l"
    by (simp flip: append_assoc)
  from takes show ?case by (auto simp: link_inv_def take_off_def eq)
qed

lemma link_init_inv: "link_inv room link_init"
  by (simp add: link_inv_def link_init_def)

lemma link_reachable_inv: "(link_step room)\<^sup>*\<^sup>* link_init l \<Longrightarrow> link_inv room l"
  by (induction rule: rtranclp_induct) (auto intro: link_step_inv simp: link_init_inv)

text \<open>The abstraction of a system state.\<close>

definition link_abs ::
  "('x \<Rightarrow> dview) \<Rightarrow> ('q \<Rightarrow> ptr list) \<Rightarrow> Channel \<Rightarrow> nat \<Rightarrow> ('q, 'm, 'i, 'd, 'x, 'k) system \<Rightarrow> link \<Rightarrow> bool" where
  "link_abs view items ch room S l \<longleftrightarrow>
     v_rings (view (ext (wld (eng S)))) (ring_raw (engine_to_client ch)) = Some (on_ring l) \<and>
     v_cap (view (ext (wld (eng S)))) (ring_raw (engine_to_client ch)) = room \<and>
     items (TO_PACKETISER (eng S)) = waiting l \<and> arrived S = offered l \<and> departed S = taken l \<and>
     length (items (i_bufqueue (pkt S))) = length (taken l)"

text \<open>
  The buffers that either loop has ever taken hold of: the frames the engine kept, and those the
  packetiser allocated for its incoming queue.
\<close>

definition held :: "('q \<Rightarrow> ptr list) \<Rightarrow> ('q, 'm, 'i, 'd, 'x, 'k) system \<Rightarrow> ptr list" where
  "held items S = arrived S @ items (i_bufqueue (pkt S))"

definition held_alive :: "('q \<Rightarrow> ptr list) \<Rightarrow> ('q, 'm, 'i, 'd, 'x, 'k) system \<Rightarrow> bool" where
  "held_alive items S \<longleftrightarrow> distinct (held items S) \<and> set (held items S) \<subseteq> dom (mem (wld (eng S)))"

lemma held_alive_observe [simp]: "held_alive items (observe view S S') \<longleftrightarrow> held_alive items S'"
  by (simp add: held_alive_def held_def)

lemma sys_init_held: "sys_init view entries items ch S \<Longrightarrow> held_alive items S"
  by (simp add: sys_init_def held_alive_def held_def)

lemma sys_init_link:
  "sys_init view entries items ch S \<Longrightarrow> n = v_cap (view (ext (wld (eng S)))) (ring_raw (engine_to_client ch)) \<Longrightarrow>
   link_abs view items ch n S link_init"
  by (simp add: sys_init_def link_abs_def link_init_def)

section \<open>Every interleaving\<close>

lemma distinct_skip:
  "distinct (as @ xs @ bs) \<Longrightarrow> distinct (as @ take k xs @ drop (Suc k) xs @ bs)"
proof -
  assume d: "distinct (as @ xs @ bs)"
  have "set (take k xs) \<inter> set (drop (Suc k) xs) = {}"
    using d by (intro set_take_disj_set_drop_if_distinct) auto
  with d show ?thesis by (auto dest: in_set_takeD in_set_dropD)
qed

text \<open>Buffers that were free before join those in transit.\<close>

lemma transit_extend:
  assumes d: "distinct (q @ T @ I)" "set (q @ T @ I) \<subseteq> dom m" "set xs \<subseteq> set ps" "distinct xs"
    and m: "\<forall>p \<in> set ps. m p = None" "\<forall>p. p \<notin> set ps \<longrightarrow> m' p = m p" "set xs \<subseteq> dom m'"
  shows "distinct (q @ (T @ xs) @ I)" "set (q @ (T @ xs) @ I) \<subseteq> dom m'"
    "\<forall>p \<in> set (q @ T @ I). m' p = m p"
proof -
  have fresh: "set ps \<inter> set (q @ T @ I) = {}" using d(2) m(1) by blast
  then show "distinct (q @ (T @ xs) @ I)" using d(1,3,4) by auto
  show same: "\<forall>p \<in> set (q @ T @ I). m' p = m p" using fresh m(2) by blast
  have "set (q @ T @ I) \<subseteq> dom m'"
  proof
    fix p assume p: "p \<in> set (q @ T @ I)"
    with same have "m' p = m p" by blast
    with p d(2) show "p \<in> dom m'" by (metis domIff subsetD)
  qed
  with m(3) show "set (q @ (T @ xs) @ I) \<subseteq> dom m'" by auto
qed

lemma filter_not_dropped: "distinct q \<Longrightarrow> filter (\<lambda>p. p \<notin> set (drop n q)) q = take n q"
proof -
  assume "distinct q"
  then have "set (take n q) \<inter> set (drop n q) = {}" by (rule set_take_disj_set_drop_if_distinct) simp
  then have "filter (\<lambda>p. p \<notin> set (drop n q)) (take n q @ drop n q) = take n q"
    by (subst filter_append) (auto simp: filter_id_conv filter_empty_conv)
  then show ?thesis by simp
qed

lemma iteration_after_poll:
  "packetiser_iteration D Q b (beside poll k) fuel s = Ret go t \<Longrightarrow>
   packetiser_iteration D Q b (ret ()) fuel s = Ret go t"
  by (cases "poll k") (simp_all add: packetiser_iteration_def beside_def exec_simps)

lemma spin_Ret: "spin Q fuel s = Ret u t \<Longrightarrow> t = s"
proof (induction fuel)
  case 0
  then show ?case by (subst (asm) spin.simps) (simp split: if_splits)
next
  case (Suc n)
  then show ?case by (subst (asm) (2) spin.simps) (simp split: if_splits)
qed

locale system_env = engine_env D view C entries Q items + packetiser_env D view C entries Q items
  for D :: "'x dpdk" and view :: "'x \<Rightarrow> dview"
    and C :: "('m, u16, Channel) chm" and entries :: "'m \<Rightarrow> u16 \<Rightarrow> Channel option"
    and Q :: "('q, ptr) segq" and items :: "'q \<Rightarrow> ptr list"
begin

text \<open>What each operation of the engine does in a state of the invariant.\<close>

lemma receive_op:
  assumes "engine_inv view entries items ch [] s" "xs = frames_in D (port # ports) s"
  shows "\<exists>ps w2 t. engine_op C D Q (port # ports) At_receive (s :: ('q, 'm, 'x) engine) =
       Ret () (s\<lparr>wld := w2, TO_PACKETISER := t\<rparr>) \<and> items t = items (TO_PACKETISER s) @ xs \<and>
     set xs \<subseteq> set ps \<and> distinct xs \<and> (\<forall>p \<in> set ps. mem (wld s) p = None) \<and>
     (\<forall>p. p \<notin> set ps \<longrightarrow> mem w2 p = mem (wld s) p) \<and> set xs \<subseteq> dom (mem w2) \<and> finite (dom (mem w2)) \<and>
     v_rings (view (ext w2)) = v_rings (view (ext (wld s))) \<and> v_cap (view (ext w2)) = v_cap (view (ext (wld s)))"
proof -
  have fin: "finite (dom (mem (wld s)))" using assms(1) by (simp add: engine_inv_def)
  show ?thesis
  proof (rule get_external_pkts_spec [OF fin, of port ports])
    fix ps w1 w2 t
    assume r: "Port_receive D port (ucast (rte_lcore_id D (wld s))) (wld s) = Ret ps w1"
      "get_external_pkts D Q (port # ports) s = Ret (length ps) (s\<lparr>wld := w2, TO_PACKETISER := t\<rparr>)"
      "items t = items (TO_PACKETISER s) @ filter (kept w1) ps"
      "mem w2 = (\<lambda>p. if p \<in> set ps \<and> \<not> kept w1 p then None else mem w1 p)"
      "\<forall>p. p \<notin> set ps \<longrightarrow> mem w1 p = mem (wld s) p" "finite (dom (mem w2))" "distinct ps"
      "\<forall>p \<in> set ps. mem (wld s) p = None"
      "v_rings (view (ext w2)) = v_rings (view (ext (wld s)))"
      "v_cap (view (ext w2)) = v_cap (view (ext (wld s)))"
    have "xs = filter (kept w1) ps" using r(1) assms(2) by (simp add: frames_in_def)
    moreover have "set (filter (kept w1) ps) \<subseteq> dom (mem w2)"
      using r(4) by (auto simp: kept_def split: option.splits)
    ultimately show ?thesis
      using r by (intro exI [of _ ps] exI [of _ w2] exI [of _ t]) (auto simp: exec_simps)
  qed
qed

lemma send_op:
  assumes "engine_inv view entries items ch [] s" and "e = ring_raw (engine_to_client ch)"
    and "v_rings (view (ext (wld s))) e = Some q" "k = v_cap (view (ext (wld s))) e - length q"
  shows "\<exists>w' t. engine_op C D Q ports At_send (s :: ('q, 'm, 'x) engine) =
       Ret () (s\<lparr>wld := w', TO_PACKETISER := t\<rparr>) \<and> items t = drop (Suc k) (items (TO_PACKETISER s)) \<and>
     mem w' = mem (wld s) \<and> view (ext w') = upd_ring e (q @ take k (items (TO_PACKETISER s))) (view (ext (wld s)))"
proof -
  obtain w' t where "send_to_packetiser C D Q s =
        Ret (min (length (items (TO_PACKETISER s))) k) (s\<lparr>wld := w', TO_PACKETISER := t\<rparr>)"
      "items t = drop (Suc k) (items (TO_PACKETISER s))" "mem w' = mem (wld s)"
      "view (ext w') = upd_ring e (q @ take k (items (TO_PACKETISER s))) (view (ext (wld s)))"
    using send_to_packetiser_spec [of s ch e q k] assms by (auto simp: engine_inv_def)
  then show ?thesis by (intro exI [of _ w'] exI [of _ t]) (simp add: exec_simps)
qed

lemma idle_ops:
  assumes "engine_inv view entries items ch [] s"
  shows "engine_op C D Q ports At_fetch (s :: ('q, 'm, 'x) engine) = Ret () s"
    "engine_op C D Q ports At_transmit s = Ret () s"
  using assms get_from_packetiser_idle [of s] send_pkts_out_idle [of s ports]
  by (simp_all add: engine_inv_def exec_simps)

lemma engine_keeps_inv:
  assumes inv: "sys_inv view entries items ch (S :: ('q, 'm, 'i, 'd, 'x, 'k) system)"
    and it: "engine_op C D Q (port # ports) (at S) (eng S) = Ret () e'"
  shows "sys_inv view entries items ch (after_engine D (port # ports) e' S)"
proof -
  let ?e = "ring_raw (engine_to_client ch)" and ?T = "items (TO_PACKETISER (eng S))"
  let ?I = "items (i_bufqueue (pkt S))"
  have einv: "engine_inv view entries items ch [] (eng S)" using inv by (simp add: sys_inv_def)
  then obtain q where q: "v_rings (view (ext (wld (eng S)))) ?e = Some q"
      "length q \<le> v_cap (view (ext (wld (eng S)))) ?e"
    by (auto simp: engine_inv_def)
  have old: "distinct (q @ ?T @ ?I)" "set (q @ ?T @ ?I) \<subseteq> dom (mem (wld (eng S)))"
    "empty_bufs (wld (eng S)) ?I"
    using inv q by (simp_all add: sys_inv_def in_transit_def)
  show ?thesis
  proof (cases "at S")
    case At_receive
    obtain xs ps w2 t where r: "e' = (eng S)\<lparr>wld := w2, TO_PACKETISER := t\<rparr>" "items t = ?T @ xs"
        "set xs \<subseteq> set ps" "distinct xs" "\<forall>p \<in> set ps. mem (wld (eng S)) p = None"
        "\<forall>p. p \<notin> set ps \<longrightarrow> mem w2 p = mem (wld (eng S)) p" "set xs \<subseteq> dom (mem w2)" "finite (dom (mem w2))"
        "v_rings (view (ext w2)) = v_rings (view (ext (wld (eng S))))"
        "v_cap (view (ext w2)) = v_cap (view (ext (wld (eng S))))"
      using receive_op [OF einv refl, of port ports] it [unfolded At_receive] by auto
    note x = transit_extend [OF old(1,2) r(3-7)]
    have "empty_bufs w2 ?I" using old(3) x(3) by (auto simp: empty_bufs_def)
    with inv q r(1,2,8-10) x(1,2) show ?thesis
      by (auto simp: after_engine_def sys_inv_def in_transit_def engine_inv_def)
  next
    case At_send
    define k where "k = v_cap (view (ext (wld (eng S)))) ?e - length q"
    obtain w' t where r: "e' = (eng S)\<lparr>wld := w', TO_PACKETISER := t\<rparr>" "items t = drop (Suc k) ?T"
        "mem w' = mem (wld (eng S))" "view (ext w') = upd_ring ?e (q @ take k ?T) (view (ext (wld (eng S))))"
      using send_op [OF einv refl q(1) k_def, of "port # ports"] it [unfolded At_send] by auto
    have "distinct (q @ take k ?T @ drop (Suc k) ?T @ ?I)" using old(1) by (rule distinct_skip)
    moreover have "set (q @ take k ?T @ drop (Suc k) ?T @ ?I) \<subseteq> dom (mem (wld (eng S)))"
      using old(2) by (auto dest: in_set_takeD in_set_dropD)
    ultimately show ?thesis
      using inv q r k_def old(3)
      by (auto simp: after_engine_def sys_inv_def in_transit_def engine_inv_def empty_bufs_def)
  qed (use idle_ops [OF einv, of "port # ports"] it inv in
      \<open>simp_all add: after_engine_def sys_inv_def in_transit_def\<close>)
qed

lemma iteration_step:
  assumes inv: "sys_inv view entries items ch (S :: ('q, 'm, 'i, 'd, 'x, 'k) system)"
    and it: "packetiser_iteration D Q b (beside poll k) fuel (pkt S) = Ret go p'"
    and q: "v_rings (view (ext (wld (eng S)))) (ring_raw (engine_to_client ch)) = Some q"
  shows "\<exists>bufs w' iq mp a. p' = (pkt S)\<lparr>pk_wld := w', i_bufqueue := iq\<rparr> \<and>
     items iq = items (i_bufqueue (pkt S)) @ bufs \<and> distinct bufs \<and> length bufs \<le> length q \<and>
     length bufs = min (min (BURST_MAX b) (v_avail (view (ext (wld (eng S)))) (mempool (pkt S)))) (length q) \<and>
     (\<forall>p \<in> set bufs. mem (wld (eng S)) p = None \<and> (\<exists>m. mem w' p = Some m \<and> mb_data m = [])) \<and>
     (\<forall>p. p \<notin> set bufs \<longrightarrow> mem w' p = mem (wld (eng S)) p) \<and>
     view (ext w') = upd_avail mp a
       (upd_ring (ring_raw (engine_to_client ch)) (drop (length bufs) q) (view (ext (wld (eng S)))))"
proof -
  have s: "mem (pk_wld (pkt S)) = mem (wld (eng S))" "ext (pk_wld (pkt S)) = ext (wld (eng S))"
    "channel (pkt S) = ch" "items (o_bufqueue (pkt S)) = []" "finite (dom (mem (wld (eng S))))"
    using inv by (simp_all add: sys_inv_def engine_inv_def)
  obtain r bufs w' iq where r: "Packetiser_recv_from_engine_burst D Q b (pkt S) = Ret r ((pkt S)\<lparr>pk_wld := w', i_bufqueue := iq\<rparr>)"
      "distinct bufs" "items iq = items (i_bufqueue (pkt S)) @ bufs"
      "length bufs = min (min (BURST_MAX b) (v_avail (view (ext (wld (eng S)))) (mempool (pkt S)))) (length q)"
      "\<forall>p \<in> set bufs. mem (wld (eng S)) p = None \<and> (\<exists>m. mem w' p = Some m \<and> mb_data m = [])"
      "\<forall>p. p \<notin> set bufs \<longrightarrow> mem w' p = mem (wld (eng S)) p"
      "view (ext w') = upd_avail (mempool (pkt S)) (v_avail (view (ext (wld (eng S)))) (mempool (pkt S)) - length bufs)
         (upd_ring (ring_raw (engine_to_client ch)) (drop (length bufs) q) (view (ext (wld (eng S)))))"
    using recv_from_engine_burst_step [OF _ refl _ refl refl, of "pkt S" q b, unfolded s, OF s(5) q] by blast
  have out: "send_outgoing_packets D Q t = Ret (Inr ()) t" if "items (o_bufqueue t) = []"
    for t :: "('q, 'm, 'i, 'd, 'x) Packetiser"
    using that by (simp add: send_outgoing_packets_def exec_simps)
  have "p' = (pkt S)\<lparr>pk_wld := w', i_bufqueue := iq\<rparr>"
    using iteration_after_poll [OF it] r(1) s(4)
    by (auto simp: packetiser_iteration_def bind_eq_Ret out exec_simps dest!: spin_Ret split: sum.splits if_splits)
  moreover have "length bufs \<le> length q" using r(4) by simp
  ultimately show ?thesis using r by blast
qed

lemma packetiser_keeps_inv:
  assumes inv: "sys_inv view entries items ch (S :: ('q, 'm, 'i, 'd, 'x, 'k) system)"
    and it: "packetiser_iteration D Q b (beside poll k) fuel (pkt S) = Ret go p'"
  shows "sys_inv view entries items ch (after_packetiser p' k' S)"
proof -
  let ?e = "ring_raw (engine_to_client ch)" and ?T = "items (TO_PACKETISER (eng S))"
  let ?I = "items (i_bufqueue (pkt S))"
  obtain q where q: "v_rings (view (ext (wld (eng S)))) ?e = Some q" "length q \<le> v_cap (view (ext (wld (eng S)))) ?e"
    using inv by (auto simp: sys_inv_def engine_inv_def)
  obtain bufs w' iq mp a where r: "p' = (pkt S)\<lparr>pk_wld := w', i_bufqueue := iq\<rparr>"
      "items iq = ?I @ bufs" "distinct bufs"
      "\<forall>p \<in> set bufs. mem (wld (eng S)) p = None \<and> (\<exists>m. mem w' p = Some m \<and> mb_data m = [])"
      "\<forall>p. p \<notin> set bufs \<longrightarrow> mem w' p = mem (wld (eng S)) p"
      "view (ext w') = upd_avail mp a (upd_ring ?e (drop (length bufs) q) (view (ext (wld (eng S)))))"
    using iteration_step [OF inv it q(1)] by blast
  have old: "distinct (q @ ?T @ ?I)" "set (q @ ?T @ ?I) \<subseteq> dom (mem (wld (eng S)))"
    using inv q by (simp_all add: sys_inv_def in_transit_def)
  have fresh: "set bufs \<inter> set (q @ ?T @ ?I) = {}" using old(2) r(4) by blast
  have "dom (mem w') \<subseteq> dom (mem (wld (eng S))) \<union> set bufs"
    using r(5) by (auto simp: dom_def)
  moreover have "finite (dom (mem (wld (eng S))))" using inv by (simp add: sys_inv_def engine_inv_def)
  ultimately have "finite (dom (mem w'))" by (meson List.finite_set finite_Un finite_subset)
  then have "engine_inv view entries items ch [] ((eng S)\<lparr>wld := share w' (wld (eng S))\<rparr>)"
    using inv q r(6) by (auto simp: sys_inv_def engine_inv_def)
  moreover have "distinct (drop (length bufs) q @ ?T @ ?I @ bufs)"
    using old(1) fresh r(3) by (auto dest: in_set_dropD)
  moreover have "mem w' p = mem (wld (eng S)) p" if "p \<in> set (q @ ?T @ ?I)" for p
    using r(5) fresh that by blast
  then have live: "set (q @ ?T @ ?I) \<subseteq> dom (mem w')" "empty_bufs w' ?I"
    using old(2) inv by (auto simp: sys_inv_def empty_bufs_def subset_iff domIff)
  moreover have "set (drop (length bufs) q @ ?T @ ?I @ bufs) \<subseteq> dom (mem w')"
    using live(1) r(4) by (auto dest: in_set_dropD)
  moreover have "empty_bufs w' (?I @ bufs)"
    using live(2) r(4) by (auto simp: empty_bufs_def)
  ultimately show ?thesis
    using inv q r(1,2,6) by (simp add: after_packetiser_def sys_inv_def in_transit_def)
qed

lemma step_inv:
  "sys_step C D Q b (port # ports) view poll S S' \<Longrightarrow> sys_inv view entries items ch S \<Longrightarrow>
   sys_inv view entries items ch S'"
  by (auto elim!: sys_stepE intro: engine_keeps_inv packetiser_keeps_inv)

lemma reachable_inv:
  "sys_reachable C D Q b (port # ports) view poll S0 S \<Longrightarrow> sys_inv view entries items ch S0 \<Longrightarrow>
   sys_inv view entries items ch S"
  by (induction rule: sys_reachable.induct) (auto intro: step_inv)

lemma engine_simulates:
  assumes inv: "sys_inv view entries items ch (S :: ('q, 'm, 'i, 'd, 'x, 'k) system)"
    and abs: "link_abs view items ch room S l"
    and it: "engine_op C D Q (port # ports) (at S) (eng S) = Ret () e'"
  shows "\<exists>l'. (link_step room)\<^sup>*\<^sup>* l l' \<and>
     link_abs view items ch room (observe view S (after_engine D (port # ports) e' S)) l'"
proof -
  let ?e = "ring_raw (engine_to_client ch)"
  have einv: "engine_inv view entries items ch [] (eng S)" and ch: "channel (pkt S) = ch"
    using inv by (simp_all add: sys_inv_def)
  have q: "v_rings (view (ext (wld (eng S)))) ?e = Some (on_ring l)"
    and k: "room - length (on_ring l) = v_cap (view (ext (wld (eng S)))) ?e - length (on_ring l)"
    using abs by (simp_all add: link_abs_def)
  have stays: "departed (observe view S (after_engine D (port # ports) e' S)) = departed S"
    if "v_rings (view (ext (wld e'))) ?e = Some (on_ring l @ xs)" for xs
    using that q ch by (simp add: observe_def ring_now_def after_engine_def)
  show ?thesis
  proof (cases "at S")
    case At_receive
    let ?l = "offer (frames_in D (port # ports) (eng S)) l"
    obtain w2 t where r: "e' = (eng S)\<lparr>wld := w2, TO_PACKETISER := t\<rparr>"
        "items t = items (TO_PACKETISER (eng S)) @ frames_in D (port # ports) (eng S)"
        "v_rings (view (ext w2)) = v_rings (view (ext (wld (eng S))))"
        "v_cap (view (ext w2)) = v_cap (view (ext (wld (eng S))))"
      using receive_op [OF einv refl, of port ports] it [unfolded At_receive] by auto
    have "departed (observe view S (after_engine D (port # ports) e' S)) = departed S"
      using stays [of "[]"] r(1,3) q by simp
    then have "link_abs view items ch room (observe view S (after_engine D (port # ports) e' S)) ?l"
      using r abs At_receive by (simp add: link_abs_def after_engine_def offer_def)
    moreover have "link_step room l ?l" by (rule link_step.offers)
    ultimately show ?thesis by blast
  next
    case At_send
    obtain w' t where r: "e' = (eng S)\<lparr>wld := w', TO_PACKETISER := t\<rparr>"
        "items t = drop (Suc (room - length (on_ring l))) (items (TO_PACKETISER (eng S)))"
        "view (ext w') = upd_ring ?e (on_ring l @ take (room - length (on_ring l)) (items (TO_PACKETISER (eng S))))
           (view (ext (wld (eng S))))"
      using send_op [OF einv refl q k, of "port # ports"] it [unfolded At_send] by auto
    have "departed (observe view S (after_engine D (port # ports) e' S)) = departed S"
      by (rule stays) (simp add: r(1,3))
    then have "link_abs view items ch room (observe view S (after_engine D (port # ports) e' S)) (push room l)"
      using abs by (simp add: link_abs_def push_def Let_def) (simp add: after_engine_def r At_send)
    moreover have "link_step room l (push room l)" by (rule link_step.pushes)
    ultimately show ?thesis by blast
  qed (use idle_ops [OF einv, of "port # ports"] it abs stays [of "[]"] q in
      \<open>auto intro!: exI [of _ l] simp: after_engine_def link_abs_def\<close>)
qed

lemma packetiser_simulates_take:
  assumes inv: "sys_inv view entries items ch (S :: ('q, 'm, 'i, 'd, 'x, 'k) system)"
    and abs: "link_abs view items ch room S l"
    and it: "packetiser_iteration D Q b (beside poll k) fuel (pkt S) = Ret go p'"
  shows "\<exists>l'. link_step room l l' \<and> link_abs view items ch room (observe view S (after_packetiser p' k' S)) l'"
proof -
  let ?e = "ring_raw (engine_to_client ch)"
  have q: "v_rings (view (ext (wld (eng S)))) ?e = Some (on_ring l)"
    using abs by (simp add: link_abs_def)
  obtain bufs w' iq mp a where r: "p' = (pkt S)\<lparr>pk_wld := w', i_bufqueue := iq\<rparr>"
      "items iq = items (i_bufqueue (pkt S)) @ bufs" "length bufs \<le> length (on_ring l)"
      "view (ext w') = upd_avail mp a (upd_ring ?e (drop (length bufs) (on_ring l)) (view (ext (wld (eng S)))))"
    using iteration_step [OF inv it q] by blast
  have d: "distinct (on_ring l)" and ch: "channel (pkt S) = ch"
    using inv q by (simp_all add: sys_inv_def in_transit_def)
  have "departed (observe view S (after_packetiser p' k' S)) = departed S @ take (length bufs) (on_ring l)"
    using q ch r(1,4) filter_not_dropped [OF d] by (simp add: observe_def ring_now_def after_packetiser_def)
  then have "link_abs view items ch room (observe view S (after_packetiser p' k' S)) (take_off (length bufs) l)"
    using abs r by (simp add: link_abs_def after_packetiser_def take_off_def)
  moreover have "link_step room l (take_off (length bufs) l)" using r(3) by (rule link_step.takes)
  ultimately show ?thesis by blast
qed

lemma reachable_simulates:
  assumes "sys_reachable C D Q b (port # ports) view poll S0 S" "sys_inv view entries items ch S0"
    and "link_abs view items ch room S0 l0"
  shows "\<exists>l. (link_step room)\<^sup>*\<^sup>* l0 l \<and> link_abs view items ch room S l"
  using assms
proof (induction rule: sys_reachable.induct)
  case start
  then show ?case by blast
next
  case (next_step S S')
  then obtain l where l: "(link_step room)\<^sup>*\<^sup>* l0 l" "link_abs view items ch room S l" by blast
  have inv: "sys_inv view entries items ch S"
    using reachable_inv [OF next_step.hyps(1) next_step.prems(1)] .
  from next_step.hyps(2) obtain l' where "(link_step room)\<^sup>*\<^sup>* l l'" "link_abs view items ch room S' l'"
    by (cases rule: sys_step.cases)
      (metis engine_simulates [OF inv l(2)], metis packetiser_simulates_take [OF inv l(2)] r_into_rtranclp)
  with l(1) show ?case by (meson rtranclp_trans)
qed

text \<open>No step frees a buffer that is held.\<close>

lemma engine_keeps_held:
  assumes inv: "sys_inv view entries items ch (S :: ('q, 'm, 'i, 'd, 'x, 'k) system)"
    and held: "held_alive items S" and it: "engine_op C D Q (port # ports) (at S) (eng S) = Ret () e'"
  shows "held_alive items (after_engine D (port # ports) e' S)"
proof -
  have einv: "engine_inv view entries items ch [] (eng S)" using inv by (simp add: sys_inv_def)
  then obtain q where q: "v_rings (view (ext (wld (eng S)))) (ring_raw (engine_to_client ch)) = Some q"
    by (auto simp: engine_inv_def)
  show ?thesis
  proof (cases "at S")
    case At_receive
    let ?xs = "frames_in D (port # ports) (eng S)"
    obtain ps w2 t where r: "e' = (eng S)\<lparr>wld := w2, TO_PACKETISER := t\<rparr>"
        "set ?xs \<subseteq> set ps" "distinct ?xs" "\<forall>p \<in> set ps. mem (wld (eng S)) p = None"
        "\<forall>p. p \<notin> set ps \<longrightarrow> mem w2 p = mem (wld (eng S)) p" "set ?xs \<subseteq> dom (mem w2)"
      using receive_op [OF einv refl, of port ports] it [unfolded At_receive] by auto
    have "distinct ([] @ arrived S @ items (i_bufqueue (pkt S)))"
      "set ([] @ arrived S @ items (i_bufqueue (pkt S))) \<subseteq> dom (mem (wld (eng S)))"
      using held by (simp_all add: held_alive_def held_def)
    note transit_extend [OF this r(2-6)]
    with r(1) At_receive show ?thesis by (simp add: held_alive_def held_def after_engine_def)
  next
    case At_send
    then show ?thesis
      using send_op [OF einv refl q refl, of "port # ports"] it held
      by (auto simp: held_alive_def held_def after_engine_def)
  qed (use idle_ops [OF einv, of "port # ports"] it held in
      \<open>simp_all add: held_alive_def held_def after_engine_def\<close>)
qed

lemma packetiser_keeps_held:
  assumes inv: "sys_inv view entries items ch (S :: ('q, 'm, 'i, 'd, 'x, 'k) system)"
    and held: "held_alive items S" and it: "packetiser_iteration D Q b (beside poll k) fuel (pkt S) = Ret go p'"
  shows "held_alive items (after_packetiser p' k' S)"
proof -
  obtain q where "v_rings (view (ext (wld (eng S)))) (ring_raw (engine_to_client ch)) = Some q"
    using inv by (auto simp: sys_inv_def engine_inv_def)
  then obtain bufs w' iq mp a where r: "p' = (pkt S)\<lparr>pk_wld := w', i_bufqueue := iq\<rparr>"
      "items iq = items (i_bufqueue (pkt S)) @ bufs" "distinct bufs"
      "\<forall>p \<in> set bufs. mem (wld (eng S)) p = None \<and> (\<exists>m. mem w' p = Some m \<and> mb_data m = [])"
      "\<forall>p. p \<notin> set bufs \<longrightarrow> mem w' p = mem (wld (eng S)) p"
    using iteration_step [OF inv it] by blast
  have fresh: "set bufs \<subseteq> dom (mem w')" using r(4) by auto
  from held have "distinct ([] @ held items S @ [])" "set ([] @ held items S @ []) \<subseteq> dom (mem (wld (eng S)))"
    by (simp_all add: held_alive_def)
  note transit_extend [OF this order.refl r(3) _ r(5) fresh]
  with r(1,2,4) show ?thesis by (simp add: held_alive_def held_def after_packetiser_def)
qed

lemma reachable_held:
  assumes "sys_reachable C D Q b (port # ports) view poll S0 S" "sys_inv view entries items ch S0" "held_alive items S0"
  shows "held_alive items (S :: ('q, 'm, 'i, 'd, 'x, 'k) system)"
  using assms
proof (induction rule: sys_reachable.induct)
  case (next_step S S')
  have inv: "sys_inv view entries items ch S" by (rule reachable_inv [OF next_step.hyps(1) next_step.prems(1)])
  from next_step.hyps(2) next_step.IH [OF next_step.prems] show ?case
    by (cases rule: sys_step.cases) (auto intro: engine_keeps_held [OF inv] packetiser_keeps_held [OF inv])
qed

lemma engine_op_returns:
  assumes "sys_inv view entries items ch (S :: ('q, 'm, 'i, 'd, 'x, 'k) system)"
  shows "\<exists>e'. engine_op C D Q (port # ports) ph (eng S) = Ret () e'"
proof -
  have einv: "engine_inv view entries items ch [] (eng S)" using assms by (simp add: sys_inv_def)
  then obtain q where q: "v_rings (view (ext (wld (eng S)))) (ring_raw (engine_to_client ch)) = Some q"
    by (auto simp: engine_inv_def)
  show ?thesis
    using receive_op [OF einv refl, of port ports] send_op [OF einv refl q refl, of "port # ports"]
      idle_ops [OF einv, of "port # ports"]
    by (cases ph) auto
qed

lemma packetiser_iteration_returns:
  assumes inv: "sys_inv view entries items ch (S :: ('q, 'm, 'i, 'd, 'x, 'k) system)" and "\<not> feature_debug b"
    and poll: "beside poll k (pkt S) = Ret () (pkt S)"
  shows "\<exists>p'. packetiser_iteration D Q b (beside poll k) fuel (pkt S) =
     Ret (fst (rte_pktmbuf_alloc D (mempool (pkt S)) (pk_wld (pkt S))) \<noteq> null) p'"
proof -
  obtain q where q: "v_rings (view (ext (wld (eng S)))) (ring_raw (engine_to_client ch)) = Some q"
    using inv by (auto simp: sys_inv_def engine_inv_def)
  have s: "mem (pk_wld (pkt S)) = mem (wld (eng S))" "ext (pk_wld (pkt S)) = ext (wld (eng S))"
    "channel (pkt S) = ch" "finite (dom (mem (wld (eng S))))"
    using inv by (simp_all add: sys_inv_def engine_inv_def)
  let ?a = "v_avail (view (ext (wld (eng S)))) (mempool (pkt S))"
  have "fst (rte_pktmbuf_alloc D (mempool (pkt S)) (pk_wld (pkt S))) = null \<longleftrightarrow> ?a = 0"
    using alloc_none [of "pk_wld (pkt S)" "mempool (pkt S)"] alloc_some [of "pk_wld (pkt S)" "mempool (pkt S)"] s
    by (cases "?a = 0") auto
  moreover obtain r s' n where "Packetiser_recv_from_engine_burst D Q b (pkt S) = Ret r s'"
      "if ?a = 0 then \<exists>err. r = Inl err else r = Inr n"
    using recv_from_engine_burst_step [OF _ refl _ refl refl, of "pkt S" q b, unfolded s, OF s(4) q] by blast
  ultimately show ?thesis
    using assms(2) poll by (auto simp: packetiser_iteration_def exec_simps split: if_splits)
qed

lemma packetiser_iteration_outcome:
  assumes "sys_inv view entries items ch (S :: ('q, 'm, 'i, 'd, 'x, 'k) system)" and "\<not> feature_debug b"
  shows "case poll (socks S) of
       Ret _ _ \<Rightarrow> \<exists>p'. packetiser_iteration D Q b (beside poll (socks S)) fuel (pkt S) =
         Ret (fst (rte_pktmbuf_alloc D (mempool (pkt S)) (pk_wld (pkt S))) \<noteq> null) p'
     | Fault e _ \<Rightarrow> packetiser_iteration D Q b (beside poll (socks S)) fuel (pkt S) = Fault e (pkt S)
     | Exit c _ \<Rightarrow> packetiser_iteration D Q b (beside poll (socks S)) fuel (pkt S) = Exit c (pkt S)
     | OutOfFuel \<Rightarrow> packetiser_iteration D Q b (beside poll (socks S)) fuel (pkt S) = OutOfFuel"
proof (cases "poll (socks S)")
  case (Ret u k')
  then have "beside poll (socks S) (pkt S) = Ret () (pkt S)" by (simp add: beside_def)
  from packetiser_iteration_returns [OF assms this] Ret show ?thesis by simp
qed (simp_all add: packetiser_iteration_def beside_def exec_simps)

end

interpretation ref_system: system_env ref_dpdk ref_view alist_chm map_of list_segq "\<lambda>q. q"
  by unfold_locales

text \<open>A concrete start: two empty rings of two slots, one TCP frame at the NIC, and the sockets that
  the packetiser's \<open>main\<close> creates.\<close>

definition ref_socks :: "(EthDevEmulator \<times> u8 list, ref_socket list, nat) SockSet" where
  "ref_socks = \<lparr>iface = (EthDevEmulator_new, []), sock_set = [IcmpS None, TcpS (replicate 1024 0) (replicate 1024 0)],
     icmp_handle = 0, tcp_handle = 1\<rparr>"

lemma ref_socks_new:
  "SockSet_new ref_smoltcp [0x90, 0xe2, 0xba, 0xb2, 0x98, 0x48] [10, 10, 1, 1] 24 = Some ref_socks"
  by (simp add: SockSet_new_def IfaceEmulator_new_def new_iface_def ref_smoltcp_def Let_def
      IcmpSock_new_def TcpSock_new_def ref_socks_def)

lemma ref_socks_poll: "\<exists>k'. process_pkts ref_smoltcp ref_socks = Ret () k'"
proof -
  have "poll_iface ref_smoltcp ref_socks = Ret True ref_socks"
    by (simp add: poll_iface_def ref_poll_def ref_smoltcp_def ref_socks_def)
  with ref_stack.process_pkts_valid [OF ref_stack.SockSet_new_valid [OF ref_socks_new]] show ?thesis by blast
qed

type_synonym ref_system_state =
  "(ptr list, (u16 \<times> Channel) list, (Ipv4Addr \<times> u16) list, (u16 \<times> Ipv4Addr) list, ref_ext,
    (EthDevEmulator \<times> u8 list, ref_socket list, nat) SockSet) system"

definition ref_system_start :: ref_system_state where
  "ref_system_start =
     (let w = ref_rings [5 \<mapsto> [], 6 \<mapsto> []] Map.empty 2; w0 = w\<lparr>ext := (ext w)\<lparr>r_frames := [tcp_frame]\<rparr>\<rparr>
      in \<lparr>eng = (ref_engine [])\<lparr>wld := w0\<rparr>, pkt = ref_pk\<lparr>pk_wld := w0\<rparr>, at = At_receive, socks = ref_socks,
          arrived = [], departed = []\<rparr>)"

lemma ref_system_init: "sys_init ref_view map_of (\<lambda>q. q) (chan_at 5 6) ref_system_start"
  by (simp add: sys_init_def ref_system_start_def engine_inv_def ref_engine_def ref_pk_def
      PROCESSOR_THREAD_def ref_view_sel ref_rings_def ref_start_def Let_def)

lemma ref_system_cap: "2 = v_cap (ref_view (ext (wld (eng ref_system_start)))) (ring_raw (engine_to_client (chan_at 5 6)))"
  by (simp add: ref_system_start_def ref_view_sel ref_rings_def Let_def)

text \<open>The frame arrives, is kept and waits for the ring.\<close>

lemma ref_received:
  obtains p w1 where "frames_in ref_dpdk [ref_port] (eng ref_system_start) = [p]"
    "engine_op alist_chm ref_dpdk list_segq [ref_port] At_receive (eng ref_system_start) =
       Ret () ((eng ref_system_start)\<lparr>wld := w1, TO_PACKETISER := [p]\<rparr>)"
    "rv (ext w1) = rv (ext (wld (eng ref_system_start)))"
proof -
  let ?w = "wld (eng ref_system_start)" and ?m = "ref_mbuf ref_room_max null (pad_frame tcp_frame)"
  have "r_frames (ext ?w) = [tcp_frame]" by (simp add: ref_system_start_def Let_def)
  then obtain p w1 where r: "ref_rx 32 ?w = ([p], w1)" "mem w1 p = Some ?m"
    by (simp add: numeral_eq_Suc Let_def)
  have "finite (dom (mem ?w))" by (simp add: ref_system_start_def Let_def)
  note spec = ref_rx_spec [OF this r(1)]
  have "mb_data ?m ! 12 = 8"
    by (simp add: ref_mbuf_data pad_frame_def ref_room_max_def ref_headroom_def tcp_frame_def)
  then have k: "kept w1 p" using r(2) by (simp add: kept_def)
  have f: "is_frame w1 p" using spec by (auto simp: is_frame_def)
  have pr: "Port_receive ref_dpdk ref_port qid ?w = Ret [p] w1" for qid
    using r(1) by (simp add: Port_receive_def RX_BURST_MAX_def exec_simps)
  have "engine_op alist_chm ref_dpdk list_segq [ref_port] At_receive (eng ref_system_start) =
      Ret () ((eng ref_system_start)\<lparr>wld := w1, TO_PACKETISER := [p]\<rparr>)"
    using ref_engine.classify_keep [of "(eng ref_system_start)\<lparr>wld := w1\<rparr>" p 0 "[]"] f k pr
    by (simp add: get_external_pkts_def lcore_queue_def first_port_def exec_simps)
      (simp add: ref_system_start_def ref_engine_def Let_def)
  moreover have "frames_in ref_dpdk [ref_port] (eng ref_system_start) = [p]"
    using k pr by (simp add: frames_in_def)
  ultimately show thesis using that spec by blast
qed

abbreviation ref_build :: build where
  "ref_build \<equiv> \<lparr>overflow_checks = True, feature_debug = False\<rparr>"

abbreviation ref_reachable :: "ref_system_state \<Rightarrow> bool" where
  "ref_reachable \<equiv> sys_reachable alist_chm ref_dpdk list_segq ref_build [ref_port] ref_view (process_pkts ref_smoltcp)
     ref_system_start"

lemma ref_reachable_engine:
  assumes "ref_reachable S"
  shows "\<exists>e'. engine_op alist_chm ref_dpdk list_segq [ref_port] (at S) (eng S) = Ret () e' \<and>
     ref_reachable (observe ref_view S (after_engine ref_dpdk [ref_port] e' S))"
proof -
  obtain e' where e: "engine_op alist_chm ref_dpdk list_segq [ref_port] (at S) (eng S) = Ret () e'"
    using ref_system.engine_op_returns [OF ref_system.reachable_inv [OF assms sys_init_inv [OF ref_system_init]]] by blast
  from sys_step.engine_step [OF this] assms e show ?thesis by (meson sys_reachable.next_step)
qed

lemma ref_system_run: "\<exists>S. ref_reachable S \<and> length (arrived S) = 1"
proof -
  obtain e1 where "ref_reachable (observe ref_view ref_system_start (after_engine ref_dpdk [ref_port] e1 ref_system_start))"
    using ref_reachable_engine [OF sys_reachable.start] by blast
  moreover have "arrived (after_engine ref_dpdk [ref_port] e1 ref_system_start) =
      frames_in ref_dpdk [ref_port] (eng ref_system_start)"
    by (simp add: after_engine_def ref_system_start_def Let_def)
  moreover have "length (frames_in ref_dpdk [ref_port] (eng ref_system_start)) = 1" by (rule ref_received) simp
  ultimately show ?thesis by (metis observe_sel(5))
qed

section \<open>Properties\<close>

text \<open>C3: From the start of both loops on and while both run, in whatever order their steps run and
  whatever the sockets' polls do, no buffer is in
  two places: the buffers on the ring between the processes, those waiting in the engine's queue
  and those in the packetiser's queue are pairwise distinct and all alive, both processes see the
  same memory, and the ring never holds more than its capacity.\<close>

theorem system_ownership:
  fixes S :: "('q, 'm, 'i, 'd, 'x, 'k) system"
  assumes "system_env D view C entries Q items" and "sys_init view entries items ch S0"
    and "sys_reachable C D Q b (port # ports) view poll S0 S"
    and "e = ring_raw (engine_to_client ch)"
  shows "\<exists>ring. v_rings (view (ext (wld (eng S)))) e = Some ring \<and>
     length ring \<le> v_cap (view (ext (wld (eng S)))) e \<and>
     distinct (ring @ items (TO_PACKETISER (eng S)) @ items (i_bufqueue (pkt S))) \<and>
     set (ring @ items (TO_PACKETISER (eng S)) @ items (i_bufqueue (pkt S))) \<subseteq> dom (mem (wld (eng S))) \<and>
     mem (pk_wld (pkt S)) = mem (wld (eng S))"
  using system_env.reachable_inv [OF assms(1,3) sys_init_inv [OF assms(2)]] assms(4)
  by (auto simp: sys_inv_def engine_inv_def in_transit_def)

theorem system_ownership_witness:
  "\<exists>S. ref_reachable S \<and> length (arrived S) = 1 \<and>
     (\<exists>ring. v_rings (ref_view (ext (wld (eng S)))) 6 = Some ring \<and>
        distinct (ring @ TO_PACKETISER (eng S) @ i_bufqueue (pkt S)))"
proof -
  obtain S where S: "ref_reachable S" "length (arrived S) = 1"
    using ref_system_run by blast
  with system_ownership [OF ref_system.system_env_axioms ref_system_init S(1) refl] show ?thesis by auto
qed

text \<open>C16: Whatever the interleaving, while both loops run, no frame the engine has kept and no buffer
  the packetiser has put into its incoming queue is ever given back to a pool: they are pairwise
  distinct and all still alive, so the number of live buffers is at least the number of frames kept
  plus the number of packets taken off the ring, and a pool of \<open>n\<close> buffers serves at most \<open>n\<close> of
  them. (The buffers that the packetiser allocates for a burst and does not need are freed; they
  never get into the queue.)\<close>

theorem system_leaks_all:
  fixes S :: "('q, 'm, 'i, 'd, 'x, 'k) system"
  assumes "system_env D view C entries Q items" and "sys_init view entries items ch S0"
    and "sys_reachable C D Q b (port # ports) view poll S0 S"
  shows "distinct (arrived S @ items (i_bufqueue (pkt S))) \<and>
     set (arrived S @ items (i_bufqueue (pkt S))) \<subseteq> dom (mem (wld (eng S))) \<and>
     length (arrived S) + length (items (i_bufqueue (pkt S))) \<le> card (dom (mem (wld (eng S))))"
proof -
  note inv = sys_init_inv [OF assms(2)]
  have h: "distinct (held items S)" "set (held items S) \<subseteq> dom (mem (wld (eng S)))"
    using system_env.reachable_held [OF assms(1,3) inv sys_init_held [OF assms(2)]]
    by (simp_all add: held_alive_def)
  have "finite (dom (mem (wld (eng S))))"
    using system_env.reachable_inv [OF assms(1,3) inv] by (simp add: sys_inv_def engine_inv_def)
  then have "card (set (held items S)) \<le> card (dom (mem (wld (eng S))))" using h(2) by (rule card_mono)
  moreover have "card (set (held items S)) = length (arrived S) + length (items (i_bufqueue (pkt S)))"
    using h(1) by (simp only: distinct_card held_def length_append)
  ultimately show ?thesis using h unfolding held_def by simp
qed

theorem system_leaks_all_witness:
  "\<exists>S. ref_reachable S \<and> length (arrived S) = 1 \<and> 1 \<le> card (dom (mem (wld (eng S))))"
proof -
  obtain S where S: "ref_reachable S" "length (arrived S) = 1"
    using ref_system_run by blast
  with system_leaks_all [OF ref_system.system_env_axioms ref_system_init S(1)] show ?thesis by auto
qed

text \<open>C17: Nothing is ever forwarded, whatever the interleaving, while both loops run: every buffer in the packetiser's
  incoming queue is empty, and the packetiser's outgoing queue, the ring back to the engine and
  the engine's queue to the NIC stay empty.\<close>

theorem system_forwards_nothing:
  fixes S :: "('q, 'm, 'i, 'd, 'x, 'k) system"
  assumes "system_env D view C entries Q items" and "sys_init view entries items ch S0"
    and "sys_reachable C D Q b (port # ports) view poll S0 S"
  shows "empty_bufs (wld (eng S)) (items (i_bufqueue (pkt S))) \<and> items (o_bufqueue (pkt S)) = [] \<and>
     v_rings (view (ext (wld (eng S)))) (ring_raw (client_to_engine ch)) = Some [] \<and>
     items (OUT_PKTS (eng S)) = []"
  using system_env.reachable_inv [OF assms(1,3) sys_init_inv [OF assms(2)]]
  by (simp add: sys_inv_def engine_inv_def)

theorem system_forwards_nothing_witness:
  "\<exists>S. ref_reachable S \<and> length (arrived S) = 1 \<and> OUT_PKTS (eng S) = [] \<and> o_bufqueue (pkt S) = []"
proof -
  obtain S where S: "ref_reachable S" "length (arrived S) = 1"
    using ref_system_run by blast
  with system_forwards_nothing [OF ref_system.system_env_axioms ref_system_init S(1)] show ?thesis by auto
qed

text \<open>C4: The two loops implement the abstract link, a bounded queue with a waiting room: every
  state they reach together abstracts to a state of the link, whose offers are the frames the engine read
  from the NIC and kept, and whose capacity is that of the ring.\<close>

theorem system_refines_link:
  fixes S :: "('q, 'm, 'i, 'd, 'x, 'k) system"
  assumes "system_env D view C entries Q items" and "sys_init view entries items ch S0"
    and "sys_reachable C D Q b (port # ports) view poll S0 S"
    and "room = v_cap (view (ext (wld (eng S0)))) (ring_raw (engine_to_client ch))"
  shows "\<exists>l. (link_step room)\<^sup>*\<^sup>* link_init l \<and> link_abs view items ch room S l"
  using system_env.reachable_simulates [OF assms(1,3) sys_init_inv [OF assms(2)] sys_init_link [OF assms(2,4)]] .

theorem system_refines_link_witness:
  "\<exists>S l. ref_reachable S \<and> (link_step 2)\<^sup>*\<^sup>* link_init l \<and> length (offered l) = 1 \<and>
     link_abs ref_view (\<lambda>q. q) (chan_at 5 6) 2 S l"
proof -
  obtain S where S: "ref_reachable S" "length (arrived S) = 1"
    using ref_system_run by blast
  obtain l where "(link_step 2)\<^sup>*\<^sup>* link_init l" "link_abs ref_view (\<lambda>q. q) (chan_at 5 6) 2 S l"
    using system_refines_link [OF ref_system.system_env_axioms ref_system_init S(1) ref_system_cap] by blast
  moreover from this(2) have "length (offered l) = 1" using S(2) by (simp add: link_abs_def)
  ultimately show ?thesis using S(1) by blast
qed

text \<open>C14: Packets keep their order and are not duplicated on the way to the packetiser. Let \<open>departed\<close>
  be the packets that the steps so far took off the ring to the packetiser (each step's are those
  that were on the ring before it and not after it). Then those, followed by the packets on the ring
  and by those that still wait in the engine's queue, form a subsequence of the frames the engine
  kept, which are pairwise distinct; and the packetiser's queue has one buffer for each packet taken.\<close>

theorem system_keeps_order:
  fixes S :: "('q, 'm, 'i, 'd, 'x, 'k) system"
  assumes "system_env D view C entries Q items" and "sys_init view entries items ch S0"
    and "sys_reachable C D Q b (port # ports) view poll S0 S"
  shows "\<exists>ring. v_rings (view (ext (wld (eng S)))) (ring_raw (engine_to_client ch)) = Some ring \<and>
     subseq (departed S @ ring @ items (TO_PACKETISER (eng S))) (arrived S) \<and> distinct (arrived S) \<and>
     length (departed S) = length (items (i_bufqueue (pkt S)))"
proof -
  note inv = sys_init_inv [OF assms(2)]
  let ?n = "v_cap (view (ext (wld (eng S0)))) (ring_raw (engine_to_client ch))"
  obtain l where "(link_step ?n)\<^sup>*\<^sup>* link_init l" "link_abs view items ch ?n S l"
    using system_env.reachable_simulates [OF assms(1,3) inv sys_init_link [OF assms(2) refl]] by blast
  moreover have "distinct (arrived S)"
    using system_env.reachable_held [OF assms(1,3) inv sys_init_held [OF assms(2)]]
    by (simp add: held_alive_def held_def)
  ultimately show ?thesis using link_reachable_inv by (auto simp: link_abs_def link_inv_def)
qed

text \<open>A run in which the packet is kept, pushed and taken off the ring.\<close>

lemma ref_system_pushed:
  obtains S p where "ref_reachable S" "arrived S = [p]" "i_bufqueue (pkt S) = []" "socks S = ref_socks"
    "v_avail (ref_view (ext (wld (eng S)))) (mempool (pkt S)) = 4"
    "v_rings (ref_view (ext (wld (eng S)))) (ring_raw (engine_to_client (chan_at 5 6))) = Some [p]"
proof -
  let ?S0 = ref_system_start and ?ch = "chan_at 5 6"
  have start: "at ?S0 = At_receive" "arrived ?S0 = []" "i_bufqueue (pkt ?S0) = []" "mempool (pkt ?S0) = 7"
    "v_rings (rv (ext (wld (eng ?S0)))) 6 = Some []" "v_cap (rv (ext (wld (eng ?S0)))) 6 = 2"
    "v_avail (rv (ext (wld (eng ?S0)))) 7 = 4"
    by (simp_all add: ref_system_start_def ref_pk_def ref_rings_def ref_start_def Let_def)
  obtain p w1 where r: "frames_in ref_dpdk [ref_port] (eng ?S0) = [p]"
      "engine_op alist_chm ref_dpdk list_segq [ref_port] At_receive (eng ?S0) =
         Ret () ((eng ?S0)\<lparr>wld := w1, TO_PACKETISER := [p]\<rparr>)"
      "rv (ext w1) = rv (ext (wld (eng ?S0)))"
    by (rule ref_received)
  define S1 where "S1 = observe ref_view ?S0 (after_engine ref_dpdk [ref_port] ((eng ?S0)\<lparr>wld := w1, TO_PACKETISER := [p]\<rparr>) ?S0)"
  have S1: "ref_reachable S1"
    unfolding S1_def
    by (rule sys_reachable.next_step [OF sys_reachable.start sys_step.engine_step]) (simp only: start(1) r(2))
  have f1: "at S1 = At_send" "arrived S1 = [p]" "TO_PACKETISER (eng S1) = [p]" "i_bufqueue (pkt S1) = []"
    "mempool (pkt S1) = 7" "ext (wld (eng S1)) = ext w1"
    using start r(1) by (simp_all add: S1_def after_engine_def)
  have inv1: "sys_inv ref_view map_of (\<lambda>q. q) ?ch S1"
    using ref_system.reachable_inv [OF S1 sys_init_inv [OF ref_system_init]] .
  have "v_rings (ref_view (ext (wld (eng S1)))) (ring_raw (engine_to_client ?ch)) = Some []"
    "engine_inv ref_view map_of (\<lambda>q. q) ?ch [] (eng S1)"
    "2 = v_cap (ref_view (ext (wld (eng S1)))) (ring_raw (engine_to_client ?ch)) - length []"
    using inv1 start f1(6) r(3) by (simp_all add: sys_inv_def ref_view_sel)
  from ref_system.send_op [OF this(2) refl this(1,3), of "[ref_port]"] obtain w2 where
    r2: "engine_op alist_chm ref_dpdk list_segq [ref_port] At_send (eng S1) =
        Ret () ((eng S1)\<lparr>wld := w2, TO_PACKETISER := []\<rparr>)"
      "ref_view (ext w2) = upd_ring 6 [p] (ref_view (ext (wld (eng S1))))"
    using f1(3) by auto
  define S2 where "S2 = observe ref_view S1 (after_engine ref_dpdk [ref_port] ((eng S1)\<lparr>wld := w2, TO_PACKETISER := []\<rparr>) S1)"
  have S2: "ref_reachable S2"
    unfolding S2_def by (rule sys_reachable.next_step [OF S1 sys_step.engine_step]) (simp only: f1(1) r2(1))
  have f2: "arrived S2 = [p]" "i_bufqueue (pkt S2) = []" "mempool (pkt S2) = 7" "ext (wld (eng S2)) = ext w2"
    using f1 by (simp_all add: S2_def after_engine_def)
  show thesis
  proof (rule that [OF S2])
    show "v_avail (ref_view (ext (wld (eng S2)))) (mempool (pkt S2)) = 4"
      "v_rings (ref_view (ext (wld (eng S2)))) (ring_raw (engine_to_client ?ch)) = Some [p]"
      using start f2(3,4) r2(2) f1(6) r(3) by (simp_all add: ref_view_sel)
    show "socks S2 = ref_socks" by (simp add: S2_def S1_def after_engine_def ref_system_start_def Let_def)
  qed (use f2 in simp_all)
qed

lemma ref_system_taken: "\<exists>S. ref_reachable S \<and> length (arrived S) = 1 \<and> length (i_bufqueue (pkt S)) = 1"
proof -
  obtain S2 p where S2: "ref_reachable S2" and f2: "arrived S2 = [p]" "i_bufqueue (pkt S2) = []" and k: "socks S2 = ref_socks"
      and a: "v_avail (ref_view (ext (wld (eng S2)))) (mempool (pkt S2)) = 4"
      "v_rings (ref_view (ext (wld (eng S2)))) (ring_raw (engine_to_client (chan_at 5 6))) = Some [p]"
    by (rule ref_system_pushed)
  have inv2: "sys_inv ref_view map_of (\<lambda>q. q) (chan_at 5 6) S2"
    using ref_system.reachable_inv [OF S2 sys_init_inv [OF ref_system_init]] .
  have share: "ext (pk_wld (pkt S2)) = ext (wld (eng S2))" "finite (dom (mem (pk_wld (pkt S2))))"
    using inv2 by (simp_all add: sys_inv_def engine_inv_def)
  have "fst (rte_pktmbuf_alloc ref_dpdk (mempool (pkt S2)) (pk_wld (pkt S2))) \<noteq> null"
    using ref.alloc_some [of "pk_wld (pkt S2)" "mempool (pkt S2)"] a(1) share by force
  then obtain p' where
    it: "packetiser_iteration ref_dpdk list_segq ref_build (beside (process_pkts ref_smoltcp) (socks S2)) 0 (pkt S2) =
      Ret True p'"
    using ref_system.packetiser_iteration_outcome [OF inv2, of ref_build "process_pkts ref_smoltcp" 0] ref_socks_poll k
    by auto
  obtain bufs w' iq where "p' = (pkt S2)\<lparr>pk_wld := w', i_bufqueue := iq\<rparr>" "iq = i_bufqueue (pkt S2) @ bufs"
      "length bufs = min (min (BURST_MAX ref_build) (v_avail (ref_view (ext (wld (eng S2)))) (mempool (pkt S2)))) (length [p])"
    using ref_system.iteration_step [OF inv2 it a(2)] by blast
  then have "length (i_bufqueue p') = 1" using f2(2) a(1) by (simp add: BURST_MAX_def)
  moreover have "ref_reachable (observe ref_view S2 (after_packetiser p' (after_poll (process_pkts ref_smoltcp) (socks S2)) S2))"
    by (rule sys_reachable.next_step [OF S2 sys_step.packetiser_step [OF it]])
  ultimately show ?thesis
    using f2(1)
    by (intro exI [of _ "observe ref_view S2 (after_packetiser p' (after_poll (process_pkts ref_smoltcp) (socks S2)) S2)"])
      (simp add: after_packetiser_def)
qed

theorem system_keeps_order_witness:
  "\<exists>S p. ref_reachable S \<and> arrived S = [p] \<and> departed S = [p] \<and> length (i_bufqueue (pkt S)) = 1"
proof -
  obtain S where S: "ref_reachable S" "length (arrived S) = 1" "length (i_bufqueue (pkt S)) = 1"
    using ref_system_taken by blast
  obtain ring where r: "subseq (departed S @ ring @ TO_PACKETISER (eng S)) (arrived S)" "length (departed S) = 1"
    using system_keeps_order [OF ref_system.system_env_axioms ref_system_init S(1)] S(3) by auto
  obtain p where p: "departed S = [p]" using r(2) by (auto simp: length_Suc_conv)
  obtain p' where p': "arrived S = [p']" using S(2) by (auto simp: length_Suc_conv)
  have "p = p'" using r(1) p p' by (auto split: if_splits)
  with S p p' show ?thesis by auto
qed

text \<open>C15: While both loops run, in whatever order their steps run, neither gets stuck or panics by
  itself. The engine's next operation returns (in fact any of the four would). Outside the debug
  build the packetiser's next iteration ends as the poll of the sockets in it does: if the poll
  panics, exits or does not return, so does the iteration; if the poll returns, so does the iteration,
  and the loop goes on exactly when its first allocation from the pool succeeds.\<close>

theorem system_progress:
  fixes S :: "('q, 'm, 'i, 'd, 'x, 'k) system"
  assumes "system_env D view C entries Q items" and "sys_init view entries items ch S0"
    and "sys_reachable C D Q b (port # ports) view poll S0 S" and "\<not> feature_debug b"
    and "next = packetiser_iteration D Q b (beside poll (socks S)) fuel (pkt S)"
  shows "(\<forall>ph. \<exists>e'. engine_op C D Q (port # ports) ph (eng S) = Ret () e') \<and>
     (case poll (socks S) of
        Ret _ _ \<Rightarrow> \<exists>p'. next = Ret (fst (rte_pktmbuf_alloc D (mempool (pkt S)) (pk_wld (pkt S))) \<noteq> null) p'
      | Fault e _ \<Rightarrow> next = Fault e (pkt S)
      | Exit c _ \<Rightarrow> next = Exit c (pkt S)
      | OutOfFuel \<Rightarrow> next = OutOfFuel)"
proof -
  note inv = system_env.reachable_inv [OF assms(1,3) sys_init_inv [OF assms(2)]]
  show ?thesis
    unfolding assms(5)
    using system_env.engine_op_returns [OF assms(1) inv]
      system_env.packetiser_iteration_outcome [OF assms(1) inv assms(4)] by blast
qed

lemma ref_system_alloc:
  "fst (rte_pktmbuf_alloc ref_dpdk (mempool (pkt ref_system_start)) (pk_wld (pkt ref_system_start))) \<noteq> null"
  using ref.alloc_some [of "pk_wld (pkt ref_system_start)" "mempool (pkt ref_system_start)"]
  by (auto simp: ref_system_start_def ref_view_sel ref_rings_def ref_start_def ref_pk_def Let_def)

theorem system_progress_witness:
  "\<exists>p'. packetiser_iteration ref_dpdk list_segq ref_build (beside (process_pkts ref_smoltcp) (socks ref_system_start)) 0
     (pkt ref_system_start) = Ret True p'"
proof -
  have s: "socks ref_system_start = ref_socks" by (simp add: ref_system_start_def Let_def)
  show ?thesis
    using system_progress [OF ref_system.system_env_axioms ref_system_init sys_reachable.start _ refl,
        of ref_build ref_port "[]" "process_pkts ref_smoltcp" 0] ref_socks_poll ref_system_alloc
    by (auto simp: s)
qed

end
