(* ===== verification/Startup.thy ===== *)
theory Startup
  imports System
begin

text \<open>
  The start of the two processes. The engine's \<open>main_setup\<close> registers the packetiser as a client, the
  packetiser's \<open>Packetiser_new\<close> looks its channel up, and the state that results is a start state of
  the interleaved loops in \<open>System\<close>.
\<close>

section \<open>The channel of the two processes\<close>

text \<open>DPDK knows the two rings of the channel under the names of the client id.\<close>

definition channel_named :: "dview \<Rightarrow> u16 \<Rightarrow> Channel \<Rightarrow> bool" where
  "channel_named v cid ch \<longleftrightarrow>
     v_names v (ring_key E2C cid) = Some (ring_raw (engine_to_client ch)) \<and>
     v_names v (ring_key C2E cid) = Some (ring_raw (client_to_engine ch)) \<and>
     ring_raw (engine_to_client ch) \<noteq> null \<and> ring_raw (client_to_engine ch) \<noteq> null \<and>
     client_id (engine_to_client ch) = cid \<and> rtype (engine_to_client ch) = E2C \<and>
     client_id (client_to_engine ch) = cid \<and> rtype (client_to_engine ch) = C2E"

context engine_env
begin

lemma Channel_lookup_found:
  assumes "channel_named (view (ext w)) cid ch"
  shows "\<exists>w'. Channel_lookup D cid w = Ret (Inr ch) w' \<and> mem w' = mem w \<and> view (ext w') = view (ext w)"
proof -
  have n: "v_names (view (ext w)) (ring_key E2C cid) = Some (ring_raw (engine_to_client ch))"
      "v_names (view (ext w)) (ring_key C2E cid) = Some (ring_raw (client_to_engine ch))"
      "ring_raw (engine_to_client ch) \<noteq> null" "ring_raw (client_to_engine ch) \<noteq> null"
    and ch: "\<lparr>client_id = cid, rtype = E2C, ring_raw = ring_raw (engine_to_client ch)\<rparr> = engine_to_client ch"
      "\<lparr>client_id = cid, rtype = C2E, ring_raw = ring_raw (client_to_engine ch)\<rparr> = client_to_engine ch"
    using assms by (simp_all add: channel_named_def)
  obtain w1 where w1: "Ring_lookup D E2C cid w = Ret (Inr (engine_to_client ch)) w1"
      "mem w1 = mem w" "view (ext w1) = view (ext w)"
    using Ring_lookup_spec [of w E2C cid] n(1,3) ch(1) by auto
  obtain w2 where w2: "Ring_lookup D C2E cid w1 = Ret (Inr (client_to_engine ch)) w2"
      "mem w2 = mem w1" "view (ext w2) = view (ext w1)"
    using Ring_lookup_spec [of w1 C2E cid] n(2,4) ch(2) w1(3) by auto
  from w1 w2 show ?thesis by (simp add: Channel_lookup_def exec_simps)
qed

lemma add_packetiser_channel:
  assumes "RingClientMap_add_client C D (RingClientMap_new C) PACKETISER_ID w = Ret (Inr (), m) w1"
  shows "\<exists>ch. entries m PROCESSOR_THREAD = Some ch \<and> channel_named (view (ext w1)) PACKETISER_CLIENT ch \<and>
     v_rings (view (ext w1)) (ring_raw (client_to_engine ch)) = Some [] \<and>
     v_rings (view (ext w1)) (ring_raw (engine_to_client ch)) = Some []"
proof (cases rule: Ring_new_cases [of PACKETISER_ID E2C "sint (rte_socket_id D w)" w])
  case e2c: (new e w2)
  show ?thesis
  proof (cases rule: Ring_new_cases [of PACKETISER_ID C2E "sint (rte_socket_id D w)" w2])
    case c2e: (new c w3)
    let ?ch = "\<lparr>client_to_engine = c, engine_to_client = e\<rparr>"
    obtain old m' where i: "chm_insert C PACKETISER_ID ?ch (chm_new C) = (old, m')" by fastforce
    then have m': "old = None" "entries m' = [PACKETISER_ID \<mapsto> ?ch]"
      using fst_insert [of PACKETISER_ID ?ch "chm_new C"] entries_insert [of PACKETISER_ID ?ch "chm_new C"]
      by auto
    have "m = m'" "w1 = w3"
      using assms e2c(1) c2e(1) i m'
      by (simp_all add: RingClientMap_add_client_def RingClientMap_new_def Channel_new_def
          drop_channel_def exec_simps)
    with m' e2c c2e show ?thesis
      by (intro exI [of _ ?ch])
        (auto simp: channel_named_def PROCESSOR_THREAD_def PACKETISER_ID_def PACKETISER_CLIENT_def)
  next
    case (error er w3)
    with e2c assms show ?thesis
      by (auto simp: RingClientMap_add_client_def Channel_new_def bind_eq_Ret exec_simps)
  qed
next
  case (error er w2)
  with assms show ?thesis
    by (auto simp: RingClientMap_add_client_def Channel_new_def exec_simps)
qed

lemma add_packetiser_lookup:
  assumes "RingClientMap_add_client C D (RingClientMap_new C) PACKETISER_ID w = Ret (Inr (), m) w1"
  shows "\<exists>ch w2. entries m PROCESSOR_THREAD = Some ch \<and>
     Channel_lookup D PACKETISER_CLIENT w1 = Ret (Inr ch) w2 \<and>
     mem w2 = mem w1 \<and> view (ext w2) = view (ext w1) \<and>
     v_rings (view (ext w2)) (ring_raw (client_to_engine ch)) = Some [] \<and>
     v_rings (view (ext w2)) (ring_raw (engine_to_client ch)) = Some []"
proof -
  obtain ch where "entries m PROCESSOR_THREAD = Some ch" "channel_named (view (ext w1)) PACKETISER_CLIENT ch"
      "v_rings (view (ext w1)) (ring_raw (client_to_engine ch)) = Some []"
      "v_rings (view (ext w1)) (ring_raw (engine_to_client ch)) = Some []"
    using add_packetiser_channel [OF assms] by blast
  with Channel_lookup_found [of w1 PACKETISER_CLIENT ch] show ?thesis by auto
qed

end

text \<open>
  C10: The engine and the packetiser meet. Once the engine has registered the packetiser as a
  client, the packetiser's \<open>Channel::lookup\<close> finds the very channel that the engine stores
  under \<open>PROCESSOR_THREAD\<close>, with both rings empty: the ids of the two crates and the names
  the two sides build from them agree.
\<close>

theorem packetiser_finds_engine_channel:
  assumes "engine_env D view C entries Q items"
    and "RingClientMap_add_client C D (RingClientMap_new C) PACKETISER_ID w = Ret (Inr (), m) w1"
  shows "\<exists>ch w2. entries m PROCESSOR_THREAD = Some ch \<and>
     Channel_lookup D PACKETISER_CLIENT w1 = Ret (Inr ch) w2 \<and>
     mem w2 = mem w1 \<and> view (ext w2) = view (ext w1) \<and>
     v_rings (view (ext w2)) (ring_raw (client_to_engine ch)) = Some [] \<and>
     v_rings (view (ext w2)) (ring_raw (engine_to_client ch)) = Some []"
  using engine_env.add_packetiser_lookup [OF assms] .

theorem packetiser_finds_engine_channel_witness:
  "\<exists>m w1 ch w2. RingClientMap_add_client alist_chm ref_dpdk (RingClientMap_new alist_chm) PACKETISER_ID ref_start
       = Ret (Inr (), m) w1 \<and> map_of m PROCESSOR_THREAD = Some ch \<and>
     Channel_lookup ref_dpdk PACKETISER_CLIENT w1 = Ret (Inr ch) w2"
proof -
  obtain m w1 where r: "RingClientMap_add_client alist_chm ref_dpdk (RingClientMap_new alist_chm) PACKETISER_ID ref_start
      = Ret (Inr (), m) w1"
    using ref_add_packetiser [of ref_start]
    by (auto simp: RingClientMap_new_def alist_chm_def ref_start_def)
  with packetiser_finds_engine_channel [OF ref_engine.engine_env_axioms r] show ?thesis by blast
qed

section \<open>From the set-up to the loops\<close>

text \<open>The queues of the engine are empty when its loop starts, and so is the history.\<close>

definition engine_start ::
  "('q, ptr) segq \<Rightarrow> ptr \<Rightarrow> 'm \<Rightarrow> 'x world \<Rightarrow> ('q, 'm, 'x) engine" where
  "engine_start Q mp m w = \<lparr>wld = w, MEMPOOL = mp, PROC_CHANNEL = m, OUT_PKTS = sq_new Q,
     TO_PACKETISER = sq_new Q, FROM_PACKETISER = sq_new Q\<rparr>"

context system_env
begin

lemma Packetiser_new_Ret:
  assumes "Packetiser_new C D Q table n w = Ret pk w'"
  shows "\<exists>ch w1. Channel_lookup D PACKETISER_CLIENT w = Ret (Inr ch) w1 \<and> channel pk = ch \<and>
     items (i_bufqueue pk) = [] \<and> items (o_bufqueue pk) = [] \<and> pk_wld pk = w' \<and>
     mem w' = mem w1 \<and> view (ext w') = view (ext w1)"
proof -
  have l: "mem v' = mem v \<and> view (ext v') = view (ext v)"
    if "rte_mempool_lookup D ''GLOBAL_MEMPOOL'' v = (r, v')" for v v' r
    using mempool_lookup [of "''GLOBAL_MEMPOOL''" v] that by auto
  have c: "to_cstring ''GLOBAL_MEMPOOL'' = Inr ''GLOBAL_MEMPOOL''" by (simp add: to_cstring_ok)
  show ?thesis
    using assms unfolding Packetiser_new_def Mempool_lookup_def c
    by (auto simp: bind_eq_Ret unwrap_result_eq_Ret call_def exec_simps dest!: l split: option.splits prod.splits)
qed

lemma startup_init:
  assumes su: "main_setup C D oc zs zb zr w = Ret (mp, ports, m) w1" "finite (dom (mem w1))"
    and new: "Packetiser_new C D Q table n (share w1 own) = Ret (pk :: ('q, 'm, 'i, 'd, 'x) Packetiser) w2"
  shows "\<exists>ch. sys_init view entries items ch
     \<lparr>eng = engine_start Q mp m (share w2 w1), pkt = pk, at = At_receive, socks = k, arrived = [], departed = []\<rparr>"
proof -
  obtain w0 where add: "RingClientMap_add_client C D (RingClientMap_new C) PACKETISER_ID w0 = Ret (Inr (), m) w1"
    using main_setup_Ret [OF su(1)] by blast
  obtain ch where e: "engine_inv view entries items ch [] (engine_start Q mp m w1)"
    using add_packetiser_inv [OF add su(2)] by (auto simp: engine_start_def)
  then have "entries m PROCESSOR_THREAD = Some ch" by (simp add: engine_inv_def engine_start_def)
  then have ch: "channel_named (view (ext w1)) PACKETISER_CLIENT ch"
      "v_rings (view (ext w1)) (ring_raw (engine_to_client ch)) = Some []"
    using add_packetiser_channel [OF add] by auto
  obtain ch' w3 where p: "Channel_lookup D PACKETISER_CLIENT (share w1 own) = Ret (Inr ch') w3"
      "channel pk = ch'" "items (i_bufqueue pk) = []" "items (o_bufqueue pk) = []" "pk_wld pk = w2"
      "mem w2 = mem w3" "view (ext w2) = view (ext w3)"
    using Packetiser_new_Ret [OF new] by blast
  with Channel_lookup_found [of "share w1 own" PACKETISER_CLIENT ch] ch(1)
  have same: "ch' = ch" "mem w2 = mem w1" "view (ext w2) = view (ext w1)" by auto
  then have "engine_inv view entries items ch [] (engine_start Q mp m (share w2 w1))"
    using e by (simp add: engine_inv_def engine_start_def)
  with p(2-5) same ch(2) show ?thesis by (auto simp: sys_init_def engine_start_def)
qed

end

lemma ref_packetiser_new:
  assumes "main_setup alist_chm ref_dpdk oc zs zb zr w = Ret (mp, ports, m) w1"
  shows "\<exists>(pk :: ref_pk_state) w2. Packetiser_new alist_chm ref_dpdk list_segq table n (share w1 own) = Ret pk w2"
proof -
  obtain w0 where "RingClientMap_add_client alist_chm ref_dpdk (RingClientMap_new alist_chm) PACKETISER_ID w0
      = Ret (Inr (), m) w1"
    using ref_engine.main_setup_Ret [OF assms] by blast
  from ref_engine.add_packetiser_channel [OF this] obtain ch where
    "channel_named (ref_view (ext (share w1 own))) PACKETISER_CLIENT ch" by auto
  from ref_engine.Channel_lookup_found [OF this] obtain w2 where
    "Channel_lookup ref_dpdk PACKETISER_CLIENT (share w1 own) = Ret (Inr ch) w2" by blast
  then show ?thesis
    by (simp add: Packetiser_new_def Mempool_lookup_def to_cstring_ok NonNull_new_def unwrap_result_def exec_simps)
qed

section \<open>Properties\<close>

text \<open>C5: The set-up leads to the loops: when the engine's set-up has succeeded and the packetiser
  has been created on the memory they share, the two processes are in a start state of the
  interleaved loops. They agree on the channel, its two rings are different and empty, and so are
  all queues, whatever sockets \<open>k\<close> the packetiser has created, so everything that is proved of the
  interleaved system holds from here on.\<close>

theorem startup_establishes_init:
  fixes pk :: "('q, 'm, 'i, 'd, 'x) Packetiser"
  assumes "system_env D view C entries Q items"
    and "main_setup C D oc zs zb zr w = Ret (mp, ports, m) w1" "finite (dom (mem w1))"
    and "Packetiser_new C D Q table n (share w1 own) = Ret pk w2"
  shows "\<exists>ch. sys_init view entries items ch
     \<lparr>eng = engine_start Q mp m (share w2 w1), pkt = pk, at = At_receive, socks = k, arrived = [], departed = []\<rparr>"
  using system_env.startup_init [OF assms] .

theorem startup_establishes_init_witness:
  "\<exists>mp ports m w1 (pk :: ref_pk_state) w2 ch.
     main_setup alist_chm ref_dpdk True True True True ref_start = Ret (mp, ports, m) w1 \<and>
     Packetiser_new alist_chm ref_dpdk list_segq (RoutingTable_new alist_chm alist_chm) 512 (share w1 ref_start)
       = Ret pk w2 \<and>
     sys_init ref_view map_of (\<lambda>q. q) ch
       \<lparr>eng = engine_start list_segq mp m (share w2 w1), pkt = pk, at = At_receive, socks = ref_socks, arrived = [], departed = []\<rparr>"
proof -
  obtain mp ports m w1 where s: "main_setup alist_chm ref_dpdk True True True True ref_start = Ret (mp, ports, m) w1"
      "mem w1 = Map.empty"
    using ref_main_setup by blast
  obtain pk :: ref_pk_state and w2 where n: "Packetiser_new alist_chm ref_dpdk list_segq
      (RoutingTable_new alist_chm alist_chm) 512 (share w1 ref_start) = Ret pk w2"
    using ref_packetiser_new [OF s(1)] by blast
  with startup_establishes_init [OF ref_system.system_env_axioms s(1) _ n] s show ?thesis by auto
qed

end
