(* ===== verification/Forwarding.thy ===== *)
theory Forwarding
  imports Packetiser
begin

text \<open>
  The packetiser's way from the engine to the clients, \<open>forward_incoming_packets\<close> and
  \<open>store_outgoing\<close> of \<^verbatim>\<open>packetiser/mod.rs\<close>, against an abstract description of routing: every packet
  has the ring of the client its destination is routed to, and the rings receive their packets in
  the order of the queue.
\<close>

section \<open>Routing, abstractly\<close>

definition is_ipv4_frame :: "rte_mbuf \<Rightarrow> bool" where
  "is_ipv4_frame m \<longleftrightarrow> wf_mbuf m \<and> 34 \<le> length (mb_data m) \<and> mb_data m ! 12 = 8 \<and> mb_data m ! 13 = 0"

text \<open>The destination a packet carries, its octets in the order they have on the wire, and an
  address with its octets in reverse. \<open>get_dst_addr\<close> returns the former the wrong way round, so
  the table is looked up with the reverse of the destination.\<close>

definition dst_octets :: "rte_mbuf \<Rightarrow> Ipv4Addr" where
  "dst_octets m = (mb_data m ! 30, mb_data m ! 31, mb_data m ! 32, mb_data m ! 33)"

fun rev_octets :: "Ipv4Addr \<Rightarrow> Ipv4Addr" where
  "rev_octets (a, b, c, d) = (d, c, b, a)"

text \<open>The ring of the client a packet is routed to: the one the table has for the destination in
  reverse.\<close>

definition out_ring ::
  "('m \<Rightarrow> u16 \<Rightarrow> Channel option) \<Rightarrow> ('i, Ipv4Addr, u16) chm \<Rightarrow> ('q, 'm, 'i, 'd, 'x) Packetiser \<Rightarrow>
   ptr \<Rightarrow> ptr option" where
  "out_ring entries CI s p = (case mem (pk_wld s) p of
       None \<Rightarrow> None
     | Some m \<Rightarrow>
         if p \<noteq> null \<and> is_ipv4_frame m
         then map_option (\<lambda>ch. ring_raw (engine_to_client ch))
                (entries (clientmap s) (id_from_ip CI (TABLE s) (rev_octets (dst_octets m))))
         else None)"

text \<open>All packets of a list appended to their rings, in order.\<close>

definition deliver :: "(ptr \<Rightarrow> ptr option) \<Rightarrow> ptr list \<Rightarrow> dview \<Rightarrow> dview" where
  "deliver f ps v = v\<lparr>v_rings := (\<lambda>r. map_option (\<lambda>q. q @ filter (\<lambda>p. f p = Some r) ps) (v_rings v r))\<rparr>"

lemma deliver_avail [simp]: "v_avail (deliver f ps v) = v_avail v"
  by (simp add: deliver_def)

lemma deliver_Nil [simp]: "deliver f [] v = v"
  by (simp add: deliver_def option.map_ident)

lemma deliver_Cons:
  assumes "f p = Some r" "v_rings v r = Some q"
  shows "deliver f (p # ps) v = deliver f ps (upd_ring r (q @ [p]) v)"
  using assms by (auto simp: deliver_def upd_ring_def fun_eq_iff)

lemma out_ring_cong:
  "mem (pk_wld t) = mem (pk_wld s) \<Longrightarrow> clientmap t = clientmap s \<Longrightarrow> TABLE t = TABLE s \<Longrightarrow>
   out_ring entries CI t = out_ring entries CI s"
  by (auto simp: out_ring_def fun_eq_iff split: option.split)

lemma frame_header:
  assumes "mem w p = Some m" "p \<noteq> null" "is_ipv4_frame m"
  shows "\<exists>h. Ipv4Hdr_from_mbuf p w = Ret h w \<and> get_dst_addr h = rev_octets (dst_octets m)"
proof -
  have m: "wf_mbuf m" "34 \<le> length (mb_data m)" "mb_data m ! 12 = 8" "mb_data m ! 13 = 0"
    using assms(3) by (simp_all add: is_ipv4_frame_def del: wf_length_data)
  show ?thesis
    using Ipv4Hdr_from_mbuf_exec [OF m(1,2) assms(1,2)] m(3,4) take4_drop20 [OF m(2), of 16]
    by (simp add: dst_octets_def get_dst_addr_def ipv4_hdr_of_bytes_def convert_le_word)
qed

text \<open>The first \<open>n\<close> entries of some rings taken off, and how many they are.\<close>

definition pop_rings :: "nat \<Rightarrow> ptr list \<Rightarrow> dview \<Rightarrow> dview" where
  "pop_rings n rs v = v\<lparr>v_rings := (\<lambda>r. if r \<in> set rs then map_option (drop n) (v_rings v r) else v_rings v r)\<rparr>"

definition popped :: "nat \<Rightarrow> ptr list \<Rightarrow> dview \<Rightarrow> nat" where
  "popped n rs v = sum_list (map (\<lambda>r. min n (length (the (v_rings v r)))) rs)"

lemma pop_rings_sel [simp]:
  "v_rings (pop_rings n rs v) r = (if r \<in> set rs then map_option (drop n) (v_rings v r) else v_rings v r)"
  "v_avail (pop_rings n rs v) = v_avail v" "v_room (pop_rings n rs v) = v_room v"
  by (simp_all add: pop_rings_def)

lemma pop_rings_upd_avail: "pop_rings n rs (upd_avail mp a v) = upd_avail mp a (pop_rings n rs v)"
  by (simp add: pop_rings_def upd_avail_def cong: if_cong)

lemma pop_rings_0 [simp]: "pop_rings 0 rs v = v"
  by (simp add: pop_rings_def option.map_ident cong: if_cong)

lemma pop_rings_Suc: "pop_rings (Suc n) rs v = pop_rings n rs (pop_rings 1 rs v)"
  by (simp add: pop_rings_def option.map_comp o_def cong: if_cong)

lemma pop_rings_Cons:
  assumes "v_rings v r = Some q" "r \<notin> set rs"
  shows "pop_rings n (r # rs) v = pop_rings n rs (upd_ring r (drop n q) v)"
  using assms by (auto simp: pop_rings_def upd_ring_def fun_eq_iff)

lemma popped_cong: "(\<And>r. r \<in> set rs \<Longrightarrow> v_rings v' r = v_rings v r) \<Longrightarrow> popped n rs v' = popped n rs v"
  by (simp add: popped_def cong: map_cong)

lemma popped_Suc:
  assumes "\<forall>r \<in> set rs. v_rings v r \<noteq> None"
  shows "popped (Suc n) rs v = popped 1 rs v + popped n rs (pop_rings 1 rs v)"
proof -
  have "sum_list (map (\<lambda>r. min (Suc n) (length (the (v_rings v r)))) rs) =
      sum_list (map (\<lambda>r. min 1 (length (the (v_rings v r))) + min n (length (the (v_rings v r)) - 1)) rs)"
    by (intro arg_cong [where f = sum_list] map_cong) (auto simp: min_def)
  also have "\<dots> = popped 1 rs v + sum_list (map (\<lambda>r. min n (length (the (v_rings v r)) - 1)) rs)"
    by (simp add: popped_def sum_list_addf)
  also have "sum_list (map (\<lambda>r. min n (length (the (v_rings v r)) - 1)) rs) = popped n rs (pop_rings 1 rs v)"
    unfolding popped_def
    by (intro arg_cong [where f = sum_list] map_cong) (auto dest!: bspec [OF assms])
  finally show ?thesis by (simp only: popped_def)
qed

text \<open>The ring a client sends on.\<close>

definition in_ring :: "('m \<Rightarrow> u16 \<Rightarrow> Channel option) \<Rightarrow> 'm \<Rightarrow> u16 \<Rightarrow> ptr" where
  "in_ring entries m key = ring_raw (client_to_engine (the (entries m key)))"

lemma allocated_append:
  assumes "allocated mp room bs w w1" "allocated mp room cs w1 w'"
  shows "allocated mp room (bs @ cs) w w'"
proof -
  have "set bs \<inter> set cs = {}" using assms by (fastforce simp: allocated_def)
  with assms show ?thesis by (auto simp: allocated_def)
qed

lemma allocated_finite:
  assumes "allocated mp room bs w w'" "finite (dom (mem w))"
  shows "finite (dom (mem w'))"
proof -
  have "dom (mem w') \<subseteq> dom (mem w) \<union> set bs" using assms(1) by (auto simp: allocated_def dom_def)
  with assms(2) show ?thesis by (meson finite_UnI finite_set finite_subset)
qed

section \<open>The forwarding loop\<close>

context packetiser_env
begin

lemma forward_one_sends:
  assumes "items (i_bufqueue s) = p # ps" "out_ring entries CI s p = Some r"
    and "v_rings (view (ext (pk_wld s))) r = Some q" "length q < v_cap (view (ext (pk_wld s))) r"
  shows "\<exists>w' iq. forward_one C CI D Q (s :: ('q, 'm, 'i, 'd, 'x) Packetiser) =
       Ret () (s\<lparr>pk_wld := w', i_bufqueue := iq\<rparr>) \<and> items iq = ps \<and> mem w' = mem (pk_wld s) \<and>
     view (ext w') = upd_ring r (q @ [p]) (view (ext (pk_wld s)))"
proof -
  obtain m ch where m: "mem (pk_wld s) p = Some m" "p \<noteq> null" "is_ipv4_frame m"
      and ch: "entries (clientmap s) (id_from_ip CI (TABLE s) (rev_octets (dst_octets m))) = Some ch"
      "r = ring_raw (engine_to_client ch)"
    using assms(2) by (auto simp: out_ring_def split: option.splits if_splits)
  obtain iq where pop: "sq_pop Q (i_bufqueue s) = (Some p, iq)" "items iq = ps"
    using pop_cons [OF assms(1)] by blast
  obtain h where h: "Ipv4Hdr_from_mbuf p (pk_wld s) = Ret h (pk_wld s)" "get_dst_addr h = rev_octets (dst_octets m)"
    using frame_header [OF m] by blast
  obtain w' where "RingClientMap_send C D (clientmap s) (id_from_ip CI (TABLE s) (rev_octets (dst_octets m))) p (pk_wld s)
      = Ret (Inr ()) w'" "mem w' = mem (pk_wld s)"
      "view (ext w') = upd_ring r (q @ [p]) (view (ext (pk_wld s)))"
    using send_room [OF ch(1), of "pk_wld s" q p] assms(3,4) ch(2) by auto
  with pop h show ?thesis
    by (intro exI [of _ w'] exI [of _ iq]) (simp add: forward_one_def exec_simps)
qed

lemma forward_loop:
  assumes "items (i_bufqueue s) = ps @ rest" "f = out_ring entries CI s"
    and "\<forall>p \<in> set ps. \<exists>r. f p = Some r \<and> v_rings (view (ext (pk_wld s))) r \<noteq> None"
    and "\<forall>r q. v_rings (view (ext (pk_wld s))) r = Some q \<longrightarrow>
       length q + length (filter (\<lambda>p. f p = Some r) ps) \<le> v_cap (view (ext (pk_wld s))) r"
  shows "\<exists>w' iq. repeat_n (length ps) (forward_one C CI D Q) (s :: ('q, 'm, 'i, 'd, 'x) Packetiser) =
       Ret () (s\<lparr>pk_wld := w', i_bufqueue := iq\<rparr>) \<and> items iq = rest \<and> mem w' = mem (pk_wld s) \<and>
     view (ext w') = deliver f ps (view (ext (pk_wld s)))"
  using assms
proof (induction ps arbitrary: s)
  case Nil
  then show ?case
    by (intro exI [of _ "pk_wld s"] exI [of _ "i_bufqueue s"]) (simp add: exec_simps)
next
  case (Cons p ps)
  then obtain r q where r: "f p = Some r" "v_rings (view (ext (pk_wld s))) r = Some q" by auto
  with Cons.prems(4) have room: "length q < v_cap (view (ext (pk_wld s))) r" by fastforce
  obtain w1 iq where w1: "forward_one C CI D Q s = Ret () (s\<lparr>pk_wld := w1, i_bufqueue := iq\<rparr>)" "items iq = ps @ rest"
      "mem w1 = mem (pk_wld s)" "view (ext w1) = upd_ring r (q @ [p]) (view (ext (pk_wld s)))"
    using forward_one_sends [of s p "ps @ rest", OF _ r(1) [unfolded Cons.prems(2)] r(2) room] Cons.prems(1) by auto
  let ?s = "s\<lparr>pk_wld := w1, i_bufqueue := iq\<rparr>"
  have f: "f = out_ring entries CI ?s"
    unfolding Cons.prems(2) by (rule out_ring_cong [symmetric]) (simp_all add: w1(3))
  have "\<exists>w' iq'. repeat_n (length ps) (forward_one C CI D Q) ?s = Ret () (?s\<lparr>pk_wld := w', i_bufqueue := iq'\<rparr>) \<and>
      items iq' = rest \<and> mem w' = mem (pk_wld ?s) \<and> view (ext w') = deliver f ps (view (ext (pk_wld ?s)))"
  proof (rule Cons.IH [OF _ f])
    show "\<forall>p \<in> set ps. \<exists>r. f p = Some r \<and> v_rings (view (ext (pk_wld ?s))) r \<noteq> None"
      using Cons.prems(3) w1(4) by fastforce
    show "\<forall>r q. v_rings (view (ext (pk_wld ?s))) r = Some q \<longrightarrow>
        length q + length (filter (\<lambda>p. f p = Some r) ps) \<le> v_cap (view (ext (pk_wld ?s))) r"
      using Cons.prems(4) w1(4) r by (auto split: if_splits)
  qed (use w1(2) in simp)
  with w1 deliver_Cons [of f p r _ q ps, OF r(1,2)] show ?case by (auto simp: exec_simps)
qed

lemma forward_all:
  assumes "items (i_bufqueue s) = ps" "f = out_ring entries CI s"
    and "\<forall>p \<in> set ps. \<exists>r. f p = Some r \<and> v_rings (view (ext (pk_wld s))) r \<noteq> None"
    and "\<forall>r q. v_rings (view (ext (pk_wld s))) r = Some q \<longrightarrow>
       length q + length (filter (\<lambda>p. f p = Some r) ps) \<le> v_cap (view (ext (pk_wld s))) r"
  shows "\<exists>w' iq. forward_incoming_packets C CI D Q (s :: ('q, 'm, 'i, 'd, 'x) Packetiser) =
       Ret () (s\<lparr>pk_wld := w', i_bufqueue := iq\<rparr>) \<and> items iq = [] \<and> mem w' = mem (pk_wld s) \<and>
     view (ext w') = deliver f ps (view (ext (pk_wld s)))"
  using forward_loop [of s ps "[]", OF _ assms(2-4)] assms(1) by (simp add: forward_incoming_packets_def exec_simps)

lemma forward_one_unroutable:
  assumes "items (i_bufqueue s) = p # ps" "mem (pk_wld s) p = Some m" "p \<noteq> null" "is_ipv4_frame m"
    and "entries (clientmap s) (id_from_ip CI (TABLE s) (rev_octets (dst_octets m))) = None"
  shows "\<exists>t. forward_one C CI D Q (s :: ('q, 'm, 'i, 'd, 'x) Packetiser) = Fault Unwrap t \<and>
     mem (pk_wld t) = (mem (pk_wld s))(p := None) \<and> items (i_bufqueue t) = ps \<and>
     view (ext (pk_wld t)) = upd_avail (mb_pool m) (v_avail (view (ext (pk_wld s))) (mb_pool m) + 1)
       (view (ext (pk_wld s)))"
proof -
  obtain iq where pop: "sq_pop Q (i_bufqueue s) = (Some p, iq)" "items iq = ps" using pop_cons [OF assms(1)] by blast
  obtain h where h: "Ipv4Hdr_from_mbuf p (pk_wld s) = Ret h (pk_wld s)" "get_dst_addr h = rev_octets (dst_octets m)"
    using frame_header [OF assms(2-4)] by blast
  let ?id = "id_from_ip CI (TABLE s) (rev_octets (dst_octets m))"
  obtain w' where "RingClientMap_send C D (clientmap s) ?id p (pk_wld s) = Ret (Inl (ClientNotFound ?id)) w'"
      "mem w' = (mem (pk_wld s))(p := None)"
      "view (ext w') = upd_avail (mb_pool m) (v_avail (view (ext (pk_wld s))) (mb_pool m) + 1) (view (ext (pk_wld s)))"
    using send_unknown [OF assms(5,2)] by auto
  with pop h show ?thesis by (simp add: forward_one_def exec_simps)
qed

lemma forward_unroutable:
  assumes "items (i_bufqueue s) = ps @ p # rest" "f = out_ring entries CI s"
    and "\<forall>x \<in> set ps. \<exists>r. f x = Some r \<and> v_rings (view (ext (pk_wld s))) r \<noteq> None"
    and "\<forall>r q. v_rings (view (ext (pk_wld s))) r = Some q \<longrightarrow>
       length q + length (filter (\<lambda>x. f x = Some r) ps) \<le> v_cap (view (ext (pk_wld s))) r"
    and "mem (pk_wld s) p = Some m" "p \<noteq> null" "is_ipv4_frame m"
    and "entries (clientmap s) (id_from_ip CI (TABLE s) (rev_octets (dst_octets m))) = None"
  shows "\<exists>t. forward_incoming_packets C CI D Q (s :: ('q, 'm, 'i, 'd, 'x) Packetiser) = Fault Unwrap t \<and>
     items (i_bufqueue t) = rest \<and> mem (pk_wld t) = (mem (pk_wld s))(p := None) \<and>
     view (ext (pk_wld t)) = upd_avail (mb_pool m) (v_avail (view (ext (pk_wld s))) (mb_pool m) + 1)
       (deliver f ps (view (ext (pk_wld s))))"
proof -
  obtain w1 iq where s1: "repeat_n (length ps) (forward_one C CI D Q) s = Ret () (s\<lparr>pk_wld := w1, i_bufqueue := iq\<rparr>)"
      "items iq = p # rest" "mem w1 = mem (pk_wld s)" "view (ext w1) = deliver f ps (view (ext (pk_wld s)))"
    using forward_loop [OF assms(1-4)] by blast
  have "repeat_n (length ps + Suc (length rest)) (forward_one C CI D Q) s =
      bind (forward_one C CI D Q) (\<lambda>_. repeat_n (length rest) (forward_one C CI D Q))
        (s\<lparr>pk_wld := w1, i_bufqueue := iq\<rparr>)"
    unfolding repeat_n_add by (simp add: bind_def [of "repeat_n (length ps) _"] s1(1))
  with forward_one_unroutable [of "s\<lparr>pk_wld := w1, i_bufqueue := iq\<rparr>" p rest m CI] s1 assms(1,5-8)
  show ?thesis by (auto simp: forward_incoming_packets_def exec_simps)
qed

section \<open>Collecting\<close>

lemma collect_one:
  assumes "finite (dom (mem (pk_wld s)))" "entries (clientmap s) key = Some ch"
    and "r = ring_raw (client_to_engine ch)" "v_rings (view (ext (pk_wld s))) r = Some q"
    and "a = v_avail (view (ext (pk_wld s))) (mempool s)" "0 < a"
    and "room = v_room (view (ext (pk_wld s))) (mempool s)"
  shows "\<exists>bufs w' oq. collect_round C D Q (key # keys) (s :: ('q, 'm, 'i, 'd, 'x) Packetiser) =
       collect_round C D Q keys (s\<lparr>pk_wld := w', o_bufqueue := oq\<rparr>) \<and> items oq = items (o_bufqueue s) @ bufs \<and>
     allocated (mempool s) room bufs (pk_wld s) w' \<and> length bufs = min 1 (length q) \<and>
     view (ext w') = upd_avail (mempool s) (a - length bufs) (upd_ring r (drop 1 q) (view (ext (pk_wld s))))"
proof -
  let ?mp = "mempool s"
  obtain p m w1 where p: "Mbuf_new D ?mp (pk_wld s) = Ret (Inr p) w1" "mem (pk_wld s) p = None"
      "fresh_mbuf ?mp room m" "mem w1 = (mem (pk_wld s))(p \<mapsto> m)"
      "view (ext w1) = upd_avail ?mp (a - 1) (view (ext (pk_wld s)))"
    using Mbuf_new_ok [OF _ assms(1), of ?mp] assms(5-7) by auto
  have w1: "v_rings (view (ext w1)) r = Some q" using p(5) assms(4) by simp
  show ?thesis
  proof (cases q)
    case Nil
    obtain e w2 where w2: "RingClientMap_receive C D (clientmap s) key p w1 = Ret (Inl (RCM_MemoryError e)) w2"
        "mem w2 = mem w1" "view (ext w2) = view (ext w1)"
      using receive_none [OF assms(2)] w1 Nil assms(3) by blast
    obtain w3 where w3: "Mbuf_drop D p w2 = Ret () w3" "mem w3 = (mem w2)(p := None)"
        "view (ext w3) = upd_avail (mb_pool m) (v_avail (view (ext w2)) (mb_pool m) + 1) (view (ext w2))"
      using Mbuf_drop_spec [of w2 p m] w2(2) p(4) by auto
    have "mb_pool m = ?mp" using p(3) by (simp add: fresh_mbuf_def)
    then have "view (ext w3) = upd_avail ?mp a (upd_ring r [] (view (ext (pk_wld s))))"
      using w3(3) w2(3) p(5) assms(6) upd_ring_same [OF assms(4)] Nil by simp
    moreover have "mem w3 = mem (pk_wld s)" using w3(2) w2(2) p(2,4) by (auto simp: fun_eq_iff)
    ultimately show ?thesis
      using p(1) w2(1) w3(1) Nil
      by (intro exI [of _ "[]"] exI [of _ w3] exI [of _ "o_bufqueue s"]) (simp add: allocated_Nil exec_simps)
  next
    case (Cons x q')
    obtain w2 where w2: "RingClientMap_receive C D (clientmap s) key p w1 = Ret (Inr ()) w2"
        "mem w2 = mem w1" "view (ext w2) = upd_ring r q' (view (ext w1))"
      using receive_some [OF assms(2)] w1 Cons assms(3) by blast
    have "allocated ?mp room [p] (pk_wld s) w2"
      using allocated_Cons [OF p(2,3,4), of "[]" w2] w2(2) by (simp add: allocated_Nil)
    with p w2 Cons show ?thesis
      by (intro exI [of _ "[p]"] exI [of _ w2] exI [of _ "sq_push Q p (o_bufqueue s)"])
        (simp add: exec_simps upd_ring_upd_avail)
  qed
qed

lemma collect_round_spec:
  assumes "finite (dom (mem (pk_wld s)))" "rs = map (in_ring entries (clientmap s)) keys" "distinct rs"
    and "\<forall>key \<in> set keys. entries (clientmap s) key \<noteq> None" "\<forall>r \<in> set rs. v_rings (view (ext (pk_wld s))) r \<noteq> None"
    and "a = v_avail (view (ext (pk_wld s))) (mempool s)" "popped 1 rs (view (ext (pk_wld s))) < a"
    and "room = v_room (view (ext (pk_wld s))) (mempool s)"
  shows "\<exists>bufs w' oq. collect_round C D Q keys (s :: ('q, 'm, 'i, 'd, 'x) Packetiser) =
       Ret (Inr ()) (s\<lparr>pk_wld := w', o_bufqueue := oq\<rparr>) \<and> items oq = items (o_bufqueue s) @ bufs \<and>
     allocated (mempool s) room bufs (pk_wld s) w' \<and> length bufs = popped 1 rs (view (ext (pk_wld s))) \<and>
     view (ext w') = upd_avail (mempool s) (a - length bufs) (pop_rings 1 rs (view (ext (pk_wld s))))"
  using assms
proof (induction keys arbitrary: s rs a)
  case Nil
  then show ?case
    by (intro exI [of _ "[]"] exI [of _ "pk_wld s"] exI [of _ "o_bufqueue s"])
      (simp add: allocated_Nil popped_def pop_rings_def exec_simps upd_avail_def)
next
  case (Cons key keys)
  let ?v = "view (ext (pk_wld s))" and ?mp = "mempool s"
  let ?r = "in_ring entries (clientmap s) key" and ?rs = "map (in_ring entries (clientmap s)) keys"
  obtain ch q where ch: "entries (clientmap s) key = Some ch" "?r = ring_raw (client_to_engine ch)"
      "v_rings ?v ?r = Some q"
    using Cons.prems(2,4,5) by (auto simp: in_ring_def)
  have n: "?r \<notin> set ?rs" "distinct ?rs" "popped 1 rs ?v = min 1 (length q) + popped 1 ?rs ?v"
    using Cons.prems(2,3) ch(3) by (auto simp: popped_def)
  obtain b1 w1 oq where s1: "collect_round C D Q (key # keys) s = collect_round C D Q keys (s\<lparr>pk_wld := w1, o_bufqueue := oq\<rparr>)"
      "items oq = items (o_bufqueue s) @ b1" "allocated ?mp room b1 (pk_wld s) w1" "length b1 = min 1 (length q)"
      "view (ext w1) = upd_avail ?mp (a - length b1) (upd_ring ?r (drop 1 q) ?v)"
    using collect_one [OF Cons.prems(1) ch Cons.prems(6) _ Cons.prems(8), of keys] Cons.prems(7) by auto
  let ?s = "s\<lparr>pk_wld := w1, o_bufqueue := oq\<rparr>"
  have same: "popped 1 ?rs (view (ext w1)) = popped 1 ?rs ?v"
    unfolding s1(5) using n(1) by (intro popped_cong) (auto simp: fun_upd_def simp del: set_map)
  have "\<exists>bufs w' oq'. collect_round C D Q keys ?s = Ret (Inr ()) (?s\<lparr>pk_wld := w', o_bufqueue := oq'\<rparr>) \<and>
      items oq' = items (o_bufqueue ?s) @ bufs \<and> allocated (mempool ?s) room bufs (pk_wld ?s) w' \<and>
      length bufs = popped 1 ?rs (view (ext (pk_wld ?s))) \<and>
      view (ext w') = upd_avail (mempool ?s) (a - length b1 - length bufs) (pop_rings 1 ?rs (view (ext (pk_wld ?s))))"
    by (rule Cons.IH)
      (use Cons.prems n s1 same allocated_finite [OF s1(3) Cons.prems(1)] in \<open>auto split: if_splits\<close>)
  then obtain b2 w' oq' where s2: "collect_round C D Q keys ?s = Ret (Inr ()) (s\<lparr>pk_wld := w', o_bufqueue := oq'\<rparr>)"
      "items oq' = items (o_bufqueue s) @ b1 @ b2" "allocated ?mp room b2 w1 w'" "length b2 = popped 1 ?rs ?v"
      "view (ext w') = upd_avail ?mp (a - length b1 - length b2) (pop_rings 1 ?rs (view (ext w1)))"
    using s1(2) same by auto
  have "pop_rings 1 ?rs (view (ext w1)) = upd_avail ?mp (a - length b1) (pop_rings 1 rs ?v)"
    using pop_rings_Cons [OF ch(3) n(1), of 1] s1(5) Cons.prems(2) by (simp add: pop_rings_upd_avail)
  with s2 s1(1,4) n(3) allocated_append [OF s1(3) s2(3)] show ?case
    by (intro exI [of _ "b1 @ b2"] exI [of _ w'] exI [of _ oq']) simp
qed

lemma collect_rounds_spec:
  assumes "finite (dom (mem (pk_wld s)))" "rs = map (in_ring entries (clientmap s)) (allocated_ids s)" "distinct rs"
    and "\<forall>key \<in> set (allocated_ids s). entries (clientmap s) key \<noteq> None"
    and "\<forall>r \<in> set rs. v_rings (view (ext (pk_wld s))) r \<noteq> None"
    and "a = v_avail (view (ext (pk_wld s))) (mempool s)" "popped n rs (view (ext (pk_wld s))) < a"
    and "room = v_room (view (ext (pk_wld s))) (mempool s)"
  shows "\<exists>bufs w' oq. collect_rounds C D Q n (s :: ('q, 'm, 'i, 'd, 'x) Packetiser) =
       Ret (Inr ()) (s\<lparr>pk_wld := w', o_bufqueue := oq\<rparr>) \<and> items oq = items (o_bufqueue s) @ bufs \<and>
     allocated (mempool s) room bufs (pk_wld s) w' \<and> length bufs = popped n rs (view (ext (pk_wld s))) \<and>
     view (ext w') = upd_avail (mempool s) (a - length bufs) (pop_rings n rs (view (ext (pk_wld s))))"
  using assms
proof (induction n arbitrary: s a)
  case 0
  then show ?case
    by (intro exI [of _ "[]"] exI [of _ "pk_wld s"] exI [of _ "o_bufqueue s"])
      (simp add: allocated_Nil popped_def exec_simps upd_avail_def)
next
  case (Suc n)
  let ?v = "view (ext (pk_wld s))" and ?mp = "mempool s"
  note pop = popped_Suc [OF Suc.prems(5), of n]
  obtain b1 w1 oq where s1: "collect_round C D Q (allocated_ids s) s = Ret (Inr ()) (s\<lparr>pk_wld := w1, o_bufqueue := oq\<rparr>)"
      "items oq = items (o_bufqueue s) @ b1" "allocated ?mp room b1 (pk_wld s) w1" "length b1 = popped 1 rs ?v"
      "view (ext w1) = upd_avail ?mp (a - length b1) (pop_rings 1 rs ?v)"
    using collect_round_spec [OF Suc.prems(1-6) _ Suc.prems(8)] Suc.prems(7) pop by auto
  let ?s = "s\<lparr>pk_wld := w1, o_bufqueue := oq\<rparr>"
  have same: "popped n rs (view (ext w1)) = popped n rs (pop_rings 1 rs ?v)"
    unfolding s1(5) by (rule popped_cong) simp
  have "\<exists>bufs w' oq'. collect_rounds C D Q n ?s = Ret (Inr ()) (?s\<lparr>pk_wld := w', o_bufqueue := oq'\<rparr>) \<and>
      items oq' = items (o_bufqueue ?s) @ bufs \<and> allocated (mempool ?s) room bufs (pk_wld ?s) w' \<and>
      length bufs = popped n rs (view (ext (pk_wld ?s))) \<and>
      view (ext w') = upd_avail (mempool ?s) (a - length b1 - length bufs) (pop_rings n rs (view (ext (pk_wld ?s))))"
    by (rule Suc.IH)
      (use Suc.prems s1(3-5) same pop allocated_finite [OF s1(3) Suc.prems(1)] in \<open>auto split: if_splits\<close>)
  then obtain b2 w' oq' where s2: "collect_rounds C D Q n ?s = Ret (Inr ()) (s\<lparr>pk_wld := w', o_bufqueue := oq'\<rparr>)"
      "items oq' = items (o_bufqueue s) @ b1 @ b2" "allocated ?mp room b2 w1 w'"
      "length b2 = popped n rs (pop_rings 1 rs ?v)"
      "view (ext w') = upd_avail ?mp (a - length b1 - length b2) (pop_rings n rs (view (ext w1)))"
    using s1(2) same by auto
  have "pop_rings n rs (view (ext w1)) = upd_avail ?mp (a - length b1) (pop_rings (Suc n) rs ?v)"
    unfolding s1(5) pop_rings_upd_avail pop_rings_Suc ..
  with s1(1,4) s2 pop allocated_append [OF s1(3) s2(3)] show ?case
    by (intro exI [of _ "b1 @ b2"] exI [of _ w'] exI [of _ oq']) (simp add: exec_simps)
qed

lemma store_outgoing_collects:
  assumes "finite (dom (mem (pk_wld s)))" "rs = map (in_ring entries (clientmap s)) (allocated_ids s)" "distinct rs"
    and "\<forall>key \<in> set (allocated_ids s). entries (clientmap s) key \<noteq> None"
    and "\<forall>r \<in> set rs. v_rings (view (ext (pk_wld s))) r \<noteq> None"
    and "a = v_avail (view (ext (pk_wld s))) (mempool s)" "n = BURST_MAX b"
    and "n + popped n rs (view (ext (pk_wld s))) < a"
  shows "\<exists>bufs w' oq. store_outgoing C D Q b (s :: ('q, 'm, 'i, 'd, 'x) Packetiser) =
       Ret (Inr ()) (s\<lparr>pk_wld := w', o_bufqueue := oq\<rparr>) \<and> items oq = items (o_bufqueue s) @ bufs \<and>
     allocated (mempool s) (v_room (view (ext (pk_wld s))) (mempool s)) bufs (pk_wld s) w' \<and>
     length bufs = popped n rs (view (ext (pk_wld s))) \<and>
     view (ext w') = upd_avail (mempool s) (a - length bufs) (pop_rings n rs (view (ext (pk_wld s))))"
proof -
  let ?mp = "mempool s" and ?v = "view (ext (pk_wld s))" let ?room = "v_room ?v ?mp"
  obtain pkts w1 where nb: "new_bufs D [] n s = Ret pkts (s\<lparr>pk_wld := w1\<rparr>)" "length pkts = n"
      "allocated ?mp ?room pkts (pk_wld s) w1" "view (ext w1) = upd_avail ?mp (a - n) ?v"
    using new_bufs_spec [OF assms(1) refl assms(6) refl, of "[]" n] assms(8) by (auto simp: min_absorb1)
  have same: "popped n rs (view (ext w1)) = popped n rs ?v" unfolding nb(4) by (rule popped_cong) simp
  have "popped n rs (view (ext w1)) < a - n" using same assms(8) by linarith
  then obtain bufs w2 oq where c: "collect_rounds C D Q n (s\<lparr>pk_wld := w1\<rparr>) = Ret (Inr ()) (s\<lparr>pk_wld := w2, o_bufqueue := oq\<rparr>)"
      "items oq = items (o_bufqueue s) @ bufs" "allocated ?mp ?room bufs w1 w2" "length bufs = popped n rs ?v"
      "view (ext w2) = upd_avail ?mp (a - n - length bufs) (pop_rings n rs ?v)"
    using collect_rounds_spec [of "s\<lparr>pk_wld := w1\<rparr>" rs "a - n" n ?room] assms nb(4) same
      allocated_finite [OF nb(3) assms(1)]
    by (auto simp: pop_rings_upd_avail)
  have all: "allocated ?mp ?room (pkts @ bufs) (pk_wld s) w2" using allocated_append [OF nb(3) c(3)] .
  then have "distinct pkts" "\<forall>x \<in> set pkts. \<exists>m. mem w2 x = Some m \<and> mb_pool m = ?mp"
    by (auto simp: allocated_def fresh_mbuf_def)
  from Mbuf_drop_all_spec [OF this] obtain w3 where w3: "Mbuf_drop_all D pkts w2 = Ret () w3"
      "mem w3 = (\<lambda>x. if x \<in> set pkts then None else mem w2 x)"
      "view (ext w3) = upd_avail ?mp (v_avail (view (ext w2)) ?mp + length pkts) (view (ext w2))" by blast
  have "allocated ?mp ?room bufs (pk_wld s) w3" using all w3(2) by (auto simp: allocated_def)
  moreover have "view (ext w3) = upd_avail ?mp (a - length bufs) (pop_rings n rs ?v)"
    using w3(3) c(4,5) nb(2) assms(8) by (simp add: upd_avail_def)
  ultimately show ?thesis
    using nb(1,2) c w3(1) assms(7)
    by (intro exI [of _ bufs] exI [of _ w3] exI [of _ oq]) (simp add: store_outgoing_def exec_simps)
qed

text \<open>The buffers allocated up front starve the collection: what they leave is what it works with.\<close>

lemma store_outgoing_starved:
  assumes "finite (dom (mem (pk_wld s)))" "a = v_avail (view (ext (pk_wld s))) (mempool s)"
    and "0 < a" "a \<le> BURST_MAX b" "allocated_ids s \<noteq> []"
  shows "\<exists>w'. store_outgoing C D Q b (s :: ('q, 'm, 'i, 'd, 'x) Packetiser) = Ret (Inl NoBuf) (s\<lparr>pk_wld := w'\<rparr>) \<and>
     mem w' = mem (pk_wld s) \<and> view (ext w') = view (ext (pk_wld s))"
proof -
  let ?mp = "mempool s"
  obtain pkts w1 where nb: "new_bufs D [] (BURST_MAX b) s = Ret pkts (s\<lparr>pk_wld := w1\<rparr>)"
      and p: "length pkts = a" "allocated ?mp (v_room (view (ext (pk_wld s))) ?mp) pkts (pk_wld s) w1"
      "view (ext w1) = upd_avail ?mp 0 (view (ext (pk_wld s)))"
    using new_bufs_spec [OF assms(1) refl assms(2) refl, of "[]" "BURST_MAX b"] assms(4) by (auto simp: min_absorb2)
  obtain key keys n where k: "allocated_ids s = key # keys" "a = Suc n"
    using assms(3,5) by (meson gr0_implies_Suc neq_Nil_conv)
  have "v_avail (view (ext w1)) ?mp = 0" using p(3) by simp
  from Mbuf_new_fails [OF this] obtain w2 where w2: "Mbuf_new D ?mp w1 = Ret (Inl NoBuf) w2" "mem w2 = mem w1"
      "view (ext w2) = view (ext w1)" by blast
  have round: "collect_rounds C D Q (length pkts) (s\<lparr>pk_wld := w1\<rparr>) = Ret (Inl NoBuf) (s\<lparr>pk_wld := w2\<rparr>)"
    using w2(1) k p(1) by (simp add: exec_simps)
  have live: "distinct pkts" "\<forall>x \<in> set pkts. \<exists>m. mem w2 x = Some m \<and> mb_pool m = ?mp"
    using p(2) w2(2) by (auto simp: allocated_def fresh_mbuf_def)
  from Mbuf_drop_all_spec [OF this] obtain w3 where w3: "Mbuf_drop_all D pkts w2 = Ret () w3"
      "mem w3 = (\<lambda>x. if x \<in> set pkts then None else mem w2 x)"
      "view (ext w3) = upd_avail ?mp (v_avail (view (ext w2)) ?mp + length pkts) (view (ext w2))" by blast
  have "mem w3 = mem (pk_wld s)" using w3(2) w2(2) p(2) by (auto simp: allocated_def fun_eq_iff)
  moreover have "view (ext w3) = view (ext (pk_wld s))"
    using w3(3) w2(3) p(1,3) assms(2) by (simp add: upd_avail_def)
  ultimately show ?thesis
    using nb round w3(1) by (intro exI [of _ w3]) (simp add: store_outgoing_def exec_simps)
qed

end

text \<open>\<open>store_incoming\<close> repeats the body of \<open>recv_from_engine_burst\<close>; the two differ only when no
  buffer can be allocated.\<close>

lemma store_incoming_as_recv:
  assumes "Packetiser_recv_from_engine_burst D Q b s = Ret (Inr count) s'"
  shows "store_incoming D Q b s = Ret (Inr ()) s'"
  using assms unfolding Packetiser_recv_from_engine_burst_def store_incoming_def
  by (auto simp: bind_eq_Ret drain_front_def push_incoming_def exec_simps split: if_splits)
    (intro exI [of _ 0], simp)+

section \<open>Properties\<close>

lemma ref_tcp_ipv4:
  "is_ipv4_frame (ref_mbuf 64 7 tcp_frame)" "dst_octets (ref_mbuf 64 7 tcp_frame) = (10, 0, 0, 2)"
  by (simp_all add: is_ipv4_frame_def dst_octets_def ref_mbuf_wf tcp_frame_data tcp_frame_fields del: wf_length_data)
    (simp_all add: tcp_frame_def)

text \<open>A concrete packetiser with one client, 3, whose route is the destination of the frame above, 10.0.0.2, in
  reverse.\<close>

definition ref_pk_client :: ref_pk_state where
  "ref_pk_client = ref_pk\<lparr>i_bufqueue := [1, 2], clientmap := [(3, chan_at 8 9)],
     TABLE := RoutingTable_add_client alist_chm alist_chm 3 (2, 0, 0, 10) (RoutingTable_new alist_chm alist_chm),
     pk_wld := (ref_rings [5 \<mapsto> [], 6 \<mapsto> [], 8 \<mapsto> [], 9 \<mapsto> []] Map.empty 2)\<lparr>mem :=
       [1 \<mapsto> ref_mbuf 64 7 tcp_frame, 2 \<mapsto> ref_mbuf 64 7 tcp_frame]\<rparr>\<rparr>"

lemma ref_pk_client_route: "out_ring map_of alist_chm ref_pk_client p = (if p = 1 \<or> p = 2 then Some 9 else None)"
  by (simp add: out_ring_def ref_pk_client_def ref_tcp_ipv4 id_from_ip_def RoutingTable_add_client_def
      RoutingTable_new_def alist_chm_def Let_def)

text \<open>C6: Forwarding is routing by the reversed destination. Let every queued packet be an IPv4 frame
  such that the routing table has a client for the octets of its destination in reverse order, and
  let the rings of these clients have room for their packets. Then \<open>forward_incoming_packets\<close>
  empties the incoming queue and appends each packet to the ring of that client, in the order of
  the queue; no packet is lost, duplicated or changed and nothing else of DPDK's state changes.
  The reversal is the code's: a packet for 10.0.0.2 goes to the client registered for 2.0.0.10,
  and not to the one registered for 10.0.0.2.\<close>

theorem forward_routes_all:
  fixes C :: "('m, u16, Channel) chm" and s :: "('q, 'm, 'i, 'd, 'x) Packetiser"
  assumes "packetiser_env D view C entries Q items"
    and "items (i_bufqueue s) = ps" "f = out_ring entries CI s"
    and "\<forall>p \<in> set ps. \<exists>r. f p = Some r \<and> v_rings (view (ext (pk_wld s))) r \<noteq> None"
    and "\<forall>r q. v_rings (view (ext (pk_wld s))) r = Some q \<longrightarrow>
       length q + length (filter (\<lambda>p. f p = Some r) ps) \<le> v_cap (view (ext (pk_wld s))) r"
  shows "\<exists>w' iq. forward_incoming_packets C CI D Q s = Ret () (s\<lparr>pk_wld := w', i_bufqueue := iq\<rparr>) \<and>
     items iq = [] \<and> mem w' = mem (pk_wld s) \<and> view (ext w') = deliver f ps (view (ext (pk_wld s)))"
  using packetiser_env.forward_all [OF assms] .

theorem forward_routes_all_witness:
  "\<exists>t. forward_incoming_packets alist_chm alist_chm ref_dpdk list_segq ref_pk_client = Ret () t \<and>
     i_bufqueue t = [] \<and> v_rings (ref_view (ext (pk_wld t))) 9 = Some [1, 2] \<and>
     v_rings (ref_view (ext (pk_wld t))) 6 = Some []"
proof -
  let ?f = "\<lambda>p :: ptr. if p = 1 \<or> p = 2 then Some (9 :: ptr) else None"
  have f: "?f = out_ring map_of alist_chm ref_pk_client" by (rule ext) (simp only: ref_pk_client_route)
  have s: "i_bufqueue ref_pk_client = [1, 2]"
    "v_rings (ref_view (ext (pk_wld ref_pk_client))) = [5 \<mapsto> [], 6 \<mapsto> [], 8 \<mapsto> [], 9 \<mapsto> []]"
    "v_cap (ref_view (ext (pk_wld ref_pk_client))) r = 2" for r
    by (simp_all add: ref_pk_client_def)
  have "\<exists>w' iq. forward_incoming_packets alist_chm alist_chm ref_dpdk list_segq ref_pk_client =
        Ret () (ref_pk_client\<lparr>pk_wld := w', i_bufqueue := iq\<rparr>) \<and> iq = [] \<and> mem w' = mem (pk_wld ref_pk_client) \<and>
      ref_view (ext w') = deliver ?f [1, 2] (ref_view (ext (pk_wld ref_pk_client)))"
    by (rule forward_routes_all [OF ref_packetiser.packetiser_env_axioms s(1) f]) (auto simp: s split: if_splits)
  then show ?thesis by (auto simp: deliver_def s)
qed

text \<open>C26: What \<open>store_outgoing\<close> collects. With enough free buffers it takes up to a burst of packets
  off the ring of every client and puts as many buffers into the outgoing queue; but these are
  empty buffers it has allocated for the purpose, not the clients' packets. The memory of all
  other buffers is unchanged, and the pool pays for exactly the buffers in the queue.\<close>

theorem store_outgoing_collects_empty:
  fixes C :: "('m, u16, Channel) chm" and s :: "('q, 'm, 'i, 'd, 'x) Packetiser"
  assumes "packetiser_env D view C entries Q items"
    and "finite (dom (mem (pk_wld s)))" "rs = map (in_ring entries (clientmap s)) (allocated_ids s)" "distinct rs"
    and "\<forall>key \<in> set (allocated_ids s). entries (clientmap s) key \<noteq> None"
    and "\<forall>r \<in> set rs. v_rings (view (ext (pk_wld s))) r \<noteq> None"
    and "a = v_avail (view (ext (pk_wld s))) (mempool s)" "n = BURST_MAX b"
    and "n + popped n rs (view (ext (pk_wld s))) < a"
  shows "\<exists>bufs w' oq. store_outgoing C D Q b s = Ret (Inr ()) (s\<lparr>pk_wld := w', o_bufqueue := oq\<rparr>) \<and>
     items oq = items (o_bufqueue s) @ bufs \<and>
     allocated (mempool s) (v_room (view (ext (pk_wld s))) (mempool s)) bufs (pk_wld s) w' \<and>
     length bufs = popped n rs (view (ext (pk_wld s))) \<and>
     view (ext w') = upd_avail (mempool s) (a - length bufs) (pop_rings n rs (view (ext (pk_wld s))))"
  using packetiser_env.store_outgoing_collects [OF assms] .

text \<open>The same packetiser with enough buffers, one client packet waiting on its ring.\<close>

definition ref_pk_collect :: ref_pk_state where
  "ref_pk_collect = ref_pk\<lparr>clientmap := [(3, chan_at 8 9)], allocated_ids := [3],
     pk_wld := (let w = ref_rings [5 \<mapsto> [], 6 \<mapsto> [], 8 \<mapsto> [1], 9 \<mapsto> []] Map.empty 2 in
       w\<lparr>ext := (ext w)\<lparr>rv := (rv (ext w))\<lparr>v_avail := (\<lambda>_. 1000)\<rparr>\<rparr>\<rparr>)\<rparr>"

theorem store_outgoing_collects_empty_witness:
  "\<exists>p t. store_outgoing alist_chm ref_dpdk list_segq \<lparr>overflow_checks = True, feature_debug = False\<rparr>
       ref_pk_collect = Ret (Inr ()) t \<and> o_bufqueue t = [p] \<and> v_rings (ref_view (ext (pk_wld t))) 8 = Some []"
proof -
  let ?b = "\<lparr>overflow_checks = True, feature_debug = False\<rparr>"
  have s: "finite (dom (mem (pk_wld ref_pk_collect)))" "allocated_ids ref_pk_collect = [3]"
    "clientmap ref_pk_collect = [(3, chan_at 8 9)]" "o_bufqueue ref_pk_collect = []"
    "v_rings (ref_view (ext (pk_wld ref_pk_collect))) = [5 \<mapsto> [], 6 \<mapsto> [], 8 \<mapsto> [1], 9 \<mapsto> []]"
    "1000 = v_avail (ref_view (ext (pk_wld ref_pk_collect))) (mempool ref_pk_collect)"
    by (simp_all add: ref_pk_collect_def ref_pk_def ref_view_sel ref_rings_def Let_def)
  have r: "[8] = map (in_ring map_of (clientmap ref_pk_collect)) (allocated_ids ref_pk_collect)"
    by (simp add: s in_ring_def)
  have n: "512 = BURST_MAX ?b" by (simp add: BURST_MAX_def)
  have "\<exists>bufs w' oq. store_outgoing alist_chm ref_dpdk list_segq ?b ref_pk_collect =
        Ret (Inr ()) (ref_pk_collect\<lparr>pk_wld := w', o_bufqueue := oq\<rparr>) \<and> oq = o_bufqueue ref_pk_collect @ bufs \<and>
      allocated (mempool ref_pk_collect) (v_room (ref_view (ext (pk_wld ref_pk_collect))) (mempool ref_pk_collect))
        bufs (pk_wld ref_pk_collect) w' \<and>
      length bufs = popped 512 [8] (ref_view (ext (pk_wld ref_pk_collect))) \<and>
      ref_view (ext w') = upd_avail (mempool ref_pk_collect) (1000 - length bufs)
        (pop_rings 512 [8] (ref_view (ext (pk_wld ref_pk_collect))))"
    by (rule store_outgoing_collects_empty [OF ref_packetiser.packetiser_env_axioms s(1) r _ _ _ s(6) n])
      (simp_all add: s(2,3,5) popped_def)
  then show ?thesis by (auto simp: s popped_def length_Suc_conv)
qed

text \<open>Collecting the clients' packets fails when buffers are scarce but present: with at
  most a burst of free buffers, \<open>store_outgoing\<close> allocates all of them up front, cannot allocate
  the one it needs for the first client and returns \<open>NoBuf\<close>. It collects nothing, and leaves the
  queues, the rings, the memory and the pool as they were.\<close>

theorem store_outgoing_starves:
  fixes C :: "('m, u16, Channel) chm" and s :: "('q, 'm, 'i, 'd, 'x) Packetiser"
  assumes "packetiser_env D view C entries Q items"
    and "finite (dom (mem (pk_wld s)))" "a = v_avail (view (ext (pk_wld s))) (mempool s)"
    and "0 < a" "a \<le> BURST_MAX b" "allocated_ids s \<noteq> []"
  shows "\<exists>w'. store_outgoing C D Q b s = Ret (Inl NoBuf) (s\<lparr>pk_wld := w'\<rparr>) \<and>
     mem w' = mem (pk_wld s) \<and> view (ext w') = view (ext (pk_wld s))"
  using packetiser_env.store_outgoing_starved [OF assms] .

theorem store_outgoing_starves_witness:
  "\<exists>w'. store_outgoing alist_chm ref_dpdk list_segq \<lparr>overflow_checks = True, feature_debug = False\<rparr>
       (ref_pk\<lparr>allocated_ids := [2]\<rparr>) = Ret (Inl NoBuf) (ref_pk\<lparr>allocated_ids := [2], pk_wld := w'\<rparr>)"
  using store_outgoing_starves [OF ref_packetiser.packetiser_env_axioms, of "ref_pk\<lparr>allocated_ids := [2]\<rparr>" 4
      "\<lparr>overflow_checks = True, feature_debug = False\<rparr>"]
  by (auto simp: ref_pk_def BURST_MAX_def)






end
