(* ===== verification/Server.thy ===== *)
theory Server
  imports Net
begin

text \<open>
  \<^verbatim>\<open>l3enginelib/src/server.rs\<close>: the table of network interfaces and the ARP responder built on
  the \<open>pnet\<close> crate. The packet views of \<open>pnet\<close> are a parameter, the record \<open>pnet\<close>, whose
  documented behaviour (the field layout of Ethernet and ARP) is the locale \<open>pnet_api\<close>.
\<close>

section \<open>The pnet crate\<close>

type_synonym mac = "u8 list"

text \<open>What the program looks at of \<open>IpNetwork\<close>: its variant, and \<open>ip()\<close> of a V4 network.\<close>

datatype IpNetwork = V4 Ipv4Addr | V6

record NetworkInterface =
  if_name :: string
  if_description :: string
  if_index :: u32
  if_mac :: "mac option"
  if_ips :: "IpNetwork list"
  if_flags :: u32

record pnet =
  EthernetPacket_new :: "u8 list \<Rightarrow> u8 list option"
  get_ethertype :: "u8 list \<Rightarrow> u16"
  eth_payload :: "u8 list \<Rightarrow> u8 list"
  ArpPacket_new :: "u8 list \<Rightarrow> u8 list option"
  get_target_proto_addr :: "u8 list \<Rightarrow> Ipv4Addr"
  get_sender_proto_addr :: "u8 list \<Rightarrow> Ipv4Addr"
  MutableEthernetPacket_new :: "u8 list \<Rightarrow> u8 list option"
  set_destination :: "mac \<Rightarrow> u8 list \<Rightarrow> u8 list"
  set_source :: "mac \<Rightarrow> u8 list \<Rightarrow> u8 list"
  set_ethertype :: "u16 \<Rightarrow> u8 list \<Rightarrow> u8 list"
  set_payload :: "u8 list \<Rightarrow> u8 list \<Rightarrow> u8 list"
  MutableArpPacket_new :: "u8 list \<Rightarrow> u8 list option"
  set_hardware_type :: "u16 \<Rightarrow> u8 list \<Rightarrow> u8 list"
  set_protocol_type :: "u16 \<Rightarrow> u8 list \<Rightarrow> u8 list"
  set_hw_addr_len :: "u8 \<Rightarrow> u8 list \<Rightarrow> u8 list"
  set_proto_addr_len :: "u8 \<Rightarrow> u8 list \<Rightarrow> u8 list"
  set_operation :: "u16 \<Rightarrow> u8 list \<Rightarrow> u8 list"
  set_sender_hw_addr :: "mac \<Rightarrow> u8 list \<Rightarrow> u8 list"
  set_sender_proto_addr :: "Ipv4Addr \<Rightarrow> u8 list \<Rightarrow> u8 list"
  set_target_hw_addr :: "mac \<Rightarrow> u8 list \<Rightarrow> u8 list"
  set_target_proto_addr :: "Ipv4Addr \<Rightarrow> u8 list \<Rightarrow> u8 list"

definition EtherTypes_Arp :: u16 where "EtherTypes_Arp = 0x0806"
definition EtherTypes_Ipv4 :: u16 where "EtherTypes_Ipv4 = 0x0800"
definition ArpHardwareTypes_Ethernet :: u16 where "ArpHardwareTypes_Ethernet = 1"
definition ArpOperations_Request :: u16 where "ArpOperations_Request = 1"
definition MacAddr_broadcast :: mac where "MacAddr_broadcast = replicate 6 255"
definition MacAddr_zero :: mac where "MacAddr_zero = replicate 6 0"

fun ip_bytes :: "Ipv4Addr \<Rightarrow> u8 list" where
  "ip_bytes (a, b, c, d) = [a, b, c, d]"

definition be16 :: "u16 \<Rightarrow> u8 list" where "be16 x = rev (le_bytes 2 x)"

locale pnet_api =
  fixes P :: pnet
  assumes eth_new: "EthernetPacket_new P bs = (if 14 \<le> length bs then Some bs else None)"
    and ethertype: "14 \<le> length bs \<Longrightarrow> be16 (get_ethertype P bs) = [bs ! 12, bs ! 13]"
    and payload: "14 \<le> length bs \<Longrightarrow> eth_payload P bs = drop 14 bs"
    and arp_new: "ArpPacket_new P bs = (if 28 \<le> length bs then Some bs else None)"
    and target: "28 \<le> length bs \<Longrightarrow> ip_bytes (get_target_proto_addr P bs) = take 4 (drop 24 bs)"
    and sender: "28 \<le> length bs \<Longrightarrow> ip_bytes (get_sender_proto_addr P bs) = take 4 (drop 14 bs)"
    and eth_mut_new: "MutableEthernetPacket_new P bs = (if 14 \<le> length bs then Some bs else None)"
    and dst: "14 \<le> length bs \<Longrightarrow> length m = 6 \<Longrightarrow> set_destination P m bs = overwrite bs 0 m"
    and src: "14 \<le> length bs \<Longrightarrow> length m = 6 \<Longrightarrow> set_source P m bs = overwrite bs 6 m"
    and ety: "14 \<le> length bs \<Longrightarrow> set_ethertype P t bs = overwrite bs 12 (be16 t)"
    and pay: "14 + length vs \<le> length bs \<Longrightarrow> set_payload P vs bs = overwrite bs 14 vs"
    and arp_mut_new: "MutableArpPacket_new P bs = (if 28 \<le> length bs then Some bs else None)"
    and hwt: "28 \<le> length bs \<Longrightarrow> set_hardware_type P t bs = overwrite bs 0 (be16 t)"
    and prt: "28 \<le> length bs \<Longrightarrow> set_protocol_type P t bs = overwrite bs 2 (be16 t)"
    and hwl: "28 \<le> length bs \<Longrightarrow> set_hw_addr_len P x bs = overwrite bs 4 [x]"
    and prl: "28 \<le> length bs \<Longrightarrow> set_proto_addr_len P x bs = overwrite bs 5 [x]"
    and opn: "28 \<le> length bs \<Longrightarrow> set_operation P t bs = overwrite bs 6 (be16 t)"
    and sha: "28 \<le> length bs \<Longrightarrow> length m = 6 \<Longrightarrow> set_sender_hw_addr P m bs = overwrite bs 8 m"
    and spa: "28 \<le> length bs \<Longrightarrow> set_sender_proto_addr P i bs = overwrite bs 14 (ip_bytes i)"
    and tha: "28 \<le> length bs \<Longrightarrow> length m = 6 \<Longrightarrow> set_target_hw_addr P m bs = overwrite bs 18 m"
    and tpa: "28 \<le> length bs \<Longrightarrow> set_target_proto_addr P i bs = overwrite bs 24 (ip_bytes i)"

section \<open>Server\<close>

record Server =
  interfaces :: "NetworkInterface list"

definition Server_new :: Server where
  "Server_new = \<lparr>interfaces = []\<rparr>"

definition Server_add ::
  "Server \<Rightarrow> string \<Rightarrow> string \<Rightarrow> u32 \<Rightarrow> mac option \<Rightarrow> IpNetwork list \<Rightarrow> u32 \<Rightarrow> Server" where
  "Server_add self name desc index m ips flags =
     (let iface = \<lparr>if_name = name, if_description = desc, if_index = index, if_mac = m,
                   if_ips = ips, if_flags = flags\<rparr>
      in self\<lparr>interfaces := interfaces self @ [iface]\<rparr>)"

text \<open>The result of a loop body: go on with the loop, or return from the function.\<close>

datatype 'r flow = Continue | Return 'r

fun iface_ips_loop :: "NetworkInterface \<Rightarrow> Ipv4Addr \<Rightarrow> IpNetwork list \<Rightarrow> NetworkInterface option flow" where
  "iface_ips_loop iface mip [] = Continue"
| "iface_ips_loop iface mip (V4 ip # nws) =
     (if ip = mip then Return (Some iface) else iface_ips_loop iface mip nws)"
| "iface_ips_loop iface mip (V6 # nws) = Return None"

fun iface_loop :: "Ipv4Addr \<Rightarrow> NetworkInterface list \<Rightarrow> NetworkInterface option" where
  "iface_loop mip [] = None"
| "iface_loop mip (iface # ifaces) =
     (case iface_ips_loop iface mip (if_ips iface) of
        Return r \<Rightarrow> r
      | Continue \<Rightarrow> iface_loop mip ifaces)"

definition get_iface_by_ip :: "Server \<Rightarrow> Ipv4Addr \<Rightarrow> NetworkInterface option" where
  "get_iface_by_ip self mip = iface_loop mip (interfaces self)"

fun ipaddr_to_u32 :: "Ipv4Addr \<Rightarrow> u32" where
  "ipaddr_to_u32 (p0, p1, p2, p3) =
     push_bit 24 (ucast (p0 AND 0xFF)) OR push_bit 16 (ucast (p1 AND 0xFF)) OR
     push_bit 8 (ucast (p2 AND 0xFF)) OR ucast (p1 AND 0xFF)"

fun arp_ips_loop ::
  "pnet \<Rightarrow> u8 list \<Rightarrow> IpNetwork list \<Rightarrow> (Ipv4Addr \<times> Ipv4Addr) option flow" where
  "arp_ips_loop P eth_pkt [] = Continue"
| "arp_ips_loop P eth_pkt (V4 local_ip # nws) =
     (case ArpPacket_new P (eth_payload P eth_pkt) of
        None \<Rightarrow> Return None
      | Some arp \<Rightarrow>
          (let tip = get_target_proto_addr P arp; remote_ip = get_sender_proto_addr P arp in
           if tip = local_ip then Return (Some (local_ip, remote_ip))
           else arp_ips_loop P eth_pkt nws))"
| "arp_ips_loop P eth_pkt (V6 # nws) = Return None"

fun arp_iface_loop :: "pnet \<Rightarrow> u8 list \<Rightarrow> NetworkInterface list \<Rightarrow> (Ipv4Addr \<times> Ipv4Addr) option" where
  "arp_iface_loop P eth_pkt [] = None"
| "arp_iface_loop P eth_pkt (iface # ifaces) =
     (case arp_ips_loop P eth_pkt (if_ips iface) of
        Return r \<Rightarrow> r
      | Continue \<Rightarrow> arp_iface_loop P eth_pkt ifaces)"

text \<open>\<open>slice::from_raw_parts(pkt, len)\<close> is the packet's data.\<close>

definition detect_arp :: "pnet \<Rightarrow> Server \<Rightarrow> ptr \<Rightarrow> ('x world, (Ipv4Addr \<times> Ipv4Addr) option) exec" where
  "detect_arp P self buf =
     bind (on_mbuf buf (bind (gets rte_pktmbuf_mtod) (\<lambda>a. bind (gets Mbuf_data_len) (\<lambda>len. load len a)))) (\<lambda>eth_buf.
       ret (case EthernetPacket_new P eth_buf of
              None \<Rightarrow> None
            | Some eth_pkt \<Rightarrow>
                if get_ethertype P eth_pkt = EtherTypes_Arp then arp_iface_loop P eth_pkt (interfaces self)
                else None))"

definition arp_reply_frame :: "pnet \<Rightarrow> mac \<Rightarrow> Ipv4Addr \<Rightarrow> Ipv4Addr \<Rightarrow> u8 list \<Rightarrow> u8 list option" where
  "arp_reply_frame P source_mac local_ip remote_ip eth_pkt =
     (let eth_pkt = set_destination P MacAddr_broadcast eth_pkt;
          eth_pkt = set_source P source_mac eth_pkt;
          eth_pkt = set_ethertype P EtherTypes_Arp eth_pkt
      in case MutableArpPacket_new P (replicate 28 0) of
           None \<Rightarrow> None
         | Some arp \<Rightarrow>
             (let arp = set_hardware_type P ArpHardwareTypes_Ethernet arp;
                  arp = set_protocol_type P EtherTypes_Ipv4 arp;
                  arp = set_hw_addr_len P 6 arp;
                  arp = set_proto_addr_len P 4 arp;
                  arp = set_operation P ArpOperations_Request arp;
                  arp = set_sender_hw_addr P source_mac arp;
                  arp = set_sender_proto_addr P local_ip arp;
                  arp = set_target_hw_addr P MacAddr_zero arp;
                  arp = set_target_proto_addr P remote_ip arp
              in Some (set_payload P arp eth_pkt)))"

definition send_arp_reply ::
  "pnet \<Rightarrow> 'x dpdk \<Rightarrow> bool \<Rightarrow> Server \<Rightarrow> ptr \<Rightarrow> ptr \<Rightarrow> ('x world, ptr option) exec" where
  "send_arp_reply P D oc self buf mp =
     bind (detect_arp P self buf) (\<lambda>r. case r of
       None \<Rightarrow> ret None
     | Some (local_ip, remote_ip) \<Rightarrow>
         (case MutableEthernetPacket_new P (replicate 42 0) of
            None \<Rightarrow> ret None
          | Some eth_pkt \<Rightarrow>
              (case get_iface_by_ip self local_ip of
                 None \<Rightarrow> ret None
               | Some iface \<Rightarrow>
                   (case if_mac iface of
                      None \<Rightarrow> ret None
                    | Some source_mac \<Rightarrow>
                        (case arp_reply_frame P source_mac local_ip remote_ip eth_pkt of
                           None \<Rightarrow> ret None
                         | Some frame \<Rightarrow>
                             bind (from_bytes D oc frame mp) (\<lambda>r. case r of
                               Inr out_buf \<Rightarrow> ret (Some out_buf)
                             | Inl _ \<Rightarrow> ret None))))))"

section \<open>Facts\<close>

lemma iface_ips_loop_spec:
  "iface_ips_loop iface mip nws =
     (case dropWhile (\<lambda>n. n \<noteq> V4 mip \<and> n \<noteq> V6) nws of
        [] \<Rightarrow> Continue | n # _ \<Rightarrow> Return (if n = V6 then None else Some iface))"
  by (induction iface mip nws rule: iface_ips_loop.induct) auto

lemma iface_loop_found:
  assumes "V6 \<notin> set (concat (map if_ips ifs))"
  shows "iface_loop mip ifs = List.find (\<lambda>i. V4 mip \<in> set (if_ips i)) ifs"
  using assms
proof (induction ifs)
  case (Cons i ifs)
  have "iface_ips_loop i mip nws = (if V4 mip \<in> set nws then Return (Some i) else Continue)"
    if "V6 \<notin> set nws" for nws
    using that by (induction i mip nws rule: iface_ips_loop.induct) auto
  with Cons show ?case by simp
qed simp

lemma iface_loop_v6: "if_ips i = V6 # nws \<Longrightarrow> iface_loop mip (i # ifs) = None"
  by simp

lemma overwrite_0: "overwrite r 0 zs = zs @ drop (length zs) r"
  by (simp add: overwrite_def)

lemma length_ip_bytes [simp]: "length (ip_bytes i) = 4"
  by (cases i) simp

lemma ip_bytes_inject: "ip_bytes i = ip_bytes j \<longleftrightarrow> i = j"
  by (cases i; cases j) auto

lemma be16_inject: "be16 x = be16 y \<longleftrightarrow> x = y"
proof
  assume "be16 x = be16 y"
  then have "le_word (le_bytes 2 x) = (le_word (le_bytes 2 y) :: u16)" by (simp add: be16_def)
  then show "x = y" by (simp add: le_word_le_bytes)
qed simp

lemma be16_consts:
  "be16 EtherTypes_Arp = [8, 6]" "be16 EtherTypes_Ipv4 = [8, 0]"
  "be16 ArpHardwareTypes_Ethernet = [0, 1]" "be16 ArpOperations_Request = [0, 1]"
  by (simp_all add: be16_def le_bytes_2 EtherTypes_Arp_def EtherTypes_Ipv4_def
      ArpHardwareTypes_Ethernet_def ArpOperations_Request_def)

text \<open>The 42 bytes of an ARP request broadcast by \<open>m\<close>.\<close>

definition arp_broadcast_bytes :: "mac \<Rightarrow> Ipv4Addr \<Rightarrow> Ipv4Addr \<Rightarrow> u8 list" where
  "arp_broadcast_bytes m sender target =
     replicate 6 255 @ m @ [8, 6] @ [0, 1] @ [8, 0] @ [6] @ [4] @ [0, 1] @ m @ ip_bytes sender @
     replicate 6 0 @ ip_bytes target"

context pnet_api
begin

lemma arp_body:
  assumes "length m = 6"
  shows "set_target_proto_addr P rip (set_target_hw_addr P MacAddr_zero (set_sender_proto_addr P lip
     (set_sender_hw_addr P m (set_operation P ArpOperations_Request (set_proto_addr_len P 4 (set_hw_addr_len P 6
       (set_protocol_type P EtherTypes_Ipv4 (set_hardware_type P ArpHardwareTypes_Ethernet (replicate 28 0)))))))))
     = [0, 1] @ [8, 0] @ [6] @ [4] @ [0, 1] @ m @ ip_bytes lip @ MacAddr_zero @ ip_bytes rip"
proof -
  have z: "length MacAddr_zero = 6" by (simp add: MacAddr_zero_def)
  define r :: "u8 list" where "r = replicate 28 0"
  have r: "length r = 28" by (simp add: r_def)
  show ?thesis unfolding r_def [symmetric]
    using assms r z
    by (simp add: hwt prt hwl prl opn sha spa tha tpa be16_consts overwrite_0 overwrite_drop
        overwrite_Cons)
qed

lemma arp_reply_frame_bytes:
  assumes "length m = 6"
  shows "arp_reply_frame P m lip rip (replicate 42 0) = Some (arp_broadcast_bytes m lip rip)"
proof -
  have z: "length MacAddr_broadcast = 6" by (simp add: MacAddr_broadcast_def)
  define r :: "u8 list" where "r = replicate 42 0"
  have r: "length r = 42" by (simp add: r_def)
  let ?a = "[0, 1] @ [8, 0] @ [6] @ [4] @ [0, 1] @ m @ ip_bytes lip @ MacAddr_zero @ ip_bytes rip"
  have a: "length ?a = 28" using assms by (simp add: MacAddr_zero_def)
  have e: "set_ethertype P EtherTypes_Arp (set_source P m (set_destination P MacAddr_broadcast r)) =
      MacAddr_broadcast @ m @ [8, 6] @ drop 14 r"
    using assms r z by (simp add: dst src ety be16_consts overwrite_0 overwrite_drop)
  have "set_payload P ?a (MacAddr_broadcast @ m @ [8, 6] @ drop 14 r) = MacAddr_broadcast @ m @ [8, 6] @ ?a"
    using assms r z a by (subst pay) (simp_all add: overwrite_drop overwrite_Cons)
  then have "arp_reply_frame P m lip rip r = Some (MacAddr_broadcast @ m @ [8, 6] @ ?a)"
    by (simp add: arp_reply_frame_def arp_mut_new arp_body [OF assms] e Let_def)
  then show ?thesis
    by (simp add: r_def arp_broadcast_bytes_def MacAddr_broadcast_def MacAddr_zero_def)
qed

end

definition ref_pnet :: pnet where
  "ref_pnet = \<lparr>EthernetPacket_new = (\<lambda>bs. if 14 \<le> length bs then Some bs else None),
     get_ethertype = (\<lambda>bs. le_word [bs ! 13, bs ! 12]), eth_payload = drop 14,
     ArpPacket_new = (\<lambda>bs. if 28 \<le> length bs then Some bs else None),
     get_target_proto_addr = (\<lambda>bs. (bs ! 24, bs ! 25, bs ! 26, bs ! 27)),
     get_sender_proto_addr = (\<lambda>bs. (bs ! 14, bs ! 15, bs ! 16, bs ! 17)),
     MutableEthernetPacket_new = (\<lambda>bs. if 14 \<le> length bs then Some bs else None),
     set_destination = (\<lambda>m bs. overwrite bs 0 m), set_source = (\<lambda>m bs. overwrite bs 6 m),
     set_ethertype = (\<lambda>t bs. overwrite bs 12 (be16 t)), set_payload = (\<lambda>vs bs. overwrite bs 14 vs),
     MutableArpPacket_new = (\<lambda>bs. if 28 \<le> length bs then Some bs else None),
     set_hardware_type = (\<lambda>t bs. overwrite bs 0 (be16 t)),
     set_protocol_type = (\<lambda>t bs. overwrite bs 2 (be16 t)),
     set_hw_addr_len = (\<lambda>x bs. overwrite bs 4 [x]), set_proto_addr_len = (\<lambda>x bs. overwrite bs 5 [x]),
     set_operation = (\<lambda>t bs. overwrite bs 6 (be16 t)),
     set_sender_hw_addr = (\<lambda>m bs. overwrite bs 8 m),
     set_sender_proto_addr = (\<lambda>i bs. overwrite bs 14 (ip_bytes i)),
     set_target_hw_addr = (\<lambda>m bs. overwrite bs 18 m),
     set_target_proto_addr = (\<lambda>i bs. overwrite bs 24 (ip_bytes i))\<rparr>"

lemma be16_le_word: "be16 (le_word [a, b]) = [b, a]"
  using le_bytes_le_word [of "[a, b]", where 'a = 16] by (simp add: be16_def numeral_2_eq_2)

interpretation ref_pnet: pnet_api ref_pnet
  by unfold_locales (simp_all add: ref_pnet_def be16_le_word take4_drop)

section \<open>The responder\<close>

lemma detect_arp_exec:
  assumes "pnet_api P" "wf_mbuf m" "mem w buf = Some m"
  shows "detect_arp P self buf w = Ret (if 14 \<le> length (mb_data m) \<and> mb_data m ! 12 = 8 \<and> mb_data m ! 13 = 6
     then arp_iface_loop P (mb_data m) (interfaces self) else None) w"
proof -
  have l: "load (Mbuf_data_len m) (rte_pktmbuf_mtod m) m = Ret (mb_data m) m"
    using load_data [OF assms(2), of 0 "Mbuf_data_len m"] assms(2)
    by (simp add: Mbuf_data_len_def rte_pktmbuf_mtod_def)
  have "get_ethertype P (mb_data m) = EtherTypes_Arp \<longleftrightarrow> mb_data m ! 12 = 8 \<and> mb_data m ! 13 = 6"
    if "14 \<le> length (mb_data m)"
  proof -
    have "get_ethertype P (mb_data m) = EtherTypes_Arp \<longleftrightarrow> be16 (get_ethertype P (mb_data m)) = be16 EtherTypes_Arp"
      by (rule be16_inject [symmetric])
    then show ?thesis
      using pnet_api.ethertype [OF assms(1) that] by (simp add: be16_consts)
  qed
  with l show ?thesis
    using assms(3) by (auto simp: detect_arp_def pnet_api.eth_new [OF assms(1)] exec_simps simp del: wf_length_data)
qed

context pool_api
begin

lemma send_arp_reply_exec:
  assumes P: "pnet_api P" and det: "detect_arp P self buf w = Ret (Some (lip, rip)) w"
    and iface: "get_iface_by_ip self lip = Some i" "if_mac i = Some m" "length m = 6"
    and pool: "0 < v_avail (view (ext w)) mp" "finite (dom (mem w))" "42 \<le> v_room (view (ext w)) mp"
  shows "\<exists>p mo w'. send_arp_reply P D oc self buf mp w = Ret (Some p) w' \<and> mem w p = None \<and>
     mem w' = (mem w)(p \<mapsto> mo) \<and> wf_mbuf mo \<and> mb_data mo = arp_broadcast_bytes m lip rip"
proof -
  have "length (arp_broadcast_bytes m lip rip) = 42" "arp_broadcast_bytes m lip rip \<noteq> []"
    using iface(3) by (simp_all add: arp_broadcast_bytes_def)
  then obtain p mo w' where "from_bytes D oc (arp_broadcast_bytes m lip rip) mp w = Ret (Inr p) w'"
      "mem w p = None" "mem w' = (mem w)(p \<mapsto> mo)" "wf_mbuf mo" "mb_data mo = arp_broadcast_bytes m lip rip"
    using from_bytes_ok [OF pool(1,2), of "arp_broadcast_bytes m lip rip" oc] pool(3) by auto
  with det iface pnet_api.arp_reply_frame_bytes [OF P iface(3)] pnet_api.eth_mut_new [OF P] show ?thesis
    by (auto simp: send_arp_reply_def exec_simps)
qed

end

section \<open>Properties\<close>

text \<open>For a server without IPv6 networks, \<open>get_iface_by_ip\<close> finds the first interface that has the
  address. An IPv6 network hides everything behind it: if the first interface starts with one,
  no address is found at all.\<close>

theorem server_lookup:
  "(V6 \<notin> set (concat (map if_ips (interfaces self))) \<longrightarrow>
     get_iface_by_ip self mip = List.find (\<lambda>i. V4 mip \<in> set (if_ips i)) (interfaces self)) \<and>
   (interfaces self \<noteq> [] \<and> if_ips (hd (interfaces self)) \<noteq> [] \<and> hd (if_ips (hd (interfaces self))) = V6 \<longrightarrow>
     get_iface_by_ip self mip = None)"
  using iface_loop_found [of "interfaces self" mip]
  by (cases "interfaces self"; cases "if_ips (hd (interfaces self))") (auto simp: get_iface_by_ip_def)

definition ref_server :: Server where
  "ref_server = Server_add (Server_add Server_new ''eth0'' [] 0 (Some [2, 0, 0, 0, 0, 9]) [V4 (10, 0, 0, 2)] 0)
     ''eth1'' [] 1 None [V6, V4 (10, 0, 0, 3)] 0"

theorem server_lookup_witness:
  "get_iface_by_ip (ref_server\<lparr>interfaces := tl (interfaces ref_server)\<rparr>) (10, 0, 0, 3) = None"
  using server_lookup [of "ref_server\<lparr>interfaces := tl (interfaces ref_server)\<rparr>" "(10, 0, 0, 3)"]
  by (simp add: ref_server_def Server_add_def Server_new_def)

text \<open>\<open>ipaddr_to_u32\<close> puts the second octet where the fourth belongs: its result does not depend
  on the last octet, and is the address as a big-endian integer only if the second and the fourth
  octet are equal.\<close>

theorem ipaddr_to_u32_drops_last_octet:
  "ipaddr_to_u32 (a, b, c, d) = le_word [b, c, b, a] \<and>
   (ipaddr_to_u32 (a, b, c, d) = le_word [d, c, b, a] \<longleftrightarrow> b = d)"
proof -
  have m: "x AND 0xFF = x" for x :: u8
  proof -
    have "(0xFF :: u8) = mask 8" by (simp add: mask_eq_exp_minus_1)
    then have "x AND 0xFF = take_bit 8 x" by (simp only: take_bit_eq_mask)
    then show ?thesis by (simp add: take_bit_word_eq_self)
  qed
  have "ipaddr_to_u32 (a, b, c, d) = le_word [b, c, b, a]"
    by (rule bit_word_eqI) (auto simp: m le_word.simps bit_simps)
  then show ?thesis
    by (simp only: le_word_inject [of "[b, c, b, a]" "[d, c, b, a]", where 'a = 32, simplified])
qed

text \<open>The "reply" to an ARP request for a local address is a broadcast ARP request: operation 1,
  all-ones Ethernet destination and zero target hardware address, from the interface's hardware
  and protocol address, asking for the requester.\<close>

theorem arp_reply_is_a_request:
  assumes "pool_api D view" "pnet_api P" and "detect_arp P self buf w = Ret (Some (lip, rip)) w"
    and "get_iface_by_ip self lip = Some i" "if_mac i = Some m" "length m = 6"
    and "0 < v_avail (view (ext w)) mp" "finite (dom (mem w))" "42 \<le> v_room (view (ext w)) mp"
  shows "\<exists>p mo w'. send_arp_reply P D oc self buf mp w = Ret (Some p) w' \<and> mem w p = None \<and>
     mem w' = (mem w)(p \<mapsto> mo) \<and> wf_mbuf mo \<and> mb_data mo = arp_broadcast_bytes m lip rip"
  using pool_api.send_arp_reply_exec [OF assms] .

theorem arp_reply_is_a_request_witness:
  "\<exists>p mo w'. send_arp_reply ref_pnet ref_dpdk True ref_server 1 7
       (ref_start\<lparr>mem := [1 \<mapsto> ref_mbuf 64 7 arp_request_frame]\<rparr>) = Ret (Some p) w' \<and>
     mem w' p = Some mo \<and> take 4 (drop 18 (mb_data mo)) = [6, 4, 0, 1]"
proof -
  let ?w = "ref_start\<lparr>mem := [1 \<mapsto> ref_mbuf 64 7 arp_request_frame]\<rparr>"
  have "arp_iface_loop ref_pnet arp_request_frame (interfaces ref_server) = Some ((10, 0, 0, 2), (10, 0, 0, 1))"
    by (simp add: ref_server_def Server_add_def Server_new_def ref_pnet_def arp_request_frame_def Let_def)
  then have d: "detect_arp ref_pnet ref_server 1 ?w = Ret (Some ((10, 0, 0, 2), (10, 0, 0, 1))) ?w"
    using detect_arp_exec [OF ref_pnet.pnet_api_axioms ref_mbuf_wf, of ?w 1 64 7 arp_request_frame ref_server]
    by (simp add: arp_frame_data arp_frame_length arp_frame_fields del: wf_length_data)
  have i: "get_iface_by_ip ref_server (10, 0, 0, 2) = Some (hd (interfaces ref_server))"
    "if_mac (hd (interfaces ref_server)) = Some [2, 0, 0, 0, 0, 9]"
    by (simp_all add: get_iface_by_ip_def ref_server_def Server_add_def Server_new_def)
  have "take 4 (drop 18 (arp_broadcast_bytes [2, 0, 0, 0, 0, 9] x y)) = [6, 4, 0, 1]" for x y
    by (simp add: arp_broadcast_bytes_def numeral_eq_Suc)
  then show ?thesis
    using arp_reply_is_a_request [OF ref.pool_api_axioms ref_pnet.pnet_api_axioms d i, of 7 True] by auto
qed

end
