(* ===== verification/BuildScript.thy ===== *)
theory BuildScript
  imports Prelude "HOL-Library.Char_ord" "HOL-Library.List_Lexorder"
begin

text \<open>
  \<^verbatim>\<open>dpdk-sys/build.rs\<close>: the link instructions the build script prints for cargo. Compiling the shim
  and generating the bindings is the work of the \<open>cc\<close> and \<open>bindgen\<close> crates.
\<close>

definition RTE_CORE_LIBS :: "string list" where
  "RTE_CORE_LIBS = [
     ''rte_acl'', ''rte_bbdev'', ''rte_bitratestats'', ''rte_bpf'', ''rte_bus_dpaa'',
     ''rte_bus_fslmc'', ''rte_bus_ifpga'', ''rte_bus_pci'', ''rte_bus_vdev'', ''rte_bus_vmbus'',
     ''rte_cfgfile'', ''rte_cmdline'', ''rte_common_cpt'', ''rte_common_dpaax'',
     ''rte_common_octeontx'', ''rte_common_octeontx2'', ''rte_compressdev'', ''rte_cryptodev'',
     ''rte_distributor'', ''rte_eal'', ''rte_efd'', ''rte_ethdev'', ''rte_eventdev'',
     ''rte_fib'', ''rte_flow_classify'', ''rte_gro'', ''rte_gso'', ''rte_hash'',
     ''rte_ip_frag'', ''rte_ipsec'', ''rte_jobstats'', ''rte_kni'', ''rte_kvargs'',
     ''rte_latencystats'', ''rte_lpm'', ''rte_mbuf'', ''rte_member'', ''rte_mempool'',
     ''rte_mempool_bucket'', ''rte_mempool_dpaa'', ''rte_mempool_dpaa2'',
     ''rte_mempool_octeontx'', ''rte_mempool_octeontx2'', ''rte_mempool_ring'',
     ''rte_mempool_stack'', ''rte_meter'', ''rte_metrics'', ''rte_net'', ''rte_pci'',
     ''rte_pdump'', ''rte_pipeline'', ''rte_port'', ''rte_power'', ''rte_rawdev'',
     ''rte_rawdev_dpaa2_cmdif'', ''rte_rawdev_dpaa2_qdma'', ''rte_rawdev_ioat'',
     ''rte_rawdev_ntb'', ''rte_rawdev_octeontx2_dma'', ''rte_rawdev_skeleton'', ''rte_rcu'',
     ''rte_reorder'', ''rte_rib'', ''rte_ring'', ''rte_sched'', ''rte_security'', ''rte_stack'',
     ''rte_table'', ''rte_timer'', ''rte_vhost'']"

definition RTE_PMD_LIBS :: "string list" where
  "RTE_PMD_LIBS = [
     ''rte_pmd_af_packet'', ''rte_pmd_ark'', ''rte_pmd_atlantic'', ''rte_pmd_avp'',
     ''rte_pmd_axgbe'', ''rte_pmd_bbdev_fpga_lte_fec'', ''rte_pmd_bbdev_null'',
     ''rte_pmd_bbdev_turbo_sw'', ''rte_pmd_bnxt'', ''rte_pmd_bond'', ''rte_pmd_caam_jr'',
     ''rte_pmd_crypto_scheduler'', ''rte_pmd_cxgbe'', ''rte_pmd_dpaa'', ''rte_pmd_dpaa2'',
     ''rte_pmd_dpaa2_event'', ''rte_pmd_dpaa2_sec'', ''rte_pmd_dpaa_event'',
     ''rte_pmd_dpaa_sec'', ''rte_pmd_dsw_event'', ''rte_pmd_e1000'', ''rte_pmd_ena'',
     ''rte_pmd_enetc'', ''rte_pmd_enic'', ''rte_pmd_failsafe'', ''rte_pmd_fm10k'',
     ''rte_pmd_hinic'', ''rte_pmd_hns3'', ''rte_pmd_i40e'', ''rte_pmd_iavf'', ''rte_pmd_ice'',
     ''rte_pmd_ifc'', ''rte_pmd_ixgbe'', ''rte_pmd_kni'', ''rte_pmd_liquidio'',
     ''rte_pmd_memif'', ''rte_pmd_netvsc'', ''rte_pmd_nfp'', ''rte_pmd_nitrox'',
     ''rte_pmd_null'', ''rte_pmd_null_crypto'', ''rte_pmd_octeontx'', ''rte_pmd_octeontx2'',
     ''rte_pmd_octeontx2_crypto'', ''rte_pmd_octeontx2_event'', ''rte_pmd_octeontx_compress'',
     ''rte_pmd_octeontx_crypto'', ''rte_pmd_octeontx_event'', ''rte_pmd_opdl_event'',
     ''rte_pmd_pcap'', ''rte_pmd_pfe'', ''rte_pmd_qat'', ''rte_pmd_qede'', ''rte_pmd_ring'',
     ''rte_pmd_sfc'', ''rte_pmd_skeleton_event'', ''rte_pmd_softnic'', ''rte_pmd_sw_event'',
     ''rte_pmd_tap'', ''rte_pmd_thunderx'', ''rte_pmd_vdev_netvsc'', ''rte_pmd_vhost'',
     ''rte_pmd_virtio'', ''rte_pmd_virtio_crypto'', ''rte_pmd_vmxnet3'']"

definition RTE_DEPS_LIBS :: "string list" where
  "RTE_DEPS_LIBS = [''numa'', ''pcap'']"

text \<open>The lines the script prints, in order.\<close>

definition link_line :: "string \<Rightarrow> string" where
  "link_line lib = ''cargo:rustc-link-lib=dylib='' @ lib"

definition build_output :: "string list" where
  "build_output = map link_line (RTE_CORE_LIBS @ RTE_PMD_LIBS @ RTE_DEPS_LIBS) @
     [''cargo:rerun-if-changed=build.rs'', ''cargo:rerun-if-changed=src/'',
      ''cargo:rustc-link-search=/usr/local/lib/x86_64-linux-gnu/'']"

section \<open>Facts\<close>

lemma link_line_inject [simp]: "link_line x = link_line y \<longleftrightarrow> x = y"
  by (simp add: link_line_def)

text \<open>The two lists of DPDK libraries are in alphabetical order, and a prefix tells them apart.\<close>

lemma core_sorted: "successively (<) RTE_CORE_LIBS"
  unfolding RTE_CORE_LIBS_def by code_simp

lemma pmd_sorted: "successively (<) RTE_PMD_LIBS"
  unfolding RTE_PMD_LIBS_def by code_simp

lemma sorted_distinct: "successively (<) (xs :: string list) \<Longrightarrow> distinct xs"
  by (simp add: successively_conv_sorted_wrt strict_sorted_iff)

lemma lib_prefixes:
  "\<forall>l \<in> set RTE_CORE_LIBS. take 4 l = ''rte_'' \<and> take 8 l \<noteq> ''rte_pmd_''"
  "\<forall>l \<in> set RTE_PMD_LIBS. take 8 l = ''rte_pmd_''"
  by (simp_all add: RTE_CORE_LIBS_def RTE_PMD_LIBS_def)

lemma libs_distinct: "distinct (RTE_CORE_LIBS @ RTE_PMD_LIBS @ RTE_DEPS_LIBS)"
proof -
  have "\<forall>l \<in> set RTE_PMD_LIBS. take 4 l = ''rte_''" by (simp add: RTE_PMD_LIBS_def)
  then show ?thesis
    using sorted_distinct [OF core_sorted] sorted_distinct [OF pmd_sorted] lib_prefixes
    by (auto simp: RTE_DEPS_LIBS_def)
qed

text \<open>The build script prints one link instruction for each library, none of them twice, and
  nothing else but the two rebuild triggers and the search path.\<close>

theorem build_links_each_library_once:
  "distinct build_output \<and> length build_output = 140 \<and>
   (link_line lib \<in> set build_output \<longleftrightarrow> lib \<in> set (RTE_CORE_LIBS @ RTE_PMD_LIBS @ RTE_DEPS_LIBS))"
proof -
  have "length (RTE_CORE_LIBS @ RTE_PMD_LIBS @ RTE_DEPS_LIBS) = 137"
    by (simp add: RTE_CORE_LIBS_def RTE_PMD_LIBS_def RTE_DEPS_LIBS_def)
  moreover have "distinct (map link_line (RTE_CORE_LIBS @ RTE_PMD_LIBS @ RTE_DEPS_LIBS))"
    using libs_distinct unfolding distinct_map by (simp add: inj_on_def)
  ultimately show ?thesis
    by (auto simp: build_output_def link_line_def)
qed

end
