(* ===== verification/ShimText.thy ===== *)
theory ShimText
  imports Net
begin

text \<open>
  The text of IPv4 addresses in \<^verbatim>\<open>dpdk-sys/src/shim.c\<close>: \<open>_pkt_parse_char_ip\<close> prints an address
  with \<open>snprintf\<close>, \<open>_pkt_parse_ip\<close> reads one with \<open>sscanf\<close>. Of the C library, the conversion \<open>%u\<close> is
  modelled in both directions; the macro \<open>RTE_IPV4\<close> of DPDK is a parameter. A C string is the list
  of the characters before the terminating null.
\<close>

section \<open>The conversion of unsigned numbers\<close>

definition NUL :: char where "NUL = char_of (0 :: nat)"

definition digit :: "nat \<Rightarrow> char" where
  "digit n = char_of (48 + n)"

definition is_digit :: "char \<Rightarrow> bool" where
  "is_digit c \<longleftrightarrow> 48 \<le> (of_char c :: nat) \<and> (of_char c :: nat) \<le> 57"

text \<open>\<open>isspace\<close>: blank, and the characters from horizontal tab to carriage return.\<close>

definition is_space :: "char \<Rightarrow> bool" where
  "is_space c \<longleftrightarrow> of_char c = (32 :: nat) \<or> 9 \<le> (of_char c :: nat) \<and> (of_char c :: nat) \<le> 13"

fun print_u :: "nat \<Rightarrow> string" where
  "print_u n = (if n < 10 then [digit n] else print_u (n div 10) @ [digit (n mod 10)])"

declare print_u.simps [simp del]

definition digits_value :: "string \<Rightarrow> nat" where
  "digits_value s = foldl (\<lambda>v c. 10 * v + (of_char c - 48)) 0 s"

text \<open>
  Scanning \<open>%u\<close> skips white space and matches digits after an optional sign. The result is the
  value, negative after a minus sign, and the rest of the input; no digit is a matching failure.
\<close>

definition scan_sign :: "string \<Rightarrow> bool \<times> string" where
  "scan_sign s = (case s of
       [] \<Rightarrow> (False, [])
     | c # t \<Rightarrow> if c = CHR ''-'' then (True, t) else if c = CHR ''+'' then (False, t) else (False, s))"

definition scan_u :: "string \<Rightarrow> (int \<times> string) option" where
  "scan_u s = (case scan_sign (dropWhile is_space s) of (neg, t) \<Rightarrow>
     let ds = takeWhile is_digit t; v = int (digits_value ds)
     in if ds = [] then None else Some (if neg then - v else v, dropWhile is_digit t))"

text \<open>
  \<open>sscanf\<close> with \<open>%u\<close> conversions separated by dots: the values converted until the first failure.
\<close>

fun scan_dotted :: "nat \<Rightarrow> string \<Rightarrow> int list" where
  "scan_dotted 0 s = []"
| "scan_dotted (Suc n) s = (case scan_u s of
     None \<Rightarrow> []
   | Some (v, t) \<Rightarrow> v # (case t of
       [] \<Rightarrow> []
     | c # t' \<Rightarrow> if c = CHR ''.'' then scan_dotted n t' else []))"

section \<open>The functions of the shim\<close>

text \<open>
  \<open>snprintf\<close> with a limit of 16 writes at most 15 characters and a null. A buffer that is too small
  for what is written is an overrun: the result is none.
\<close>

definition print_ip :: "u32 \<Rightarrow> string" where
  "print_ip ip_src =
     print_u (unat (drop_bit 24 ip_src AND 0xFF)) @ ''.'' @ print_u (unat (drop_bit 16 ip_src AND 0xFF)) @ ''.'' @
     print_u (unat (drop_bit 8 ip_src AND 0xFF)) @ ''.'' @ print_u (unat (ip_src AND 0xFF))"

definition pkt_parse_char_ip :: "string \<Rightarrow> u32 \<Rightarrow> string option" where
  "pkt_parse_char_ip ip_dest ip_src =
     (let out = take 15 (print_ip ip_src) @ [NUL]
      in if length out \<le> length ip_dest then Some (out @ drop (length out) ip_dest) else None)"

text \<open>The C string in a buffer.\<close>

definition c_string :: "string \<Rightarrow> string" where
  "c_string buf = takeWhile (\<lambda>c. c \<noteq> NUL) buf"

text \<open>
  \<open>_pkt_parse_ip\<close>: the return value and what \<open>*dest\<close> holds then; a pointer that may be \<open>NULL\<close> is an
  option. A number that an \<open>unsigned int\<close> cannot hold makes the behaviour of \<open>sscanf\<close> undefined:
  the result is none.
\<close>

definition fits_uint :: "int \<Rightarrow> bool" where
  "fits_uint v \<longleftrightarrow> \<bar>v\<bar> < 2 ^ 32"

definition pkt_parse_ip ::
  "(u32 \<Rightarrow> u32 \<Rightarrow> u32 \<Rightarrow> u32 \<Rightarrow> u32) \<Rightarrow> string option \<Rightarrow> u32 option \<Rightarrow> (int \<times> u32 option) option" where
  "pkt_parse_ip RTE_IPV4 ip_str dest =
     (if ip_str = None \<or> dest = None then Some (-1, dest)
      else let ip = scan_dotted 4 (the ip_str) in
        if \<not> list_all fits_uint ip then None
        else if length ip \<noteq> 4 then Some (-1, dest)
        else Some (0, Some (RTE_IPV4 (of_int (ip ! 0)) (of_int (ip ! 1)) (of_int (ip ! 2)) (of_int (ip ! 3)))))"

section \<open>Printing and scanning\<close>

lemma of_char_digit: "n < 10 \<Longrightarrow> of_char (digit n) = 48 + n"
  by (simp add: digit_def)

lemma is_digit_digit: "n < 10 \<Longrightarrow> is_digit (digit n)"
  by (simp add: is_digit_def of_char_digit)

lemma print_u_digits: "list_all is_digit (print_u n)"
  by (induction n rule: print_u.induct) (subst print_u.simps, simp add: is_digit_digit)

lemma print_u_not_Nil [simp]: "print_u n \<noteq> []"
  by (subst print_u.simps) simp

lemma digits_value_print_u: "digits_value (print_u n) = n"
proof (induction n rule: print_u.induct)
  case (1 n)
  then show ?case
    by (subst print_u.simps) (simp add: digits_value_def of_char_digit div_mult_mod_eq)
qed

lemma length_print_u: "n < 1000 \<Longrightarrow> length (print_u n) \<le> 3"
  by (subst print_u.simps, subst print_u.simps, subst print_u.simps) simp

lemma is_digit_other: "is_digit c \<Longrightarrow> \<not> is_space c \<and> c \<noteq> CHR ''-'' \<and> c \<noteq> CHR ''+'' \<and> c \<noteq> NUL"
  by (auto simp: is_digit_def is_space_def NUL_def)

lemma scan_u_print_u:
  assumes "case rest of [] \<Rightarrow> True | c # _ \<Rightarrow> \<not> is_digit c"
  shows "scan_u (print_u n @ rest) = Some (int n, rest)"
proof -
  obtain c cs where c: "print_u n = c # cs" by (cases "print_u n") auto
  then have "is_digit c" using print_u_digits [of n] by simp
  note d = is_digit_other [OF this]
  have "dropWhile is_space (print_u n @ rest) = print_u n @ rest" using c d by simp
  moreover have "scan_sign (print_u n @ rest) = (False, print_u n @ rest)" using c d by (simp add: scan_sign_def)
  moreover have "takeWhile is_digit rest = []" "dropWhile is_digit rest = rest"
    using assms by (cases rest; simp)+
  then have "takeWhile is_digit (print_u n @ rest) = print_u n" "dropWhile is_digit (print_u n @ rest) = rest"
    using print_u_digits [of n] by (simp_all add: list_all_iff)
  ultimately show ?thesis by (simp add: scan_u_def digits_value_print_u)
qed

lemma dot_not_digit: "\<not> is_digit CHR ''.''"
  by (simp add: is_digit_def)

lemma scan_dotted_print_ip:
  "scan_dotted 4 (print_ip w) =
   [int (unat (drop_bit 24 w AND 0xFF)), int (unat (drop_bit 16 w AND 0xFF)),
    int (unat (drop_bit 8 w AND 0xFF)), int (unat (w AND 0xFF))]"
  using scan_u_print_u [of "[]"]
  by (simp add: print_ip_def numeral_eq_Suc scan_u_print_u dot_not_digit)

lemma octet_less: "unat (x AND 0xFF :: u32) < 256"
proof -
  have "x AND 0xFF \<le> 0xFF" by (rule word_and_le1)
  then show ?thesis by (simp add: word_le_nat_alt)
qed

lemma length_print_octet: "length (print_u (unat (x AND 0xFF :: u32))) \<le> 3"
  using octet_less [of x] by (intro length_print_u) simp

lemma length_print_ip: "length (print_ip w) \<le> 15"
  using length_print_octet [of "drop_bit 24 w"] length_print_octet [of "drop_bit 16 w"]
    length_print_octet [of "drop_bit 8 w"] length_print_octet [of w]
  by (simp add: print_ip_def)

lemma NUL_not_dot: "NUL \<noteq> CHR ''.''"
proof -
  have "of_char NUL \<noteq> (of_char CHR ''.'' :: nat)" by (simp add: NUL_def)
  then show ?thesis by metis
qed

lemma print_ip_no_NUL: "NUL \<notin> set (print_ip w)"
proof -
  have "NUL \<notin> set (print_u n)" for n
    using print_u_digits [of n] is_digit_other by (auto simp: list_all_iff)
  then show ?thesis by (simp add: print_ip_def NUL_not_dot)
qed

lemma print_ip_stored:
  assumes "16 \<le> length buf"
  shows "\<exists>buf'. pkt_parse_char_ip buf w = Some buf' \<and> length buf' = length buf \<and> c_string buf' = print_ip w"
proof -
  have "takeWhile (\<lambda>c. c \<noteq> NUL) (print_ip w @ [NUL] @ rest) = print_ip w" for rest
    using print_ip_no_NUL by (subst takeWhile_append2) auto
  then show ?thesis
    using length_print_ip [of w] assms by (simp add: pkt_parse_char_ip_def Let_def c_string_def)
qed

lemma octets_compose:
  "push_bit 24 (drop_bit 24 ip AND 0xFF) OR push_bit 16 (drop_bit 16 ip AND 0xFF) OR
   push_bit 8 (drop_bit 8 ip AND 0xFF) OR (ip AND 0xFF) = (ip :: u32)"
proof -
  have m: "(0xFF :: u32) = mask 8" by (simp add: mask_eq_exp_minus_1)
  show ?thesis
    unfolding m
  proof (rule bit_word_eqI)
    fix n assume "n < LENGTH(32)"
    then show "bit (push_bit 24 (drop_bit 24 ip AND mask 8) OR push_bit 16 (drop_bit 16 ip AND mask 8) OR
        push_bit 8 (drop_bit 8 ip AND mask 8) OR (ip AND mask 8)) n = bit ip n"
      by (cases "n < 8"; cases "n < 16"; cases "n < 24") (auto simp: bit_simps)
  qed
qed

section \<open>Properties\<close>

text \<open>C35: Printing an address into a buffer of sixteen bytes or more never truncates the text nor
  overruns the buffer, and reading the text that stands there back gives the address again. About
  \<open>RTE_IPV4\<close> only its documented meaning is assumed: for four octets it is the word they make up,
  the first octet the most significant.\<close>

theorem ip_text_roundtrip:
  assumes "\<And>a b c d. a < 256 \<Longrightarrow> b < 256 \<Longrightarrow> c < 256 \<Longrightarrow> d < 256 \<Longrightarrow>
      RTE_IPV4 a b c d = push_bit 24 a OR push_bit 16 b OR push_bit 8 c OR d"
    and "16 \<le> length buf"
  shows "\<exists>buf'. pkt_parse_char_ip buf ip = Some buf' \<and> length buf' = length buf \<and>
     length (c_string buf') \<le> 15 \<and> pkt_parse_ip RTE_IPV4 (Some (c_string buf')) (Some old) = Some (0, Some ip)"
proof -
  let ?o = "\<lambda>k. drop_bit k ip AND 0xFF"
  have lt: "x AND 0xFF < 256" for x :: u32
    using octet_less [of x] by (simp add: word_less_nat_alt)
  have "push_bit 24 (?o 24) OR push_bit 16 (?o 16) OR push_bit 8 (?o 8) OR (ip AND 0xFF) = ip"
    by (rule octets_compose)
  then have "RTE_IPV4 (?o 24) (?o 16) (?o 8) (ip AND 0xFF) = ip"
    using assms(1) [OF lt lt lt lt] by simp
  moreover have "fits_uint (int (unat (x AND 0xFF :: u32)))" for x
    using octet_less [of x] by (simp add: fits_uint_def)
  ultimately have "pkt_parse_ip RTE_IPV4 (Some (print_ip ip)) (Some old) = Some (0, Some ip)"
    by (simp add: pkt_parse_ip_def scan_dotted_print_ip)
  with print_ip_stored [OF assms(2), of ip] length_print_ip [of ip] show ?thesis by auto
qed

theorem ip_text_roundtrip_witness:
  "\<exists>buf'. pkt_parse_char_ip (replicate 20 CHR ''x'') 0xC0A80A01 = Some buf' \<and> length buf' = 20 \<and>
     pkt_parse_ip (\<lambda>a b c d. push_bit 24 a OR push_bit 16 b OR push_bit 8 c OR d)
       (Some (c_string buf')) (Some 0) = Some (0, Some 0xC0A80A01)"
  using ip_text_roundtrip [OF refl, of "replicate 20 CHR ''x''" "0xC0A80A01" 0] by auto

lemma scan_dotted_4: "scan_dotted 4 s = scan_dotted (Suc (Suc (Suc (Suc 0)))) s"
  by (simp add: numeral_eq_Suc)

text \<open>Concrete texts: three numbers are refused, characters behind the fourth are not looked at.\<close>

lemma pkt_parse_ip_examples:
  "pkt_parse_ip R (Some ''10.0.1'') (Some old) = Some (-1, Some old)"
  "pkt_parse_ip R (Some '' 10.0.+1.7:80'') (Some old) = Some (0, Some (R 10 0 1 7))"
  "pkt_parse_ip R (Some ''10.0.1.4294967296'') (Some old) = None"
  "pkt_parse_ip R (Some ''x'') (Some old) = Some (-1, Some old)"
  by (simp_all add: pkt_parse_ip_def scan_u_def scan_sign_def is_space_def is_digit_def digits_value_def
      fits_uint_def scan_dotted_4)

end
