(* ===== verification/Bitfield.thy ===== *)
theory Bitfield
  imports Prelude
begin

text \<open>
  The packed bit fields of the DPDK bindings (\<open>dpdk-sys/src/bindings_rustdoc.rs\<close>):
  \<open>__BindgenBitfieldUnit\<close> over its byte storage and the accessors generated from it for the
  packet type and the transmit offload words of \<open>rte_mbuf\<close>. The locale \<open>bitfield\<close> is
  the contract between the unit and an accessor: a field that lies inside the storage.
  The flag \<open>oc\<close> is the build profile: the dev profile compiles in both \<open>debug_assert!\<close>
  and the overflow checks, the release profile neither.
\<close>

section \<open>The storage unit\<close>

text \<open>The storage of a unit; the zero-length \<open>align\<close> array holds no data.\<close>

type_synonym bitfield_unit = "u8 list"

definition new_unit :: "u8 list \<Rightarrow> bitfield_unit" where
  "new_unit storage = storage"

text \<open>\<open>Default::default()\<close> of a unit over \<open>[u8; n]\<close>.\<close>

definition default_unit :: "nat \<Rightarrow> bitfield_unit" where
  "default_unit n = new_unit (replicate n 0)"

definition debug_assert :: "bool \<Rightarrow> bool \<Rightarrow> ('s, unit) exec" where
  "debug_assert oc c = (if oc \<and> \<not> c then fail Assertion else ret ())"

definition byte_at :: "nat \<Rightarrow> (bitfield_unit, u8) exec" where
  "byte_at i = (\<lambda>st. if i < length st then Ret (st ! i) st else Fault IndexOutOfBounds st)"

text \<open>\<open>1 << i\<close> at 64 bits: the shift amount is checked, or taken modulo 64.\<close>

definition one_shl :: "bool \<Rightarrow> nat \<Rightarrow> ('s, u64) exec" where
  "one_shl oc i =
     (if i < 64 then ret (push_bit i 1)
      else if oc then fail Overflow else ret (push_bit (i mod 64) 1))"

definition get_bit :: "bool \<Rightarrow> usize \<Rightarrow> (bitfield_unit, bool) exec" where
  "get_bit oc index =
     bind (gets length) (\<lambda>n.
     bind (debug_assert oc (index div 8 < n)) (\<lambda>_.
     bind (byte_at (index div 8)) (\<lambda>byte.
     let mask = push_bit (index mod 8) 1 in
     ret (byte AND mask = mask))))"

definition set_bit :: "bool \<Rightarrow> usize \<Rightarrow> bool \<Rightarrow> (bitfield_unit, unit) exec" where
  "set_bit oc index val =
     bind (gets length) (\<lambda>n.
     bind (debug_assert oc (index div 8 < n)) (\<lambda>_.
     bind (byte_at (index div 8)) (\<lambda>byte.
     let mask = push_bit (index mod 8) 1 in
     modify (\<lambda>st. st[index div 8 := (if val then byte OR mask else byte AND NOT mask)]))))"

primrec get_loop :: "bool \<Rightarrow> usize \<Rightarrow> nat list \<Rightarrow> u64 \<Rightarrow> (bitfield_unit, u64) exec" where
  "get_loop oc bit_offset [] val = ret val"
| "get_loop oc bit_offset (i # is) val =
     bind (add_ck oc 64 i bit_offset) (\<lambda>k.
     bind (get_bit oc k) (\<lambda>b.
     if b then bind (one_shl oc i) (\<lambda>m. get_loop oc bit_offset is (val OR m))
     else get_loop oc bit_offset is val))"

definition check_field :: "bool \<Rightarrow> usize \<Rightarrow> u8 \<Rightarrow> (bitfield_unit, unit) exec" where
  "check_field oc bit_offset bit_width =
     bind (gets length) (\<lambda>n.
     bind (debug_assert oc (unat bit_width \<le> 64)) (\<lambda>_.
     bind (debug_assert oc (bit_offset div 8 < n)) (\<lambda>_.
     if oc then
       bind (add_ck oc 64 bit_offset (unat bit_width)) (\<lambda>e. debug_assert oc (e div 8 \<le> n))
     else ret ())))"

definition get_field :: "bool \<Rightarrow> usize \<Rightarrow> u8 \<Rightarrow> (bitfield_unit, u64) exec" where
  "get_field oc bit_offset bit_width =
     bind (check_field oc bit_offset bit_width) (\<lambda>_.
     get_loop oc bit_offset [0..<unat bit_width] 0)"

primrec set_loop :: "bool \<Rightarrow> usize \<Rightarrow> nat list \<Rightarrow> u64 \<Rightarrow> (bitfield_unit, unit) exec" where
  "set_loop oc bit_offset [] val = ret ()"
| "set_loop oc bit_offset (i # is) val =
     bind (one_shl oc i) (\<lambda>mask.
     bind (add_ck oc 64 i bit_offset) (\<lambda>k.
     bind (set_bit oc k (val AND mask = mask)) (\<lambda>_.
     set_loop oc bit_offset is val)))"

definition set_field :: "bool \<Rightarrow> usize \<Rightarrow> u8 \<Rightarrow> u64 \<Rightarrow> (bitfield_unit, unit) exec" where
  "set_field oc bit_offset bit_width val =
     bind (check_field oc bit_offset bit_width) (\<lambda>_.
     set_loop oc bit_offset [0..<unat bit_width] val)"

section \<open>What reading and writing bits means\<close>

definition unit_bit :: "bitfield_unit \<Rightarrow> nat \<Rightarrow> bool" where
  "unit_bit st k = bit (st ! (k div 8)) (k mod 8)"

definition put_bit :: "nat \<Rightarrow> bool \<Rightarrow> bitfield_unit \<Rightarrow> bitfield_unit" where
  "put_bit k v st = st[k div 8 :=
     (if v then st ! (k div 8) OR push_bit (k mod 8) 1
      else st ! (k div 8) AND NOT (push_bit (k mod 8) 1))]"

definition loaded :: "nat \<Rightarrow> nat \<Rightarrow> bitfield_unit \<Rightarrow> u64" where
  "loaded off w st = foldl (\<lambda>a i. if unit_bit st (i + off) then a OR push_bit i 1 else a) 0 [0..<w]"

definition stored :: "nat \<Rightarrow> nat \<Rightarrow> u64 \<Rightarrow> bitfield_unit \<Rightarrow> bitfield_unit" where
  "stored off w v st = foldl (\<lambda>st i. put_bit (i + off) (bit v i) st) st [0..<w]"

lemma mask_test: "i < LENGTH('a) \<Longrightarrow> ((x :: 'a::len word) AND 2 ^ i = 2 ^ i) = bit x i"
  by (auto simp: bit_and_iff bit_exp_iff intro: bit_word_eqI dest: arg_cong [where f = "\<lambda>y. bit y i"])

lemma length_put_bit [simp]: "length (put_bit k v st) = length st"
  by (simp add: put_bit_def)

lemma unit_bit_put_bit:
  assumes "k div 8 < length st"
  shows "unit_bit (put_bit k v st) j = (if j = k then v else unit_bit st j)"
proof (cases "j div 8 = k div 8")
  case True
  then have "j mod 8 = k mod 8 \<longleftrightarrow> j = k"
    by (metis div_mult_mod_eq)
  moreover have "j mod 8 < 8" by simp
  ultimately show ?thesis using assms True
    by (auto simp: unit_bit_def put_bit_def bit_or_iff bit_and_iff bit_not_iff bit_exp_iff)
next
  case False
  then show ?thesis by (auto simp: unit_bit_def put_bit_def)
qed

lemma get_bit_exec: "k div 8 < length st \<Longrightarrow> get_bit oc k st = Ret (unit_bit st k) st"
  by (simp add: get_bit_def debug_assert_def byte_at_def exec_simps unit_bit_def mask_test Let_def)

lemma set_bit_exec: "k div 8 < length st \<Longrightarrow> set_bit oc k v st = Ret () (put_bit k v st)"
  by (simp add: set_bit_def debug_assert_def byte_at_def exec_simps put_bit_def)

lemma stored_Suc: "stored off (Suc w) v st = put_bit (w + off) (bit v w) (stored off w v st)"
  by (simp add: stored_def)

lemma loaded_Suc:
  "loaded off (Suc w) st = (if unit_bit st (w + off) then loaded off w st OR push_bit w 1 else loaded off w st)"
  by (simp add: loaded_def)

lemma length_stored [simp]: "length (stored off w v st) = length st"
  by (induction w) (simp_all add: stored_Suc, simp add: stored_def)

lemma unit_bit_stored:
  "off + w \<le> 8 * length st \<Longrightarrow>
   unit_bit (stored off w v st) j = (if off \<le> j \<and> j < off + w then bit v (j - off) else unit_bit st j)"
proof (induction w)
  case 0
  then show ?case by (auto simp: stored_def)
next
  case (Suc w)
  then show ?case
    by (auto simp: stored_Suc unit_bit_put_bit less_Suc_eq)
qed

lemma bit_loaded: "bit (loaded off w st) i \<longleftrightarrow> i < 64 \<and> i < w \<and> unit_bit st (i + off)"
proof (induction w)
  case 0
  then show ?case by (simp add: loaded_def)
next
  case (Suc w)
  then show ?case
    by (auto simp: loaded_Suc bit_or_iff bit_exp_iff less_Suc_eq)
qed

text \<open>Reading a field back after writing it, and after writing a disjoint one.\<close>

lemma loaded_stored_same:
  "off + w \<le> 8 * length st \<Longrightarrow> loaded off w (stored off w v st) = take_bit w v"
  by (rule bit_word_eqI) (auto simp: bit_loaded unit_bit_stored bit_take_bit_iff)

lemma loaded_stored_disjoint:
  "off' + w' \<le> 8 * length st \<Longrightarrow> off + w \<le> off' \<or> off' + w' \<le> off \<Longrightarrow>
   loaded off w (stored off' w' v st) = loaded off w st"
  by (rule bit_word_eqI) (auto simp: bit_loaded unit_bit_stored)

lemma get_loop_append:
  "get_loop oc off (xs @ ys) a = bind (get_loop oc off xs a) (get_loop oc off ys)"
  by (induction xs arbitrary: a) (simp_all add: bind_assoc if_distrib [where f = "\<lambda>m. bind m k" for k] cong: if_cong)

lemma set_loop_append:
  "set_loop oc off (xs @ ys) v = bind (set_loop oc off xs v) (\<lambda>_. set_loop oc off ys v)"
  by (induction xs) (auto simp: bind_assoc)

lemma get_loop_exec:
  "w \<le> 64 \<Longrightarrow> off + w \<le> 8 * length st \<Longrightarrow> 8 * length st < 2 ^ 64 \<Longrightarrow>
   get_loop oc off [0..<w] 0 st = Ret (loaded off w st) st"
proof (induction w)
  case 0
  then show ?case by (simp add: loaded_def exec_simps)
next
  case (Suc w)
  then show ?case
    by (simp add: get_loop_append loaded_Suc add_ck_fits get_bit_exec one_shl_def exec_simps)
qed

lemma set_loop_exec:
  "w \<le> 64 \<Longrightarrow> off + w \<le> 8 * length st \<Longrightarrow> 8 * length st < 2 ^ 64 \<Longrightarrow>
   set_loop oc off [0..<w] v st = Ret () (stored off w v st)"
proof (induction w)
  case 0
  then show ?case by (simp add: stored_def exec_simps)
next
  case (Suc w)
  then show ?case
    by (simp add: set_loop_append stored_Suc add_ck_fits set_bit_exec one_shl_def exec_simps mask_test [where 'a = 64])
qed

section \<open>The contract of an accessor\<close>

text \<open>
  A field of \<open>w\<close> bits at bit \<open>off\<close> of a unit of \<open>n\<close> bytes. Inside such a field
  no assertion, index or overflow check of the unit fires, in either profile.
\<close>

locale bitfield =
  fixes off :: usize and w :: u8 and n :: nat
  assumes width: "0 < unat w" "unat w \<le> 64"
    and inside: "off + unat w \<le> 8 * n"
    and small: "8 * n < 2 ^ 64"
begin

lemma check_exec:
  assumes "length st = n"
  shows "check_field oc off w st = Ret () st"
proof -
  have "off div 8 < n" "(off + unat w) div 8 \<le> n" "off + unat w < 2 ^ 64"
    using width inside small by linarith+
  then show ?thesis using assms width
    by (simp add: check_field_def debug_assert_def add_ck_fits exec_simps)
qed

lemma get_exec: "length st = n \<Longrightarrow> get_field oc off w st = Ret (loaded off (unat w) st) st"
  using width inside small
  by (simp add: get_field_def check_exec bind_Ret get_loop_exec)

lemma set_exec: "length st = n \<Longrightarrow> set_field oc off w v st = Ret () (stored off (unat w) v st)"
  using width inside small
  by (simp add: set_field_def check_exec bind_Ret set_loop_exec)

lemma get_after_set:
  "length st = n \<Longrightarrow>
   bind (set_field oc off w v) (\<lambda>_. get_field oc off w) st =
   Ret (take_bit (unat w) v) (stored off (unat w) v st)"
  using inside by (simp add: set_exec get_exec bind_Ret loaded_stored_same)

end

section \<open>The generated accessors of rte_mbuf\<close>

text \<open>
  The getters read a field at 64 bits and cast it to the field's declared type, the setters
  extend the value to 64 bits; both casts are \<open>ucast\<close>. A constructor starts from the zeroed
  unit and stores its arguments in order; the unit it returns is the final state of its run.
\<close>

text \<open>The fields of \<open>rte_mbuf__bindgen_ty_6__bindgen_ty_1\<close>.\<close>

definition l2_len :: "bool \<Rightarrow> (bitfield_unit, u64) exec" where
  "l2_len oc = get_field oc 0 7"

definition set_l2_len :: "bool \<Rightarrow> u64 \<Rightarrow> (bitfield_unit, unit) exec" where
  "set_l2_len oc val = set_field oc 0 7 val"

definition l3_len :: "bool \<Rightarrow> (bitfield_unit, u64) exec" where
  "l3_len oc = get_field oc 7 9"

definition set_l3_len :: "bool \<Rightarrow> u64 \<Rightarrow> (bitfield_unit, unit) exec" where
  "set_l3_len oc val = set_field oc 7 9 val"

definition l4_len :: "bool \<Rightarrow> (bitfield_unit, u64) exec" where
  "l4_len oc = get_field oc 16 8"

definition set_l4_len :: "bool \<Rightarrow> u64 \<Rightarrow> (bitfield_unit, unit) exec" where
  "set_l4_len oc val = set_field oc 16 8 val"

definition tso_segsz :: "bool \<Rightarrow> (bitfield_unit, u64) exec" where
  "tso_segsz oc = get_field oc 24 16"

definition set_tso_segsz :: "bool \<Rightarrow> u64 \<Rightarrow> (bitfield_unit, unit) exec" where
  "set_tso_segsz oc val = set_field oc 24 16 val"

definition outer_l3_len :: "bool \<Rightarrow> (bitfield_unit, u64) exec" where
  "outer_l3_len oc = get_field oc 40 9"

definition set_outer_l3_len :: "bool \<Rightarrow> u64 \<Rightarrow> (bitfield_unit, unit) exec" where
  "set_outer_l3_len oc val = set_field oc 40 9 val"

definition outer_l2_len :: "bool \<Rightarrow> (bitfield_unit, u64) exec" where
  "outer_l2_len oc = get_field oc 49 7"

definition set_outer_l2_len :: "bool \<Rightarrow> u64 \<Rightarrow> (bitfield_unit, unit) exec" where
  "set_outer_l2_len oc val = set_field oc 49 7 val"

definition new_tx_offload ::
  "bool \<Rightarrow> u64 \<Rightarrow> u64 \<Rightarrow> u64 \<Rightarrow> u64 \<Rightarrow> u64 \<Rightarrow> u64 \<Rightarrow> (unit, bitfield_unit) outcome" where
  "new_tx_offload oc l2_len_v l3_len_v l4_len_v tso_segsz_v outer_l3_len_v outer_l2_len_v =
    (bind (set_field oc 0 7 l2_len_v) (\<lambda>_.
       bind (set_field oc 7 9 l3_len_v) (\<lambda>_.
       bind (set_field oc 16 8 l4_len_v) (\<lambda>_.
       bind (set_field oc 24 16 tso_segsz_v) (\<lambda>_.
       bind (set_field oc 40 9 outer_l3_len_v) (\<lambda>_.
       bind (set_field oc 49 7 outer_l2_len_v) (\<lambda>_.
       ret ()))))))) (default_unit 8)"

text \<open>The fields of \<open>rte_mbuf__bindgen_ty_3__bindgen_ty_1\<close>.\<close>

definition l2_type :: "bool \<Rightarrow> (bitfield_unit, u32) exec" where
  "l2_type oc = bind (get_field oc 0 4) (\<lambda>v. ret (ucast v))"

definition set_l2_type :: "bool \<Rightarrow> u32 \<Rightarrow> (bitfield_unit, unit) exec" where
  "set_l2_type oc val = set_field oc 0 4 (ucast val)"

definition l3_type :: "bool \<Rightarrow> (bitfield_unit, u32) exec" where
  "l3_type oc = bind (get_field oc 4 4) (\<lambda>v. ret (ucast v))"

definition set_l3_type :: "bool \<Rightarrow> u32 \<Rightarrow> (bitfield_unit, unit) exec" where
  "set_l3_type oc val = set_field oc 4 4 (ucast val)"

definition l4_type :: "bool \<Rightarrow> (bitfield_unit, u32) exec" where
  "l4_type oc = bind (get_field oc 8 4) (\<lambda>v. ret (ucast v))"

definition set_l4_type :: "bool \<Rightarrow> u32 \<Rightarrow> (bitfield_unit, unit) exec" where
  "set_l4_type oc val = set_field oc 8 4 (ucast val)"

definition tun_type :: "bool \<Rightarrow> (bitfield_unit, u32) exec" where
  "tun_type oc = bind (get_field oc 12 4) (\<lambda>v. ret (ucast v))"

definition set_tun_type :: "bool \<Rightarrow> u32 \<Rightarrow> (bitfield_unit, unit) exec" where
  "set_tun_type oc val = set_field oc 12 4 (ucast val)"

definition new_packet_type ::
  "bool \<Rightarrow> u32 \<Rightarrow> u32 \<Rightarrow> u32 \<Rightarrow> u32 \<Rightarrow> (unit, bitfield_unit) outcome" where
  "new_packet_type oc l2_type_v l3_type_v l4_type_v tun_type_v =
    (bind (set_field oc 0 4 (ucast l2_type_v)) (\<lambda>_.
       bind (set_field oc 4 4 (ucast l3_type_v)) (\<lambda>_.
       bind (set_field oc 8 4 (ucast l4_type_v)) (\<lambda>_.
       bind (set_field oc 12 4 (ucast tun_type_v)) (\<lambda>_.
       ret ()))))) (default_unit 2)"

text \<open>The fields of \<open>rte_mbuf__bindgen_ty_3__bindgen_ty_1__bindgen_ty_1__bindgen_ty_1\<close>.\<close>

definition inner_l2_type :: "bool \<Rightarrow> (bitfield_unit, u8) exec" where
  "inner_l2_type oc = bind (get_field oc 0 4) (\<lambda>v. ret (ucast v))"

definition set_inner_l2_type :: "bool \<Rightarrow> u8 \<Rightarrow> (bitfield_unit, unit) exec" where
  "set_inner_l2_type oc val = set_field oc 0 4 (ucast val)"

definition inner_l3_type :: "bool \<Rightarrow> (bitfield_unit, u8) exec" where
  "inner_l3_type oc = bind (get_field oc 4 4) (\<lambda>v. ret (ucast v))"

definition set_inner_l3_type :: "bool \<Rightarrow> u8 \<Rightarrow> (bitfield_unit, unit) exec" where
  "set_inner_l3_type oc val = set_field oc 4 4 (ucast val)"

definition new_inner_type ::
  "bool \<Rightarrow> u8 \<Rightarrow> u8 \<Rightarrow> (unit, bitfield_unit) outcome" where
  "new_inner_type oc inner_l2_type_v inner_l3_type_v =
    (bind (set_field oc 0 4 (ucast inner_l2_type_v)) (\<lambda>_.
       bind (set_field oc 4 4 (ucast inner_l3_type_v)) (\<lambda>_.
       ret ()))) (default_unit 1)"

text \<open>The remaining field, \<open>inner_l4_type\<close>, has a one-byte unit of its own.\<close>

definition inner_l4_type :: "bool \<Rightarrow> (bitfield_unit, u32) exec" where
  "inner_l4_type oc = bind (get_field oc 0 4) (\<lambda>v. ret (ucast v))"

definition set_inner_l4_type :: "bool \<Rightarrow> u32 \<Rightarrow> (bitfield_unit, unit) exec" where
  "set_inner_l4_type oc val = set_field oc 0 4 (ucast val)"

text \<open>Every accessor meets the contract of the unit it works on.\<close>

interpretation f_l2_len: bitfield 0 7 8
  by unfold_locales simp_all

interpretation f_l3_len: bitfield 7 9 8
  by unfold_locales simp_all

interpretation f_l4_len: bitfield 16 8 8
  by unfold_locales simp_all

interpretation f_tso_segsz: bitfield 24 16 8
  by unfold_locales simp_all

interpretation f_outer_l3_len: bitfield 40 9 8
  by unfold_locales simp_all

interpretation f_outer_l2_len: bitfield 49 7 8
  by unfold_locales simp_all

interpretation f_l2_type: bitfield 0 4 2
  by unfold_locales simp_all

interpretation f_l3_type: bitfield 4 4 2
  by unfold_locales simp_all

interpretation f_l4_type: bitfield 8 4 2
  by unfold_locales simp_all

interpretation f_tun_type: bitfield 12 4 2
  by unfold_locales simp_all

interpretation f_inner_l2_type: bitfield 0 4 1
  by unfold_locales simp_all

interpretation f_inner_l3_type: bitfield 4 4 1
  by unfold_locales simp_all

interpretation f_inner_l4_type: bitfield 0 4 1
  by unfold_locales simp_all

lemmas field_execs =
  f_l2_len.get_exec f_l2_len.set_exec
  f_l3_len.get_exec f_l3_len.set_exec
  f_l4_len.get_exec f_l4_len.set_exec
  f_tso_segsz.get_exec f_tso_segsz.set_exec
  f_outer_l3_len.get_exec f_outer_l3_len.set_exec
  f_outer_l2_len.get_exec f_outer_l2_len.set_exec
  f_l2_type.get_exec f_l2_type.set_exec
  f_l3_type.get_exec f_l3_type.set_exec
  f_l4_type.get_exec f_l4_type.set_exec
  f_tun_type.get_exec f_tun_type.set_exec
  f_inner_l2_type.get_exec f_inner_l2_type.set_exec
  f_inner_l3_type.get_exec f_inner_l3_type.set_exec

lemma length_default_unit [simp]: "length (default_unit n) = n"
  by (simp add: default_unit_def new_unit_def)

text \<open>
  C34: The transmit offload word of a packet buffer. Building it from six lengths and reading
  each of them back gives every length truncated to its field (7, 9, 8, 16, 9 and 7 bits): the
  six fields of the eight-byte unit are disjoint, and no check of the unit fires.
\<close>

theorem tx_offload_roundtrip:
  "\<exists>st. new_tx_offload oc a b c d e f = Ret () st \<and> length st = 8 \<and>
     l2_len oc st = Ret (take_bit 7 a) st \<and> l3_len oc st = Ret (take_bit 9 b) st \<and>
     l4_len oc st = Ret (take_bit 8 c) st \<and> tso_segsz oc st = Ret (take_bit 16 d) st \<and>
     outer_l3_len oc st = Ret (take_bit 9 e) st \<and> outer_l2_len oc st = Ret (take_bit 7 f) st"
  by (simp add: new_tx_offload_def l2_len_def l3_len_def l4_len_def tso_segsz_def outer_l3_len_def
      outer_l2_len_def field_execs exec_simps loaded_stored_same loaded_stored_disjoint)

text \<open>
  A write to a bit field touches nothing else. Whatever the unit held, storing \<open>v\<close> in a
  field inside the storage succeeds in both build profiles, the field then reads as \<open>v\<close>
  truncated to its width, and every disjoint field of the unit reads as before.
\<close>

theorem set_field_frame:
  assumes "bitfield off w (length st)" and "bitfield off' w' (length st)"
    and "off + unat w \<le> off' \<or> off' + unat w' \<le> off"
  shows "\<exists>st'. set_field oc off w v st = Ret () st' \<and> length st' = length st \<and>
     get_field oc off w st' = Ret (take_bit (unat w) v) st' \<and>
     (\<exists>x. get_field oc off' w' st = Ret x st \<and> get_field oc off' w' st' = Ret x st')"
  using assms bitfield.inside [OF assms(1)]
  by (simp add: bitfield.set_exec bitfield.get_exec loaded_stored_same loaded_stored_disjoint disj_commute)

theorem set_field_frame_witness:
  "\<exists>st'. set_field True 7 9 0xfff [1, 2, 3] = Ret () st' \<and> length st' = 3 \<and>
     get_field True 7 9 st' = Ret 0x1ff st' \<and>
     (\<exists>x. get_field True 16 8 [1, 2, 3] = Ret x [1, 2, 3] \<and> get_field True 16 8 st' = Ret x st')"
  using set_field_frame [of 7 9 "[1, 2, 3]" 16 8 True "0xfff"]
  by (simp add: bitfield_def take_bit_eq_mod numeral_3_eq_3)

end
