(* ===== verification/Bitfield_Dev.thy ===== *)
theory Bitfield_Dev
  imports Bitfield
begin

text \<open>
  The generated bit-field accessors of the Ethernet device types of
  \<open>dpdk-sys/src/bindings_rustdoc.rs\<close>: the link state, the transmit mode and the interrupt
  configuration of a port, and the flags of its shared data. Each of these types keeps its
  one-bit fields in a unit of one byte. The accessors are written as in \<open>Bitfield\<close>.
\<close>

section \<open>rte_eth_link\<close>

definition link_duplex :: "bool \<Rightarrow> (bitfield_unit, u16) exec" where
  "link_duplex oc = bind (get_field oc 0 1) (\<lambda>v. ret (ucast v))"

definition set_link_duplex :: "bool \<Rightarrow> u16 \<Rightarrow> (bitfield_unit, unit) exec" where
  "set_link_duplex oc val = set_field oc 0 1 (ucast val)"

definition link_autoneg :: "bool \<Rightarrow> (bitfield_unit, u16) exec" where
  "link_autoneg oc = bind (get_field oc 1 1) (\<lambda>v. ret (ucast v))"

definition set_link_autoneg :: "bool \<Rightarrow> u16 \<Rightarrow> (bitfield_unit, unit) exec" where
  "set_link_autoneg oc val = set_field oc 1 1 (ucast val)"

definition link_status :: "bool \<Rightarrow> (bitfield_unit, u16) exec" where
  "link_status oc = bind (get_field oc 2 1) (\<lambda>v. ret (ucast v))"

definition set_link_status :: "bool \<Rightarrow> u16 \<Rightarrow> (bitfield_unit, unit) exec" where
  "set_link_status oc val = set_field oc 2 1 (ucast val)"

definition new_eth_link ::
  "bool \<Rightarrow> u16 \<Rightarrow> u16 \<Rightarrow> u16 \<Rightarrow> (unit, bitfield_unit) outcome" where
  "new_eth_link oc link_duplex_v link_autoneg_v link_status_v =
    (bind (set_field oc 0 1 (ucast link_duplex_v)) (\<lambda>_.
       bind (set_field oc 1 1 (ucast link_autoneg_v)) (\<lambda>_.
       bind (set_field oc 2 1 (ucast link_status_v)) (\<lambda>_.
       ret ())))) (default_unit 1)"

section \<open>rte_eth_txmode\<close>

definition hw_vlan_reject_tagged :: "bool \<Rightarrow> (bitfield_unit, u8) exec" where
  "hw_vlan_reject_tagged oc = bind (get_field oc 0 1) (\<lambda>v. ret (ucast v))"

definition set_hw_vlan_reject_tagged :: "bool \<Rightarrow> u8 \<Rightarrow> (bitfield_unit, unit) exec" where
  "set_hw_vlan_reject_tagged oc val = set_field oc 0 1 (ucast val)"

definition hw_vlan_reject_untagged :: "bool \<Rightarrow> (bitfield_unit, u8) exec" where
  "hw_vlan_reject_untagged oc = bind (get_field oc 1 1) (\<lambda>v. ret (ucast v))"

definition set_hw_vlan_reject_untagged :: "bool \<Rightarrow> u8 \<Rightarrow> (bitfield_unit, unit) exec" where
  "set_hw_vlan_reject_untagged oc val = set_field oc 1 1 (ucast val)"

definition hw_vlan_insert_pvid :: "bool \<Rightarrow> (bitfield_unit, u8) exec" where
  "hw_vlan_insert_pvid oc = bind (get_field oc 2 1) (\<lambda>v. ret (ucast v))"

definition set_hw_vlan_insert_pvid :: "bool \<Rightarrow> u8 \<Rightarrow> (bitfield_unit, unit) exec" where
  "set_hw_vlan_insert_pvid oc val = set_field oc 2 1 (ucast val)"

definition new_txmode ::
  "bool \<Rightarrow> u8 \<Rightarrow> u8 \<Rightarrow> u8 \<Rightarrow> (unit, bitfield_unit) outcome" where
  "new_txmode oc hw_vlan_reject_tagged_v hw_vlan_reject_untagged_v hw_vlan_insert_pvid_v =
    (bind (set_field oc 0 1 (ucast hw_vlan_reject_tagged_v)) (\<lambda>_.
       bind (set_field oc 1 1 (ucast hw_vlan_reject_untagged_v)) (\<lambda>_.
       bind (set_field oc 2 1 (ucast hw_vlan_insert_pvid_v)) (\<lambda>_.
       ret ())))) (default_unit 1)"

section \<open>rte_intr_conf\<close>

definition lsc :: "bool \<Rightarrow> (bitfield_unit, u32) exec" where
  "lsc oc = bind (get_field oc 0 1) (\<lambda>v. ret (ucast v))"

definition set_lsc :: "bool \<Rightarrow> u32 \<Rightarrow> (bitfield_unit, unit) exec" where
  "set_lsc oc val = set_field oc 0 1 (ucast val)"

definition rxq :: "bool \<Rightarrow> (bitfield_unit, u32) exec" where
  "rxq oc = bind (get_field oc 1 1) (\<lambda>v. ret (ucast v))"

definition set_rxq :: "bool \<Rightarrow> u32 \<Rightarrow> (bitfield_unit, unit) exec" where
  "set_rxq oc val = set_field oc 1 1 (ucast val)"

definition rmv :: "bool \<Rightarrow> (bitfield_unit, u32) exec" where
  "rmv oc = bind (get_field oc 2 1) (\<lambda>v. ret (ucast v))"

definition set_rmv :: "bool \<Rightarrow> u32 \<Rightarrow> (bitfield_unit, unit) exec" where
  "set_rmv oc val = set_field oc 2 1 (ucast val)"

definition new_intr_conf ::
  "bool \<Rightarrow> u32 \<Rightarrow> u32 \<Rightarrow> u32 \<Rightarrow> (unit, bitfield_unit) outcome" where
  "new_intr_conf oc lsc_v rxq_v rmv_v =
    (bind (set_field oc 0 1 (ucast lsc_v)) (\<lambda>_.
       bind (set_field oc 1 1 (ucast rxq_v)) (\<lambda>_.
       bind (set_field oc 2 1 (ucast rmv_v)) (\<lambda>_.
       ret ())))) (default_unit 1)"

section \<open>rte_eth_dev_data\<close>

definition promiscuous :: "bool \<Rightarrow> (bitfield_unit, u8) exec" where
  "promiscuous oc = bind (get_field oc 0 1) (\<lambda>v. ret (ucast v))"

definition set_promiscuous :: "bool \<Rightarrow> u8 \<Rightarrow> (bitfield_unit, unit) exec" where
  "set_promiscuous oc val = set_field oc 0 1 (ucast val)"

definition scattered_rx :: "bool \<Rightarrow> (bitfield_unit, u8) exec" where
  "scattered_rx oc = bind (get_field oc 1 1) (\<lambda>v. ret (ucast v))"

definition set_scattered_rx :: "bool \<Rightarrow> u8 \<Rightarrow> (bitfield_unit, unit) exec" where
  "set_scattered_rx oc val = set_field oc 1 1 (ucast val)"

definition all_multicast :: "bool \<Rightarrow> (bitfield_unit, u8) exec" where
  "all_multicast oc = bind (get_field oc 2 1) (\<lambda>v. ret (ucast v))"

definition set_all_multicast :: "bool \<Rightarrow> u8 \<Rightarrow> (bitfield_unit, unit) exec" where
  "set_all_multicast oc val = set_field oc 2 1 (ucast val)"

definition dev_started :: "bool \<Rightarrow> (bitfield_unit, u8) exec" where
  "dev_started oc = bind (get_field oc 3 1) (\<lambda>v. ret (ucast v))"

definition set_dev_started :: "bool \<Rightarrow> u8 \<Rightarrow> (bitfield_unit, unit) exec" where
  "set_dev_started oc val = set_field oc 3 1 (ucast val)"

definition lro :: "bool \<Rightarrow> (bitfield_unit, u8) exec" where
  "lro oc = bind (get_field oc 4 1) (\<lambda>v. ret (ucast v))"

definition set_lro :: "bool \<Rightarrow> u8 \<Rightarrow> (bitfield_unit, unit) exec" where
  "set_lro oc val = set_field oc 4 1 (ucast val)"

definition new_eth_dev_data ::
  "bool \<Rightarrow> u8 \<Rightarrow> u8 \<Rightarrow> u8 \<Rightarrow> u8 \<Rightarrow> u8 \<Rightarrow> (unit, bitfield_unit) outcome" where
  "new_eth_dev_data oc promiscuous_v scattered_rx_v all_multicast_v dev_started_v lro_v =
    (bind (set_field oc 0 1 (ucast promiscuous_v)) (\<lambda>_.
       bind (set_field oc 1 1 (ucast scattered_rx_v)) (\<lambda>_.
       bind (set_field oc 2 1 (ucast all_multicast_v)) (\<lambda>_.
       bind (set_field oc 3 1 (ucast dev_started_v)) (\<lambda>_.
       bind (set_field oc 4 1 (ucast lro_v)) (\<lambda>_.
       ret ())))))) (default_unit 1)"

section \<open>The accessors meet the contract of their unit\<close>

interpretation flag0: bitfield 0 1 1
  by unfold_locales simp_all

interpretation flag1: bitfield 1 1 1
  by unfold_locales simp_all

interpretation flag2: bitfield 2 1 1
  by unfold_locales simp_all

interpretation flag3: bitfield 3 1 1
  by unfold_locales simp_all

interpretation flag4: bitfield 4 1 1
  by unfold_locales simp_all

lemmas flag_execs =
  flag0.get_exec flag0.set_exec
  flag1.get_exec flag1.set_exec
  flag2.get_exec flag2.set_exec
  flag3.get_exec flag3.set_exec
  flag4.get_exec flag4.set_exec

lemma flag_cast [simp]: "(ucast (take_bit 1 (ucast (x :: 'a::len word) :: u64)) :: 'a word) = x mod 2"
proof -
  have "bit (ucast (take_bit 1 (ucast x :: u64)) :: 'a word) i \<longleftrightarrow> bit (take_bit 1 x) i" for i
    by (auto simp only: bit_take_bit_iff bit_ucast_iff)
  then show ?thesis by (simp add: bit_eq_iff take_bit_eq_mod)
qed

text \<open>
  Building the unit of \<open>rte_eth_link\<close> from its fields and reading them back gives the lowest bit
  of each argument; the other bits of a value are dropped without an error.
\<close>

theorem eth_link_roundtrip:
  "\<exists>st. new_eth_link oc x0 x1 x2 = Ret () st \<and> length st = 1 \<and>
     link_duplex oc st = Ret (x0 mod 2) st \<and>
     link_autoneg oc st = Ret (x1 mod 2) st \<and>
     link_status oc st = Ret (x2 mod 2) st"
  by (simp add: new_eth_link_def link_duplex_def link_autoneg_def link_status_def
      flag_execs exec_simps loaded_stored_same loaded_stored_disjoint del: One_nat_def)

text \<open>
  Building the unit of \<open>rte_eth_txmode\<close> from its fields and reading them back gives the lowest bit
  of each argument; the other bits of a value are dropped without an error.
\<close>

theorem txmode_roundtrip:
  "\<exists>st. new_txmode oc x0 x1 x2 = Ret () st \<and> length st = 1 \<and>
     hw_vlan_reject_tagged oc st = Ret (x0 mod 2) st \<and>
     hw_vlan_reject_untagged oc st = Ret (x1 mod 2) st \<and>
     hw_vlan_insert_pvid oc st = Ret (x2 mod 2) st"
  by (simp add: new_txmode_def hw_vlan_reject_tagged_def hw_vlan_reject_untagged_def hw_vlan_insert_pvid_def
      flag_execs exec_simps loaded_stored_same loaded_stored_disjoint del: One_nat_def)

text \<open>
  Building the unit of \<open>rte_intr_conf\<close> from its fields and reading them back gives the lowest bit
  of each argument; the other bits of a value are dropped without an error.
\<close>

theorem intr_conf_roundtrip:
  "\<exists>st. new_intr_conf oc x0 x1 x2 = Ret () st \<and> length st = 1 \<and>
     lsc oc st = Ret (x0 mod 2) st \<and>
     rxq oc st = Ret (x1 mod 2) st \<and>
     rmv oc st = Ret (x2 mod 2) st"
  by (simp add: new_intr_conf_def lsc_def rxq_def rmv_def
      flag_execs exec_simps loaded_stored_same loaded_stored_disjoint del: One_nat_def)

text \<open>
  Building the unit of \<open>rte_eth_dev_data\<close> from its fields and reading them back gives the lowest bit
  of each argument; the other bits of a value are dropped without an error.
\<close>

theorem eth_dev_data_roundtrip:
  "\<exists>st. new_eth_dev_data oc x0 x1 x2 x3 x4 = Ret () st \<and> length st = 1 \<and>
     promiscuous oc st = Ret (x0 mod 2) st \<and>
     scattered_rx oc st = Ret (x1 mod 2) st \<and>
     all_multicast oc st = Ret (x2 mod 2) st \<and>
     dev_started oc st = Ret (x3 mod 2) st \<and>
     lro oc st = Ret (x4 mod 2) st"
  by (simp add: new_eth_dev_data_def promiscuous_def scattered_rx_def all_multicast_def dev_started_def lro_def
      flag_execs exec_simps loaded_stored_same loaded_stored_disjoint del: One_nat_def)

text \<open>
  Setting one flag of the shared device data keeps the other four, whatever the byte held:
  \<open>dev_started\<close>, the flag that a start and a stop of the port write, stands for all.
\<close>

theorem set_dev_started_frame:
  assumes "length st = 1"
  shows "\<exists>st'. set_dev_started oc val st = Ret () st' \<and> length st' = 1 \<and>
     dev_started oc st' = Ret (val mod 2) st' \<and>
     (\<forall>get \<in> {promiscuous, scattered_rx, all_multicast, lro}.
        \<exists>x. get oc st = Ret x st \<and> get oc st' = Ret x st')"
  using assms
  by (simp add: set_dev_started_def dev_started_def promiscuous_def scattered_rx_def all_multicast_def
      lro_def flag_execs exec_simps loaded_stored_same loaded_stored_disjoint del: One_nat_def)

end
