(* ===== verification/Bitfield_Flow.thy ===== *)
theory Bitfield_Flow
  imports Bitfield
begin

text \<open>
  The generated bit-field accessors of the other types of \<open>dpdk-sys/src/bindings_rustdoc.rs\<close>: the
  HiGig2 headers, the attributes, items and actions of flow rules, and the KNI configuration. They
  are written as in \<open>Bitfield\<close>; each name is that of the accessor after that of its type.
\<close>

lemma field_cast [simp]:
  assumes "LENGTH('a) \<le> 64"
  shows "(ucast (take_bit w (ucast (x :: 'a::len word) :: u64)) :: 'a word) = take_bit w x"
  by (rule bit_word_eqI) (use assms in \<open>auto simp: bit_take_bit_iff bit_ucast_iff\<close>)

section \<open>rte_higig2_frc\<close>

definition rte_higig2_frc_ksop :: "bool \<Rightarrow> (bitfield_unit, u32) exec" where
  "rte_higig2_frc_ksop oc = bind (get_field oc 0 8) (\<lambda>v. ret (ucast v))"

definition set_rte_higig2_frc_ksop :: "bool \<Rightarrow> u32 \<Rightarrow> (bitfield_unit, unit) exec" where
  "set_rte_higig2_frc_ksop oc val = set_field oc 0 8 (ucast val)"

definition rte_higig2_frc_tc :: "bool \<Rightarrow> (bitfield_unit, u32) exec" where
  "rte_higig2_frc_tc oc = bind (get_field oc 8 4) (\<lambda>v. ret (ucast v))"

definition set_rte_higig2_frc_tc :: "bool \<Rightarrow> u32 \<Rightarrow> (bitfield_unit, unit) exec" where
  "set_rte_higig2_frc_tc oc val = set_field oc 8 4 (ucast val)"

definition rte_higig2_frc_mcst :: "bool \<Rightarrow> (bitfield_unit, u32) exec" where
  "rte_higig2_frc_mcst oc = bind (get_field oc 12 1) (\<lambda>v. ret (ucast v))"

definition set_rte_higig2_frc_mcst :: "bool \<Rightarrow> u32 \<Rightarrow> (bitfield_unit, unit) exec" where
  "set_rte_higig2_frc_mcst oc val = set_field oc 12 1 (ucast val)"

definition rte_higig2_frc_resv :: "bool \<Rightarrow> (bitfield_unit, u32) exec" where
  "rte_higig2_frc_resv oc = bind (get_field oc 13 3) (\<lambda>v. ret (ucast v))"

definition set_rte_higig2_frc_resv :: "bool \<Rightarrow> u32 \<Rightarrow> (bitfield_unit, unit) exec" where
  "set_rte_higig2_frc_resv oc val = set_field oc 13 3 (ucast val)"

definition rte_higig2_frc_dst_modid :: "bool \<Rightarrow> (bitfield_unit, u32) exec" where
  "rte_higig2_frc_dst_modid oc = bind (get_field oc 16 8) (\<lambda>v. ret (ucast v))"

definition set_rte_higig2_frc_dst_modid :: "bool \<Rightarrow> u32 \<Rightarrow> (bitfield_unit, unit) exec" where
  "set_rte_higig2_frc_dst_modid oc val = set_field oc 16 8 (ucast val)"

definition rte_higig2_frc_dst_pid :: "bool \<Rightarrow> (bitfield_unit, u32) exec" where
  "rte_higig2_frc_dst_pid oc = bind (get_field oc 24 8) (\<lambda>v. ret (ucast v))"

definition set_rte_higig2_frc_dst_pid :: "bool \<Rightarrow> u32 \<Rightarrow> (bitfield_unit, unit) exec" where
  "set_rte_higig2_frc_dst_pid oc val = set_field oc 24 8 (ucast val)"

definition rte_higig2_frc_src_modid :: "bool \<Rightarrow> (bitfield_unit, u32) exec" where
  "rte_higig2_frc_src_modid oc = bind (get_field oc 32 8) (\<lambda>v. ret (ucast v))"

definition set_rte_higig2_frc_src_modid :: "bool \<Rightarrow> u32 \<Rightarrow> (bitfield_unit, unit) exec" where
  "set_rte_higig2_frc_src_modid oc val = set_field oc 32 8 (ucast val)"

definition rte_higig2_frc_src_pid :: "bool \<Rightarrow> (bitfield_unit, u32) exec" where
  "rte_higig2_frc_src_pid oc = bind (get_field oc 40 8) (\<lambda>v. ret (ucast v))"

definition set_rte_higig2_frc_src_pid :: "bool \<Rightarrow> u32 \<Rightarrow> (bitfield_unit, unit) exec" where
  "set_rte_higig2_frc_src_pid oc val = set_field oc 40 8 (ucast val)"

definition rte_higig2_frc_lbid :: "bool \<Rightarrow> (bitfield_unit, u32) exec" where
  "rte_higig2_frc_lbid oc = bind (get_field oc 48 8) (\<lambda>v. ret (ucast v))"

definition set_rte_higig2_frc_lbid :: "bool \<Rightarrow> u32 \<Rightarrow> (bitfield_unit, unit) exec" where
  "set_rte_higig2_frc_lbid oc val = set_field oc 48 8 (ucast val)"

definition rte_higig2_frc_ppd_type :: "bool \<Rightarrow> (bitfield_unit, u32) exec" where
  "rte_higig2_frc_ppd_type oc = bind (get_field oc 56 3) (\<lambda>v. ret (ucast v))"

definition set_rte_higig2_frc_ppd_type :: "bool \<Rightarrow> u32 \<Rightarrow> (bitfield_unit, unit) exec" where
  "set_rte_higig2_frc_ppd_type oc val = set_field oc 56 3 (ucast val)"

definition rte_higig2_frc_resv1 :: "bool \<Rightarrow> (bitfield_unit, u32) exec" where
  "rte_higig2_frc_resv1 oc = bind (get_field oc 59 3) (\<lambda>v. ret (ucast v))"

definition set_rte_higig2_frc_resv1 :: "bool \<Rightarrow> u32 \<Rightarrow> (bitfield_unit, unit) exec" where
  "set_rte_higig2_frc_resv1 oc val = set_field oc 59 3 (ucast val)"

definition rte_higig2_frc_dp :: "bool \<Rightarrow> (bitfield_unit, u32) exec" where
  "rte_higig2_frc_dp oc = bind (get_field oc 62 2) (\<lambda>v. ret (ucast v))"

definition set_rte_higig2_frc_dp :: "bool \<Rightarrow> u32 \<Rightarrow> (bitfield_unit, unit) exec" where
  "set_rte_higig2_frc_dp oc val = set_field oc 62 2 (ucast val)"

definition new_rte_higig2_frc ::
  "bool \<Rightarrow> u32 \<Rightarrow> u32 \<Rightarrow> u32 \<Rightarrow> u32 \<Rightarrow> u32 \<Rightarrow> u32 \<Rightarrow> u32 \<Rightarrow> u32 \<Rightarrow> u32 \<Rightarrow> u32 \<Rightarrow> u32 \<Rightarrow> u32 \<Rightarrow>
   (unit, bitfield_unit) outcome" where
  "new_rte_higig2_frc oc
     ksop_v tc_v mcst_v resv_v dst_modid_v dst_pid_v src_modid_v src_pid_v lbid_v ppd_type_v resv1_v dp_v =
    (bind (set_field oc 0 8 (ucast ksop_v)) (\<lambda>_.
       bind (set_field oc 8 4 (ucast tc_v)) (\<lambda>_.
       bind (set_field oc 12 1 (ucast mcst_v)) (\<lambda>_.
       bind (set_field oc 13 3 (ucast resv_v)) (\<lambda>_.
       bind (set_field oc 16 8 (ucast dst_modid_v)) (\<lambda>_.
       bind (set_field oc 24 8 (ucast dst_pid_v)) (\<lambda>_.
       bind (set_field oc 32 8 (ucast src_modid_v)) (\<lambda>_.
       bind (set_field oc 40 8 (ucast src_pid_v)) (\<lambda>_.
       bind (set_field oc 48 8 (ucast lbid_v)) (\<lambda>_.
       bind (set_field oc 56 3 (ucast ppd_type_v)) (\<lambda>_.
       bind (set_field oc 59 3 (ucast resv1_v)) (\<lambda>_.
       bind (set_field oc 62 2 (ucast dp_v)) (\<lambda>_.
       ret ()))))))))))))) (default_unit 8)"

section \<open>rte_higig2_ppt_type0\<close>

definition rte_higig2_ppt_type0_mirror :: "bool \<Rightarrow> (bitfield_unit, u32) exec" where
  "rte_higig2_ppt_type0_mirror oc = bind (get_field oc 0 1) (\<lambda>v. ret (ucast v))"

definition set_rte_higig2_ppt_type0_mirror :: "bool \<Rightarrow> u32 \<Rightarrow> (bitfield_unit, unit) exec" where
  "set_rte_higig2_ppt_type0_mirror oc val = set_field oc 0 1 (ucast val)"

definition rte_higig2_ppt_type0_mirror_done :: "bool \<Rightarrow> (bitfield_unit, u32) exec" where
  "rte_higig2_ppt_type0_mirror_done oc = bind (get_field oc 1 1) (\<lambda>v. ret (ucast v))"

definition set_rte_higig2_ppt_type0_mirror_done :: "bool \<Rightarrow> u32 \<Rightarrow> (bitfield_unit, unit) exec" where
  "set_rte_higig2_ppt_type0_mirror_done oc val = set_field oc 1 1 (ucast val)"

definition rte_higig2_ppt_type0_mirror_only :: "bool \<Rightarrow> (bitfield_unit, u32) exec" where
  "rte_higig2_ppt_type0_mirror_only oc = bind (get_field oc 2 1) (\<lambda>v. ret (ucast v))"

definition set_rte_higig2_ppt_type0_mirror_only :: "bool \<Rightarrow> u32 \<Rightarrow> (bitfield_unit, unit) exec" where
  "set_rte_higig2_ppt_type0_mirror_only oc val = set_field oc 2 1 (ucast val)"

definition rte_higig2_ppt_type0_ingress_tagged :: "bool \<Rightarrow> (bitfield_unit, u32) exec" where
  "rte_higig2_ppt_type0_ingress_tagged oc = bind (get_field oc 3 1) (\<lambda>v. ret (ucast v))"

definition set_rte_higig2_ppt_type0_ingress_tagged :: "bool \<Rightarrow> u32 \<Rightarrow> (bitfield_unit, unit) exec" where
  "set_rte_higig2_ppt_type0_ingress_tagged oc val = set_field oc 3 1 (ucast val)"

definition rte_higig2_ppt_type0_dst_tgid :: "bool \<Rightarrow> (bitfield_unit, u32) exec" where
  "rte_higig2_ppt_type0_dst_tgid oc = bind (get_field oc 4 3) (\<lambda>v. ret (ucast v))"

definition set_rte_higig2_ppt_type0_dst_tgid :: "bool \<Rightarrow> u32 \<Rightarrow> (bitfield_unit, unit) exec" where
  "set_rte_higig2_ppt_type0_dst_tgid oc val = set_field oc 4 3 (ucast val)"

definition rte_higig2_ppt_type0_dst_t :: "bool \<Rightarrow> (bitfield_unit, u32) exec" where
  "rte_higig2_ppt_type0_dst_t oc = bind (get_field oc 7 1) (\<lambda>v. ret (ucast v))"

definition set_rte_higig2_ppt_type0_dst_t :: "bool \<Rightarrow> u32 \<Rightarrow> (bitfield_unit, unit) exec" where
  "set_rte_higig2_ppt_type0_dst_t oc val = set_field oc 7 1 (ucast val)"

definition rte_higig2_ppt_type0_vc_label2 :: "bool \<Rightarrow> (bitfield_unit, u32) exec" where
  "rte_higig2_ppt_type0_vc_label2 oc = bind (get_field oc 8 4) (\<lambda>v. ret (ucast v))"

definition set_rte_higig2_ppt_type0_vc_label2 :: "bool \<Rightarrow> u32 \<Rightarrow> (bitfield_unit, unit) exec" where
  "set_rte_higig2_ppt_type0_vc_label2 oc val = set_field oc 8 4 (ucast val)"

definition rte_higig2_ppt_type0_label_present :: "bool \<Rightarrow> (bitfield_unit, u32) exec" where
  "rte_higig2_ppt_type0_label_present oc = bind (get_field oc 12 1) (\<lambda>v. ret (ucast v))"

definition set_rte_higig2_ppt_type0_label_present :: "bool \<Rightarrow> u32 \<Rightarrow> (bitfield_unit, unit) exec" where
  "set_rte_higig2_ppt_type0_label_present oc val = set_field oc 12 1 (ucast val)"

definition rte_higig2_ppt_type0_l3 :: "bool \<Rightarrow> (bitfield_unit, u32) exec" where
  "rte_higig2_ppt_type0_l3 oc = bind (get_field oc 13 1) (\<lambda>v. ret (ucast v))"

definition set_rte_higig2_ppt_type0_l3 :: "bool \<Rightarrow> u32 \<Rightarrow> (bitfield_unit, unit) exec" where
  "set_rte_higig2_ppt_type0_l3 oc val = set_field oc 13 1 (ucast val)"

definition rte_higig2_ppt_type0_res :: "bool \<Rightarrow> (bitfield_unit, u32) exec" where
  "rte_higig2_ppt_type0_res oc = bind (get_field oc 14 2) (\<lambda>v. ret (ucast v))"

definition set_rte_higig2_ppt_type0_res :: "bool \<Rightarrow> u32 \<Rightarrow> (bitfield_unit, unit) exec" where
  "set_rte_higig2_ppt_type0_res oc val = set_field oc 14 2 (ucast val)"

definition rte_higig2_ppt_type0_vc_label1 :: "bool \<Rightarrow> (bitfield_unit, u32) exec" where
  "rte_higig2_ppt_type0_vc_label1 oc = bind (get_field oc 16 8) (\<lambda>v. ret (ucast v))"

definition set_rte_higig2_ppt_type0_vc_label1 :: "bool \<Rightarrow> u32 \<Rightarrow> (bitfield_unit, unit) exec" where
  "set_rte_higig2_ppt_type0_vc_label1 oc val = set_field oc 16 8 (ucast val)"

definition rte_higig2_ppt_type0_vc_label0 :: "bool \<Rightarrow> (bitfield_unit, u32) exec" where
  "rte_higig2_ppt_type0_vc_label0 oc = bind (get_field oc 24 8) (\<lambda>v. ret (ucast v))"

definition set_rte_higig2_ppt_type0_vc_label0 :: "bool \<Rightarrow> u32 \<Rightarrow> (bitfield_unit, unit) exec" where
  "set_rte_higig2_ppt_type0_vc_label0 oc val = set_field oc 24 8 (ucast val)"

definition rte_higig2_ppt_type0_vid_high :: "bool \<Rightarrow> (bitfield_unit, u32) exec" where
  "rte_higig2_ppt_type0_vid_high oc = bind (get_field oc 32 8) (\<lambda>v. ret (ucast v))"

definition set_rte_higig2_ppt_type0_vid_high :: "bool \<Rightarrow> u32 \<Rightarrow> (bitfield_unit, unit) exec" where
  "set_rte_higig2_ppt_type0_vid_high oc val = set_field oc 32 8 (ucast val)"

definition rte_higig2_ppt_type0_vid_low :: "bool \<Rightarrow> (bitfield_unit, u32) exec" where
  "rte_higig2_ppt_type0_vid_low oc = bind (get_field oc 40 8) (\<lambda>v. ret (ucast v))"

definition set_rte_higig2_ppt_type0_vid_low :: "bool \<Rightarrow> u32 \<Rightarrow> (bitfield_unit, unit) exec" where
  "set_rte_higig2_ppt_type0_vid_low oc val = set_field oc 40 8 (ucast val)"

definition rte_higig2_ppt_type0_opc :: "bool \<Rightarrow> (bitfield_unit, u32) exec" where
  "rte_higig2_ppt_type0_opc oc = bind (get_field oc 48 3) (\<lambda>v. ret (ucast v))"

definition set_rte_higig2_ppt_type0_opc :: "bool \<Rightarrow> u32 \<Rightarrow> (bitfield_unit, unit) exec" where
  "set_rte_higig2_ppt_type0_opc oc val = set_field oc 48 3 (ucast val)"

definition rte_higig2_ppt_type0_res1 :: "bool \<Rightarrow> (bitfield_unit, u32) exec" where
  "rte_higig2_ppt_type0_res1 oc = bind (get_field oc 51 2) (\<lambda>v. ret (ucast v))"

definition set_rte_higig2_ppt_type0_res1 :: "bool \<Rightarrow> u32 \<Rightarrow> (bitfield_unit, unit) exec" where
  "set_rte_higig2_ppt_type0_res1 oc val = set_field oc 51 2 (ucast val)"

definition rte_higig2_ppt_type0_srce_t :: "bool \<Rightarrow> (bitfield_unit, u32) exec" where
  "rte_higig2_ppt_type0_srce_t oc = bind (get_field oc 53 1) (\<lambda>v. ret (ucast v))"

definition set_rte_higig2_ppt_type0_srce_t :: "bool \<Rightarrow> u32 \<Rightarrow> (bitfield_unit, unit) exec" where
  "set_rte_higig2_ppt_type0_srce_t oc val = set_field oc 53 1 (ucast val)"

definition rte_higig2_ppt_type0_pf :: "bool \<Rightarrow> (bitfield_unit, u32) exec" where
  "rte_higig2_ppt_type0_pf oc = bind (get_field oc 54 2) (\<lambda>v. ret (ucast v))"

definition set_rte_higig2_ppt_type0_pf :: "bool \<Rightarrow> u32 \<Rightarrow> (bitfield_unit, unit) exec" where
  "set_rte_higig2_ppt_type0_pf oc val = set_field oc 54 2 (ucast val)"

definition rte_higig2_ppt_type0_res2 :: "bool \<Rightarrow> (bitfield_unit, u32) exec" where
  "rte_higig2_ppt_type0_res2 oc = bind (get_field oc 56 5) (\<lambda>v. ret (ucast v))"

definition set_rte_higig2_ppt_type0_res2 :: "bool \<Rightarrow> u32 \<Rightarrow> (bitfield_unit, unit) exec" where
  "set_rte_higig2_ppt_type0_res2 oc val = set_field oc 56 5 (ucast val)"

definition rte_higig2_ppt_type0_hdr_ext_length :: "bool \<Rightarrow> (bitfield_unit, u32) exec" where
  "rte_higig2_ppt_type0_hdr_ext_length oc = bind (get_field oc 61 3) (\<lambda>v. ret (ucast v))"

definition set_rte_higig2_ppt_type0_hdr_ext_length :: "bool \<Rightarrow> u32 \<Rightarrow> (bitfield_unit, unit) exec" where
  "set_rte_higig2_ppt_type0_hdr_ext_length oc val = set_field oc 61 3 (ucast val)"

definition new_rte_higig2_ppt_type0 ::
  "bool \<Rightarrow> u32 \<Rightarrow> u32 \<Rightarrow> u32 \<Rightarrow> u32 \<Rightarrow> u32 \<Rightarrow> u32 \<Rightarrow> u32 \<Rightarrow> u32 \<Rightarrow> u32 \<Rightarrow> u32 \<Rightarrow> u32 \<Rightarrow> u32 \<Rightarrow> u32 \<Rightarrow> u32 \<Rightarrow> u32 \<Rightarrow> u32 \<Rightarrow> u32 \<Rightarrow> u32 \<Rightarrow> u32 \<Rightarrow> u32 \<Rightarrow>
   (unit, bitfield_unit) outcome" where
  "new_rte_higig2_ppt_type0 oc
     mirror_v mirror_done_v mirror_only_v ingress_tagged_v dst_tgid_v dst_t_v vc_label2_v label_present_v l3_v res_v vc_label1_v vc_label0_v vid_high_v vid_low_v opc_v res1_v srce_t_v pf_v res2_v hdr_ext_length_v =
    (bind (set_field oc 0 1 (ucast mirror_v)) (\<lambda>_.
       bind (set_field oc 1 1 (ucast mirror_done_v)) (\<lambda>_.
       bind (set_field oc 2 1 (ucast mirror_only_v)) (\<lambda>_.
       bind (set_field oc 3 1 (ucast ingress_tagged_v)) (\<lambda>_.
       bind (set_field oc 4 3 (ucast dst_tgid_v)) (\<lambda>_.
       bind (set_field oc 7 1 (ucast dst_t_v)) (\<lambda>_.
       bind (set_field oc 8 4 (ucast vc_label2_v)) (\<lambda>_.
       bind (set_field oc 12 1 (ucast label_present_v)) (\<lambda>_.
       bind (set_field oc 13 1 (ucast l3_v)) (\<lambda>_.
       bind (set_field oc 14 2 (ucast res_v)) (\<lambda>_.
       bind (set_field oc 16 8 (ucast vc_label1_v)) (\<lambda>_.
       bind (set_field oc 24 8 (ucast vc_label0_v)) (\<lambda>_.
       bind (set_field oc 32 8 (ucast vid_high_v)) (\<lambda>_.
       bind (set_field oc 40 8 (ucast vid_low_v)) (\<lambda>_.
       bind (set_field oc 48 3 (ucast opc_v)) (\<lambda>_.
       bind (set_field oc 51 2 (ucast res1_v)) (\<lambda>_.
       bind (set_field oc 53 1 (ucast srce_t_v)) (\<lambda>_.
       bind (set_field oc 54 2 (ucast pf_v)) (\<lambda>_.
       bind (set_field oc 56 5 (ucast res2_v)) (\<lambda>_.
       bind (set_field oc 61 3 (ucast hdr_ext_length_v)) (\<lambda>_.
       ret ()))))))))))))))))))))) (default_unit 8)"

section \<open>rte_higig2_ppt_type1\<close>

definition rte_higig2_ppt_type1_opcode :: "bool \<Rightarrow> (bitfield_unit, u16) exec" where
  "rte_higig2_ppt_type1_opcode oc = bind (get_field oc 0 3) (\<lambda>v. ret (ucast v))"

definition set_rte_higig2_ppt_type1_opcode :: "bool \<Rightarrow> u16 \<Rightarrow> (bitfield_unit, unit) exec" where
  "set_rte_higig2_ppt_type1_opcode oc val = set_field oc 0 3 (ucast val)"

definition rte_higig2_ppt_type1_resv1 :: "bool \<Rightarrow> (bitfield_unit, u16) exec" where
  "rte_higig2_ppt_type1_resv1 oc = bind (get_field oc 3 2) (\<lambda>v. ret (ucast v))"

definition set_rte_higig2_ppt_type1_resv1 :: "bool \<Rightarrow> u16 \<Rightarrow> (bitfield_unit, unit) exec" where
  "set_rte_higig2_ppt_type1_resv1 oc val = set_field oc 3 2 (ucast val)"

definition rte_higig2_ppt_type1_src_t :: "bool \<Rightarrow> (bitfield_unit, u16) exec" where
  "rte_higig2_ppt_type1_src_t oc = bind (get_field oc 5 1) (\<lambda>v. ret (ucast v))"

definition set_rte_higig2_ppt_type1_src_t :: "bool \<Rightarrow> u16 \<Rightarrow> (bitfield_unit, unit) exec" where
  "set_rte_higig2_ppt_type1_src_t oc val = set_field oc 5 1 (ucast val)"

definition rte_higig2_ppt_type1_pfm :: "bool \<Rightarrow> (bitfield_unit, u16) exec" where
  "rte_higig2_ppt_type1_pfm oc = bind (get_field oc 6 2) (\<lambda>v. ret (ucast v))"

definition set_rte_higig2_ppt_type1_pfm :: "bool \<Rightarrow> u16 \<Rightarrow> (bitfield_unit, unit) exec" where
  "set_rte_higig2_ppt_type1_pfm oc val = set_field oc 6 2 (ucast val)"

definition rte_higig2_ppt_type1_resv2 :: "bool \<Rightarrow> (bitfield_unit, u16) exec" where
  "rte_higig2_ppt_type1_resv2 oc = bind (get_field oc 8 5) (\<lambda>v. ret (ucast v))"

definition set_rte_higig2_ppt_type1_resv2 :: "bool \<Rightarrow> u16 \<Rightarrow> (bitfield_unit, unit) exec" where
  "set_rte_higig2_ppt_type1_resv2 oc val = set_field oc 8 5 (ucast val)"

definition rte_higig2_ppt_type1_hdr_ext_len :: "bool \<Rightarrow> (bitfield_unit, u16) exec" where
  "rte_higig2_ppt_type1_hdr_ext_len oc = bind (get_field oc 13 3) (\<lambda>v. ret (ucast v))"

definition set_rte_higig2_ppt_type1_hdr_ext_len :: "bool \<Rightarrow> u16 \<Rightarrow> (bitfield_unit, unit) exec" where
  "set_rte_higig2_ppt_type1_hdr_ext_len oc val = set_field oc 13 3 (ucast val)"

definition new_rte_higig2_ppt_type1 ::
  "bool \<Rightarrow> u16 \<Rightarrow> u16 \<Rightarrow> u16 \<Rightarrow> u16 \<Rightarrow> u16 \<Rightarrow> u16 \<Rightarrow>
   (unit, bitfield_unit) outcome" where
  "new_rte_higig2_ppt_type1 oc opcode_v resv1_v src_t_v pfm_v resv2_v hdr_ext_len_v =
    (bind (set_field oc 0 3 (ucast opcode_v)) (\<lambda>_.
       bind (set_field oc 3 2 (ucast resv1_v)) (\<lambda>_.
       bind (set_field oc 5 1 (ucast src_t_v)) (\<lambda>_.
       bind (set_field oc 6 2 (ucast pfm_v)) (\<lambda>_.
       bind (set_field oc 8 5 (ucast resv2_v)) (\<lambda>_.
       bind (set_field oc 13 3 (ucast hdr_ext_len_v)) (\<lambda>_.
       ret ()))))))) (default_unit 2)"

section \<open>rte_flow_attr\<close>

definition rte_flow_attr_ingress :: "bool \<Rightarrow> (bitfield_unit, u32) exec" where
  "rte_flow_attr_ingress oc = bind (get_field oc 0 1) (\<lambda>v. ret (ucast v))"

definition set_rte_flow_attr_ingress :: "bool \<Rightarrow> u32 \<Rightarrow> (bitfield_unit, unit) exec" where
  "set_rte_flow_attr_ingress oc val = set_field oc 0 1 (ucast val)"

definition rte_flow_attr_egress :: "bool \<Rightarrow> (bitfield_unit, u32) exec" where
  "rte_flow_attr_egress oc = bind (get_field oc 1 1) (\<lambda>v. ret (ucast v))"

definition set_rte_flow_attr_egress :: "bool \<Rightarrow> u32 \<Rightarrow> (bitfield_unit, unit) exec" where
  "set_rte_flow_attr_egress oc val = set_field oc 1 1 (ucast val)"

definition rte_flow_attr_transfer :: "bool \<Rightarrow> (bitfield_unit, u32) exec" where
  "rte_flow_attr_transfer oc = bind (get_field oc 2 1) (\<lambda>v. ret (ucast v))"

definition set_rte_flow_attr_transfer :: "bool \<Rightarrow> u32 \<Rightarrow> (bitfield_unit, unit) exec" where
  "set_rte_flow_attr_transfer oc val = set_field oc 2 1 (ucast val)"

definition rte_flow_attr_reserved :: "bool \<Rightarrow> (bitfield_unit, u32) exec" where
  "rte_flow_attr_reserved oc = bind (get_field oc 3 29) (\<lambda>v. ret (ucast v))"

definition set_rte_flow_attr_reserved :: "bool \<Rightarrow> u32 \<Rightarrow> (bitfield_unit, unit) exec" where
  "set_rte_flow_attr_reserved oc val = set_field oc 3 29 (ucast val)"

definition new_rte_flow_attr ::
  "bool \<Rightarrow> u32 \<Rightarrow> u32 \<Rightarrow> u32 \<Rightarrow> u32 \<Rightarrow>
   (unit, bitfield_unit) outcome" where
  "new_rte_flow_attr oc ingress_v egress_v transfer_v reserved_v =
    (bind (set_field oc 0 1 (ucast ingress_v)) (\<lambda>_.
       bind (set_field oc 1 1 (ucast egress_v)) (\<lambda>_.
       bind (set_field oc 2 1 (ucast transfer_v)) (\<lambda>_.
       bind (set_field oc 3 29 (ucast reserved_v)) (\<lambda>_.
       ret ()))))) (default_unit 4)"

section \<open>rte_flow_item_raw\<close>

definition rte_flow_item_raw_relative :: "bool \<Rightarrow> (bitfield_unit, u32) exec" where
  "rte_flow_item_raw_relative oc = bind (get_field oc 0 1) (\<lambda>v. ret (ucast v))"

definition set_rte_flow_item_raw_relative :: "bool \<Rightarrow> u32 \<Rightarrow> (bitfield_unit, unit) exec" where
  "set_rte_flow_item_raw_relative oc val = set_field oc 0 1 (ucast val)"

definition rte_flow_item_raw_search :: "bool \<Rightarrow> (bitfield_unit, u32) exec" where
  "rte_flow_item_raw_search oc = bind (get_field oc 1 1) (\<lambda>v. ret (ucast v))"

definition set_rte_flow_item_raw_search :: "bool \<Rightarrow> u32 \<Rightarrow> (bitfield_unit, unit) exec" where
  "set_rte_flow_item_raw_search oc val = set_field oc 1 1 (ucast val)"

definition rte_flow_item_raw_reserved :: "bool \<Rightarrow> (bitfield_unit, u32) exec" where
  "rte_flow_item_raw_reserved oc = bind (get_field oc 2 30) (\<lambda>v. ret (ucast v))"

definition set_rte_flow_item_raw_reserved :: "bool \<Rightarrow> u32 \<Rightarrow> (bitfield_unit, unit) exec" where
  "set_rte_flow_item_raw_reserved oc val = set_field oc 2 30 (ucast val)"

definition new_rte_flow_item_raw ::
  "bool \<Rightarrow> u32 \<Rightarrow> u32 \<Rightarrow> u32 \<Rightarrow>
   (unit, bitfield_unit) outcome" where
  "new_rte_flow_item_raw oc relative_v search_v reserved_v =
    (bind (set_field oc 0 1 (ucast relative_v)) (\<lambda>_.
       bind (set_field oc 1 1 (ucast search_v)) (\<lambda>_.
       bind (set_field oc 2 30 (ucast reserved_v)) (\<lambda>_.
       ret ())))) (default_unit 4)"

section \<open>rte_flow_item_nsh\<close>

definition rte_flow_item_nsh_version :: "bool \<Rightarrow> (bitfield_unit, u32) exec" where
  "rte_flow_item_nsh_version oc = bind (get_field oc 0 2) (\<lambda>v. ret (ucast v))"

definition set_rte_flow_item_nsh_version :: "bool \<Rightarrow> u32 \<Rightarrow> (bitfield_unit, unit) exec" where
  "set_rte_flow_item_nsh_version oc val = set_field oc 0 2 (ucast val)"

definition rte_flow_item_nsh_oam_pkt :: "bool \<Rightarrow> (bitfield_unit, u32) exec" where
  "rte_flow_item_nsh_oam_pkt oc = bind (get_field oc 2 1) (\<lambda>v. ret (ucast v))"

definition set_rte_flow_item_nsh_oam_pkt :: "bool \<Rightarrow> u32 \<Rightarrow> (bitfield_unit, unit) exec" where
  "set_rte_flow_item_nsh_oam_pkt oc val = set_field oc 2 1 (ucast val)"

definition rte_flow_item_nsh_reserved :: "bool \<Rightarrow> (bitfield_unit, u32) exec" where
  "rte_flow_item_nsh_reserved oc = bind (get_field oc 3 1) (\<lambda>v. ret (ucast v))"

definition set_rte_flow_item_nsh_reserved :: "bool \<Rightarrow> u32 \<Rightarrow> (bitfield_unit, unit) exec" where
  "set_rte_flow_item_nsh_reserved oc val = set_field oc 3 1 (ucast val)"

definition rte_flow_item_nsh_ttl :: "bool \<Rightarrow> (bitfield_unit, u32) exec" where
  "rte_flow_item_nsh_ttl oc = bind (get_field oc 4 6) (\<lambda>v. ret (ucast v))"

definition set_rte_flow_item_nsh_ttl :: "bool \<Rightarrow> u32 \<Rightarrow> (bitfield_unit, unit) exec" where
  "set_rte_flow_item_nsh_ttl oc val = set_field oc 4 6 (ucast val)"

definition rte_flow_item_nsh_length :: "bool \<Rightarrow> (bitfield_unit, u32) exec" where
  "rte_flow_item_nsh_length oc = bind (get_field oc 10 6) (\<lambda>v. ret (ucast v))"

definition set_rte_flow_item_nsh_length :: "bool \<Rightarrow> u32 \<Rightarrow> (bitfield_unit, unit) exec" where
  "set_rte_flow_item_nsh_length oc val = set_field oc 10 6 (ucast val)"

definition rte_flow_item_nsh_reserved1 :: "bool \<Rightarrow> (bitfield_unit, u32) exec" where
  "rte_flow_item_nsh_reserved1 oc = bind (get_field oc 16 4) (\<lambda>v. ret (ucast v))"

definition set_rte_flow_item_nsh_reserved1 :: "bool \<Rightarrow> u32 \<Rightarrow> (bitfield_unit, unit) exec" where
  "set_rte_flow_item_nsh_reserved1 oc val = set_field oc 16 4 (ucast val)"

definition rte_flow_item_nsh_mdtype :: "bool \<Rightarrow> (bitfield_unit, u32) exec" where
  "rte_flow_item_nsh_mdtype oc = bind (get_field oc 20 4) (\<lambda>v. ret (ucast v))"

definition set_rte_flow_item_nsh_mdtype :: "bool \<Rightarrow> u32 \<Rightarrow> (bitfield_unit, unit) exec" where
  "set_rte_flow_item_nsh_mdtype oc val = set_field oc 20 4 (ucast val)"

definition rte_flow_item_nsh_next_proto :: "bool \<Rightarrow> (bitfield_unit, u32) exec" where
  "rte_flow_item_nsh_next_proto oc = bind (get_field oc 24 8) (\<lambda>v. ret (ucast v))"

definition set_rte_flow_item_nsh_next_proto :: "bool \<Rightarrow> u32 \<Rightarrow> (bitfield_unit, unit) exec" where
  "set_rte_flow_item_nsh_next_proto oc val = set_field oc 24 8 (ucast val)"

definition rte_flow_item_nsh_spi :: "bool \<Rightarrow> (bitfield_unit, u32) exec" where
  "rte_flow_item_nsh_spi oc = bind (get_field oc 32 24) (\<lambda>v. ret (ucast v))"

definition set_rte_flow_item_nsh_spi :: "bool \<Rightarrow> u32 \<Rightarrow> (bitfield_unit, unit) exec" where
  "set_rte_flow_item_nsh_spi oc val = set_field oc 32 24 (ucast val)"

definition rte_flow_item_nsh_sindex :: "bool \<Rightarrow> (bitfield_unit, u32) exec" where
  "rte_flow_item_nsh_sindex oc = bind (get_field oc 56 8) (\<lambda>v. ret (ucast v))"

definition set_rte_flow_item_nsh_sindex :: "bool \<Rightarrow> u32 \<Rightarrow> (bitfield_unit, unit) exec" where
  "set_rte_flow_item_nsh_sindex oc val = set_field oc 56 8 (ucast val)"

definition new_rte_flow_item_nsh ::
  "bool \<Rightarrow> u32 \<Rightarrow> u32 \<Rightarrow> u32 \<Rightarrow> u32 \<Rightarrow> u32 \<Rightarrow> u32 \<Rightarrow> u32 \<Rightarrow> u32 \<Rightarrow> u32 \<Rightarrow> u32 \<Rightarrow>
   (unit, bitfield_unit) outcome" where
  "new_rte_flow_item_nsh oc
     version_v oam_pkt_v reserved_v ttl_v length_v reserved1_v mdtype_v next_proto_v spi_v sindex_v =
    (bind (set_field oc 0 2 (ucast version_v)) (\<lambda>_.
       bind (set_field oc 2 1 (ucast oam_pkt_v)) (\<lambda>_.
       bind (set_field oc 3 1 (ucast reserved_v)) (\<lambda>_.
       bind (set_field oc 4 6 (ucast ttl_v)) (\<lambda>_.
       bind (set_field oc 10 6 (ucast length_v)) (\<lambda>_.
       bind (set_field oc 16 4 (ucast reserved1_v)) (\<lambda>_.
       bind (set_field oc 20 4 (ucast mdtype_v)) (\<lambda>_.
       bind (set_field oc 24 8 (ucast next_proto_v)) (\<lambda>_.
       bind (set_field oc 32 24 (ucast spi_v)) (\<lambda>_.
       bind (set_field oc 56 8 (ucast sindex_v)) (\<lambda>_.
       ret ()))))))))))) (default_unit 8)"

section \<open>rte_flow_item_igmp\<close>

definition rte_flow_item_igmp_type :: "bool \<Rightarrow> (bitfield_unit, u32) exec" where
  "rte_flow_item_igmp_type oc = bind (get_field oc 0 8) (\<lambda>v. ret (ucast v))"

definition set_rte_flow_item_igmp_type :: "bool \<Rightarrow> u32 \<Rightarrow> (bitfield_unit, unit) exec" where
  "set_rte_flow_item_igmp_type oc val = set_field oc 0 8 (ucast val)"

definition rte_flow_item_igmp_max_resp_time :: "bool \<Rightarrow> (bitfield_unit, u32) exec" where
  "rte_flow_item_igmp_max_resp_time oc = bind (get_field oc 8 8) (\<lambda>v. ret (ucast v))"

definition set_rte_flow_item_igmp_max_resp_time :: "bool \<Rightarrow> u32 \<Rightarrow> (bitfield_unit, unit) exec" where
  "set_rte_flow_item_igmp_max_resp_time oc val = set_field oc 8 8 (ucast val)"

definition rte_flow_item_igmp_checksum :: "bool \<Rightarrow> (bitfield_unit, u32) exec" where
  "rte_flow_item_igmp_checksum oc = bind (get_field oc 16 16) (\<lambda>v. ret (ucast v))"

definition set_rte_flow_item_igmp_checksum :: "bool \<Rightarrow> u32 \<Rightarrow> (bitfield_unit, unit) exec" where
  "set_rte_flow_item_igmp_checksum oc val = set_field oc 16 16 (ucast val)"

definition new_rte_flow_item_igmp ::
  "bool \<Rightarrow> u32 \<Rightarrow> u32 \<Rightarrow> u32 \<Rightarrow>
   (unit, bitfield_unit) outcome" where
  "new_rte_flow_item_igmp oc type_v max_resp_time_v checksum_v =
    (bind (set_field oc 0 8 (ucast type_v)) (\<lambda>_.
       bind (set_field oc 8 8 (ucast max_resp_time_v)) (\<lambda>_.
       bind (set_field oc 16 16 (ucast checksum_v)) (\<lambda>_.
       ret ())))) (default_unit 4)"

section \<open>rte_flow_item_ah\<close>

definition rte_flow_item_ah_next_hdr :: "bool \<Rightarrow> (bitfield_unit, u32) exec" where
  "rte_flow_item_ah_next_hdr oc = bind (get_field oc 0 8) (\<lambda>v. ret (ucast v))"

definition set_rte_flow_item_ah_next_hdr :: "bool \<Rightarrow> u32 \<Rightarrow> (bitfield_unit, unit) exec" where
  "set_rte_flow_item_ah_next_hdr oc val = set_field oc 0 8 (ucast val)"

definition rte_flow_item_ah_payload_len :: "bool \<Rightarrow> (bitfield_unit, u32) exec" where
  "rte_flow_item_ah_payload_len oc = bind (get_field oc 8 8) (\<lambda>v. ret (ucast v))"

definition set_rte_flow_item_ah_payload_len :: "bool \<Rightarrow> u32 \<Rightarrow> (bitfield_unit, unit) exec" where
  "set_rte_flow_item_ah_payload_len oc val = set_field oc 8 8 (ucast val)"

definition rte_flow_item_ah_reserved :: "bool \<Rightarrow> (bitfield_unit, u32) exec" where
  "rte_flow_item_ah_reserved oc = bind (get_field oc 16 16) (\<lambda>v. ret (ucast v))"

definition set_rte_flow_item_ah_reserved :: "bool \<Rightarrow> u32 \<Rightarrow> (bitfield_unit, unit) exec" where
  "set_rte_flow_item_ah_reserved oc val = set_field oc 16 16 (ucast val)"

definition new_rte_flow_item_ah ::
  "bool \<Rightarrow> u32 \<Rightarrow> u32 \<Rightarrow> u32 \<Rightarrow>
   (unit, bitfield_unit) outcome" where
  "new_rte_flow_item_ah oc next_hdr_v payload_len_v reserved_v =
    (bind (set_field oc 0 8 (ucast next_hdr_v)) (\<lambda>_.
       bind (set_field oc 8 8 (ucast payload_len_v)) (\<lambda>_.
       bind (set_field oc 16 16 (ucast reserved_v)) (\<lambda>_.
       ret ())))) (default_unit 4)"

section \<open>rte_flow_action_count\<close>

definition rte_flow_action_count_shared :: "bool \<Rightarrow> (bitfield_unit, u32) exec" where
  "rte_flow_action_count_shared oc = bind (get_field oc 0 1) (\<lambda>v. ret (ucast v))"

definition set_rte_flow_action_count_shared :: "bool \<Rightarrow> u32 \<Rightarrow> (bitfield_unit, unit) exec" where
  "set_rte_flow_action_count_shared oc val = set_field oc 0 1 (ucast val)"

definition rte_flow_action_count_reserved :: "bool \<Rightarrow> (bitfield_unit, u32) exec" where
  "rte_flow_action_count_reserved oc = bind (get_field oc 1 31) (\<lambda>v. ret (ucast v))"

definition set_rte_flow_action_count_reserved :: "bool \<Rightarrow> u32 \<Rightarrow> (bitfield_unit, unit) exec" where
  "set_rte_flow_action_count_reserved oc val = set_field oc 1 31 (ucast val)"

definition new_rte_flow_action_count ::
  "bool \<Rightarrow> u32 \<Rightarrow> u32 \<Rightarrow>
   (unit, bitfield_unit) outcome" where
  "new_rte_flow_action_count oc shared_v reserved_v =
    (bind (set_field oc 0 1 (ucast shared_v)) (\<lambda>_.
       bind (set_field oc 1 31 (ucast reserved_v)) (\<lambda>_.
       ret ()))) (default_unit 4)"

section \<open>rte_flow_query_count\<close>

definition rte_flow_query_count_reset :: "bool \<Rightarrow> (bitfield_unit, u32) exec" where
  "rte_flow_query_count_reset oc = bind (get_field oc 0 1) (\<lambda>v. ret (ucast v))"

definition set_rte_flow_query_count_reset :: "bool \<Rightarrow> u32 \<Rightarrow> (bitfield_unit, unit) exec" where
  "set_rte_flow_query_count_reset oc val = set_field oc 0 1 (ucast val)"

definition rte_flow_query_count_hits_set :: "bool \<Rightarrow> (bitfield_unit, u32) exec" where
  "rte_flow_query_count_hits_set oc = bind (get_field oc 1 1) (\<lambda>v. ret (ucast v))"

definition set_rte_flow_query_count_hits_set :: "bool \<Rightarrow> u32 \<Rightarrow> (bitfield_unit, unit) exec" where
  "set_rte_flow_query_count_hits_set oc val = set_field oc 1 1 (ucast val)"

definition rte_flow_query_count_bytes_set :: "bool \<Rightarrow> (bitfield_unit, u32) exec" where
  "rte_flow_query_count_bytes_set oc = bind (get_field oc 2 1) (\<lambda>v. ret (ucast v))"

definition set_rte_flow_query_count_bytes_set :: "bool \<Rightarrow> u32 \<Rightarrow> (bitfield_unit, unit) exec" where
  "set_rte_flow_query_count_bytes_set oc val = set_field oc 2 1 (ucast val)"

definition rte_flow_query_count_reserved :: "bool \<Rightarrow> (bitfield_unit, u32) exec" where
  "rte_flow_query_count_reserved oc = bind (get_field oc 3 29) (\<lambda>v. ret (ucast v))"

definition set_rte_flow_query_count_reserved :: "bool \<Rightarrow> u32 \<Rightarrow> (bitfield_unit, unit) exec" where
  "set_rte_flow_query_count_reserved oc val = set_field oc 3 29 (ucast val)"

definition new_rte_flow_query_count ::
  "bool \<Rightarrow> u32 \<Rightarrow> u32 \<Rightarrow> u32 \<Rightarrow> u32 \<Rightarrow>
   (unit, bitfield_unit) outcome" where
  "new_rte_flow_query_count oc reset_v hits_set_v bytes_set_v reserved_v =
    (bind (set_field oc 0 1 (ucast reset_v)) (\<lambda>_.
       bind (set_field oc 1 1 (ucast hits_set_v)) (\<lambda>_.
       bind (set_field oc 2 1 (ucast bytes_set_v)) (\<lambda>_.
       bind (set_field oc 3 29 (ucast reserved_v)) (\<lambda>_.
       ret ()))))) (default_unit 4)"

section \<open>rte_flow_action_vf\<close>

definition rte_flow_action_vf_original :: "bool \<Rightarrow> (bitfield_unit, u32) exec" where
  "rte_flow_action_vf_original oc = bind (get_field oc 0 1) (\<lambda>v. ret (ucast v))"

definition set_rte_flow_action_vf_original :: "bool \<Rightarrow> u32 \<Rightarrow> (bitfield_unit, unit) exec" where
  "set_rte_flow_action_vf_original oc val = set_field oc 0 1 (ucast val)"

definition rte_flow_action_vf_reserved :: "bool \<Rightarrow> (bitfield_unit, u32) exec" where
  "rte_flow_action_vf_reserved oc = bind (get_field oc 1 31) (\<lambda>v. ret (ucast v))"

definition set_rte_flow_action_vf_reserved :: "bool \<Rightarrow> u32 \<Rightarrow> (bitfield_unit, unit) exec" where
  "set_rte_flow_action_vf_reserved oc val = set_field oc 1 31 (ucast val)"

definition new_rte_flow_action_vf ::
  "bool \<Rightarrow> u32 \<Rightarrow> u32 \<Rightarrow>
   (unit, bitfield_unit) outcome" where
  "new_rte_flow_action_vf oc original_v reserved_v =
    (bind (set_field oc 0 1 (ucast original_v)) (\<lambda>_.
       bind (set_field oc 1 31 (ucast reserved_v)) (\<lambda>_.
       ret ()))) (default_unit 4)"

section \<open>rte_flow_action_phy_port\<close>

definition rte_flow_action_phy_port_original :: "bool \<Rightarrow> (bitfield_unit, u32) exec" where
  "rte_flow_action_phy_port_original oc = bind (get_field oc 0 1) (\<lambda>v. ret (ucast v))"

definition set_rte_flow_action_phy_port_original :: "bool \<Rightarrow> u32 \<Rightarrow> (bitfield_unit, unit) exec" where
  "set_rte_flow_action_phy_port_original oc val = set_field oc 0 1 (ucast val)"

definition rte_flow_action_phy_port_reserved :: "bool \<Rightarrow> (bitfield_unit, u32) exec" where
  "rte_flow_action_phy_port_reserved oc = bind (get_field oc 1 31) (\<lambda>v. ret (ucast v))"

definition set_rte_flow_action_phy_port_reserved :: "bool \<Rightarrow> u32 \<Rightarrow> (bitfield_unit, unit) exec" where
  "set_rte_flow_action_phy_port_reserved oc val = set_field oc 1 31 (ucast val)"

definition new_rte_flow_action_phy_port ::
  "bool \<Rightarrow> u32 \<Rightarrow> u32 \<Rightarrow>
   (unit, bitfield_unit) outcome" where
  "new_rte_flow_action_phy_port oc original_v reserved_v =
    (bind (set_field oc 0 1 (ucast original_v)) (\<lambda>_.
       bind (set_field oc 1 31 (ucast reserved_v)) (\<lambda>_.
       ret ()))) (default_unit 4)"

section \<open>rte_flow_action_port_id\<close>

definition rte_flow_action_port_id_original :: "bool \<Rightarrow> (bitfield_unit, u32) exec" where
  "rte_flow_action_port_id_original oc = bind (get_field oc 0 1) (\<lambda>v. ret (ucast v))"

definition set_rte_flow_action_port_id_original :: "bool \<Rightarrow> u32 \<Rightarrow> (bitfield_unit, unit) exec" where
  "set_rte_flow_action_port_id_original oc val = set_field oc 0 1 (ucast val)"

definition rte_flow_action_port_id_reserved :: "bool \<Rightarrow> (bitfield_unit, u32) exec" where
  "rte_flow_action_port_id_reserved oc = bind (get_field oc 1 31) (\<lambda>v. ret (ucast v))"

definition set_rte_flow_action_port_id_reserved :: "bool \<Rightarrow> u32 \<Rightarrow> (bitfield_unit, unit) exec" where
  "set_rte_flow_action_port_id_reserved oc val = set_field oc 1 31 (ucast val)"

definition new_rte_flow_action_port_id ::
  "bool \<Rightarrow> u32 \<Rightarrow> u32 \<Rightarrow>
   (unit, bitfield_unit) outcome" where
  "new_rte_flow_action_port_id oc original_v reserved_v =
    (bind (set_field oc 0 1 (ucast original_v)) (\<lambda>_.
       bind (set_field oc 1 31 (ucast reserved_v)) (\<lambda>_.
       ret ()))) (default_unit 4)"

section \<open>rte_kni_device_info\<close>

definition rte_kni_device_info_force_bind :: "bool \<Rightarrow> (bitfield_unit, u8) exec" where
  "rte_kni_device_info_force_bind oc = bind (get_field oc 0 1) (\<lambda>v. ret (ucast v))"

definition set_rte_kni_device_info_force_bind :: "bool \<Rightarrow> u8 \<Rightarrow> (bitfield_unit, unit) exec" where
  "set_rte_kni_device_info_force_bind oc val = set_field oc 0 1 (ucast val)"

definition new_rte_kni_device_info ::
  "bool \<Rightarrow> u8 \<Rightarrow>
   (unit, bitfield_unit) outcome" where
  "new_rte_kni_device_info oc force_bind_v =
    (bind (set_field oc 0 1 (ucast force_bind_v)) (\<lambda>_.
       ret ())) (default_unit 1)"

section \<open>rte_kni_conf\<close>

definition rte_kni_conf_force_bind :: "bool \<Rightarrow> (bitfield_unit, u8) exec" where
  "rte_kni_conf_force_bind oc = bind (get_field oc 0 1) (\<lambda>v. ret (ucast v))"

definition set_rte_kni_conf_force_bind :: "bool \<Rightarrow> u8 \<Rightarrow> (bitfield_unit, unit) exec" where
  "set_rte_kni_conf_force_bind oc val = set_field oc 0 1 (ucast val)"

definition new_rte_kni_conf ::
  "bool \<Rightarrow> u8 \<Rightarrow>
   (unit, bitfield_unit) outcome" where
  "new_rte_kni_conf oc force_bind_v =
    (bind (set_field oc 0 1 (ucast force_bind_v)) (\<lambda>_.
       ret ())) (default_unit 1)"

section \<open>Round trips\<close>

text \<open>
  The contract of an accessor, for a unit of whatever length: that the field lies inside the unit is
  computed from the numbers. Building a unit from its fields and reading each of them back gives
  every value truncated to its width, in both build profiles.
\<close>

lemmas accessor_simps =
  bitfield.get_exec [OF _ refl] bitfield.set_exec [OF _ refl] bitfield_def
  exec_simps loaded_stored_same loaded_stored_disjoint

lemma rte_higig2_frc_roundtrip:
  "\<exists>st. new_rte_higig2_frc oc x0 x1 x2 x3 x4 x5 x6 x7 x8 x9 x10 x11 = Ret () st \<and> length st = 8 \<and>
     rte_higig2_frc_ksop oc st = Ret (take_bit 8 x0) st \<and>
     rte_higig2_frc_tc oc st = Ret (take_bit 4 x1) st \<and>
     rte_higig2_frc_mcst oc st = Ret (take_bit 1 x2) st \<and>
     rte_higig2_frc_resv oc st = Ret (take_bit 3 x3) st \<and>
     rte_higig2_frc_dst_modid oc st = Ret (take_bit 8 x4) st \<and>
     rte_higig2_frc_dst_pid oc st = Ret (take_bit 8 x5) st \<and>
     rte_higig2_frc_src_modid oc st = Ret (take_bit 8 x6) st \<and>
     rte_higig2_frc_src_pid oc st = Ret (take_bit 8 x7) st \<and>
     rte_higig2_frc_lbid oc st = Ret (take_bit 8 x8) st \<and>
     rte_higig2_frc_ppd_type oc st = Ret (take_bit 3 x9) st \<and>
     rte_higig2_frc_resv1 oc st = Ret (take_bit 3 x10) st \<and>
     rte_higig2_frc_dp oc st = Ret (take_bit 2 x11) st"
  by (simp add:
      new_rte_higig2_frc_def rte_higig2_frc_ksop_def rte_higig2_frc_tc_def rte_higig2_frc_mcst_def
      rte_higig2_frc_resv_def rte_higig2_frc_dst_modid_def rte_higig2_frc_dst_pid_def
      rte_higig2_frc_src_modid_def rte_higig2_frc_src_pid_def rte_higig2_frc_lbid_def
      rte_higig2_frc_ppd_type_def rte_higig2_frc_resv1_def rte_higig2_frc_dp_def
      accessor_simps del: One_nat_def)

lemma rte_higig2_ppt_type0_roundtrip:
  "\<exists>st. new_rte_higig2_ppt_type0 oc x0 x1 x2 x3 x4 x5 x6 x7 x8 x9 x10 x11 x12 x13 x14 x15 x16 x17 x18 x19 = Ret () st \<and> length st = 8 \<and>
     rte_higig2_ppt_type0_mirror oc st = Ret (take_bit 1 x0) st \<and>
     rte_higig2_ppt_type0_mirror_done oc st = Ret (take_bit 1 x1) st \<and>
     rte_higig2_ppt_type0_mirror_only oc st = Ret (take_bit 1 x2) st \<and>
     rte_higig2_ppt_type0_ingress_tagged oc st = Ret (take_bit 1 x3) st \<and>
     rte_higig2_ppt_type0_dst_tgid oc st = Ret (take_bit 3 x4) st \<and>
     rte_higig2_ppt_type0_dst_t oc st = Ret (take_bit 1 x5) st \<and>
     rte_higig2_ppt_type0_vc_label2 oc st = Ret (take_bit 4 x6) st \<and>
     rte_higig2_ppt_type0_label_present oc st = Ret (take_bit 1 x7) st \<and>
     rte_higig2_ppt_type0_l3 oc st = Ret (take_bit 1 x8) st \<and>
     rte_higig2_ppt_type0_res oc st = Ret (take_bit 2 x9) st \<and>
     rte_higig2_ppt_type0_vc_label1 oc st = Ret (take_bit 8 x10) st \<and>
     rte_higig2_ppt_type0_vc_label0 oc st = Ret (take_bit 8 x11) st \<and>
     rte_higig2_ppt_type0_vid_high oc st = Ret (take_bit 8 x12) st \<and>
     rte_higig2_ppt_type0_vid_low oc st = Ret (take_bit 8 x13) st \<and>
     rte_higig2_ppt_type0_opc oc st = Ret (take_bit 3 x14) st \<and>
     rte_higig2_ppt_type0_res1 oc st = Ret (take_bit 2 x15) st \<and>
     rte_higig2_ppt_type0_srce_t oc st = Ret (take_bit 1 x16) st \<and>
     rte_higig2_ppt_type0_pf oc st = Ret (take_bit 2 x17) st \<and>
     rte_higig2_ppt_type0_res2 oc st = Ret (take_bit 5 x18) st \<and>
     rte_higig2_ppt_type0_hdr_ext_length oc st = Ret (take_bit 3 x19) st"
  by (simp add:
      new_rte_higig2_ppt_type0_def rte_higig2_ppt_type0_mirror_def
      rte_higig2_ppt_type0_mirror_done_def rte_higig2_ppt_type0_mirror_only_def
      rte_higig2_ppt_type0_ingress_tagged_def rte_higig2_ppt_type0_dst_tgid_def
      rte_higig2_ppt_type0_dst_t_def rte_higig2_ppt_type0_vc_label2_def
      rte_higig2_ppt_type0_label_present_def rte_higig2_ppt_type0_l3_def
      rte_higig2_ppt_type0_res_def rte_higig2_ppt_type0_vc_label1_def
      rte_higig2_ppt_type0_vc_label0_def rte_higig2_ppt_type0_vid_high_def
      rte_higig2_ppt_type0_vid_low_def rte_higig2_ppt_type0_opc_def rte_higig2_ppt_type0_res1_def
      rte_higig2_ppt_type0_srce_t_def rte_higig2_ppt_type0_pf_def rte_higig2_ppt_type0_res2_def
      rte_higig2_ppt_type0_hdr_ext_length_def
      accessor_simps del: One_nat_def)

lemma rte_higig2_ppt_type1_roundtrip:
  "\<exists>st. new_rte_higig2_ppt_type1 oc x0 x1 x2 x3 x4 x5 = Ret () st \<and> length st = 2 \<and>
     rte_higig2_ppt_type1_opcode oc st = Ret (take_bit 3 x0) st \<and>
     rte_higig2_ppt_type1_resv1 oc st = Ret (take_bit 2 x1) st \<and>
     rte_higig2_ppt_type1_src_t oc st = Ret (take_bit 1 x2) st \<and>
     rte_higig2_ppt_type1_pfm oc st = Ret (take_bit 2 x3) st \<and>
     rte_higig2_ppt_type1_resv2 oc st = Ret (take_bit 5 x4) st \<and>
     rte_higig2_ppt_type1_hdr_ext_len oc st = Ret (take_bit 3 x5) st"
  by (simp add:
      new_rte_higig2_ppt_type1_def rte_higig2_ppt_type1_opcode_def rte_higig2_ppt_type1_resv1_def
      rte_higig2_ppt_type1_src_t_def rte_higig2_ppt_type1_pfm_def rte_higig2_ppt_type1_resv2_def
      rte_higig2_ppt_type1_hdr_ext_len_def
      accessor_simps del: One_nat_def)

lemma rte_flow_attr_roundtrip:
  "\<exists>st. new_rte_flow_attr oc x0 x1 x2 x3 = Ret () st \<and> length st = 4 \<and>
     rte_flow_attr_ingress oc st = Ret (take_bit 1 x0) st \<and>
     rte_flow_attr_egress oc st = Ret (take_bit 1 x1) st \<and>
     rte_flow_attr_transfer oc st = Ret (take_bit 1 x2) st \<and>
     rte_flow_attr_reserved oc st = Ret (take_bit 29 x3) st"
  by (simp add:
      new_rte_flow_attr_def rte_flow_attr_ingress_def rte_flow_attr_egress_def
      rte_flow_attr_transfer_def rte_flow_attr_reserved_def
      accessor_simps del: One_nat_def)

lemma rte_flow_item_raw_roundtrip:
  "\<exists>st. new_rte_flow_item_raw oc x0 x1 x2 = Ret () st \<and> length st = 4 \<and>
     rte_flow_item_raw_relative oc st = Ret (take_bit 1 x0) st \<and>
     rte_flow_item_raw_search oc st = Ret (take_bit 1 x1) st \<and>
     rte_flow_item_raw_reserved oc st = Ret (take_bit 30 x2) st"
  by (simp add:
      new_rte_flow_item_raw_def rte_flow_item_raw_relative_def rte_flow_item_raw_search_def
      rte_flow_item_raw_reserved_def
      accessor_simps del: One_nat_def)

lemma rte_flow_item_nsh_roundtrip:
  "\<exists>st. new_rte_flow_item_nsh oc x0 x1 x2 x3 x4 x5 x6 x7 x8 x9 = Ret () st \<and> length st = 8 \<and>
     rte_flow_item_nsh_version oc st = Ret (take_bit 2 x0) st \<and>
     rte_flow_item_nsh_oam_pkt oc st = Ret (take_bit 1 x1) st \<and>
     rte_flow_item_nsh_reserved oc st = Ret (take_bit 1 x2) st \<and>
     rte_flow_item_nsh_ttl oc st = Ret (take_bit 6 x3) st \<and>
     rte_flow_item_nsh_length oc st = Ret (take_bit 6 x4) st \<and>
     rte_flow_item_nsh_reserved1 oc st = Ret (take_bit 4 x5) st \<and>
     rte_flow_item_nsh_mdtype oc st = Ret (take_bit 4 x6) st \<and>
     rte_flow_item_nsh_next_proto oc st = Ret (take_bit 8 x7) st \<and>
     rte_flow_item_nsh_spi oc st = Ret (take_bit 24 x8) st \<and>
     rte_flow_item_nsh_sindex oc st = Ret (take_bit 8 x9) st"
  by (simp add:
      new_rte_flow_item_nsh_def rte_flow_item_nsh_version_def rte_flow_item_nsh_oam_pkt_def
      rte_flow_item_nsh_reserved_def rte_flow_item_nsh_ttl_def rte_flow_item_nsh_length_def
      rte_flow_item_nsh_reserved1_def rte_flow_item_nsh_mdtype_def
      rte_flow_item_nsh_next_proto_def rte_flow_item_nsh_spi_def rte_flow_item_nsh_sindex_def
      accessor_simps del: One_nat_def)

lemma rte_flow_item_igmp_roundtrip:
  "\<exists>st. new_rte_flow_item_igmp oc x0 x1 x2 = Ret () st \<and> length st = 4 \<and>
     rte_flow_item_igmp_type oc st = Ret (take_bit 8 x0) st \<and>
     rte_flow_item_igmp_max_resp_time oc st = Ret (take_bit 8 x1) st \<and>
     rte_flow_item_igmp_checksum oc st = Ret (take_bit 16 x2) st"
  by (simp add:
      new_rte_flow_item_igmp_def rte_flow_item_igmp_type_def rte_flow_item_igmp_max_resp_time_def
      rte_flow_item_igmp_checksum_def
      accessor_simps del: One_nat_def)

lemma rte_flow_item_ah_roundtrip:
  "\<exists>st. new_rte_flow_item_ah oc x0 x1 x2 = Ret () st \<and> length st = 4 \<and>
     rte_flow_item_ah_next_hdr oc st = Ret (take_bit 8 x0) st \<and>
     rte_flow_item_ah_payload_len oc st = Ret (take_bit 8 x1) st \<and>
     rte_flow_item_ah_reserved oc st = Ret (take_bit 16 x2) st"
  by (simp add:
      new_rte_flow_item_ah_def rte_flow_item_ah_next_hdr_def rte_flow_item_ah_payload_len_def
      rte_flow_item_ah_reserved_def
      accessor_simps del: One_nat_def)

lemma rte_flow_action_count_roundtrip:
  "\<exists>st. new_rte_flow_action_count oc x0 x1 = Ret () st \<and> length st = 4 \<and>
     rte_flow_action_count_shared oc st = Ret (take_bit 1 x0) st \<and>
     rte_flow_action_count_reserved oc st = Ret (take_bit 31 x1) st"
  by (simp add:
      new_rte_flow_action_count_def rte_flow_action_count_shared_def
      rte_flow_action_count_reserved_def
      accessor_simps del: One_nat_def)

lemma rte_flow_query_count_roundtrip:
  "\<exists>st. new_rte_flow_query_count oc x0 x1 x2 x3 = Ret () st \<and> length st = 4 \<and>
     rte_flow_query_count_reset oc st = Ret (take_bit 1 x0) st \<and>
     rte_flow_query_count_hits_set oc st = Ret (take_bit 1 x1) st \<and>
     rte_flow_query_count_bytes_set oc st = Ret (take_bit 1 x2) st \<and>
     rte_flow_query_count_reserved oc st = Ret (take_bit 29 x3) st"
  by (simp add:
      new_rte_flow_query_count_def rte_flow_query_count_reset_def
      rte_flow_query_count_hits_set_def rte_flow_query_count_bytes_set_def
      rte_flow_query_count_reserved_def
      accessor_simps del: One_nat_def)

lemma rte_flow_action_vf_roundtrip:
  "\<exists>st. new_rte_flow_action_vf oc x0 x1 = Ret () st \<and> length st = 4 \<and>
     rte_flow_action_vf_original oc st = Ret (take_bit 1 x0) st \<and>
     rte_flow_action_vf_reserved oc st = Ret (take_bit 31 x1) st"
  by (simp add:
      new_rte_flow_action_vf_def rte_flow_action_vf_original_def rte_flow_action_vf_reserved_def
      accessor_simps del: One_nat_def)

lemma rte_flow_action_phy_port_roundtrip:
  "\<exists>st. new_rte_flow_action_phy_port oc x0 x1 = Ret () st \<and> length st = 4 \<and>
     rte_flow_action_phy_port_original oc st = Ret (take_bit 1 x0) st \<and>
     rte_flow_action_phy_port_reserved oc st = Ret (take_bit 31 x1) st"
  by (simp add:
      new_rte_flow_action_phy_port_def rte_flow_action_phy_port_original_def
      rte_flow_action_phy_port_reserved_def
      accessor_simps del: One_nat_def)

lemma rte_flow_action_port_id_roundtrip:
  "\<exists>st. new_rte_flow_action_port_id oc x0 x1 = Ret () st \<and> length st = 4 \<and>
     rte_flow_action_port_id_original oc st = Ret (take_bit 1 x0) st \<and>
     rte_flow_action_port_id_reserved oc st = Ret (take_bit 31 x1) st"
  by (simp add:
      new_rte_flow_action_port_id_def rte_flow_action_port_id_original_def
      rte_flow_action_port_id_reserved_def
      accessor_simps del: One_nat_def)

lemma rte_kni_device_info_roundtrip:
  "\<exists>st. new_rte_kni_device_info oc x0 = Ret () st \<and> length st = 1 \<and>
     rte_kni_device_info_force_bind oc st = Ret (take_bit 1 x0) st"
  by (simp add:
      new_rte_kni_device_info_def rte_kni_device_info_force_bind_def
      accessor_simps del: One_nat_def)

lemma rte_kni_conf_roundtrip:
  "\<exists>st. new_rte_kni_conf oc x0 = Ret () st \<and> length st = 1 \<and>
     rte_kni_conf_force_bind oc st = Ret (take_bit 1 x0) st"
  by (simp add:
      new_rte_kni_conf_def rte_kni_conf_force_bind_def
      accessor_simps del: One_nat_def)

end
