(* ===== verification/Layout.thy ===== *)
theory Layout
  imports Prelude
begin

text \<open>
  The memory layout of the \<open>repr(C)\<close> types of the DPDK bindings: size, alignment and field
  offsets, by the rules of the C ABI on x86-64 that the Rust reference gives for
  \<open>repr(C)\<close>, \<open>repr(packed)\<close> and \<open>repr(align(n))\<close>. A layout test is one generated
  \<open>bindgen_test_layout_*\<close> function: the size, the alignment and the offsets it asserts.
\<close>

section \<open>Types and their layout\<close>

text \<open>
  \<open>Prim n\<close> is an integer of \<open>n\<close> bytes, \<open>Pointer\<close> a raw pointer or an optional
  function pointer. \<open>Struct p a fs\<close> has packing limit \<open>p\<close>, minimal alignment \<open>a\<close> and
  fields \<open>fs\<close>; \<open>Union a fs\<close> likewise.
\<close>

datatype rty =
    Prim nat
  | Pointer
  | Array rty nat
  | Struct "nat option" nat "(string \<times> rty) list"
  | Union nat "(string \<times> rty) list"

abbreviation u8_ty :: rty where "u8_ty \<equiv> Prim 1"
abbreviation u16_ty :: rty where "u16_ty \<equiv> Prim 2"
abbreviation u32_ty :: rty where "u32_ty \<equiv> Prim 4"
abbreviation u64_ty :: rty where "u64_ty \<equiv> Prim 8"

text \<open>\<open>__BindgenBitfieldUnit<[u8; n], Align>\<close> and \<open>__IncompleteArrayField<T>\<close>.\<close>

definition BitfieldUnit :: "nat \<Rightarrow> rty \<Rightarrow> rty" where
  "BitfieldUnit n a = Struct None 1 [(''storage'', Array u8_ty n), (''align'', Array a 0)]"

definition IncompleteArrayField :: "rty \<Rightarrow> rty" where
  "IncompleteArrayField t = Array t 0"

definition align_up :: "nat \<Rightarrow> nat \<Rightarrow> nat" where
  "align_up a n = (n + a - 1) div a * a"

definition packed_align :: "nat option \<Rightarrow> nat \<Rightarrow> nat" where
  "packed_align p a = (case p of None \<Rightarrow> a | Some k \<Rightarrow> min k a)"

fun align_of :: "rty \<Rightarrow> nat" where
  "align_of (Prim n) = n"
| "align_of Pointer = 8"
| "align_of (Array t n) = align_of t"
| "align_of (Struct p a fs) = foldr (\<lambda>f. max (packed_align p (align_of (snd f)))) fs a"
| "align_of (Union a fs) = foldr (\<lambda>f. max (align_of (snd f))) fs a"

text \<open>The offsets of fields of given alignments and sizes, from position \<open>o\<close>, and the end.\<close>

fun place :: "nat \<Rightarrow> (nat \<times> nat) list \<Rightarrow> nat list" where
  "place pos [] = []"
| "place pos ((a, s) # fs) = align_up a pos # place (align_up a pos + s) fs"

fun place_end :: "nat \<Rightarrow> (nat \<times> nat) list \<Rightarrow> nat" where
  "place_end pos [] = pos"
| "place_end pos ((a, s) # fs) = place_end (align_up a pos + s) fs"

fun size_of :: "rty \<Rightarrow> nat" where
  "size_of (Prim n) = n"
| "size_of Pointer = 8"
| "size_of (Array t n) = n * size_of t"
| "size_of (Struct p a fs) =
     align_up (align_of (Struct p a fs))
       (place_end 0 (map (\<lambda>f. (packed_align p (align_of (snd f)), size_of (snd f))) fs))"
| "size_of (Union a fs) =
     align_up (align_of (Union a fs)) (foldr (\<lambda>f. max (size_of (snd f))) fs 0)"

definition shape :: "nat option \<Rightarrow> (string \<times> rty) list \<Rightarrow> (nat \<times> nat) list" where
  "shape p fs = map (\<lambda>f. (packed_align p (align_of (snd f)), size_of (snd f))) fs"

fun offsets :: "rty \<Rightarrow> (string \<times> nat) list" where
  "offsets (Struct p a fs) = zip (map fst fs) (place 0 (shape p fs))"
| "offsets (Union a fs) = map (\<lambda>f. (fst f, 0)) fs"
| "offsets _ = []"

definition offset_of :: "rty \<Rightarrow> string \<Rightarrow> nat option" where
  "offset_of t f = map_of (offsets t) f"

record layout_test =
  expect_size :: nat
  expect_align :: nat
  expect_offsets :: "(string \<times> nat) list"

definition layout_test_passes :: "rty \<Rightarrow> layout_test \<Rightarrow> bool" where
  "layout_test_passes t e \<longleftrightarrow>
     size_of t = expect_size e \<and> align_of t = expect_align e \<and>
     list_all (\<lambda>(f, k). offset_of t f = Some k) (expect_offsets e)"

text \<open>Well-formed types: every alignment that is written down is positive.\<close>

fun wf_ty :: "rty \<Rightarrow> bool" where
  "wf_ty (Prim n) = (0 < n)"
| "wf_ty Pointer = True"
| "wf_ty (Array t n) = wf_ty t"
| "wf_ty (Struct p a fs) = (0 < a \<and> p \<noteq> Some 0 \<and> list_all (\<lambda>f. wf_ty (snd f)) fs)"
| "wf_ty (Union a fs) = (0 < a \<and> list_all (\<lambda>f. wf_ty (snd f)) fs)"

section \<open>Laws of the layout\<close>

named_theorems layout_simps "evaluation of layouts, with the facts on the types placed so far"
named_theorems layout_passes "the layout tests that pass"
named_theorems layout_tests_pass "the groups of layout tests that pass"

lemma layout_test_passesD:
  "layout_test_passes t e \<Longrightarrow> size_of t = expect_size e"
  "layout_test_passes t e \<Longrightarrow> align_of t = expect_align e"
  by (simp_all add: layout_test_passes_def)

text \<open>For a type of many fields, whose test lists them all, looking the fields up one by one is
  quadratic; it is enough that the two lists agree and that no name is repeated.\<close>

lemma layout_test_passesI:
  assumes "size_of t = expect_size e" and "align_of t = expect_align e"
    and "offsets t = expect_offsets e" and "distinct (map fst (expect_offsets e))"
  shows "layout_test_passes t e"
  using assms by (auto simp: layout_test_passes_def offset_of_def list_all_iff)

lemmas layout_eval [layout_simps] =
  layout_test_passes_def offset_of_def shape_def packed_align_def align_up_def
  BitfieldUnit_def IncompleteArrayField_def

lemma align_up_ge: "0 < a \<Longrightarrow> n \<le> align_up a n"
proof -
  assume "0 < a"
  then have "(n + a - 1) mod a \<le> a - 1" by (metis Suc_pred' less_Suc_eq_le mod_less_divisor)
  then show ?thesis
    using div_mult_mod_eq [of "n + a - 1" a] \<open>0 < a\<close> unfolding align_up_def by linarith
qed

lemma align_up_dvd [simp]: "a dvd align_up a n"
  by (simp add: align_up_def)

lemma align_up_lt: "0 < a \<Longrightarrow> align_up a n < n + a"
  using div_mult_mod_eq [of "n + a - 1" a] unfolding align_up_def by linarith

lemma packed_align_pos: "0 < a \<Longrightarrow> p \<noteq> Some 0 \<Longrightarrow> 0 < packed_align p a"
  by (auto simp: packed_align_def split: option.split)

lemma foldr_max_ge: "b \<le> foldr (\<lambda>f. max (g f :: nat)) fs b"
  by (induction fs) auto

lemma foldr_max_member: "f \<in> set fs \<Longrightarrow> g f \<le> foldr (\<lambda>f. max (g f :: nat)) fs b"
  by (induction fs) auto

lemma align_of_pos: "wf_ty t \<Longrightarrow> 0 < align_of t"
  by (induction t) (auto intro: less_le_trans [OF _ foldr_max_ge])

lemma size_of_dvd: "align_of t dvd size_of t"
  by (induction t) auto

lemma length_place [simp]: "length (place pos fs) = length fs"
  by (induction pos fs rule: place.induct) auto

lemma place_ge:
  "list_all (\<lambda>f. 0 < fst f) fs \<Longrightarrow> i < length fs \<Longrightarrow> pos \<le> place pos fs ! i"
proof (induction pos fs arbitrary: i rule: place.induct)
  case (2 pos a s fs)
  have "pos \<le> align_up a pos" using 2(2) by (simp add: align_up_ge)
  then show ?case using 2 by (cases i) force+
qed simp

lemma place_end_ge: "list_all (\<lambda>f. 0 < fst f) fs \<Longrightarrow> pos \<le> place_end pos fs"
proof (induction pos fs rule: place_end.induct)
  case (2 pos a s fs)
  then show ?case using align_up_ge [of a pos] by simp
qed simp

lemma place_dvd: "i < length fs \<Longrightarrow> fst (fs ! i) dvd place pos fs ! i"
proof (induction pos fs arbitrary: i rule: place.induct)
  case (2 pos a s fs)
  then show ?case by (cases i) auto
qed simp

lemma place_within:
  "list_all (\<lambda>f. 0 < fst f) fs \<Longrightarrow> i < length fs \<Longrightarrow>
   place pos fs ! i + snd (fs ! i) \<le> place_end pos fs"
proof (induction pos fs arbitrary: i rule: place.induct)
  case (2 pos a s fs)
  then show ?case by (cases i) (auto simp: place_end_ge)
qed simp

lemma place_disjoint:
  "list_all (\<lambda>f. 0 < fst f) fs \<Longrightarrow> i < j \<Longrightarrow> j < length fs \<Longrightarrow>
   place pos fs ! i + snd (fs ! i) \<le> place pos fs ! j"
proof (induction pos fs arbitrary: i j rule: place.induct)
  case (2 pos a s fs)
  then show ?case by (cases i; cases j) (auto simp: place_ge)
qed simp

lemma shape_pos:
  "wf_ty (Struct p a fs) \<Longrightarrow> list_all (\<lambda>f. 0 < fst f) (shape p fs)"
  by (auto simp: shape_def list_all_iff packed_align_pos align_of_pos)

text \<open>
  The fields of every well-formed \<open>repr(C)\<close> structure, packed or not, are laid out without
  overlap and inside the structure: a field starts at a multiple of its alignment (limited by
  the packing), ends before any later field starts and before the structure ends, and the size
  of the structure is a multiple of its positive alignment, so that arrays of it stay aligned.
\<close>

theorem struct_layout_sound:
  assumes "wf_ty (Struct p a fs)" and "j < length fs"
  defines "off \<equiv> \<lambda>i. snd (offsets (Struct p a fs) ! i)"
  shows "packed_align p (align_of (snd (fs ! j))) dvd off j \<and>
     (\<forall>i < j. off i + size_of (snd (fs ! i)) \<le> off j) \<and>
     off j + size_of (snd (fs ! j)) \<le> size_of (Struct p a fs) \<and>
     0 < align_of (Struct p a fs) \<and> align_of (Struct p a fs) dvd size_of (Struct p a fs)"
proof -
  let ?sh = "shape p fs"
  have off: "off i = place 0 ?sh ! i" if "i < length fs" for i
    using that by (simp add: off_def shape_def)
  have sh: "?sh ! i = (packed_align p (align_of (snd (fs ! i))), size_of (snd (fs ! i)))"
    if "i < length fs" for i
    using that by (simp add: shape_def)
  have len: "length ?sh = length fs" by (simp add: shape_def)
  have pos: "0 < align_of (Struct p a fs)" by (rule align_of_pos) (rule assms(1))
  have "place_end 0 ?sh \<le> size_of (Struct p a fs)"
    using align_up_ge [OF pos] by (simp add: shape_def)
  then have "off j + size_of (snd (fs ! j)) \<le> size_of (Struct p a fs)"
    using place_within [OF shape_pos [OF assms(1)], of j 0] assms(2) len off sh by simp
  moreover have "\<forall>i < j. off i + size_of (snd (fs ! i)) \<le> off j"
    using place_disjoint [OF shape_pos [OF assms(1)], of _ j 0] assms(2) len off sh by simp
  moreover have "packed_align p (align_of (snd (fs ! j))) dvd off j"
    using place_dvd [of j ?sh 0] assms(2) len off sh by simp
  ultimately show ?thesis using pos size_of_dvd [of "Struct p a fs"] by blast
qed

theorem struct_layout_sound_witness:
  "wf_ty (Struct None 2 [(''flags'', u8_ty), (''len'', u32_ty), (''port'', u16_ty)]) \<and>
   map snd (offsets (Struct None 2 [(''flags'', u8_ty), (''len'', u32_ty), (''port'', u16_ty)])) = [0, 4, 8] \<and>
   0 + size_of u8_ty \<le> 8 \<and> 4 + size_of u32_ty \<le> 8 \<and>
   8 + size_of u16_ty \<le> size_of (Struct None 2 [(''flags'', u8_ty), (''len'', u32_ty), (''port'', u16_ty)]) \<and>
   align_of (Struct None 2 [(''flags'', u8_ty), (''len'', u32_ty), (''port'', u16_ty)]) = 4 \<and>
   4 dvd size_of (Struct None 2 [(''flags'', u8_ty), (''len'', u32_ty), (''port'', u16_ty)])"
  using struct_layout_sound [of None 2 "[(''flags'', u8_ty), (''len'', u32_ty), (''port'', u16_ty)]" 2]
  by (simp add: shape_def packed_align_def align_up_def del: One_nat_def)

end
