(* ===== verification/Layouts_Eth.thy ===== *)
theory Layouts_Eth
  imports Layout
begin

text \<open>
  The types of the Ethernet device configuration as
  \<open>dpdk-sys/src/bindings_rustdoc.rs\<close> declares them, and for each type the size, alignment and offsets that its generated
  \<open>bindgen_test_layout\<close> function asserts. A field of a type alias or of an enumeration
  module stands with the integer type it names.
\<close>

definition rte_eth_thresh_layout :: rty where
  "rte_eth_thresh_layout = Struct None 1 [
      (''pthresh'', u8_ty), (''hthresh'', u8_ty), (''wthresh'', u8_ty)]"

definition rte_eth_thresh_test :: layout_test where
  "rte_eth_thresh_test = \<lparr>expect_size = 3, expect_align = 1, expect_offsets = [
      (''pthresh'', 0), (''hthresh'', 1), (''wthresh'', 2)]\<rparr>"

definition rte_eth_rxconf_layout :: rty where
  "rte_eth_rxconf_layout = Struct None 1 [
      (''rx_thresh'', rte_eth_thresh_layout), (''rx_free_thresh'', u16_ty),
      (''rx_drop_en'', u8_ty), (''rx_deferred_start'', u8_ty), (''offloads'', u64_ty),
      (''reserved_64s'', Array u64_ty 2), (''reserved_ptrs'', Array Pointer 2)]"

definition rte_eth_rxconf_test :: layout_test where
  "rte_eth_rxconf_test = \<lparr>expect_size = 48, expect_align = 8, expect_offsets = [
      (''rx_thresh'', 0), (''rx_free_thresh'', 4), (''rx_drop_en'', 6), (''rx_deferred_start'', 7),
      (''offloads'', 8), (''reserved_64s'', 16), (''reserved_ptrs'', 32)]\<rparr>"

definition rte_eth_txconf_layout :: rty where
  "rte_eth_txconf_layout = Struct None 1 [
      (''tx_thresh'', rte_eth_thresh_layout), (''tx_rs_thresh'', u16_ty),
      (''tx_free_thresh'', u16_ty), (''tx_deferred_start'', u8_ty), (''offloads'', u64_ty),
      (''reserved_64s'', Array u64_ty 2), (''reserved_ptrs'', Array Pointer 2)]"

definition rte_eth_txconf_test :: layout_test where
  "rte_eth_txconf_test = \<lparr>expect_size = 56, expect_align = 8, expect_offsets = [
      (''tx_thresh'', 0), (''tx_rs_thresh'', 4), (''tx_free_thresh'', 6),
      (''tx_deferred_start'', 8), (''offloads'', 16), (''reserved_64s'', 24),
      (''reserved_ptrs'', 40)]\<rparr>"

definition rte_eth_desc_lim_layout :: rty where
  "rte_eth_desc_lim_layout = Struct None 1 [
      (''nb_max'', u16_ty), (''nb_min'', u16_ty), (''nb_align'', u16_ty), (''nb_seg_max'', u16_ty),
      (''nb_mtu_seg_max'', u16_ty)]"

definition rte_eth_desc_lim_test :: layout_test where
  "rte_eth_desc_lim_test = \<lparr>expect_size = 10, expect_align = 2, expect_offsets = [
      (''nb_max'', 0), (''nb_min'', 2), (''nb_align'', 4), (''nb_seg_max'', 6),
      (''nb_mtu_seg_max'', 8)]\<rparr>"

definition rte_eth_dev_portconf_layout :: rty where
  "rte_eth_dev_portconf_layout = Struct None 1 [
      (''burst_size'', u16_ty), (''ring_size'', u16_ty), (''nb_queues'', u16_ty)]"

definition rte_eth_dev_portconf_test :: layout_test where
  "rte_eth_dev_portconf_test = \<lparr>expect_size = 6, expect_align = 2, expect_offsets = [
      (''burst_size'', 0), (''ring_size'', 2), (''nb_queues'', 4)]\<rparr>"

definition rte_eth_switch_info_layout :: rty where
  "rte_eth_switch_info_layout = Struct None 1 [
      (''name'', Pointer), (''domain_id'', u16_ty), (''port_id'', u16_ty)]"

definition rte_eth_switch_info_test :: layout_test where
  "rte_eth_switch_info_test = \<lparr>expect_size = 16, expect_align = 8, expect_offsets = [
      (''name'', 0), (''domain_id'', 8), (''port_id'', 10)]\<rparr>"

definition rte_eth_dev_info_layout :: rty where
  "rte_eth_dev_info_layout = Struct None 1 [
      (''device'', Pointer), (''driver_name'', Pointer), (''if_index'', u32_ty),
      (''min_mtu'', u16_ty), (''max_mtu'', u16_ty), (''dev_flags'', Pointer),
      (''min_rx_bufsize'', u32_ty), (''max_rx_pktlen'', u32_ty), (''max_lro_pkt_size'', u32_ty),
      (''max_rx_queues'', u16_ty), (''max_tx_queues'', u16_ty), (''max_mac_addrs'', u32_ty),
      (''max_hash_mac_addrs'', u32_ty), (''max_vfs'', u16_ty), (''max_vmdq_pools'', u16_ty),
      (''rx_offload_capa'', u64_ty), (''tx_offload_capa'', u64_ty),
      (''rx_queue_offload_capa'', u64_ty), (''tx_queue_offload_capa'', u64_ty),
      (''reta_size'', u16_ty), (''hash_key_size'', u8_ty), (''flow_type_rss_offloads'', u64_ty),
      (''default_rxconf'', rte_eth_rxconf_layout), (''default_txconf'', rte_eth_txconf_layout),
      (''vmdq_queue_base'', u16_ty), (''vmdq_queue_num'', u16_ty), (''vmdq_pool_base'', u16_ty),
      (''rx_desc_lim'', rte_eth_desc_lim_layout), (''tx_desc_lim'', rte_eth_desc_lim_layout),
      (''speed_capa'', u32_ty), (''nb_rx_queues'', u16_ty), (''nb_tx_queues'', u16_ty),
      (''default_rxportconf'', rte_eth_dev_portconf_layout),
      (''default_txportconf'', rte_eth_dev_portconf_layout), (''dev_capa'', u64_ty),
      (''switch_info'', rte_eth_switch_info_layout), (''reserved_64s'', Array u64_ty 2),
      (''reserved_ptrs'', Array Pointer 2)]"

definition rte_eth_dev_info_test :: layout_test where
  "rte_eth_dev_info_test = \<lparr>expect_size = 320, expect_align = 8, expect_offsets = [
      (''device'', 0), (''driver_name'', 8), (''if_index'', 16), (''min_mtu'', 20),
      (''max_mtu'', 22), (''dev_flags'', 24), (''min_rx_bufsize'', 32), (''max_rx_pktlen'', 36),
      (''max_lro_pkt_size'', 40), (''max_rx_queues'', 44), (''max_tx_queues'', 46),
      (''max_mac_addrs'', 48), (''max_hash_mac_addrs'', 52), (''max_vfs'', 56),
      (''max_vmdq_pools'', 58), (''rx_offload_capa'', 64), (''tx_offload_capa'', 72),
      (''rx_queue_offload_capa'', 80), (''tx_queue_offload_capa'', 88), (''reta_size'', 96),
      (''hash_key_size'', 98), (''flow_type_rss_offloads'', 104), (''default_rxconf'', 112),
      (''default_txconf'', 160), (''vmdq_queue_base'', 216), (''vmdq_queue_num'', 218),
      (''vmdq_pool_base'', 220), (''rx_desc_lim'', 222), (''tx_desc_lim'', 232),
      (''speed_capa'', 244), (''nb_rx_queues'', 248), (''nb_tx_queues'', 250),
      (''default_rxportconf'', 252), (''default_txportconf'', 258), (''dev_capa'', 264),
      (''switch_info'', 272), (''reserved_64s'', 288), (''reserved_ptrs'', 304)]\<rparr>"

definition rte_eth_rxmode_layout :: rty where
  "rte_eth_rxmode_layout = Struct None 1 [
      (''mq_mode'', u32_ty), (''max_rx_pkt_len'', u32_ty), (''max_lro_pkt_size'', u32_ty),
      (''split_hdr_size'', u16_ty), (''offloads'', u64_ty), (''reserved_64s'', Array u64_ty 2),
      (''reserved_ptrs'', Array Pointer 2)]"

definition rte_eth_rxmode_test :: layout_test where
  "rte_eth_rxmode_test = \<lparr>expect_size = 56, expect_align = 8, expect_offsets = [
      (''mq_mode'', 0), (''max_rx_pkt_len'', 4), (''max_lro_pkt_size'', 8),
      (''split_hdr_size'', 12), (''offloads'', 16), (''reserved_64s'', 24), (''reserved_ptrs'', 40)]\<rparr>"

definition rte_eth_txmode_layout :: rty where
  "rte_eth_txmode_layout = Struct None 1 [
      (''mq_mode'', u32_ty), (''offloads'', u64_ty), (''pvid'', u16_ty),
      (''_bitfield_1'', BitfieldUnit 1 u8_ty), (''reserved_64s'', Array u64_ty 2),
      (''reserved_ptrs'', Array Pointer 2)]"

definition rte_eth_txmode_test :: layout_test where
  "rte_eth_txmode_test = \<lparr>expect_size = 56, expect_align = 8, expect_offsets = [
      (''mq_mode'', 0), (''offloads'', 8), (''pvid'', 16), (''reserved_64s'', 24),
      (''reserved_ptrs'', 40)]\<rparr>"

definition rte_eth_rss_conf_layout :: rty where
  "rte_eth_rss_conf_layout = Struct None 1 [
      (''rss_key'', Pointer), (''rss_key_len'', u8_ty), (''rss_hf'', u64_ty)]"

definition rte_eth_rss_conf_test :: layout_test where
  "rte_eth_rss_conf_test = \<lparr>expect_size = 24, expect_align = 8, expect_offsets = [
      (''rss_key'', 0), (''rss_key_len'', 8), (''rss_hf'', 16)]\<rparr>"

definition rte_eth_vmdq_dcb_conf__bindgen_ty_1_layout :: rty where
  "rte_eth_vmdq_dcb_conf__bindgen_ty_1_layout = Struct None 1 [
      (''vlan_id'', u16_ty), (''pools'', u64_ty)]"

definition rte_eth_vmdq_dcb_conf__bindgen_ty_1_test :: layout_test where
  "rte_eth_vmdq_dcb_conf__bindgen_ty_1_test = \<lparr>expect_size = 16, expect_align = 8, expect_offsets = [
      (''vlan_id'', 0), (''pools'', 8)]\<rparr>"

definition rte_eth_vmdq_dcb_conf_layout :: rty where
  "rte_eth_vmdq_dcb_conf_layout = Struct None 1 [
      (''nb_queue_pools'', u32_ty), (''enable_default_pool'', u8_ty), (''default_pool'', u8_ty),
      (''nb_pool_maps'', u8_ty),
      (''pool_map'', Array rte_eth_vmdq_dcb_conf__bindgen_ty_1_layout 64),
      (''dcb_tc'', Array u8_ty 8)]"

definition rte_eth_vmdq_dcb_conf_test :: layout_test where
  "rte_eth_vmdq_dcb_conf_test = \<lparr>expect_size = 1040, expect_align = 8, expect_offsets = [
      (''nb_queue_pools'', 0), (''enable_default_pool'', 4), (''default_pool'', 5),
      (''nb_pool_maps'', 6), (''pool_map'', 8), (''dcb_tc'', 1032)]\<rparr>"

definition rte_eth_dcb_rx_conf_layout :: rty where
  "rte_eth_dcb_rx_conf_layout = Struct None 1 [
      (''nb_tcs'', u32_ty), (''dcb_tc'', Array u8_ty 8)]"

definition rte_eth_dcb_rx_conf_test :: layout_test where
  "rte_eth_dcb_rx_conf_test = \<lparr>expect_size = 12, expect_align = 4, expect_offsets = [
      (''nb_tcs'', 0), (''dcb_tc'', 4)]\<rparr>"

definition rte_eth_vmdq_rx_conf__bindgen_ty_1_layout :: rty where
  "rte_eth_vmdq_rx_conf__bindgen_ty_1_layout = Struct None 1 [
      (''vlan_id'', u16_ty), (''pools'', u64_ty)]"

definition rte_eth_vmdq_rx_conf__bindgen_ty_1_test :: layout_test where
  "rte_eth_vmdq_rx_conf__bindgen_ty_1_test = \<lparr>expect_size = 16, expect_align = 8, expect_offsets = [
      (''vlan_id'', 0), (''pools'', 8)]\<rparr>"

definition rte_eth_vmdq_rx_conf_layout :: rty where
  "rte_eth_vmdq_rx_conf_layout = Struct None 1 [
      (''nb_queue_pools'', u32_ty), (''enable_default_pool'', u8_ty), (''default_pool'', u8_ty),
      (''enable_loop_back'', u8_ty), (''nb_pool_maps'', u8_ty), (''rx_mode'', u32_ty),
      (''pool_map'', Array rte_eth_vmdq_rx_conf__bindgen_ty_1_layout 64)]"

definition rte_eth_vmdq_rx_conf_test :: layout_test where
  "rte_eth_vmdq_rx_conf_test = \<lparr>expect_size = 1040, expect_align = 8, expect_offsets = [
      (''nb_queue_pools'', 0), (''enable_default_pool'', 4), (''default_pool'', 5),
      (''enable_loop_back'', 6), (''nb_pool_maps'', 7), (''rx_mode'', 8), (''pool_map'', 16)]\<rparr>"

definition rte_eth_conf__bindgen_ty_1_layout :: rty where
  "rte_eth_conf__bindgen_ty_1_layout = Struct None 1 [
      (''rss_conf'', rte_eth_rss_conf_layout), (''vmdq_dcb_conf'', rte_eth_vmdq_dcb_conf_layout),
      (''dcb_rx_conf'', rte_eth_dcb_rx_conf_layout), (''vmdq_rx_conf'', rte_eth_vmdq_rx_conf_layout)]"

definition rte_eth_conf__bindgen_ty_1_test :: layout_test where
  "rte_eth_conf__bindgen_ty_1_test = \<lparr>expect_size = 2120, expect_align = 8, expect_offsets = [
      (''rss_conf'', 0), (''vmdq_dcb_conf'', 24), (''dcb_rx_conf'', 1064), (''vmdq_rx_conf'', 1080)]\<rparr>"

definition rte_eth_vmdq_dcb_tx_conf_layout :: rty where
  "rte_eth_vmdq_dcb_tx_conf_layout = Struct None 1 [
      (''nb_queue_pools'', u32_ty), (''dcb_tc'', Array u8_ty 8)]"

definition rte_eth_vmdq_dcb_tx_conf_test :: layout_test where
  "rte_eth_vmdq_dcb_tx_conf_test = \<lparr>expect_size = 12, expect_align = 4, expect_offsets = [
      (''nb_queue_pools'', 0), (''dcb_tc'', 4)]\<rparr>"

definition rte_eth_dcb_tx_conf_layout :: rty where
  "rte_eth_dcb_tx_conf_layout = Struct None 1 [
      (''nb_tcs'', u32_ty), (''dcb_tc'', Array u8_ty 8)]"

definition rte_eth_dcb_tx_conf_test :: layout_test where
  "rte_eth_dcb_tx_conf_test = \<lparr>expect_size = 12, expect_align = 4, expect_offsets = [
      (''nb_tcs'', 0), (''dcb_tc'', 4)]\<rparr>"

definition rte_eth_vmdq_tx_conf_layout :: rty where
  "rte_eth_vmdq_tx_conf_layout = Struct None 1 [
      (''nb_queue_pools'', u32_ty)]"

definition rte_eth_vmdq_tx_conf_test :: layout_test where
  "rte_eth_vmdq_tx_conf_test = \<lparr>expect_size = 4, expect_align = 4, expect_offsets = [
      (''nb_queue_pools'', 0)]\<rparr>"

definition rte_eth_conf__bindgen_ty_2_layout :: rty where
  "rte_eth_conf__bindgen_ty_2_layout = Union 1 [
      (''vmdq_dcb_tx_conf'', rte_eth_vmdq_dcb_tx_conf_layout),
      (''dcb_tx_conf'', rte_eth_dcb_tx_conf_layout),
      (''vmdq_tx_conf'', rte_eth_vmdq_tx_conf_layout), (''_bindgen_union_align'', Array u32_ty 3)]"

definition rte_eth_conf__bindgen_ty_2_test :: layout_test where
  "rte_eth_conf__bindgen_ty_2_test = \<lparr>expect_size = 12, expect_align = 4, expect_offsets = [
      (''vmdq_dcb_tx_conf'', 0), (''dcb_tx_conf'', 0), (''vmdq_tx_conf'', 0)]\<rparr>"

definition rte_eth_ipv4_flow_layout :: rty where
  "rte_eth_ipv4_flow_layout = Struct None 1 [
      (''src_ip'', u32_ty), (''dst_ip'', u32_ty), (''tos'', u8_ty), (''ttl'', u8_ty),
      (''proto'', u8_ty)]"

definition rte_eth_ipv4_flow_test :: layout_test where
  "rte_eth_ipv4_flow_test = \<lparr>expect_size = 12, expect_align = 4, expect_offsets = [
      (''src_ip'', 0), (''dst_ip'', 4), (''tos'', 8), (''ttl'', 9), (''proto'', 10)]\<rparr>"

definition rte_eth_ipv6_flow_layout :: rty where
  "rte_eth_ipv6_flow_layout = Struct None 1 [
      (''src_ip'', Array u32_ty 4), (''dst_ip'', Array u32_ty 4), (''tc'', u8_ty),
      (''proto'', u8_ty), (''hop_limits'', u8_ty)]"

definition rte_eth_ipv6_flow_test :: layout_test where
  "rte_eth_ipv6_flow_test = \<lparr>expect_size = 36, expect_align = 4, expect_offsets = [
      (''src_ip'', 0), (''dst_ip'', 16), (''tc'', 32), (''proto'', 33), (''hop_limits'', 34)]\<rparr>"

definition rte_eth_fdir_masks_layout :: rty where
  "rte_eth_fdir_masks_layout = Struct None 1 [
      (''vlan_tci_mask'', u16_ty), (''ipv4_mask'', rte_eth_ipv4_flow_layout),
      (''ipv6_mask'', rte_eth_ipv6_flow_layout), (''src_port_mask'', u16_ty),
      (''dst_port_mask'', u16_ty), (''mac_addr_byte_mask'', u8_ty), (''tunnel_id_mask'', u32_ty),
      (''tunnel_type_mask'', u8_ty)]"

definition rte_eth_fdir_masks_test :: layout_test where
  "rte_eth_fdir_masks_test = \<lparr>expect_size = 68, expect_align = 4, expect_offsets = [
      (''vlan_tci_mask'', 0), (''ipv4_mask'', 4), (''ipv6_mask'', 16), (''src_port_mask'', 52),
      (''dst_port_mask'', 54), (''mac_addr_byte_mask'', 56), (''tunnel_id_mask'', 60),
      (''tunnel_type_mask'', 64)]\<rparr>"

definition rte_eth_flex_payload_cfg_layout :: rty where
  "rte_eth_flex_payload_cfg_layout = Struct None 1 [
      (''type_'', u32_ty), (''src_offset'', Array u16_ty 16)]"

definition rte_eth_flex_payload_cfg_test :: layout_test where
  "rte_eth_flex_payload_cfg_test = \<lparr>expect_size = 36, expect_align = 4, expect_offsets = [
      (''type_'', 0), (''src_offset'', 4)]\<rparr>"

definition rte_eth_fdir_flex_mask_layout :: rty where
  "rte_eth_fdir_flex_mask_layout = Struct None 1 [
      (''flow_type'', u16_ty), (''mask'', Array u8_ty 16)]"

definition rte_eth_fdir_flex_mask_test :: layout_test where
  "rte_eth_fdir_flex_mask_test = \<lparr>expect_size = 18, expect_align = 2, expect_offsets = [
      (''flow_type'', 0), (''mask'', 2)]\<rparr>"

definition rte_eth_fdir_flex_conf_layout :: rty where
  "rte_eth_fdir_flex_conf_layout = Struct None 1 [
      (''nb_payloads'', u16_ty), (''nb_flexmasks'', u16_ty),
      (''flex_set'', Array rte_eth_flex_payload_cfg_layout 8),
      (''flex_mask'', Array rte_eth_fdir_flex_mask_layout 24)]"

definition rte_eth_fdir_flex_conf_test :: layout_test where
  "rte_eth_fdir_flex_conf_test = \<lparr>expect_size = 724, expect_align = 4, expect_offsets = [
      (''nb_payloads'', 0), (''nb_flexmasks'', 2), (''flex_set'', 4), (''flex_mask'', 292)]\<rparr>"

definition rte_fdir_conf_layout :: rty where
  "rte_fdir_conf_layout = Struct None 1 [
      (''mode'', u32_ty), (''pballoc'', u32_ty), (''status'', u32_ty), (''drop_queue'', u8_ty),
      (''mask'', rte_eth_fdir_masks_layout), (''flex_conf'', rte_eth_fdir_flex_conf_layout)]"

definition rte_fdir_conf_test :: layout_test where
  "rte_fdir_conf_test = \<lparr>expect_size = 808, expect_align = 4, expect_offsets = [
      (''mode'', 0), (''pballoc'', 4), (''status'', 8), (''drop_queue'', 12), (''mask'', 16),
      (''flex_conf'', 84)]\<rparr>"

definition rte_intr_conf_layout :: rty where
  "rte_intr_conf_layout = Struct None 4 [
      (''_bitfield_1'', BitfieldUnit 1 u8_ty), (''__bindgen_padding_0'', Array u8_ty 3)]"

definition rte_intr_conf_test :: layout_test where
  "rte_intr_conf_test = \<lparr>expect_size = 4, expect_align = 4, expect_offsets = []\<rparr>"

definition rte_eth_conf_layout :: rty where
  "rte_eth_conf_layout = Struct None 1 [
      (''link_speeds'', u32_ty), (''rxmode'', rte_eth_rxmode_layout),
      (''txmode'', rte_eth_txmode_layout), (''lpbk_mode'', u32_ty),
      (''rx_adv_conf'', rte_eth_conf__bindgen_ty_1_layout),
      (''tx_adv_conf'', rte_eth_conf__bindgen_ty_2_layout), (''dcb_capability_en'', u32_ty),
      (''fdir_conf'', rte_fdir_conf_layout), (''intr_conf'', rte_intr_conf_layout)]"

definition rte_eth_conf_test :: layout_test where
  "rte_eth_conf_test = \<lparr>expect_size = 3080, expect_align = 8, expect_offsets = [
      (''link_speeds'', 0), (''rxmode'', 8), (''txmode'', 64), (''lpbk_mode'', 120),
      (''rx_adv_conf'', 128), (''tx_adv_conf'', 2248), (''dcb_capability_en'', 2260),
      (''fdir_conf'', 2264), (''intr_conf'', 3072)]\<rparr>"

definition eth_tests :: "(rty \<times> layout_test) list" where
  "eth_tests =
    [(rte_eth_thresh_layout, rte_eth_thresh_test),
     (rte_eth_rxconf_layout, rte_eth_rxconf_test),
     (rte_eth_txconf_layout, rte_eth_txconf_test),
     (rte_eth_desc_lim_layout, rte_eth_desc_lim_test),
     (rte_eth_dev_portconf_layout, rte_eth_dev_portconf_test),
     (rte_eth_switch_info_layout, rte_eth_switch_info_test),
     (rte_eth_dev_info_layout, rte_eth_dev_info_test),
     (rte_eth_rxmode_layout, rte_eth_rxmode_test),
     (rte_eth_txmode_layout, rte_eth_txmode_test),
     (rte_eth_rss_conf_layout, rte_eth_rss_conf_test),
     (rte_eth_vmdq_dcb_conf__bindgen_ty_1_layout, rte_eth_vmdq_dcb_conf__bindgen_ty_1_test),
     (rte_eth_vmdq_dcb_conf_layout, rte_eth_vmdq_dcb_conf_test),
     (rte_eth_dcb_rx_conf_layout, rte_eth_dcb_rx_conf_test),
     (rte_eth_vmdq_rx_conf__bindgen_ty_1_layout, rte_eth_vmdq_rx_conf__bindgen_ty_1_test),
     (rte_eth_vmdq_rx_conf_layout, rte_eth_vmdq_rx_conf_test),
     (rte_eth_conf__bindgen_ty_1_layout, rte_eth_conf__bindgen_ty_1_test),
     (rte_eth_vmdq_dcb_tx_conf_layout, rte_eth_vmdq_dcb_tx_conf_test),
     (rte_eth_dcb_tx_conf_layout, rte_eth_dcb_tx_conf_test),
     (rte_eth_vmdq_tx_conf_layout, rte_eth_vmdq_tx_conf_test),
     (rte_eth_conf__bindgen_ty_2_layout, rte_eth_conf__bindgen_ty_2_test),
     (rte_eth_ipv4_flow_layout, rte_eth_ipv4_flow_test),
     (rte_eth_ipv6_flow_layout, rte_eth_ipv6_flow_test),
     (rte_eth_fdir_masks_layout, rte_eth_fdir_masks_test),
     (rte_eth_flex_payload_cfg_layout, rte_eth_flex_payload_cfg_test),
     (rte_eth_fdir_flex_mask_layout, rte_eth_fdir_flex_mask_test),
     (rte_eth_fdir_flex_conf_layout, rte_eth_fdir_flex_conf_test),
     (rte_fdir_conf_layout, rte_fdir_conf_test),
     (rte_intr_conf_layout, rte_intr_conf_test),
     (rte_eth_conf_layout, rte_eth_conf_test)]"

lemma rte_eth_thresh_passes [layout_passes]:
  "layout_test_passes rte_eth_thresh_layout rte_eth_thresh_test" "wf_ty rte_eth_thresh_layout"
  by (simp_all add: layout_simps rte_eth_thresh_layout_def rte_eth_thresh_test_def del: One_nat_def)

lemmas rte_eth_thresh_facts [layout_simps] =
  layout_test_passesD [OF rte_eth_thresh_passes(1)] rte_eth_thresh_passes(2) rte_eth_thresh_test_def

lemma rte_eth_rxconf_passes [layout_passes]:
  "layout_test_passes rte_eth_rxconf_layout rte_eth_rxconf_test" "wf_ty rte_eth_rxconf_layout"
  by (simp_all add: layout_simps rte_eth_rxconf_layout_def rte_eth_rxconf_test_def del: One_nat_def)

lemmas rte_eth_rxconf_facts [layout_simps] =
  layout_test_passesD [OF rte_eth_rxconf_passes(1)] rte_eth_rxconf_passes(2) rte_eth_rxconf_test_def

lemma rte_eth_txconf_passes [layout_passes]:
  "layout_test_passes rte_eth_txconf_layout rte_eth_txconf_test" "wf_ty rte_eth_txconf_layout"
  by (simp_all add: layout_simps rte_eth_txconf_layout_def rte_eth_txconf_test_def del: One_nat_def)

lemmas rte_eth_txconf_facts [layout_simps] =
  layout_test_passesD [OF rte_eth_txconf_passes(1)] rte_eth_txconf_passes(2) rte_eth_txconf_test_def

lemma rte_eth_desc_lim_passes [layout_passes]:
  "layout_test_passes rte_eth_desc_lim_layout rte_eth_desc_lim_test" "wf_ty rte_eth_desc_lim_layout"
  by (simp_all add: layout_simps rte_eth_desc_lim_layout_def rte_eth_desc_lim_test_def del: One_nat_def)

lemmas rte_eth_desc_lim_facts [layout_simps] =
  layout_test_passesD [OF rte_eth_desc_lim_passes(1)] rte_eth_desc_lim_passes(2) rte_eth_desc_lim_test_def

lemma rte_eth_dev_portconf_passes [layout_passes]:
  "layout_test_passes rte_eth_dev_portconf_layout rte_eth_dev_portconf_test" "wf_ty rte_eth_dev_portconf_layout"
  by (simp_all add: layout_simps rte_eth_dev_portconf_layout_def rte_eth_dev_portconf_test_def del: One_nat_def)

lemmas rte_eth_dev_portconf_facts [layout_simps] =
  layout_test_passesD [OF rte_eth_dev_portconf_passes(1)] rte_eth_dev_portconf_passes(2) rte_eth_dev_portconf_test_def

lemma rte_eth_switch_info_passes [layout_passes]:
  "layout_test_passes rte_eth_switch_info_layout rte_eth_switch_info_test" "wf_ty rte_eth_switch_info_layout"
  by (simp_all add: layout_simps rte_eth_switch_info_layout_def rte_eth_switch_info_test_def del: One_nat_def)

lemmas rte_eth_switch_info_facts [layout_simps] =
  layout_test_passesD [OF rte_eth_switch_info_passes(1)] rte_eth_switch_info_passes(2) rte_eth_switch_info_test_def

lemma rte_eth_dev_info_passes [layout_passes]:
  "layout_test_passes rte_eth_dev_info_layout rte_eth_dev_info_test" "wf_ty rte_eth_dev_info_layout"
  by (simp_all add: layout_simps rte_eth_dev_info_layout_def rte_eth_dev_info_test_def del: One_nat_def)

lemmas rte_eth_dev_info_facts [layout_simps] =
  layout_test_passesD [OF rte_eth_dev_info_passes(1)] rte_eth_dev_info_passes(2) rte_eth_dev_info_test_def

lemma rte_eth_rxmode_passes [layout_passes]:
  "layout_test_passes rte_eth_rxmode_layout rte_eth_rxmode_test" "wf_ty rte_eth_rxmode_layout"
  by (simp_all add: layout_simps rte_eth_rxmode_layout_def rte_eth_rxmode_test_def del: One_nat_def)

lemmas rte_eth_rxmode_facts [layout_simps] =
  layout_test_passesD [OF rte_eth_rxmode_passes(1)] rte_eth_rxmode_passes(2) rte_eth_rxmode_test_def

lemma rte_eth_txmode_passes [layout_passes]:
  "layout_test_passes rte_eth_txmode_layout rte_eth_txmode_test" "wf_ty rte_eth_txmode_layout"
  by (simp_all add: layout_simps rte_eth_txmode_layout_def rte_eth_txmode_test_def del: One_nat_def)

lemmas rte_eth_txmode_facts [layout_simps] =
  layout_test_passesD [OF rte_eth_txmode_passes(1)] rte_eth_txmode_passes(2) rte_eth_txmode_test_def

lemma rte_eth_rss_conf_passes [layout_passes]:
  "layout_test_passes rte_eth_rss_conf_layout rte_eth_rss_conf_test" "wf_ty rte_eth_rss_conf_layout"
  by (simp_all add: layout_simps rte_eth_rss_conf_layout_def rte_eth_rss_conf_test_def del: One_nat_def)

lemmas rte_eth_rss_conf_facts [layout_simps] =
  layout_test_passesD [OF rte_eth_rss_conf_passes(1)] rte_eth_rss_conf_passes(2) rte_eth_rss_conf_test_def

lemma rte_eth_vmdq_dcb_conf__bindgen_ty_1_passes [layout_passes]:
  "layout_test_passes rte_eth_vmdq_dcb_conf__bindgen_ty_1_layout rte_eth_vmdq_dcb_conf__bindgen_ty_1_test" "wf_ty rte_eth_vmdq_dcb_conf__bindgen_ty_1_layout"
  by (simp_all add: layout_simps rte_eth_vmdq_dcb_conf__bindgen_ty_1_layout_def rte_eth_vmdq_dcb_conf__bindgen_ty_1_test_def del: One_nat_def)

lemmas rte_eth_vmdq_dcb_conf__bindgen_ty_1_facts [layout_simps] =
  layout_test_passesD [OF rte_eth_vmdq_dcb_conf__bindgen_ty_1_passes(1)] rte_eth_vmdq_dcb_conf__bindgen_ty_1_passes(2) rte_eth_vmdq_dcb_conf__bindgen_ty_1_test_def

lemma rte_eth_vmdq_dcb_conf_passes [layout_passes]:
  "layout_test_passes rte_eth_vmdq_dcb_conf_layout rte_eth_vmdq_dcb_conf_test" "wf_ty rte_eth_vmdq_dcb_conf_layout"
  by (simp_all add: layout_simps rte_eth_vmdq_dcb_conf_layout_def rte_eth_vmdq_dcb_conf_test_def del: One_nat_def)

lemmas rte_eth_vmdq_dcb_conf_facts [layout_simps] =
  layout_test_passesD [OF rte_eth_vmdq_dcb_conf_passes(1)] rte_eth_vmdq_dcb_conf_passes(2) rte_eth_vmdq_dcb_conf_test_def

lemma rte_eth_dcb_rx_conf_passes [layout_passes]:
  "layout_test_passes rte_eth_dcb_rx_conf_layout rte_eth_dcb_rx_conf_test" "wf_ty rte_eth_dcb_rx_conf_layout"
  by (simp_all add: layout_simps rte_eth_dcb_rx_conf_layout_def rte_eth_dcb_rx_conf_test_def del: One_nat_def)

lemmas rte_eth_dcb_rx_conf_facts [layout_simps] =
  layout_test_passesD [OF rte_eth_dcb_rx_conf_passes(1)] rte_eth_dcb_rx_conf_passes(2) rte_eth_dcb_rx_conf_test_def

lemma rte_eth_vmdq_rx_conf__bindgen_ty_1_passes [layout_passes]:
  "layout_test_passes rte_eth_vmdq_rx_conf__bindgen_ty_1_layout rte_eth_vmdq_rx_conf__bindgen_ty_1_test" "wf_ty rte_eth_vmdq_rx_conf__bindgen_ty_1_layout"
  by (simp_all add: layout_simps rte_eth_vmdq_rx_conf__bindgen_ty_1_layout_def rte_eth_vmdq_rx_conf__bindgen_ty_1_test_def del: One_nat_def)

lemmas rte_eth_vmdq_rx_conf__bindgen_ty_1_facts [layout_simps] =
  layout_test_passesD [OF rte_eth_vmdq_rx_conf__bindgen_ty_1_passes(1)] rte_eth_vmdq_rx_conf__bindgen_ty_1_passes(2) rte_eth_vmdq_rx_conf__bindgen_ty_1_test_def

lemma rte_eth_vmdq_rx_conf_passes [layout_passes]:
  "layout_test_passes rte_eth_vmdq_rx_conf_layout rte_eth_vmdq_rx_conf_test" "wf_ty rte_eth_vmdq_rx_conf_layout"
  by (simp_all add: layout_simps rte_eth_vmdq_rx_conf_layout_def rte_eth_vmdq_rx_conf_test_def del: One_nat_def)

lemmas rte_eth_vmdq_rx_conf_facts [layout_simps] =
  layout_test_passesD [OF rte_eth_vmdq_rx_conf_passes(1)] rte_eth_vmdq_rx_conf_passes(2) rte_eth_vmdq_rx_conf_test_def

lemma rte_eth_conf__bindgen_ty_1_passes [layout_passes]:
  "layout_test_passes rte_eth_conf__bindgen_ty_1_layout rte_eth_conf__bindgen_ty_1_test" "wf_ty rte_eth_conf__bindgen_ty_1_layout"
  by (simp_all add: layout_simps rte_eth_conf__bindgen_ty_1_layout_def rte_eth_conf__bindgen_ty_1_test_def del: One_nat_def)

lemmas rte_eth_conf__bindgen_ty_1_facts [layout_simps] =
  layout_test_passesD [OF rte_eth_conf__bindgen_ty_1_passes(1)] rte_eth_conf__bindgen_ty_1_passes(2) rte_eth_conf__bindgen_ty_1_test_def

lemma rte_eth_vmdq_dcb_tx_conf_passes [layout_passes]:
  "layout_test_passes rte_eth_vmdq_dcb_tx_conf_layout rte_eth_vmdq_dcb_tx_conf_test" "wf_ty rte_eth_vmdq_dcb_tx_conf_layout"
  by (simp_all add: layout_simps rte_eth_vmdq_dcb_tx_conf_layout_def rte_eth_vmdq_dcb_tx_conf_test_def del: One_nat_def)

lemmas rte_eth_vmdq_dcb_tx_conf_facts [layout_simps] =
  layout_test_passesD [OF rte_eth_vmdq_dcb_tx_conf_passes(1)] rte_eth_vmdq_dcb_tx_conf_passes(2) rte_eth_vmdq_dcb_tx_conf_test_def

lemma rte_eth_dcb_tx_conf_passes [layout_passes]:
  "layout_test_passes rte_eth_dcb_tx_conf_layout rte_eth_dcb_tx_conf_test" "wf_ty rte_eth_dcb_tx_conf_layout"
  by (simp_all add: layout_simps rte_eth_dcb_tx_conf_layout_def rte_eth_dcb_tx_conf_test_def del: One_nat_def)

lemmas rte_eth_dcb_tx_conf_facts [layout_simps] =
  layout_test_passesD [OF rte_eth_dcb_tx_conf_passes(1)] rte_eth_dcb_tx_conf_passes(2) rte_eth_dcb_tx_conf_test_def

lemma rte_eth_vmdq_tx_conf_passes [layout_passes]:
  "layout_test_passes rte_eth_vmdq_tx_conf_layout rte_eth_vmdq_tx_conf_test" "wf_ty rte_eth_vmdq_tx_conf_layout"
  by (simp_all add: layout_simps rte_eth_vmdq_tx_conf_layout_def rte_eth_vmdq_tx_conf_test_def del: One_nat_def)

lemmas rte_eth_vmdq_tx_conf_facts [layout_simps] =
  layout_test_passesD [OF rte_eth_vmdq_tx_conf_passes(1)] rte_eth_vmdq_tx_conf_passes(2) rte_eth_vmdq_tx_conf_test_def

lemma rte_eth_conf__bindgen_ty_2_passes [layout_passes]:
  "layout_test_passes rte_eth_conf__bindgen_ty_2_layout rte_eth_conf__bindgen_ty_2_test" "wf_ty rte_eth_conf__bindgen_ty_2_layout"
  by (simp_all add: layout_simps rte_eth_conf__bindgen_ty_2_layout_def rte_eth_conf__bindgen_ty_2_test_def del: One_nat_def)

lemmas rte_eth_conf__bindgen_ty_2_facts [layout_simps] =
  layout_test_passesD [OF rte_eth_conf__bindgen_ty_2_passes(1)] rte_eth_conf__bindgen_ty_2_passes(2) rte_eth_conf__bindgen_ty_2_test_def

lemma rte_eth_ipv4_flow_passes [layout_passes]:
  "layout_test_passes rte_eth_ipv4_flow_layout rte_eth_ipv4_flow_test" "wf_ty rte_eth_ipv4_flow_layout"
  by (simp_all add: layout_simps rte_eth_ipv4_flow_layout_def rte_eth_ipv4_flow_test_def del: One_nat_def)

lemmas rte_eth_ipv4_flow_facts [layout_simps] =
  layout_test_passesD [OF rte_eth_ipv4_flow_passes(1)] rte_eth_ipv4_flow_passes(2) rte_eth_ipv4_flow_test_def

lemma rte_eth_ipv6_flow_passes [layout_passes]:
  "layout_test_passes rte_eth_ipv6_flow_layout rte_eth_ipv6_flow_test" "wf_ty rte_eth_ipv6_flow_layout"
  by (simp_all add: layout_simps rte_eth_ipv6_flow_layout_def rte_eth_ipv6_flow_test_def del: One_nat_def)

lemmas rte_eth_ipv6_flow_facts [layout_simps] =
  layout_test_passesD [OF rte_eth_ipv6_flow_passes(1)] rte_eth_ipv6_flow_passes(2) rte_eth_ipv6_flow_test_def

lemma rte_eth_fdir_masks_passes [layout_passes]:
  "layout_test_passes rte_eth_fdir_masks_layout rte_eth_fdir_masks_test" "wf_ty rte_eth_fdir_masks_layout"
  by (simp_all add: layout_simps rte_eth_fdir_masks_layout_def rte_eth_fdir_masks_test_def del: One_nat_def)

lemmas rte_eth_fdir_masks_facts [layout_simps] =
  layout_test_passesD [OF rte_eth_fdir_masks_passes(1)] rte_eth_fdir_masks_passes(2) rte_eth_fdir_masks_test_def

lemma rte_eth_flex_payload_cfg_passes [layout_passes]:
  "layout_test_passes rte_eth_flex_payload_cfg_layout rte_eth_flex_payload_cfg_test" "wf_ty rte_eth_flex_payload_cfg_layout"
  by (simp_all add: layout_simps rte_eth_flex_payload_cfg_layout_def rte_eth_flex_payload_cfg_test_def del: One_nat_def)

lemmas rte_eth_flex_payload_cfg_facts [layout_simps] =
  layout_test_passesD [OF rte_eth_flex_payload_cfg_passes(1)] rte_eth_flex_payload_cfg_passes(2) rte_eth_flex_payload_cfg_test_def

lemma rte_eth_fdir_flex_mask_passes [layout_passes]:
  "layout_test_passes rte_eth_fdir_flex_mask_layout rte_eth_fdir_flex_mask_test" "wf_ty rte_eth_fdir_flex_mask_layout"
  by (simp_all add: layout_simps rte_eth_fdir_flex_mask_layout_def rte_eth_fdir_flex_mask_test_def del: One_nat_def)

lemmas rte_eth_fdir_flex_mask_facts [layout_simps] =
  layout_test_passesD [OF rte_eth_fdir_flex_mask_passes(1)] rte_eth_fdir_flex_mask_passes(2) rte_eth_fdir_flex_mask_test_def

lemma rte_eth_fdir_flex_conf_passes [layout_passes]:
  "layout_test_passes rte_eth_fdir_flex_conf_layout rte_eth_fdir_flex_conf_test" "wf_ty rte_eth_fdir_flex_conf_layout"
  by (simp_all add: layout_simps rte_eth_fdir_flex_conf_layout_def rte_eth_fdir_flex_conf_test_def del: One_nat_def)

lemmas rte_eth_fdir_flex_conf_facts [layout_simps] =
  layout_test_passesD [OF rte_eth_fdir_flex_conf_passes(1)] rte_eth_fdir_flex_conf_passes(2) rte_eth_fdir_flex_conf_test_def

lemma rte_fdir_conf_passes [layout_passes]:
  "layout_test_passes rte_fdir_conf_layout rte_fdir_conf_test" "wf_ty rte_fdir_conf_layout"
  by (simp_all add: layout_simps rte_fdir_conf_layout_def rte_fdir_conf_test_def del: One_nat_def)

lemmas rte_fdir_conf_facts [layout_simps] =
  layout_test_passesD [OF rte_fdir_conf_passes(1)] rte_fdir_conf_passes(2) rte_fdir_conf_test_def

lemma rte_intr_conf_passes [layout_passes]:
  "layout_test_passes rte_intr_conf_layout rte_intr_conf_test" "wf_ty rte_intr_conf_layout"
  by (simp_all add: layout_simps rte_intr_conf_layout_def rte_intr_conf_test_def del: One_nat_def)

lemmas rte_intr_conf_facts [layout_simps] =
  layout_test_passesD [OF rte_intr_conf_passes(1)] rte_intr_conf_passes(2) rte_intr_conf_test_def

lemma rte_eth_conf_passes [layout_passes]:
  "layout_test_passes rte_eth_conf_layout rte_eth_conf_test" "wf_ty rte_eth_conf_layout"
  by (simp_all add: layout_simps rte_eth_conf_layout_def rte_eth_conf_test_def del: One_nat_def)

lemmas rte_eth_conf_facts [layout_simps] =
  layout_test_passesD [OF rte_eth_conf_passes(1)] rte_eth_conf_passes(2) rte_eth_conf_test_def

text \<open>
  The layout computed by the C rules for the device information and configuration is the one the generated
  tests assert, and the types are well-formed.
\<close>

lemma eth_layout_tests_pass [layout_tests_pass]:
  "list_all (\<lambda>(t, e). layout_test_passes t e \<and> wf_ty t) eth_tests"
  by (simp add: eth_tests_def layout_passes)

end
