(* ===== verification/Layouts_Net.thy ===== *)
theory Layouts_Net
  imports Layout
begin

text \<open>
  The types of the protocol headers as
  \<open>dpdk-sys/src/bindings_rustdoc.rs\<close> declares them, and for each type the size, alignment and offsets that its generated
  \<open>bindgen_test_layout\<close> function asserts. A field of a type alias or of an enumeration
  module stands with the integer type it names.
\<close>

definition rte_ether_addr_layout :: rty where
  "rte_ether_addr_layout = Struct None 2 [
      (''addr_bytes'', Array u8_ty 6)]"

definition rte_ether_addr_test :: layout_test where
  "rte_ether_addr_test = \<lparr>expect_size = 6, expect_align = 2, expect_offsets = [
      (''addr_bytes'', 0)]\<rparr>"

definition rte_ether_hdr_layout :: rty where
  "rte_ether_hdr_layout = Struct None 1 [
      (''d_addr'', rte_ether_addr_layout), (''s_addr'', rte_ether_addr_layout),
      (''ether_type'', u16_ty)]"

definition rte_ether_hdr_test :: layout_test where
  "rte_ether_hdr_test = \<lparr>expect_size = 14, expect_align = 2, expect_offsets = [
      (''d_addr'', 0), (''s_addr'', 6), (''ether_type'', 12)]\<rparr>"

definition rte_arp_hdr_layout :: rty where
  "rte_arp_hdr_layout = Struct None 2 [
      (''_bindgen_opaque_blob'', Array u16_ty 14)]"

definition rte_arp_hdr_test :: layout_test where
  "rte_arp_hdr_test = \<lparr>expect_size = 28, expect_align = 2, expect_offsets = []\<rparr>"

definition rte_ipv4_hdr_layout :: rty where
  "rte_ipv4_hdr_layout = Struct (Some 1) 1 [
      (''version_ihl'', u8_ty), (''type_of_service'', u8_ty), (''total_length'', u16_ty),
      (''packet_id'', u16_ty), (''fragment_offset'', u16_ty), (''time_to_live'', u8_ty),
      (''next_proto_id'', u8_ty), (''hdr_checksum'', u16_ty), (''src_addr'', u32_ty),
      (''dst_addr'', u32_ty)]"

definition rte_ipv4_hdr_test :: layout_test where
  "rte_ipv4_hdr_test = \<lparr>expect_size = 20, expect_align = 1, expect_offsets = [
      (''version_ihl'', 0), (''type_of_service'', 1), (''total_length'', 2), (''packet_id'', 4),
      (''fragment_offset'', 6), (''time_to_live'', 8), (''next_proto_id'', 9),
      (''hdr_checksum'', 10), (''src_addr'', 12), (''dst_addr'', 16)]\<rparr>"

definition rte_tcp_hdr_layout :: rty where
  "rte_tcp_hdr_layout = Struct (Some 1) 1 [
      (''src_port'', u16_ty), (''dst_port'', u16_ty), (''sent_seq'', u32_ty),
      (''recv_ack'', u32_ty), (''data_off'', u8_ty), (''tcp_flags'', u8_ty), (''rx_win'', u16_ty),
      (''cksum'', u16_ty), (''tcp_urp'', u16_ty)]"

definition rte_tcp_hdr_test :: layout_test where
  "rte_tcp_hdr_test = \<lparr>expect_size = 20, expect_align = 1, expect_offsets = [
      (''src_port'', 0), (''dst_port'', 2), (''sent_seq'', 4), (''recv_ack'', 8),
      (''data_off'', 12), (''tcp_flags'', 13), (''rx_win'', 14), (''cksum'', 16), (''tcp_urp'', 18)]\<rparr>"

definition rte_udp_hdr_layout :: rty where
  "rte_udp_hdr_layout = Struct (Some 1) 1 [
      (''src_port'', u16_ty), (''dst_port'', u16_ty), (''dgram_len'', u16_ty),
      (''dgram_cksum'', u16_ty)]"

definition rte_udp_hdr_test :: layout_test where
  "rte_udp_hdr_test = \<lparr>expect_size = 8, expect_align = 1, expect_offsets = [
      (''src_port'', 0), (''dst_port'', 2), (''dgram_len'', 4), (''dgram_cksum'', 6)]\<rparr>"

definition rte_icmp_hdr_layout :: rty where
  "rte_icmp_hdr_layout = Struct (Some 1) 1 [
      (''icmp_type'', u8_ty), (''icmp_code'', u8_ty), (''icmp_cksum'', u16_ty),
      (''icmp_ident'', u16_ty), (''icmp_seq_nb'', u16_ty)]"

definition rte_icmp_hdr_test :: layout_test where
  "rte_icmp_hdr_test = \<lparr>expect_size = 8, expect_align = 1, expect_offsets = [
      (''icmp_type'', 0), (''icmp_code'', 1), (''icmp_cksum'', 2), (''icmp_ident'', 4),
      (''icmp_seq_nb'', 6)]\<rparr>"

definition net_tests :: "(rty \<times> layout_test) list" where
  "net_tests =
    [(rte_ether_addr_layout, rte_ether_addr_test),
     (rte_ether_hdr_layout, rte_ether_hdr_test),
     (rte_arp_hdr_layout, rte_arp_hdr_test),
     (rte_ipv4_hdr_layout, rte_ipv4_hdr_test),
     (rte_tcp_hdr_layout, rte_tcp_hdr_test),
     (rte_udp_hdr_layout, rte_udp_hdr_test),
     (rte_icmp_hdr_layout, rte_icmp_hdr_test)]"

lemma rte_ether_addr_passes [layout_passes]:
  "layout_test_passes rte_ether_addr_layout rte_ether_addr_test" "wf_ty rte_ether_addr_layout"
  by (simp_all add: layout_simps rte_ether_addr_layout_def rte_ether_addr_test_def del: One_nat_def)

lemmas rte_ether_addr_facts [layout_simps] =
  layout_test_passesD [OF rte_ether_addr_passes(1)] rte_ether_addr_passes(2) rte_ether_addr_test_def

lemma rte_ether_hdr_passes [layout_passes]:
  "layout_test_passes rte_ether_hdr_layout rte_ether_hdr_test" "wf_ty rte_ether_hdr_layout"
  by (simp_all add: layout_simps rte_ether_hdr_layout_def rte_ether_hdr_test_def del: One_nat_def)

lemmas rte_ether_hdr_facts [layout_simps] =
  layout_test_passesD [OF rte_ether_hdr_passes(1)] rte_ether_hdr_passes(2) rte_ether_hdr_test_def

lemma rte_arp_hdr_passes [layout_passes]:
  "layout_test_passes rte_arp_hdr_layout rte_arp_hdr_test" "wf_ty rte_arp_hdr_layout"
  by (simp_all add: layout_simps rte_arp_hdr_layout_def rte_arp_hdr_test_def del: One_nat_def)

lemmas rte_arp_hdr_facts [layout_simps] =
  layout_test_passesD [OF rte_arp_hdr_passes(1)] rte_arp_hdr_passes(2) rte_arp_hdr_test_def

lemma rte_ipv4_hdr_passes [layout_passes]:
  "layout_test_passes rte_ipv4_hdr_layout rte_ipv4_hdr_test" "wf_ty rte_ipv4_hdr_layout"
  by (simp_all add: layout_simps rte_ipv4_hdr_layout_def rte_ipv4_hdr_test_def del: One_nat_def)

lemmas rte_ipv4_hdr_facts [layout_simps] =
  layout_test_passesD [OF rte_ipv4_hdr_passes(1)] rte_ipv4_hdr_passes(2) rte_ipv4_hdr_test_def

lemma rte_tcp_hdr_passes [layout_passes]:
  "layout_test_passes rte_tcp_hdr_layout rte_tcp_hdr_test" "wf_ty rte_tcp_hdr_layout"
  by (simp_all add: layout_simps rte_tcp_hdr_layout_def rte_tcp_hdr_test_def del: One_nat_def)

lemmas rte_tcp_hdr_facts [layout_simps] =
  layout_test_passesD [OF rte_tcp_hdr_passes(1)] rte_tcp_hdr_passes(2) rte_tcp_hdr_test_def

lemma rte_udp_hdr_passes [layout_passes]:
  "layout_test_passes rte_udp_hdr_layout rte_udp_hdr_test" "wf_ty rte_udp_hdr_layout"
  by (simp_all add: layout_simps rte_udp_hdr_layout_def rte_udp_hdr_test_def del: One_nat_def)

lemmas rte_udp_hdr_facts [layout_simps] =
  layout_test_passesD [OF rte_udp_hdr_passes(1)] rte_udp_hdr_passes(2) rte_udp_hdr_test_def

lemma rte_icmp_hdr_passes [layout_passes]:
  "layout_test_passes rte_icmp_hdr_layout rte_icmp_hdr_test" "wf_ty rte_icmp_hdr_layout"
  by (simp_all add: layout_simps rte_icmp_hdr_layout_def rte_icmp_hdr_test_def del: One_nat_def)

lemmas rte_icmp_hdr_facts [layout_simps] =
  layout_test_passesD [OF rte_icmp_hdr_passes(1)] rte_icmp_hdr_passes(2) rte_icmp_hdr_test_def

text \<open>
  The layout computed by the C rules for the protocol headers is the one the generated
  tests assert, and the types are well-formed.
\<close>

lemma net_layout_tests_pass [layout_tests_pass]:
  "list_all (\<lambda>(t, e). layout_test_passes t e \<and> wf_ty t) net_tests"
  by (simp add: net_tests_def layout_passes)

end
