(* ===== verification/Layouts_Dev.thy ===== *)
theory Layouts_Dev
  imports Layouts_Eth Layouts_Net
begin

text \<open>
  The types of the Ethernet device objects, their state, statistics and driver operations as
  \<open>dpdk-sys/src/bindings_rustdoc.rs\<close> declares them, and for each type the size, alignment and offsets that its generated
  \<open>bindgen_test_layout\<close> function asserts. A field of a type alias or of an enumeration
  module stands with the integer type it names.
\<close>

definition rte_eth_stats_layout :: rty where
  "rte_eth_stats_layout = Struct None 1 [
      (''ipackets'', u64_ty), (''opackets'', u64_ty), (''ibytes'', u64_ty), (''obytes'', u64_ty),
      (''imissed'', u64_ty), (''ierrors'', u64_ty), (''oerrors'', u64_ty), (''rx_nombuf'', u64_ty),
      (''q_ipackets'', Array u64_ty 16), (''q_opackets'', Array u64_ty 16),
      (''q_ibytes'', Array u64_ty 16), (''q_obytes'', Array u64_ty 16),
      (''q_errors'', Array u64_ty 16)]"

definition rte_eth_stats_test :: layout_test where
  "rte_eth_stats_test = \<lparr>expect_size = 704, expect_align = 8, expect_offsets = [
      (''ipackets'', 0), (''opackets'', 8), (''ibytes'', 16), (''obytes'', 24), (''imissed'', 32),
      (''ierrors'', 40), (''oerrors'', 48), (''rx_nombuf'', 56), (''q_ipackets'', 64),
      (''q_opackets'', 192), (''q_ibytes'', 320), (''q_obytes'', 448), (''q_errors'', 576)]\<rparr>"

definition rte_eth_link_layout :: rty where
  "rte_eth_link_layout = Struct None 8 [
      (''link_speed'', u32_ty), (''_bitfield_1'', BitfieldUnit 1 u8_ty),
      (''__bindgen_padding_0'', Array u8_ty 3)]"

definition rte_eth_link_test :: layout_test where
  "rte_eth_link_test = \<lparr>expect_size = 8, expect_align = 8, expect_offsets = [
      (''link_speed'', 0)]\<rparr>"

definition rte_eth_rxq_info_layout :: rty where
  "rte_eth_rxq_info_layout = Struct None 64 [
      (''mp'', Pointer), (''conf'', rte_eth_rxconf_layout), (''scattered_rx'', u8_ty),
      (''nb_desc'', u16_ty)]"

definition rte_eth_rxq_info_test :: layout_test where
  "rte_eth_rxq_info_test = \<lparr>expect_size = 64, expect_align = 64, expect_offsets = [
      (''mp'', 0), (''conf'', 8), (''scattered_rx'', 56), (''nb_desc'', 58)]\<rparr>"

definition rte_eth_txq_info_layout :: rty where
  "rte_eth_txq_info_layout = Struct None 64 [
      (''conf'', rte_eth_txconf_layout), (''nb_desc'', u16_ty)]"

definition rte_eth_txq_info_test :: layout_test where
  "rte_eth_txq_info_test = \<lparr>expect_size = 64, expect_align = 64, expect_offsets = [
      (''conf'', 0), (''nb_desc'', 56)]\<rparr>"

definition rte_eth_xstat_layout :: rty where
  "rte_eth_xstat_layout = Struct None 1 [
      (''id'', u64_ty), (''value'', u64_ty)]"

definition rte_eth_xstat_test :: layout_test where
  "rte_eth_xstat_test = \<lparr>expect_size = 16, expect_align = 8, expect_offsets = [
      (''id'', 0), (''value'', 8)]\<rparr>"

definition rte_eth_xstat_name_layout :: rty where
  "rte_eth_xstat_name_layout = Struct None 1 [
      (''name'', Array u8_ty 64)]"

definition rte_eth_xstat_name_test :: layout_test where
  "rte_eth_xstat_name_test = \<lparr>expect_size = 64, expect_align = 1, expect_offsets = [
      (''name'', 0)]\<rparr>"

definition rte_eth_burst_mode_layout :: rty where
  "rte_eth_burst_mode_layout = Struct None 1 [
      (''flags'', u64_ty), (''info'', Array u8_ty 1024)]"

definition rte_eth_burst_mode_test :: layout_test where
  "rte_eth_burst_mode_test = \<lparr>expect_size = 1032, expect_align = 8, expect_offsets = [
      (''flags'', 0), (''info'', 8)]\<rparr>"

definition rte_eth_dev_tx_buffer_layout :: rty where
  "rte_eth_dev_tx_buffer_layout = Struct None 1 [
      (''error_callback'', Pointer), (''error_userdata'', Pointer), (''size'', u16_ty),
      (''length'', u16_ty), (''pkts'', IncompleteArrayField Pointer)]"

definition rte_eth_dev_tx_buffer_test :: layout_test where
  "rte_eth_dev_tx_buffer_test = \<lparr>expect_size = 24, expect_align = 8, expect_offsets = []\<rparr>"

definition rte_eth_dev_cb_list_layout :: rty where
  "rte_eth_dev_cb_list_layout = Struct None 1 [
      (''tqh_first'', Pointer), (''tqh_last'', Pointer)]"

definition rte_eth_dev_cb_list_test :: layout_test where
  "rte_eth_dev_cb_list_test = \<lparr>expect_size = 16, expect_align = 8, expect_offsets = [
      (''tqh_first'', 0), (''tqh_last'', 8)]\<rparr>"

definition eth_dev_ops_layout :: rty where
  "eth_dev_ops_layout = Struct None 1 [
      (''dev_configure'', Pointer), (''dev_start'', Pointer), (''dev_stop'', Pointer),
      (''dev_set_link_up'', Pointer), (''dev_set_link_down'', Pointer), (''dev_close'', Pointer),
      (''dev_reset'', Pointer), (''link_update'', Pointer), (''is_removed'', Pointer),
      (''promiscuous_enable'', Pointer), (''promiscuous_disable'', Pointer),
      (''allmulticast_enable'', Pointer), (''allmulticast_disable'', Pointer),
      (''mac_addr_remove'', Pointer), (''mac_addr_add'', Pointer), (''mac_addr_set'', Pointer),
      (''set_mc_addr_list'', Pointer), (''mtu_set'', Pointer), (''stats_get'', Pointer),
      (''stats_reset'', Pointer), (''xstats_get'', Pointer), (''xstats_reset'', Pointer),
      (''xstats_get_names'', Pointer), (''queue_stats_mapping_set'', Pointer),
      (''dev_infos_get'', Pointer), (''rxq_info_get'', Pointer), (''txq_info_get'', Pointer),
      (''rx_burst_mode_get'', Pointer), (''tx_burst_mode_get'', Pointer),
      (''fw_version_get'', Pointer), (''dev_supported_ptypes_get'', Pointer),
      (''dev_ptypes_set'', Pointer), (''vlan_filter_set'', Pointer), (''vlan_tpid_set'', Pointer),
      (''vlan_strip_queue_set'', Pointer), (''vlan_offload_set'', Pointer),
      (''vlan_pvid_set'', Pointer), (''rx_queue_start'', Pointer), (''rx_queue_stop'', Pointer),
      (''tx_queue_start'', Pointer), (''tx_queue_stop'', Pointer), (''rx_queue_setup'', Pointer),
      (''rx_queue_release'', Pointer), (''rx_queue_count'', Pointer),
      (''rx_descriptor_done'', Pointer), (''rx_descriptor_status'', Pointer),
      (''tx_descriptor_status'', Pointer), (''rx_queue_intr_enable'', Pointer),
      (''rx_queue_intr_disable'', Pointer), (''tx_queue_setup'', Pointer),
      (''tx_queue_release'', Pointer), (''tx_done_cleanup'', Pointer), (''dev_led_on'', Pointer),
      (''dev_led_off'', Pointer), (''flow_ctrl_get'', Pointer), (''flow_ctrl_set'', Pointer),
      (''priority_flow_ctrl_set'', Pointer), (''uc_hash_table_set'', Pointer),
      (''uc_all_hash_table_set'', Pointer), (''mirror_rule_set'', Pointer),
      (''mirror_rule_reset'', Pointer), (''udp_tunnel_port_add'', Pointer),
      (''udp_tunnel_port_del'', Pointer), (''l2_tunnel_eth_type_conf'', Pointer),
      (''l2_tunnel_offload_set'', Pointer), (''set_queue_rate_limit'', Pointer),
      (''rss_hash_update'', Pointer), (''rss_hash_conf_get'', Pointer), (''reta_update'', Pointer),
      (''reta_query'', Pointer), (''get_reg'', Pointer), (''get_eeprom_length'', Pointer),
      (''get_eeprom'', Pointer), (''set_eeprom'', Pointer), (''get_module_info'', Pointer),
      (''get_module_eeprom'', Pointer), (''filter_ctrl'', Pointer), (''get_dcb_info'', Pointer),
      (''timesync_enable'', Pointer), (''timesync_disable'', Pointer),
      (''timesync_read_rx_timestamp'', Pointer), (''timesync_read_tx_timestamp'', Pointer),
      (''timesync_adjust_time'', Pointer), (''timesync_read_time'', Pointer),
      (''timesync_write_time'', Pointer), (''read_clock'', Pointer),
      (''xstats_get_by_id'', Pointer), (''xstats_get_names_by_id'', Pointer),
      (''tm_ops_get'', Pointer), (''mtr_ops_get'', Pointer), (''pool_ops_supported'', Pointer),
      (''hairpin_cap_get'', Pointer), (''rx_hairpin_queue_setup'', Pointer),
      (''tx_hairpin_queue_setup'', Pointer)]"

definition eth_dev_ops_test :: layout_test where
  "eth_dev_ops_test = \<lparr>expect_size = 752, expect_align = 8, expect_offsets = [
      (''dev_configure'', 0), (''dev_start'', 8), (''dev_stop'', 16), (''dev_set_link_up'', 24),
      (''dev_set_link_down'', 32), (''dev_close'', 40), (''dev_reset'', 48), (''link_update'', 56),
      (''is_removed'', 64), (''promiscuous_enable'', 72), (''promiscuous_disable'', 80),
      (''allmulticast_enable'', 88), (''allmulticast_disable'', 96), (''mac_addr_remove'', 104),
      (''mac_addr_add'', 112), (''mac_addr_set'', 120), (''set_mc_addr_list'', 128),
      (''mtu_set'', 136), (''stats_get'', 144), (''stats_reset'', 152), (''xstats_get'', 160),
      (''xstats_reset'', 168), (''xstats_get_names'', 176), (''queue_stats_mapping_set'', 184),
      (''dev_infos_get'', 192), (''rxq_info_get'', 200), (''txq_info_get'', 208),
      (''rx_burst_mode_get'', 216), (''tx_burst_mode_get'', 224), (''fw_version_get'', 232),
      (''dev_supported_ptypes_get'', 240), (''dev_ptypes_set'', 248), (''vlan_filter_set'', 256),
      (''vlan_tpid_set'', 264), (''vlan_strip_queue_set'', 272), (''vlan_offload_set'', 280),
      (''vlan_pvid_set'', 288), (''rx_queue_start'', 296), (''rx_queue_stop'', 304),
      (''tx_queue_start'', 312), (''tx_queue_stop'', 320), (''rx_queue_setup'', 328),
      (''rx_queue_release'', 336), (''rx_queue_count'', 344), (''rx_descriptor_done'', 352),
      (''rx_descriptor_status'', 360), (''tx_descriptor_status'', 368),
      (''rx_queue_intr_enable'', 376), (''rx_queue_intr_disable'', 384), (''tx_queue_setup'', 392),
      (''tx_queue_release'', 400), (''tx_done_cleanup'', 408), (''dev_led_on'', 416),
      (''dev_led_off'', 424), (''flow_ctrl_get'', 432), (''flow_ctrl_set'', 440),
      (''priority_flow_ctrl_set'', 448), (''uc_hash_table_set'', 456),
      (''uc_all_hash_table_set'', 464), (''mirror_rule_set'', 472), (''mirror_rule_reset'', 480),
      (''udp_tunnel_port_add'', 488), (''udp_tunnel_port_del'', 496),
      (''l2_tunnel_eth_type_conf'', 504), (''l2_tunnel_offload_set'', 512),
      (''set_queue_rate_limit'', 520), (''rss_hash_update'', 528), (''rss_hash_conf_get'', 536),
      (''reta_update'', 544), (''reta_query'', 552), (''get_reg'', 560),
      (''get_eeprom_length'', 568), (''get_eeprom'', 576), (''set_eeprom'', 584),
      (''get_module_info'', 592), (''get_module_eeprom'', 600), (''filter_ctrl'', 608),
      (''get_dcb_info'', 616), (''timesync_enable'', 624), (''timesync_disable'', 632),
      (''timesync_read_rx_timestamp'', 640), (''timesync_read_tx_timestamp'', 648),
      (''timesync_adjust_time'', 656), (''timesync_read_time'', 664),
      (''timesync_write_time'', 672), (''read_clock'', 680), (''xstats_get_by_id'', 688),
      (''xstats_get_names_by_id'', 696), (''tm_ops_get'', 704), (''mtr_ops_get'', 712),
      (''pool_ops_supported'', 720), (''hairpin_cap_get'', 728), (''rx_hairpin_queue_setup'', 736),
      (''tx_hairpin_queue_setup'', 744)]\<rparr>"

definition rte_eth_rxtx_callback__bindgen_ty_1_layout :: rty where
  "rte_eth_rxtx_callback__bindgen_ty_1_layout = Union 1 [
      (''rx'', Pointer), (''tx'', Pointer), (''_bindgen_union_align'', u64_ty)]"

definition rte_eth_rxtx_callback__bindgen_ty_1_test :: layout_test where
  "rte_eth_rxtx_callback__bindgen_ty_1_test = \<lparr>expect_size = 8, expect_align = 8, expect_offsets = [
      (''rx'', 0), (''tx'', 0)]\<rparr>"

definition rte_eth_rxtx_callback_layout :: rty where
  "rte_eth_rxtx_callback_layout = Struct None 1 [
      (''next'', Pointer), (''fn_'', rte_eth_rxtx_callback__bindgen_ty_1_layout),
      (''param'', Pointer)]"

definition rte_eth_rxtx_callback_test :: layout_test where
  "rte_eth_rxtx_callback_test = \<lparr>expect_size = 24, expect_align = 8, expect_offsets = [
      (''next'', 0), (''fn_'', 8), (''param'', 16)]\<rparr>"

definition rte_eth_dev_layout :: rty where
  "rte_eth_dev_layout = Struct None 64 [
      (''rx_pkt_burst'', Pointer), (''tx_pkt_burst'', Pointer), (''tx_pkt_prepare'', Pointer),
      (''data'', Pointer), (''process_private'', Pointer), (''dev_ops'', Pointer),
      (''device'', Pointer), (''intr_handle'', Pointer),
      (''link_intr_cbs'', rte_eth_dev_cb_list_layout), (''post_rx_burst_cbs'', Array Pointer 1024),
      (''pre_tx_burst_cbs'', Array Pointer 1024), (''state'', u32_ty), (''security_ctx'', Pointer),
      (''reserved_64s'', Array u64_ty 4), (''reserved_ptrs'', Array Pointer 4)]"

definition rte_eth_dev_test :: layout_test where
  "rte_eth_dev_test = \<lparr>expect_size = 16576, expect_align = 64, expect_offsets = [
      (''rx_pkt_burst'', 0), (''tx_pkt_burst'', 8), (''tx_pkt_prepare'', 16), (''data'', 24),
      (''process_private'', 32), (''dev_ops'', 40), (''device'', 48), (''intr_handle'', 56),
      (''link_intr_cbs'', 64), (''post_rx_burst_cbs'', 80), (''pre_tx_burst_cbs'', 8272),
      (''state'', 16464), (''security_ctx'', 16472), (''reserved_64s'', 16480),
      (''reserved_ptrs'', 16512)]\<rparr>"

definition rte_eth_dev_sriov_layout :: rty where
  "rte_eth_dev_sriov_layout = Struct None 1 [
      (''active'', u8_ty), (''nb_q_per_pool'', u8_ty), (''def_vmdq_idx'', u16_ty),
      (''def_pool_q_idx'', u16_ty)]"

definition rte_eth_dev_sriov_test :: layout_test where
  "rte_eth_dev_sriov_test = \<lparr>expect_size = 6, expect_align = 2, expect_offsets = [
      (''active'', 0), (''nb_q_per_pool'', 1), (''def_vmdq_idx'', 2), (''def_pool_q_idx'', 4)]\<rparr>"

definition rte_vlan_filter_conf_layout :: rty where
  "rte_vlan_filter_conf_layout = Struct None 1 [
      (''ids'', Array u64_ty 64)]"

definition rte_vlan_filter_conf_test :: layout_test where
  "rte_vlan_filter_conf_test = \<lparr>expect_size = 512, expect_align = 8, expect_offsets = [
      (''ids'', 0)]\<rparr>"

definition rte_eth_dev_owner_layout :: rty where
  "rte_eth_dev_owner_layout = Struct None 1 [
      (''id'', u64_ty), (''name'', Array u8_ty 64)]"

definition rte_eth_dev_owner_test :: layout_test where
  "rte_eth_dev_owner_test = \<lparr>expect_size = 72, expect_align = 8, expect_offsets = [
      (''id'', 0), (''name'', 8)]\<rparr>"

definition rte_eth_dev_data_layout :: rty where
  "rte_eth_dev_data_layout = Struct None 64 [
      (''name'', Array u8_ty 64), (''rx_queues'', Pointer), (''tx_queues'', Pointer),
      (''nb_rx_queues'', u16_ty), (''nb_tx_queues'', u16_ty),
      (''sriov'', rte_eth_dev_sriov_layout), (''dev_private'', Pointer),
      (''dev_link'', rte_eth_link_layout), (''dev_conf'', rte_eth_conf_layout), (''mtu'', u16_ty),
      (''min_rx_buf_size'', u32_ty), (''rx_mbuf_alloc_failed'', u64_ty), (''mac_addrs'', Pointer),
      (''mac_pool_sel'', Array u64_ty 128), (''hash_mac_addrs'', Pointer), (''port_id'', u16_ty),
      (''_bitfield_1'', BitfieldUnit 1 u8_ty), (''rx_queue_state'', Array u8_ty 1024),
      (''tx_queue_state'', Array u8_ty 1024), (''dev_flags'', u32_ty), (''kdrv'', u32_ty),
      (''numa_node'', u32_ty), (''vlan_filter_conf'', rte_vlan_filter_conf_layout),
      (''owner'', rte_eth_dev_owner_layout), (''representor_id'', u16_ty),
      (''reserved_64s'', Array u64_ty 4), (''reserved_ptrs'', Array Pointer 4)]"

definition rte_eth_dev_data_test :: layout_test where
  "rte_eth_dev_data_test = \<lparr>expect_size = 6976, expect_align = 64, expect_offsets = [
      (''name'', 0), (''rx_queues'', 64), (''tx_queues'', 72), (''nb_rx_queues'', 80),
      (''nb_tx_queues'', 82), (''sriov'', 84), (''dev_private'', 96), (''dev_link'', 104),
      (''dev_conf'', 112), (''mtu'', 3192), (''min_rx_buf_size'', 3196),
      (''rx_mbuf_alloc_failed'', 3200), (''mac_addrs'', 3208), (''mac_pool_sel'', 3216),
      (''hash_mac_addrs'', 4240), (''port_id'', 4248), (''rx_queue_state'', 4251),
      (''tx_queue_state'', 5275), (''dev_flags'', 6300), (''kdrv'', 6304), (''numa_node'', 6308),
      (''vlan_filter_conf'', 6312), (''owner'', 6824), (''representor_id'', 6896),
      (''reserved_64s'', 6904), (''reserved_ptrs'', 6936)]\<rparr>"

definition dev_tests :: "(rty \<times> layout_test) list" where
  "dev_tests =
    [(rte_eth_stats_layout, rte_eth_stats_test),
     (rte_eth_link_layout, rte_eth_link_test),
     (rte_eth_rxq_info_layout, rte_eth_rxq_info_test),
     (rte_eth_txq_info_layout, rte_eth_txq_info_test),
     (rte_eth_xstat_layout, rte_eth_xstat_test),
     (rte_eth_xstat_name_layout, rte_eth_xstat_name_test),
     (rte_eth_burst_mode_layout, rte_eth_burst_mode_test),
     (rte_eth_dev_tx_buffer_layout, rte_eth_dev_tx_buffer_test),
     (rte_eth_dev_cb_list_layout, rte_eth_dev_cb_list_test),
     (eth_dev_ops_layout, eth_dev_ops_test),
     (rte_eth_rxtx_callback__bindgen_ty_1_layout, rte_eth_rxtx_callback__bindgen_ty_1_test),
     (rte_eth_rxtx_callback_layout, rte_eth_rxtx_callback_test),
     (rte_eth_dev_layout, rte_eth_dev_test),
     (rte_eth_dev_sriov_layout, rte_eth_dev_sriov_test),
     (rte_vlan_filter_conf_layout, rte_vlan_filter_conf_test),
     (rte_eth_dev_owner_layout, rte_eth_dev_owner_test),
     (rte_eth_dev_data_layout, rte_eth_dev_data_test)]"

lemma rte_eth_stats_passes [layout_passes]:
  "layout_test_passes rte_eth_stats_layout rte_eth_stats_test" "wf_ty rte_eth_stats_layout"
  by (simp_all add: layout_simps rte_eth_stats_layout_def rte_eth_stats_test_def del: One_nat_def)

lemmas rte_eth_stats_facts [layout_simps] =
  layout_test_passesD [OF rte_eth_stats_passes(1)] rte_eth_stats_passes(2) rte_eth_stats_test_def

lemma rte_eth_link_passes [layout_passes]:
  "layout_test_passes rte_eth_link_layout rte_eth_link_test" "wf_ty rte_eth_link_layout"
  by (simp_all add: layout_simps rte_eth_link_layout_def rte_eth_link_test_def del: One_nat_def)

lemmas rte_eth_link_facts [layout_simps] =
  layout_test_passesD [OF rte_eth_link_passes(1)] rte_eth_link_passes(2) rte_eth_link_test_def

lemma rte_eth_rxq_info_passes [layout_passes]:
  "layout_test_passes rte_eth_rxq_info_layout rte_eth_rxq_info_test" "wf_ty rte_eth_rxq_info_layout"
  by (simp_all add: layout_simps rte_eth_rxq_info_layout_def rte_eth_rxq_info_test_def del: One_nat_def)

lemmas rte_eth_rxq_info_facts [layout_simps] =
  layout_test_passesD [OF rte_eth_rxq_info_passes(1)] rte_eth_rxq_info_passes(2) rte_eth_rxq_info_test_def

lemma rte_eth_txq_info_passes [layout_passes]:
  "layout_test_passes rte_eth_txq_info_layout rte_eth_txq_info_test" "wf_ty rte_eth_txq_info_layout"
  by (simp_all add: layout_simps rte_eth_txq_info_layout_def rte_eth_txq_info_test_def del: One_nat_def)

lemmas rte_eth_txq_info_facts [layout_simps] =
  layout_test_passesD [OF rte_eth_txq_info_passes(1)] rte_eth_txq_info_passes(2) rte_eth_txq_info_test_def

lemma rte_eth_xstat_passes [layout_passes]:
  "layout_test_passes rte_eth_xstat_layout rte_eth_xstat_test" "wf_ty rte_eth_xstat_layout"
  by (simp_all add: layout_simps rte_eth_xstat_layout_def rte_eth_xstat_test_def del: One_nat_def)

lemmas rte_eth_xstat_facts [layout_simps] =
  layout_test_passesD [OF rte_eth_xstat_passes(1)] rte_eth_xstat_passes(2) rte_eth_xstat_test_def

lemma rte_eth_xstat_name_passes [layout_passes]:
  "layout_test_passes rte_eth_xstat_name_layout rte_eth_xstat_name_test" "wf_ty rte_eth_xstat_name_layout"
  by (simp_all add: layout_simps rte_eth_xstat_name_layout_def rte_eth_xstat_name_test_def del: One_nat_def)

lemmas rte_eth_xstat_name_facts [layout_simps] =
  layout_test_passesD [OF rte_eth_xstat_name_passes(1)] rte_eth_xstat_name_passes(2) rte_eth_xstat_name_test_def

lemma rte_eth_burst_mode_passes [layout_passes]:
  "layout_test_passes rte_eth_burst_mode_layout rte_eth_burst_mode_test" "wf_ty rte_eth_burst_mode_layout"
  by (simp_all add: layout_simps rte_eth_burst_mode_layout_def rte_eth_burst_mode_test_def del: One_nat_def)

lemmas rte_eth_burst_mode_facts [layout_simps] =
  layout_test_passesD [OF rte_eth_burst_mode_passes(1)] rte_eth_burst_mode_passes(2) rte_eth_burst_mode_test_def

lemma rte_eth_dev_tx_buffer_passes [layout_passes]:
  "layout_test_passes rte_eth_dev_tx_buffer_layout rte_eth_dev_tx_buffer_test" "wf_ty rte_eth_dev_tx_buffer_layout"
  by (simp_all add: layout_simps rte_eth_dev_tx_buffer_layout_def rte_eth_dev_tx_buffer_test_def del: One_nat_def)

lemmas rte_eth_dev_tx_buffer_facts [layout_simps] =
  layout_test_passesD [OF rte_eth_dev_tx_buffer_passes(1)] rte_eth_dev_tx_buffer_passes(2) rte_eth_dev_tx_buffer_test_def

lemma rte_eth_dev_cb_list_passes [layout_passes]:
  "layout_test_passes rte_eth_dev_cb_list_layout rte_eth_dev_cb_list_test" "wf_ty rte_eth_dev_cb_list_layout"
  by (simp_all add: layout_simps rte_eth_dev_cb_list_layout_def rte_eth_dev_cb_list_test_def del: One_nat_def)

lemmas rte_eth_dev_cb_list_facts [layout_simps] =
  layout_test_passesD [OF rte_eth_dev_cb_list_passes(1)] rte_eth_dev_cb_list_passes(2) rte_eth_dev_cb_list_test_def

lemma eth_dev_ops_names: "distinct (map fst (expect_offsets eth_dev_ops_test))"
  by (simp add: eth_dev_ops_test_def)

lemma eth_dev_ops_passes [layout_passes]:
  "layout_test_passes eth_dev_ops_layout eth_dev_ops_test" "wf_ty eth_dev_ops_layout"
proof (rule layout_test_passesI [OF _ _ _ eth_dev_ops_names])
  show "size_of eth_dev_ops_layout = expect_size eth_dev_ops_test"
    "align_of eth_dev_ops_layout = expect_align eth_dev_ops_test"
    "offsets eth_dev_ops_layout = expect_offsets eth_dev_ops_test"
    "wf_ty eth_dev_ops_layout"
    by (simp_all add: layout_simps eth_dev_ops_layout_def eth_dev_ops_test_def del: One_nat_def)
qed

lemmas eth_dev_ops_facts [layout_simps] =
  layout_test_passesD [OF eth_dev_ops_passes(1)] eth_dev_ops_passes(2) eth_dev_ops_test_def

lemma rte_eth_rxtx_callback__bindgen_ty_1_passes [layout_passes]:
  "layout_test_passes rte_eth_rxtx_callback__bindgen_ty_1_layout rte_eth_rxtx_callback__bindgen_ty_1_test" "wf_ty rte_eth_rxtx_callback__bindgen_ty_1_layout"
  by (simp_all add: layout_simps rte_eth_rxtx_callback__bindgen_ty_1_layout_def rte_eth_rxtx_callback__bindgen_ty_1_test_def del: One_nat_def)

lemmas rte_eth_rxtx_callback__bindgen_ty_1_facts [layout_simps] =
  layout_test_passesD [OF rte_eth_rxtx_callback__bindgen_ty_1_passes(1)] rte_eth_rxtx_callback__bindgen_ty_1_passes(2) rte_eth_rxtx_callback__bindgen_ty_1_test_def

lemma rte_eth_rxtx_callback_passes [layout_passes]:
  "layout_test_passes rte_eth_rxtx_callback_layout rte_eth_rxtx_callback_test" "wf_ty rte_eth_rxtx_callback_layout"
  by (simp_all add: layout_simps rte_eth_rxtx_callback_layout_def rte_eth_rxtx_callback_test_def del: One_nat_def)

lemmas rte_eth_rxtx_callback_facts [layout_simps] =
  layout_test_passesD [OF rte_eth_rxtx_callback_passes(1)] rte_eth_rxtx_callback_passes(2) rte_eth_rxtx_callback_test_def

lemma rte_eth_dev_passes [layout_passes]:
  "layout_test_passes rte_eth_dev_layout rte_eth_dev_test" "wf_ty rte_eth_dev_layout"
  by (simp_all add: layout_simps rte_eth_dev_layout_def rte_eth_dev_test_def del: One_nat_def)

lemmas rte_eth_dev_facts [layout_simps] =
  layout_test_passesD [OF rte_eth_dev_passes(1)] rte_eth_dev_passes(2) rte_eth_dev_test_def

lemma rte_eth_dev_sriov_passes [layout_passes]:
  "layout_test_passes rte_eth_dev_sriov_layout rte_eth_dev_sriov_test" "wf_ty rte_eth_dev_sriov_layout"
  by (simp_all add: layout_simps rte_eth_dev_sriov_layout_def rte_eth_dev_sriov_test_def del: One_nat_def)

lemmas rte_eth_dev_sriov_facts [layout_simps] =
  layout_test_passesD [OF rte_eth_dev_sriov_passes(1)] rte_eth_dev_sriov_passes(2) rte_eth_dev_sriov_test_def

lemma rte_vlan_filter_conf_passes [layout_passes]:
  "layout_test_passes rte_vlan_filter_conf_layout rte_vlan_filter_conf_test" "wf_ty rte_vlan_filter_conf_layout"
  by (simp_all add: layout_simps rte_vlan_filter_conf_layout_def rte_vlan_filter_conf_test_def del: One_nat_def)

lemmas rte_vlan_filter_conf_facts [layout_simps] =
  layout_test_passesD [OF rte_vlan_filter_conf_passes(1)] rte_vlan_filter_conf_passes(2) rte_vlan_filter_conf_test_def

lemma rte_eth_dev_owner_passes [layout_passes]:
  "layout_test_passes rte_eth_dev_owner_layout rte_eth_dev_owner_test" "wf_ty rte_eth_dev_owner_layout"
  by (simp_all add: layout_simps rte_eth_dev_owner_layout_def rte_eth_dev_owner_test_def del: One_nat_def)

lemmas rte_eth_dev_owner_facts [layout_simps] =
  layout_test_passesD [OF rte_eth_dev_owner_passes(1)] rte_eth_dev_owner_passes(2) rte_eth_dev_owner_test_def

lemma rte_eth_dev_data_passes [layout_passes]:
  "layout_test_passes rte_eth_dev_data_layout rte_eth_dev_data_test" "wf_ty rte_eth_dev_data_layout"
  by (simp_all add: layout_simps rte_eth_dev_data_layout_def rte_eth_dev_data_test_def del: One_nat_def)

lemmas rte_eth_dev_data_facts [layout_simps] =
  layout_test_passesD [OF rte_eth_dev_data_passes(1)] rte_eth_dev_data_passes(2) rte_eth_dev_data_test_def

text \<open>
  The layout computed by the C rules for the Ethernet device objects is the one the generated
  tests assert, and the types are well-formed.
\<close>

lemma dev_layout_tests_pass [layout_tests_pass]:
  "list_all (\<lambda>(t, e). layout_test_passes t e \<and> wf_ty t) dev_tests"
  by (simp add: dev_tests_def layout_passes)

end
