(* ===== verification/Layouts_Flow.thy ===== *)
theory Layouts_Flow
  imports Layouts_Dev
begin

text \<open>
  The types of flow rules and the protocol headers they match
  as \<open>dpdk-sys/src/bindings_rustdoc.rs\<close> declares them, and for each type the size, the
  alignment and the offsets that its generated \<open>bindgen_test_layout\<close> function asserts. A field of
  a type alias or of an enumeration module stands with the integer type it names; leading
  underscores of a type name are left out.
\<close>

definition rte_vlan_hdr_layout :: rty where
  "rte_vlan_hdr_layout = Struct (Some 1) 1 [
      (''vlan_tci'', u16_ty), (''eth_proto'', u16_ty)]"

definition rte_vlan_hdr_test :: layout_test where
  "rte_vlan_hdr_test = \<lparr>expect_size = 4, expect_align = 1, expect_offsets = [
      (''vlan_tci'', 0), (''eth_proto'', 2)]\<rparr>"

definition rte_arp_ipv4_layout :: rty where
  "rte_arp_ipv4_layout = Struct None 2 [
      (''_bindgen_opaque_blob'', Array u16_ty 10)]"

definition rte_arp_ipv4_test :: layout_test where
  "rte_arp_ipv4_test = \<lparr>expect_size = 20, expect_align = 2, expect_offsets = []\<rparr>"

definition rte_ipv6_hdr_layout :: rty where
  "rte_ipv6_hdr_layout = Struct (Some 1) 1 [
      (''vtc_flow'', u32_ty), (''payload_len'', u16_ty), (''proto'', u8_ty),
      (''hop_limits'', u8_ty), (''src_addr'', Array u8_ty 16), (''dst_addr'', Array u8_ty 16)]"

definition rte_ipv6_hdr_test :: layout_test where
  "rte_ipv6_hdr_test = \<lparr>expect_size = 40, expect_align = 1, expect_offsets = [
      (''vtc_flow'', 0), (''payload_len'', 4), (''proto'', 6), (''hop_limits'', 7),
      (''src_addr'', 8), (''dst_addr'', 24)]\<rparr>"

definition rte_sctp_hdr_layout :: rty where
  "rte_sctp_hdr_layout = Struct (Some 1) 1 [
      (''src_port'', u16_ty), (''dst_port'', u16_ty), (''tag'', u32_ty), (''cksum'', u32_ty)]"

definition rte_sctp_hdr_test :: layout_test where
  "rte_sctp_hdr_test = \<lparr>expect_size = 12, expect_align = 1, expect_offsets = [
      (''src_port'', 0), (''dst_port'', 2), (''tag'', 4), (''cksum'', 8)]\<rparr>"

definition rte_esp_hdr_layout :: rty where
  "rte_esp_hdr_layout = Struct (Some 1) 1 [
      (''spi'', u32_ty), (''seq'', u32_ty)]"

definition rte_esp_hdr_test :: layout_test where
  "rte_esp_hdr_test = \<lparr>expect_size = 8, expect_align = 1, expect_offsets = [
      (''spi'', 0), (''seq'', 4)]\<rparr>"

definition rte_esp_tail_layout :: rty where
  "rte_esp_tail_layout = Struct (Some 1) 1 [
      (''pad_len'', u8_ty), (''next_proto'', u8_ty)]"

definition rte_esp_tail_test :: layout_test where
  "rte_esp_tail_test = \<lparr>expect_size = 2, expect_align = 1, expect_offsets = [
      (''pad_len'', 0), (''next_proto'', 1)]\<rparr>"

definition rte_higig2_frc_layout :: rty where
  "rte_higig2_frc_layout = Struct None 4 [
      (''_bitfield_1'', BitfieldUnit 8 u8_ty)]"

definition rte_higig2_frc_test :: layout_test where
  "rte_higig2_frc_test = \<lparr>expect_size = 8, expect_align = 4, expect_offsets = []\<rparr>"

definition rte_higig2_ppt_type0_layout :: rty where
  "rte_higig2_ppt_type0_layout = Struct None 4 [
      (''_bitfield_1'', BitfieldUnit 8 u8_ty)]"

definition rte_higig2_ppt_type0_test :: layout_test where
  "rte_higig2_ppt_type0_test = \<lparr>expect_size = 8, expect_align = 4, expect_offsets = []\<rparr>"

definition rte_higig2_ppt_type1_layout :: rty where
  "rte_higig2_ppt_type1_layout = Struct None 1 [
      (''classification'', u16_ty), (''resv'', u16_ty), (''vid'', u16_ty),
      (''_bitfield_1'', BitfieldUnit 2 u8_ty)]"

definition rte_higig2_ppt_type1_test :: layout_test where
  "rte_higig2_ppt_type1_test = \<lparr>expect_size = 8, expect_align = 2, expect_offsets = [
      (''classification'', 0), (''resv'', 2), (''vid'', 4)]\<rparr>"

definition rte_higig2_hdr__bindgen_ty_1_layout :: rty where
  "rte_higig2_hdr__bindgen_ty_1_layout = Union 1 [
      (''ppt0'', rte_higig2_ppt_type0_layout), (''ppt1'', rte_higig2_ppt_type1_layout),
      (''_bindgen_union_align'', Array u32_ty 2)]"

definition rte_higig2_hdr__bindgen_ty_1_test :: layout_test where
  "rte_higig2_hdr__bindgen_ty_1_test = \<lparr>expect_size = 8, expect_align = 4, expect_offsets = [
      (''ppt0'', 0), (''ppt1'', 0)]\<rparr>"

definition rte_higig2_hdr_layout :: rty where
  "rte_higig2_hdr_layout = Struct None 1 [
      (''fcr'', rte_higig2_frc_layout), (''__bindgen_anon_1'', rte_higig2_hdr__bindgen_ty_1_layout)]"

definition rte_higig2_hdr_test :: layout_test where
  "rte_higig2_hdr_test = \<lparr>expect_size = 16, expect_align = 4, expect_offsets = [
      (''fcr'', 0)]\<rparr>"

definition rte_flow_attr_layout :: rty where
  "rte_flow_attr_layout = Struct None 1 [
      (''group'', u32_ty), (''priority'', u32_ty), (''_bitfield_1'', BitfieldUnit 4 u32_ty)]"

definition rte_flow_attr_test :: layout_test where
  "rte_flow_attr_test = \<lparr>expect_size = 12, expect_align = 4, expect_offsets = [
      (''group'', 0), (''priority'', 4)]\<rparr>"

definition rte_flow_item_higig2_hdr_layout :: rty where
  "rte_flow_item_higig2_hdr_layout = Struct None 1 [
      (''hdr'', rte_higig2_hdr_layout)]"

definition rte_flow_item_higig2_hdr_test :: layout_test where
  "rte_flow_item_higig2_hdr_test = \<lparr>expect_size = 16, expect_align = 4, expect_offsets = [
      (''hdr'', 0)]\<rparr>"

definition rte_flow_item_any_layout :: rty where
  "rte_flow_item_any_layout = Struct None 1 [
      (''num'', u32_ty)]"

definition rte_flow_item_any_test :: layout_test where
  "rte_flow_item_any_test = \<lparr>expect_size = 4, expect_align = 4, expect_offsets = [
      (''num'', 0)]\<rparr>"

definition rte_flow_item_vf_layout :: rty where
  "rte_flow_item_vf_layout = Struct None 1 [
      (''id'', u32_ty)]"

definition rte_flow_item_vf_test :: layout_test where
  "rte_flow_item_vf_test = \<lparr>expect_size = 4, expect_align = 4, expect_offsets = [
      (''id'', 0)]\<rparr>"

definition rte_flow_item_phy_port_layout :: rty where
  "rte_flow_item_phy_port_layout = Struct None 1 [
      (''index'', u32_ty)]"

definition rte_flow_item_phy_port_test :: layout_test where
  "rte_flow_item_phy_port_test = \<lparr>expect_size = 4, expect_align = 4, expect_offsets = [
      (''index'', 0)]\<rparr>"

definition rte_flow_item_port_id_layout :: rty where
  "rte_flow_item_port_id_layout = Struct None 1 [
      (''id'', u32_ty)]"

definition rte_flow_item_port_id_test :: layout_test where
  "rte_flow_item_port_id_test = \<lparr>expect_size = 4, expect_align = 4, expect_offsets = [
      (''id'', 0)]\<rparr>"

definition rte_flow_item_raw_layout :: rty where
  "rte_flow_item_raw_layout = Struct None 1 [
      (''_bitfield_1'', BitfieldUnit 4 u32_ty), (''offset'', u32_ty), (''limit'', u16_ty),
      (''length'', u16_ty), (''pattern'', Pointer)]"

definition rte_flow_item_raw_test :: layout_test where
  "rte_flow_item_raw_test = \<lparr>expect_size = 24, expect_align = 8, expect_offsets = [
      (''offset'', 4), (''limit'', 8), (''length'', 10), (''pattern'', 16)]\<rparr>"

definition rte_flow_item_eth_layout :: rty where
  "rte_flow_item_eth_layout = Struct None 1 [
      (''dst'', rte_ether_addr_layout), (''src'', rte_ether_addr_layout), (''type_'', u16_ty)]"

definition rte_flow_item_eth_test :: layout_test where
  "rte_flow_item_eth_test = \<lparr>expect_size = 14, expect_align = 2, expect_offsets = [
      (''dst'', 0), (''src'', 6), (''type_'', 12)]\<rparr>"

definition rte_flow_item_vlan_layout :: rty where
  "rte_flow_item_vlan_layout = Struct None 1 [
      (''tci'', u16_ty), (''inner_type'', u16_ty)]"

definition rte_flow_item_vlan_test :: layout_test where
  "rte_flow_item_vlan_test = \<lparr>expect_size = 4, expect_align = 2, expect_offsets = [
      (''tci'', 0), (''inner_type'', 2)]\<rparr>"

definition rte_flow_item_ipv4_layout :: rty where
  "rte_flow_item_ipv4_layout = Struct None 1 [
      (''hdr'', rte_ipv4_hdr_layout)]"

definition rte_flow_item_ipv4_test :: layout_test where
  "rte_flow_item_ipv4_test = \<lparr>expect_size = 20, expect_align = 1, expect_offsets = [
      (''hdr'', 0)]\<rparr>"

definition rte_flow_item_ipv6_layout :: rty where
  "rte_flow_item_ipv6_layout = Struct None 1 [
      (''hdr'', rte_ipv6_hdr_layout)]"

definition rte_flow_item_ipv6_test :: layout_test where
  "rte_flow_item_ipv6_test = \<lparr>expect_size = 40, expect_align = 1, expect_offsets = [
      (''hdr'', 0)]\<rparr>"

definition rte_flow_item_icmp_layout :: rty where
  "rte_flow_item_icmp_layout = Struct None 1 [
      (''hdr'', rte_icmp_hdr_layout)]"

definition rte_flow_item_icmp_test :: layout_test where
  "rte_flow_item_icmp_test = \<lparr>expect_size = 8, expect_align = 1, expect_offsets = [
      (''hdr'', 0)]\<rparr>"

definition rte_flow_item_udp_layout :: rty where
  "rte_flow_item_udp_layout = Struct None 1 [
      (''hdr'', rte_udp_hdr_layout)]"

definition rte_flow_item_udp_test :: layout_test where
  "rte_flow_item_udp_test = \<lparr>expect_size = 8, expect_align = 1, expect_offsets = [
      (''hdr'', 0)]\<rparr>"

definition rte_flow_item_tcp_layout :: rty where
  "rte_flow_item_tcp_layout = Struct None 1 [
      (''hdr'', rte_tcp_hdr_layout)]"

definition rte_flow_item_tcp_test :: layout_test where
  "rte_flow_item_tcp_test = \<lparr>expect_size = 20, expect_align = 1, expect_offsets = [
      (''hdr'', 0)]\<rparr>"

definition rte_flow_item_sctp_layout :: rty where
  "rte_flow_item_sctp_layout = Struct None 1 [
      (''hdr'', rte_sctp_hdr_layout)]"

definition rte_flow_item_sctp_test :: layout_test where
  "rte_flow_item_sctp_test = \<lparr>expect_size = 12, expect_align = 1, expect_offsets = [
      (''hdr'', 0)]\<rparr>"

definition rte_flow_item_vxlan_layout :: rty where
  "rte_flow_item_vxlan_layout = Struct None 1 [
      (''flags'', u8_ty), (''rsvd0'', Array u8_ty 3), (''vni'', Array u8_ty 3), (''rsvd1'', u8_ty)]"

definition rte_flow_item_vxlan_test :: layout_test where
  "rte_flow_item_vxlan_test = \<lparr>expect_size = 8, expect_align = 1, expect_offsets = [
      (''flags'', 0), (''rsvd0'', 1), (''vni'', 4), (''rsvd1'', 7)]\<rparr>"

definition rte_flow_item_e_tag_layout :: rty where
  "rte_flow_item_e_tag_layout = Struct None 1 [
      (''epcp_edei_in_ecid_b'', u16_ty), (''rsvd_grp_ecid_b'', u16_ty), (''in_ecid_e'', u8_ty),
      (''ecid_e'', u8_ty), (''inner_type'', u16_ty)]"

definition rte_flow_item_e_tag_test :: layout_test where
  "rte_flow_item_e_tag_test = \<lparr>expect_size = 8, expect_align = 2, expect_offsets = [
      (''epcp_edei_in_ecid_b'', 0), (''rsvd_grp_ecid_b'', 2), (''in_ecid_e'', 4), (''ecid_e'', 5),
      (''inner_type'', 6)]\<rparr>"

definition rte_flow_item_nvgre_layout :: rty where
  "rte_flow_item_nvgre_layout = Struct None 1 [
      (''c_k_s_rsvd0_ver'', u16_ty), (''protocol'', u16_ty), (''tni'', Array u8_ty 3),
      (''flow_id'', u8_ty)]"

definition rte_flow_item_nvgre_test :: layout_test where
  "rte_flow_item_nvgre_test = \<lparr>expect_size = 8, expect_align = 2, expect_offsets = [
      (''c_k_s_rsvd0_ver'', 0), (''protocol'', 2), (''tni'', 4), (''flow_id'', 7)]\<rparr>"

definition rte_flow_item_mpls_layout :: rty where
  "rte_flow_item_mpls_layout = Struct None 1 [
      (''label_tc_s'', Array u8_ty 3), (''ttl'', u8_ty)]"

definition rte_flow_item_mpls_test :: layout_test where
  "rte_flow_item_mpls_test = \<lparr>expect_size = 4, expect_align = 1, expect_offsets = [
      (''label_tc_s'', 0), (''ttl'', 3)]\<rparr>"

definition rte_flow_item_gre_layout :: rty where
  "rte_flow_item_gre_layout = Struct None 1 [
      (''c_rsvd0_ver'', u16_ty), (''protocol'', u16_ty)]"

definition rte_flow_item_gre_test :: layout_test where
  "rte_flow_item_gre_test = \<lparr>expect_size = 4, expect_align = 2, expect_offsets = [
      (''c_rsvd0_ver'', 0), (''protocol'', 2)]\<rparr>"

definition rte_flow_item_fuzzy_layout :: rty where
  "rte_flow_item_fuzzy_layout = Struct None 1 [
      (''thresh'', u32_ty)]"

definition rte_flow_item_fuzzy_test :: layout_test where
  "rte_flow_item_fuzzy_test = \<lparr>expect_size = 4, expect_align = 4, expect_offsets = [
      (''thresh'', 0)]\<rparr>"

definition rte_flow_item_gtp_layout :: rty where
  "rte_flow_item_gtp_layout = Struct None 1 [
      (''v_pt_rsv_flags'', u8_ty), (''msg_type'', u8_ty), (''msg_len'', u16_ty), (''teid'', u32_ty)]"

definition rte_flow_item_gtp_test :: layout_test where
  "rte_flow_item_gtp_test = \<lparr>expect_size = 8, expect_align = 4, expect_offsets = [
      (''v_pt_rsv_flags'', 0), (''msg_type'', 1), (''msg_len'', 2), (''teid'', 4)]\<rparr>"

definition rte_flow_item_esp_layout :: rty where
  "rte_flow_item_esp_layout = Struct None 1 [
      (''hdr'', rte_esp_hdr_layout)]"

definition rte_flow_item_esp_test :: layout_test where
  "rte_flow_item_esp_test = \<lparr>expect_size = 8, expect_align = 1, expect_offsets = [
      (''hdr'', 0)]\<rparr>"

definition rte_flow_item_geneve_layout :: rty where
  "rte_flow_item_geneve_layout = Struct None 1 [
      (''ver_opt_len_o_c_rsvd0'', u16_ty), (''protocol'', u16_ty), (''vni'', Array u8_ty 3),
      (''rsvd1'', u8_ty)]"

definition rte_flow_item_geneve_test :: layout_test where
  "rte_flow_item_geneve_test = \<lparr>expect_size = 8, expect_align = 2, expect_offsets = [
      (''ver_opt_len_o_c_rsvd0'', 0), (''protocol'', 2), (''vni'', 4), (''rsvd1'', 7)]\<rparr>"

definition rte_flow_item_vxlan_gpe_layout :: rty where
  "rte_flow_item_vxlan_gpe_layout = Struct None 1 [
      (''flags'', u8_ty), (''rsvd0'', Array u8_ty 2), (''protocol'', u8_ty),
      (''vni'', Array u8_ty 3), (''rsvd1'', u8_ty)]"

definition rte_flow_item_vxlan_gpe_test :: layout_test where
  "rte_flow_item_vxlan_gpe_test = \<lparr>expect_size = 8, expect_align = 1, expect_offsets = [
      (''flags'', 0), (''rsvd0'', 1), (''protocol'', 3), (''vni'', 4), (''rsvd1'', 7)]\<rparr>"

definition rte_flow_item_arp_eth_ipv4_layout :: rty where
  "rte_flow_item_arp_eth_ipv4_layout = Struct None 1 [
      (''hrd'', u16_ty), (''pro'', u16_ty), (''hln'', u8_ty), (''pln'', u8_ty), (''op'', u16_ty),
      (''sha'', rte_ether_addr_layout), (''spa'', u32_ty), (''tha'', rte_ether_addr_layout),
      (''tpa'', u32_ty)]"

definition rte_flow_item_arp_eth_ipv4_test :: layout_test where
  "rte_flow_item_arp_eth_ipv4_test = \<lparr>expect_size = 32, expect_align = 4, expect_offsets = [
      (''hrd'', 0), (''pro'', 2), (''hln'', 4), (''pln'', 5), (''op'', 6), (''sha'', 8),
      (''spa'', 16), (''tha'', 20), (''tpa'', 28)]\<rparr>"

definition rte_flow_item_ipv6_ext_layout :: rty where
  "rte_flow_item_ipv6_ext_layout = Struct None 1 [
      (''next_hdr'', u8_ty)]"

definition rte_flow_item_ipv6_ext_test :: layout_test where
  "rte_flow_item_ipv6_ext_test = \<lparr>expect_size = 1, expect_align = 1, expect_offsets = [
      (''next_hdr'', 0)]\<rparr>"

definition rte_flow_item_icmp6_layout :: rty where
  "rte_flow_item_icmp6_layout = Struct None 1 [
      (''type_'', u8_ty), (''code'', u8_ty), (''checksum'', u16_ty)]"

definition rte_flow_item_icmp6_test :: layout_test where
  "rte_flow_item_icmp6_test = \<lparr>expect_size = 4, expect_align = 2, expect_offsets = [
      (''type_'', 0), (''code'', 1), (''checksum'', 2)]\<rparr>"

definition rte_flow_item_icmp6_nd_ns_layout :: rty where
  "rte_flow_item_icmp6_nd_ns_layout = Struct None 1 [
      (''type_'', u8_ty), (''code'', u8_ty), (''checksum'', u16_ty), (''reserved'', u32_ty),
      (''target_addr'', Array u8_ty 16)]"

definition rte_flow_item_icmp6_nd_ns_test :: layout_test where
  "rte_flow_item_icmp6_nd_ns_test = \<lparr>expect_size = 24, expect_align = 4, expect_offsets = [
      (''type_'', 0), (''code'', 1), (''checksum'', 2), (''reserved'', 4), (''target_addr'', 8)]\<rparr>"

definition rte_flow_item_icmp6_nd_na_layout :: rty where
  "rte_flow_item_icmp6_nd_na_layout = Struct None 1 [
      (''type_'', u8_ty), (''code'', u8_ty), (''checksum'', u16_ty), (''rso_reserved'', u32_ty),
      (''target_addr'', Array u8_ty 16)]"

definition rte_flow_item_icmp6_nd_na_test :: layout_test where
  "rte_flow_item_icmp6_nd_na_test = \<lparr>expect_size = 24, expect_align = 4, expect_offsets = [
      (''type_'', 0), (''code'', 1), (''checksum'', 2), (''rso_reserved'', 4), (''target_addr'', 8)]\<rparr>"

definition rte_flow_item_icmp6_nd_opt_layout :: rty where
  "rte_flow_item_icmp6_nd_opt_layout = Struct None 1 [
      (''type_'', u8_ty), (''length'', u8_ty)]"

definition rte_flow_item_icmp6_nd_opt_test :: layout_test where
  "rte_flow_item_icmp6_nd_opt_test = \<lparr>expect_size = 2, expect_align = 1, expect_offsets = [
      (''type_'', 0), (''length'', 1)]\<rparr>"

definition rte_flow_item_icmp6_nd_opt_sla_eth_layout :: rty where
  "rte_flow_item_icmp6_nd_opt_sla_eth_layout = Struct None 1 [
      (''type_'', u8_ty), (''length'', u8_ty), (''sla'', rte_ether_addr_layout)]"

definition rte_flow_item_icmp6_nd_opt_sla_eth_test :: layout_test where
  "rte_flow_item_icmp6_nd_opt_sla_eth_test = \<lparr>expect_size = 8, expect_align = 2, expect_offsets = [
      (''type_'', 0), (''length'', 1), (''sla'', 2)]\<rparr>"

definition rte_flow_item_icmp6_nd_opt_tla_eth_layout :: rty where
  "rte_flow_item_icmp6_nd_opt_tla_eth_layout = Struct None 1 [
      (''type_'', u8_ty), (''length'', u8_ty), (''tla'', rte_ether_addr_layout)]"

definition rte_flow_item_icmp6_nd_opt_tla_eth_test :: layout_test where
  "rte_flow_item_icmp6_nd_opt_tla_eth_test = \<lparr>expect_size = 8, expect_align = 2, expect_offsets = [
      (''type_'', 0), (''length'', 1), (''tla'', 2)]\<rparr>"

definition rte_flow_item_meta_layout :: rty where
  "rte_flow_item_meta_layout = Struct None 1 [
      (''data'', u32_ty)]"

definition rte_flow_item_meta_test :: layout_test where
  "rte_flow_item_meta_test = \<lparr>expect_size = 4, expect_align = 4, expect_offsets = [
      (''data'', 0)]\<rparr>"

definition rte_flow_item_gtp_psc_layout :: rty where
  "rte_flow_item_gtp_psc_layout = Struct None 1 [
      (''pdu_type'', u8_ty), (''qfi'', u8_ty)]"

definition rte_flow_item_gtp_psc_test :: layout_test where
  "rte_flow_item_gtp_psc_test = \<lparr>expect_size = 2, expect_align = 1, expect_offsets = [
      (''pdu_type'', 0), (''qfi'', 1)]\<rparr>"

definition rte_flow_item_pppoe_layout :: rty where
  "rte_flow_item_pppoe_layout = Struct None 1 [
      (''version_type'', u8_ty), (''code'', u8_ty), (''session_id'', u16_ty), (''length'', u16_ty)]"

definition rte_flow_item_pppoe_test :: layout_test where
  "rte_flow_item_pppoe_test = \<lparr>expect_size = 6, expect_align = 2, expect_offsets = [
      (''version_type'', 0), (''code'', 1), (''session_id'', 2), (''length'', 4)]\<rparr>"

definition rte_flow_item_pppoe_proto_id_layout :: rty where
  "rte_flow_item_pppoe_proto_id_layout = Struct None 1 [
      (''proto_id'', u16_ty)]"

definition rte_flow_item_pppoe_proto_id_test :: layout_test where
  "rte_flow_item_pppoe_proto_id_test = \<lparr>expect_size = 2, expect_align = 2, expect_offsets = [
      (''proto_id'', 0)]\<rparr>"

definition rte_flow_item_tag_layout :: rty where
  "rte_flow_item_tag_layout = Struct None 1 [
      (''data'', u32_ty), (''index'', u8_ty)]"

definition rte_flow_item_tag_test :: layout_test where
  "rte_flow_item_tag_test = \<lparr>expect_size = 8, expect_align = 4, expect_offsets = [
      (''data'', 0), (''index'', 4)]\<rparr>"

definition rte_flow_item_mark_layout :: rty where
  "rte_flow_item_mark_layout = Struct None 1 [
      (''id'', u32_ty)]"

definition rte_flow_item_mark_test :: layout_test where
  "rte_flow_item_mark_test = \<lparr>expect_size = 4, expect_align = 4, expect_offsets = [
      (''id'', 0)]\<rparr>"

definition rte_flow_item_nsh_layout :: rty where
  "rte_flow_item_nsh_layout = Struct None 4 [
      (''_bitfield_1'', BitfieldUnit 8 u32_ty)]"

definition rte_flow_item_nsh_test :: layout_test where
  "rte_flow_item_nsh_test = \<lparr>expect_size = 8, expect_align = 4, expect_offsets = []\<rparr>"

definition rte_flow_item_igmp_layout :: rty where
  "rte_flow_item_igmp_layout = Struct None 1 [
      (''_bitfield_1'', BitfieldUnit 4 u16_ty), (''group_addr'', u32_ty)]"

definition rte_flow_item_igmp_test :: layout_test where
  "rte_flow_item_igmp_test = \<lparr>expect_size = 8, expect_align = 4, expect_offsets = [
      (''group_addr'', 4)]\<rparr>"

definition rte_flow_item_ah_layout :: rty where
  "rte_flow_item_ah_layout = Struct None 1 [
      (''_bitfield_1'', BitfieldUnit 4 u16_ty), (''spi'', u32_ty), (''seq_num'', u32_ty)]"

definition rte_flow_item_ah_test :: layout_test where
  "rte_flow_item_ah_test = \<lparr>expect_size = 12, expect_align = 4, expect_offsets = [
      (''spi'', 4), (''seq_num'', 8)]\<rparr>"

definition rte_flow_item_layout :: rty where
  "rte_flow_item_layout = Struct None 1 [
      (''type_'', u32_ty), (''spec'', Pointer), (''last'', Pointer), (''mask'', Pointer)]"

definition rte_flow_item_test :: layout_test where
  "rte_flow_item_test = \<lparr>expect_size = 32, expect_align = 8, expect_offsets = [
      (''type_'', 0), (''spec'', 8), (''last'', 16), (''mask'', 24)]\<rparr>"

definition rte_flow_action_mark_layout :: rty where
  "rte_flow_action_mark_layout = Struct None 1 [
      (''id'', u32_ty)]"

definition rte_flow_action_mark_test :: layout_test where
  "rte_flow_action_mark_test = \<lparr>expect_size = 4, expect_align = 4, expect_offsets = [
      (''id'', 0)]\<rparr>"

definition rte_flow_action_jump_layout :: rty where
  "rte_flow_action_jump_layout = Struct None 1 [
      (''group'', u32_ty)]"

definition rte_flow_action_jump_test :: layout_test where
  "rte_flow_action_jump_test = \<lparr>expect_size = 4, expect_align = 4, expect_offsets = [
      (''group'', 0)]\<rparr>"

definition rte_flow_action_queue_layout :: rty where
  "rte_flow_action_queue_layout = Struct None 1 [
      (''index'', u16_ty)]"

definition rte_flow_action_queue_test :: layout_test where
  "rte_flow_action_queue_test = \<lparr>expect_size = 2, expect_align = 2, expect_offsets = [
      (''index'', 0)]\<rparr>"

definition rte_flow_action_count_layout :: rty where
  "rte_flow_action_count_layout = Struct None 1 [
      (''_bitfield_1'', BitfieldUnit 4 u32_ty), (''id'', u32_ty)]"

definition rte_flow_action_count_test :: layout_test where
  "rte_flow_action_count_test = \<lparr>expect_size = 8, expect_align = 4, expect_offsets = [
      (''id'', 4)]\<rparr>"

definition rte_flow_query_count_layout :: rty where
  "rte_flow_query_count_layout = Struct None 1 [
      (''_bitfield_1'', BitfieldUnit 4 u32_ty), (''hits'', u64_ty), (''bytes'', u64_ty)]"

definition rte_flow_query_count_test :: layout_test where
  "rte_flow_query_count_test = \<lparr>expect_size = 24, expect_align = 8, expect_offsets = [
      (''hits'', 8), (''bytes'', 16)]\<rparr>"

definition rte_flow_action_rss_layout :: rty where
  "rte_flow_action_rss_layout = Struct None 1 [
      (''func'', u32_ty), (''level'', u32_ty), (''types'', u64_ty), (''key_len'', u32_ty),
      (''queue_num'', u32_ty), (''key'', Pointer), (''queue'', Pointer)]"

definition rte_flow_action_rss_test :: layout_test where
  "rte_flow_action_rss_test = \<lparr>expect_size = 40, expect_align = 8, expect_offsets = [
      (''func'', 0), (''level'', 4), (''types'', 8), (''key_len'', 16), (''queue_num'', 20),
      (''key'', 24), (''queue'', 32)]\<rparr>"

definition rte_flow_action_vf_layout :: rty where
  "rte_flow_action_vf_layout = Struct None 1 [
      (''_bitfield_1'', BitfieldUnit 4 u32_ty), (''id'', u32_ty)]"

definition rte_flow_action_vf_test :: layout_test where
  "rte_flow_action_vf_test = \<lparr>expect_size = 8, expect_align = 4, expect_offsets = [
      (''id'', 4)]\<rparr>"

definition rte_flow_action_phy_port_layout :: rty where
  "rte_flow_action_phy_port_layout = Struct None 1 [
      (''_bitfield_1'', BitfieldUnit 4 u32_ty), (''index'', u32_ty)]"

definition rte_flow_action_phy_port_test :: layout_test where
  "rte_flow_action_phy_port_test = \<lparr>expect_size = 8, expect_align = 4, expect_offsets = [
      (''index'', 4)]\<rparr>"

definition rte_flow_action_port_id_layout :: rty where
  "rte_flow_action_port_id_layout = Struct None 1 [
      (''_bitfield_1'', BitfieldUnit 4 u32_ty), (''id'', u32_ty)]"

definition rte_flow_action_port_id_test :: layout_test where
  "rte_flow_action_port_id_test = \<lparr>expect_size = 8, expect_align = 4, expect_offsets = [
      (''id'', 4)]\<rparr>"

definition rte_flow_action_meter_layout :: rty where
  "rte_flow_action_meter_layout = Struct None 1 [
      (''mtr_id'', u32_ty)]"

definition rte_flow_action_meter_test :: layout_test where
  "rte_flow_action_meter_test = \<lparr>expect_size = 4, expect_align = 4, expect_offsets = [
      (''mtr_id'', 0)]\<rparr>"

definition rte_flow_action_security_layout :: rty where
  "rte_flow_action_security_layout = Struct None 1 [
      (''security_session'', Pointer)]"

definition rte_flow_action_security_test :: layout_test where
  "rte_flow_action_security_test = \<lparr>expect_size = 8, expect_align = 8, expect_offsets = [
      (''security_session'', 0)]\<rparr>"

definition rte_flow_action_of_set_mpls_ttl_layout :: rty where
  "rte_flow_action_of_set_mpls_ttl_layout = Struct None 1 [
      (''mpls_ttl'', u8_ty)]"

definition rte_flow_action_of_set_mpls_ttl_test :: layout_test where
  "rte_flow_action_of_set_mpls_ttl_test = \<lparr>expect_size = 1, expect_align = 1, expect_offsets = [
      (''mpls_ttl'', 0)]\<rparr>"

definition rte_flow_action_of_set_nw_ttl_layout :: rty where
  "rte_flow_action_of_set_nw_ttl_layout = Struct None 1 [
      (''nw_ttl'', u8_ty)]"

definition rte_flow_action_of_set_nw_ttl_test :: layout_test where
  "rte_flow_action_of_set_nw_ttl_test = \<lparr>expect_size = 1, expect_align = 1, expect_offsets = [
      (''nw_ttl'', 0)]\<rparr>"

definition rte_flow_action_of_push_vlan_layout :: rty where
  "rte_flow_action_of_push_vlan_layout = Struct None 1 [
      (''ethertype'', u16_ty)]"

definition rte_flow_action_of_push_vlan_test :: layout_test where
  "rte_flow_action_of_push_vlan_test = \<lparr>expect_size = 2, expect_align = 2, expect_offsets = [
      (''ethertype'', 0)]\<rparr>"

definition rte_flow_action_of_set_vlan_vid_layout :: rty where
  "rte_flow_action_of_set_vlan_vid_layout = Struct None 1 [
      (''vlan_vid'', u16_ty)]"

definition rte_flow_action_of_set_vlan_vid_test :: layout_test where
  "rte_flow_action_of_set_vlan_vid_test = \<lparr>expect_size = 2, expect_align = 2, expect_offsets = [
      (''vlan_vid'', 0)]\<rparr>"

definition rte_flow_action_of_set_vlan_pcp_layout :: rty where
  "rte_flow_action_of_set_vlan_pcp_layout = Struct None 1 [
      (''vlan_pcp'', u8_ty)]"

definition rte_flow_action_of_set_vlan_pcp_test :: layout_test where
  "rte_flow_action_of_set_vlan_pcp_test = \<lparr>expect_size = 1, expect_align = 1, expect_offsets = [
      (''vlan_pcp'', 0)]\<rparr>"

definition rte_flow_action_of_pop_mpls_layout :: rty where
  "rte_flow_action_of_pop_mpls_layout = Struct None 1 [
      (''ethertype'', u16_ty)]"

definition rte_flow_action_of_pop_mpls_test :: layout_test where
  "rte_flow_action_of_pop_mpls_test = \<lparr>expect_size = 2, expect_align = 2, expect_offsets = [
      (''ethertype'', 0)]\<rparr>"

definition rte_flow_action_of_push_mpls_layout :: rty where
  "rte_flow_action_of_push_mpls_layout = Struct None 1 [
      (''ethertype'', u16_ty)]"

definition rte_flow_action_of_push_mpls_test :: layout_test where
  "rte_flow_action_of_push_mpls_test = \<lparr>expect_size = 2, expect_align = 2, expect_offsets = [
      (''ethertype'', 0)]\<rparr>"

definition rte_flow_action_vxlan_encap_layout :: rty where
  "rte_flow_action_vxlan_encap_layout = Struct None 1 [
      (''definition'', Pointer)]"

definition rte_flow_action_vxlan_encap_test :: layout_test where
  "rte_flow_action_vxlan_encap_test = \<lparr>expect_size = 8, expect_align = 8, expect_offsets = [
      (''definition'', 0)]\<rparr>"

definition rte_flow_action_nvgre_encap_layout :: rty where
  "rte_flow_action_nvgre_encap_layout = Struct None 1 [
      (''definition'', Pointer)]"

definition rte_flow_action_nvgre_encap_test :: layout_test where
  "rte_flow_action_nvgre_encap_test = \<lparr>expect_size = 8, expect_align = 8, expect_offsets = [
      (''definition'', 0)]\<rparr>"

definition rte_flow_action_raw_encap_layout :: rty where
  "rte_flow_action_raw_encap_layout = Struct None 1 [
      (''data'', Pointer), (''preserve'', Pointer), (''size'', u64_ty)]"

definition rte_flow_action_raw_encap_test :: layout_test where
  "rte_flow_action_raw_encap_test = \<lparr>expect_size = 24, expect_align = 8, expect_offsets = [
      (''data'', 0), (''preserve'', 8), (''size'', 16)]\<rparr>"

definition rte_flow_action_raw_decap_layout :: rty where
  "rte_flow_action_raw_decap_layout = Struct None 1 [
      (''data'', Pointer), (''size'', u64_ty)]"

definition rte_flow_action_raw_decap_test :: layout_test where
  "rte_flow_action_raw_decap_test = \<lparr>expect_size = 16, expect_align = 8, expect_offsets = [
      (''data'', 0), (''size'', 8)]\<rparr>"

definition rte_flow_action_set_ipv4_layout :: rty where
  "rte_flow_action_set_ipv4_layout = Struct None 1 [
      (''ipv4_addr'', u32_ty)]"

definition rte_flow_action_set_ipv4_test :: layout_test where
  "rte_flow_action_set_ipv4_test = \<lparr>expect_size = 4, expect_align = 4, expect_offsets = [
      (''ipv4_addr'', 0)]\<rparr>"

definition rte_flow_action_set_ipv6_layout :: rty where
  "rte_flow_action_set_ipv6_layout = Struct None 1 [
      (''ipv6_addr'', Array u8_ty 16)]"

definition rte_flow_action_set_ipv6_test :: layout_test where
  "rte_flow_action_set_ipv6_test = \<lparr>expect_size = 16, expect_align = 1, expect_offsets = [
      (''ipv6_addr'', 0)]\<rparr>"

definition rte_flow_action_set_tp_layout :: rty where
  "rte_flow_action_set_tp_layout = Struct None 1 [
      (''port'', u16_ty)]"

definition rte_flow_action_set_tp_test :: layout_test where
  "rte_flow_action_set_tp_test = \<lparr>expect_size = 2, expect_align = 2, expect_offsets = [
      (''port'', 0)]\<rparr>"

definition rte_flow_action_set_ttl_layout :: rty where
  "rte_flow_action_set_ttl_layout = Struct None 1 [
      (''ttl_value'', u8_ty)]"

definition rte_flow_action_set_ttl_test :: layout_test where
  "rte_flow_action_set_ttl_test = \<lparr>expect_size = 1, expect_align = 1, expect_offsets = [
      (''ttl_value'', 0)]\<rparr>"

definition rte_flow_action_set_mac_layout :: rty where
  "rte_flow_action_set_mac_layout = Struct None 1 [
      (''mac_addr'', Array u8_ty 6)]"

definition rte_flow_action_set_mac_test :: layout_test where
  "rte_flow_action_set_mac_test = \<lparr>expect_size = 6, expect_align = 1, expect_offsets = [
      (''mac_addr'', 0)]\<rparr>"

definition rte_flow_action_set_tag_layout :: rty where
  "rte_flow_action_set_tag_layout = Struct None 1 [
      (''data'', u32_ty), (''mask'', u32_ty), (''index'', u8_ty)]"

definition rte_flow_action_set_tag_test :: layout_test where
  "rte_flow_action_set_tag_test = \<lparr>expect_size = 12, expect_align = 4, expect_offsets = [
      (''data'', 0), (''mask'', 4), (''index'', 8)]\<rparr>"

definition rte_flow_action_set_meta_layout :: rty where
  "rte_flow_action_set_meta_layout = Struct None 1 [
      (''data'', u32_ty), (''mask'', u32_ty)]"

definition rte_flow_action_set_meta_test :: layout_test where
  "rte_flow_action_set_meta_test = \<lparr>expect_size = 8, expect_align = 4, expect_offsets = [
      (''data'', 0), (''mask'', 4)]\<rparr>"

definition rte_flow_action_layout :: rty where
  "rte_flow_action_layout = Struct None 1 [
      (''type_'', u32_ty), (''conf'', Pointer)]"

definition rte_flow_action_test :: layout_test where
  "rte_flow_action_test = \<lparr>expect_size = 16, expect_align = 8, expect_offsets = [
      (''type_'', 0), (''conf'', 8)]\<rparr>"

definition rte_flow_error_layout :: rty where
  "rte_flow_error_layout = Struct None 1 [
      (''type_'', u32_ty), (''cause'', Pointer), (''message'', Pointer)]"

definition rte_flow_error_test :: layout_test where
  "rte_flow_error_test = \<lparr>expect_size = 24, expect_align = 8, expect_offsets = [
      (''type_'', 0), (''cause'', 8), (''message'', 16)]\<rparr>"

definition rte_flow_conv_rule__bindgen_ty_1_layout :: rty where
  "rte_flow_conv_rule__bindgen_ty_1_layout = Union 1 [
      (''attr_ro'', Pointer), (''attr'', Pointer), (''_bindgen_union_align'', u64_ty)]"

definition rte_flow_conv_rule__bindgen_ty_1_test :: layout_test where
  "rte_flow_conv_rule__bindgen_ty_1_test = \<lparr>expect_size = 8, expect_align = 8, expect_offsets = [
      (''attr_ro'', 0), (''attr'', 0)]\<rparr>"

definition rte_flow_conv_rule__bindgen_ty_2_layout :: rty where
  "rte_flow_conv_rule__bindgen_ty_2_layout = Union 1 [
      (''pattern_ro'', Pointer), (''pattern'', Pointer), (''_bindgen_union_align'', u64_ty)]"

definition rte_flow_conv_rule__bindgen_ty_2_test :: layout_test where
  "rte_flow_conv_rule__bindgen_ty_2_test = \<lparr>expect_size = 8, expect_align = 8, expect_offsets = [
      (''pattern_ro'', 0), (''pattern'', 0)]\<rparr>"

definition rte_flow_conv_rule__bindgen_ty_3_layout :: rty where
  "rte_flow_conv_rule__bindgen_ty_3_layout = Union 1 [
      (''actions_ro'', Pointer), (''actions'', Pointer), (''_bindgen_union_align'', u64_ty)]"

definition rte_flow_conv_rule__bindgen_ty_3_test :: layout_test where
  "rte_flow_conv_rule__bindgen_ty_3_test = \<lparr>expect_size = 8, expect_align = 8, expect_offsets = [
      (''actions_ro'', 0), (''actions'', 0)]\<rparr>"

definition rte_flow_conv_rule_layout :: rty where
  "rte_flow_conv_rule_layout = Struct None 1 [
      (''__bindgen_anon_1'', rte_flow_conv_rule__bindgen_ty_1_layout),
      (''__bindgen_anon_2'', rte_flow_conv_rule__bindgen_ty_2_layout),
      (''__bindgen_anon_3'', rte_flow_conv_rule__bindgen_ty_3_layout)]"

definition rte_flow_conv_rule_test :: layout_test where
  "rte_flow_conv_rule_test = \<lparr>expect_size = 24, expect_align = 8, expect_offsets = []\<rparr>"

definition rte_flow_desc_layout :: rty where
  "rte_flow_desc_layout = Struct None 1 [
      (''size'', u64_ty), (''attr'', rte_flow_attr_layout), (''items'', Pointer),
      (''actions'', Pointer), (''data'', IncompleteArrayField u8_ty)]"

definition rte_flow_desc_test :: layout_test where
  "rte_flow_desc_test = \<lparr>expect_size = 40, expect_align = 8, expect_offsets = []\<rparr>"

definition flow_tests :: "(rty \<times> layout_test) list" where
  "flow_tests =
    [(rte_vlan_hdr_layout, rte_vlan_hdr_test),
     (rte_arp_ipv4_layout, rte_arp_ipv4_test),
     (rte_ipv6_hdr_layout, rte_ipv6_hdr_test),
     (rte_sctp_hdr_layout, rte_sctp_hdr_test),
     (rte_esp_hdr_layout, rte_esp_hdr_test),
     (rte_esp_tail_layout, rte_esp_tail_test),
     (rte_higig2_frc_layout, rte_higig2_frc_test),
     (rte_higig2_ppt_type0_layout, rte_higig2_ppt_type0_test),
     (rte_higig2_ppt_type1_layout, rte_higig2_ppt_type1_test),
     (rte_higig2_hdr__bindgen_ty_1_layout, rte_higig2_hdr__bindgen_ty_1_test),
     (rte_higig2_hdr_layout, rte_higig2_hdr_test),
     (rte_flow_attr_layout, rte_flow_attr_test),
     (rte_flow_item_higig2_hdr_layout, rte_flow_item_higig2_hdr_test),
     (rte_flow_item_any_layout, rte_flow_item_any_test),
     (rte_flow_item_vf_layout, rte_flow_item_vf_test),
     (rte_flow_item_phy_port_layout, rte_flow_item_phy_port_test),
     (rte_flow_item_port_id_layout, rte_flow_item_port_id_test),
     (rte_flow_item_raw_layout, rte_flow_item_raw_test),
     (rte_flow_item_eth_layout, rte_flow_item_eth_test),
     (rte_flow_item_vlan_layout, rte_flow_item_vlan_test),
     (rte_flow_item_ipv4_layout, rte_flow_item_ipv4_test),
     (rte_flow_item_ipv6_layout, rte_flow_item_ipv6_test),
     (rte_flow_item_icmp_layout, rte_flow_item_icmp_test),
     (rte_flow_item_udp_layout, rte_flow_item_udp_test),
     (rte_flow_item_tcp_layout, rte_flow_item_tcp_test),
     (rte_flow_item_sctp_layout, rte_flow_item_sctp_test),
     (rte_flow_item_vxlan_layout, rte_flow_item_vxlan_test),
     (rte_flow_item_e_tag_layout, rte_flow_item_e_tag_test),
     (rte_flow_item_nvgre_layout, rte_flow_item_nvgre_test),
     (rte_flow_item_mpls_layout, rte_flow_item_mpls_test),
     (rte_flow_item_gre_layout, rte_flow_item_gre_test),
     (rte_flow_item_fuzzy_layout, rte_flow_item_fuzzy_test),
     (rte_flow_item_gtp_layout, rte_flow_item_gtp_test),
     (rte_flow_item_esp_layout, rte_flow_item_esp_test),
     (rte_flow_item_geneve_layout, rte_flow_item_geneve_test),
     (rte_flow_item_vxlan_gpe_layout, rte_flow_item_vxlan_gpe_test),
     (rte_flow_item_arp_eth_ipv4_layout, rte_flow_item_arp_eth_ipv4_test),
     (rte_flow_item_ipv6_ext_layout, rte_flow_item_ipv6_ext_test),
     (rte_flow_item_icmp6_layout, rte_flow_item_icmp6_test),
     (rte_flow_item_icmp6_nd_ns_layout, rte_flow_item_icmp6_nd_ns_test),
     (rte_flow_item_icmp6_nd_na_layout, rte_flow_item_icmp6_nd_na_test),
     (rte_flow_item_icmp6_nd_opt_layout, rte_flow_item_icmp6_nd_opt_test),
     (rte_flow_item_icmp6_nd_opt_sla_eth_layout, rte_flow_item_icmp6_nd_opt_sla_eth_test),
     (rte_flow_item_icmp6_nd_opt_tla_eth_layout, rte_flow_item_icmp6_nd_opt_tla_eth_test),
     (rte_flow_item_meta_layout, rte_flow_item_meta_test),
     (rte_flow_item_gtp_psc_layout, rte_flow_item_gtp_psc_test),
     (rte_flow_item_pppoe_layout, rte_flow_item_pppoe_test),
     (rte_flow_item_pppoe_proto_id_layout, rte_flow_item_pppoe_proto_id_test),
     (rte_flow_item_tag_layout, rte_flow_item_tag_test),
     (rte_flow_item_mark_layout, rte_flow_item_mark_test),
     (rte_flow_item_nsh_layout, rte_flow_item_nsh_test),
     (rte_flow_item_igmp_layout, rte_flow_item_igmp_test),
     (rte_flow_item_ah_layout, rte_flow_item_ah_test),
     (rte_flow_item_layout, rte_flow_item_test),
     (rte_flow_action_mark_layout, rte_flow_action_mark_test),
     (rte_flow_action_jump_layout, rte_flow_action_jump_test),
     (rte_flow_action_queue_layout, rte_flow_action_queue_test),
     (rte_flow_action_count_layout, rte_flow_action_count_test),
     (rte_flow_query_count_layout, rte_flow_query_count_test),
     (rte_flow_action_rss_layout, rte_flow_action_rss_test),
     (rte_flow_action_vf_layout, rte_flow_action_vf_test),
     (rte_flow_action_phy_port_layout, rte_flow_action_phy_port_test),
     (rte_flow_action_port_id_layout, rte_flow_action_port_id_test),
     (rte_flow_action_meter_layout, rte_flow_action_meter_test),
     (rte_flow_action_security_layout, rte_flow_action_security_test),
     (rte_flow_action_of_set_mpls_ttl_layout, rte_flow_action_of_set_mpls_ttl_test),
     (rte_flow_action_of_set_nw_ttl_layout, rte_flow_action_of_set_nw_ttl_test),
     (rte_flow_action_of_push_vlan_layout, rte_flow_action_of_push_vlan_test),
     (rte_flow_action_of_set_vlan_vid_layout, rte_flow_action_of_set_vlan_vid_test),
     (rte_flow_action_of_set_vlan_pcp_layout, rte_flow_action_of_set_vlan_pcp_test),
     (rte_flow_action_of_pop_mpls_layout, rte_flow_action_of_pop_mpls_test),
     (rte_flow_action_of_push_mpls_layout, rte_flow_action_of_push_mpls_test),
     (rte_flow_action_vxlan_encap_layout, rte_flow_action_vxlan_encap_test),
     (rte_flow_action_nvgre_encap_layout, rte_flow_action_nvgre_encap_test),
     (rte_flow_action_raw_encap_layout, rte_flow_action_raw_encap_test),
     (rte_flow_action_raw_decap_layout, rte_flow_action_raw_decap_test),
     (rte_flow_action_set_ipv4_layout, rte_flow_action_set_ipv4_test),
     (rte_flow_action_set_ipv6_layout, rte_flow_action_set_ipv6_test),
     (rte_flow_action_set_tp_layout, rte_flow_action_set_tp_test),
     (rte_flow_action_set_ttl_layout, rte_flow_action_set_ttl_test),
     (rte_flow_action_set_mac_layout, rte_flow_action_set_mac_test),
     (rte_flow_action_set_tag_layout, rte_flow_action_set_tag_test),
     (rte_flow_action_set_meta_layout, rte_flow_action_set_meta_test),
     (rte_flow_action_layout, rte_flow_action_test),
     (rte_flow_error_layout, rte_flow_error_test),
     (rte_flow_conv_rule__bindgen_ty_1_layout, rte_flow_conv_rule__bindgen_ty_1_test),
     (rte_flow_conv_rule__bindgen_ty_2_layout, rte_flow_conv_rule__bindgen_ty_2_test),
     (rte_flow_conv_rule__bindgen_ty_3_layout, rte_flow_conv_rule__bindgen_ty_3_test),
     (rte_flow_conv_rule_layout, rte_flow_conv_rule_test),
     (rte_flow_desc_layout, rte_flow_desc_test)]"

lemma rte_vlan_hdr_passes [layout_passes]:
  "layout_test_passes rte_vlan_hdr_layout rte_vlan_hdr_test"
  "wf_ty rte_vlan_hdr_layout"
  by (simp_all add: layout_simps rte_vlan_hdr_layout_def
      rte_vlan_hdr_test_def del: One_nat_def)

lemmas rte_vlan_hdr_facts [layout_simps] =
  layout_test_passesD [OF rte_vlan_hdr_passes(1)]
  rte_vlan_hdr_passes(2) rte_vlan_hdr_test_def

lemma rte_arp_ipv4_passes [layout_passes]:
  "layout_test_passes rte_arp_ipv4_layout rte_arp_ipv4_test"
  "wf_ty rte_arp_ipv4_layout"
  by (simp_all add: layout_simps rte_arp_ipv4_layout_def
      rte_arp_ipv4_test_def del: One_nat_def)

lemmas rte_arp_ipv4_facts [layout_simps] =
  layout_test_passesD [OF rte_arp_ipv4_passes(1)]
  rte_arp_ipv4_passes(2) rte_arp_ipv4_test_def

lemma rte_ipv6_hdr_passes [layout_passes]:
  "layout_test_passes rte_ipv6_hdr_layout rte_ipv6_hdr_test"
  "wf_ty rte_ipv6_hdr_layout"
  by (simp_all add: layout_simps rte_ipv6_hdr_layout_def
      rte_ipv6_hdr_test_def del: One_nat_def)

lemmas rte_ipv6_hdr_facts [layout_simps] =
  layout_test_passesD [OF rte_ipv6_hdr_passes(1)]
  rte_ipv6_hdr_passes(2) rte_ipv6_hdr_test_def

lemma rte_sctp_hdr_passes [layout_passes]:
  "layout_test_passes rte_sctp_hdr_layout rte_sctp_hdr_test"
  "wf_ty rte_sctp_hdr_layout"
  by (simp_all add: layout_simps rte_sctp_hdr_layout_def
      rte_sctp_hdr_test_def del: One_nat_def)

lemmas rte_sctp_hdr_facts [layout_simps] =
  layout_test_passesD [OF rte_sctp_hdr_passes(1)]
  rte_sctp_hdr_passes(2) rte_sctp_hdr_test_def

lemma rte_esp_hdr_passes [layout_passes]:
  "layout_test_passes rte_esp_hdr_layout rte_esp_hdr_test"
  "wf_ty rte_esp_hdr_layout"
  by (simp_all add: layout_simps rte_esp_hdr_layout_def
      rte_esp_hdr_test_def del: One_nat_def)

lemmas rte_esp_hdr_facts [layout_simps] =
  layout_test_passesD [OF rte_esp_hdr_passes(1)]
  rte_esp_hdr_passes(2) rte_esp_hdr_test_def

lemma rte_esp_tail_passes [layout_passes]:
  "layout_test_passes rte_esp_tail_layout rte_esp_tail_test"
  "wf_ty rte_esp_tail_layout"
  by (simp_all add: layout_simps rte_esp_tail_layout_def
      rte_esp_tail_test_def del: One_nat_def)

lemmas rte_esp_tail_facts [layout_simps] =
  layout_test_passesD [OF rte_esp_tail_passes(1)]
  rte_esp_tail_passes(2) rte_esp_tail_test_def

lemma rte_higig2_frc_passes [layout_passes]:
  "layout_test_passes rte_higig2_frc_layout rte_higig2_frc_test"
  "wf_ty rte_higig2_frc_layout"
  by (simp_all add: layout_simps rte_higig2_frc_layout_def
      rte_higig2_frc_test_def del: One_nat_def)

lemmas rte_higig2_frc_facts [layout_simps] =
  layout_test_passesD [OF rte_higig2_frc_passes(1)]
  rte_higig2_frc_passes(2) rte_higig2_frc_test_def

lemma rte_higig2_ppt_type0_passes [layout_passes]:
  "layout_test_passes rte_higig2_ppt_type0_layout rte_higig2_ppt_type0_test"
  "wf_ty rte_higig2_ppt_type0_layout"
  by (simp_all add: layout_simps rte_higig2_ppt_type0_layout_def
      rte_higig2_ppt_type0_test_def del: One_nat_def)

lemmas rte_higig2_ppt_type0_facts [layout_simps] =
  layout_test_passesD [OF rte_higig2_ppt_type0_passes(1)]
  rte_higig2_ppt_type0_passes(2) rte_higig2_ppt_type0_test_def

lemma rte_higig2_ppt_type1_passes [layout_passes]:
  "layout_test_passes rte_higig2_ppt_type1_layout rte_higig2_ppt_type1_test"
  "wf_ty rte_higig2_ppt_type1_layout"
  by (simp_all add: layout_simps rte_higig2_ppt_type1_layout_def
      rte_higig2_ppt_type1_test_def del: One_nat_def)

lemmas rte_higig2_ppt_type1_facts [layout_simps] =
  layout_test_passesD [OF rte_higig2_ppt_type1_passes(1)]
  rte_higig2_ppt_type1_passes(2) rte_higig2_ppt_type1_test_def

lemma rte_higig2_hdr__bindgen_ty_1_passes [layout_passes]:
  "layout_test_passes rte_higig2_hdr__bindgen_ty_1_layout rte_higig2_hdr__bindgen_ty_1_test"
  "wf_ty rte_higig2_hdr__bindgen_ty_1_layout"
  by (simp_all add: layout_simps rte_higig2_hdr__bindgen_ty_1_layout_def
      rte_higig2_hdr__bindgen_ty_1_test_def del: One_nat_def)

lemmas rte_higig2_hdr__bindgen_ty_1_facts [layout_simps] =
  layout_test_passesD [OF rte_higig2_hdr__bindgen_ty_1_passes(1)]
  rte_higig2_hdr__bindgen_ty_1_passes(2) rte_higig2_hdr__bindgen_ty_1_test_def

lemma rte_higig2_hdr_passes [layout_passes]:
  "layout_test_passes rte_higig2_hdr_layout rte_higig2_hdr_test"
  "wf_ty rte_higig2_hdr_layout"
  by (simp_all add: layout_simps rte_higig2_hdr_layout_def
      rte_higig2_hdr_test_def del: One_nat_def)

lemmas rte_higig2_hdr_facts [layout_simps] =
  layout_test_passesD [OF rte_higig2_hdr_passes(1)]
  rte_higig2_hdr_passes(2) rte_higig2_hdr_test_def

lemma rte_flow_attr_passes [layout_passes]:
  "layout_test_passes rte_flow_attr_layout rte_flow_attr_test"
  "wf_ty rte_flow_attr_layout"
  by (simp_all add: layout_simps rte_flow_attr_layout_def
      rte_flow_attr_test_def del: One_nat_def)

lemmas rte_flow_attr_facts [layout_simps] =
  layout_test_passesD [OF rte_flow_attr_passes(1)]
  rte_flow_attr_passes(2) rte_flow_attr_test_def

lemma rte_flow_item_higig2_hdr_passes [layout_passes]:
  "layout_test_passes rte_flow_item_higig2_hdr_layout rte_flow_item_higig2_hdr_test"
  "wf_ty rte_flow_item_higig2_hdr_layout"
  by (simp_all add: layout_simps rte_flow_item_higig2_hdr_layout_def
      rte_flow_item_higig2_hdr_test_def del: One_nat_def)

lemmas rte_flow_item_higig2_hdr_facts [layout_simps] =
  layout_test_passesD [OF rte_flow_item_higig2_hdr_passes(1)]
  rte_flow_item_higig2_hdr_passes(2) rte_flow_item_higig2_hdr_test_def

lemma rte_flow_item_any_passes [layout_passes]:
  "layout_test_passes rte_flow_item_any_layout rte_flow_item_any_test"
  "wf_ty rte_flow_item_any_layout"
  by (simp_all add: layout_simps rte_flow_item_any_layout_def
      rte_flow_item_any_test_def del: One_nat_def)

lemmas rte_flow_item_any_facts [layout_simps] =
  layout_test_passesD [OF rte_flow_item_any_passes(1)]
  rte_flow_item_any_passes(2) rte_flow_item_any_test_def

lemma rte_flow_item_vf_passes [layout_passes]:
  "layout_test_passes rte_flow_item_vf_layout rte_flow_item_vf_test"
  "wf_ty rte_flow_item_vf_layout"
  by (simp_all add: layout_simps rte_flow_item_vf_layout_def
      rte_flow_item_vf_test_def del: One_nat_def)

lemmas rte_flow_item_vf_facts [layout_simps] =
  layout_test_passesD [OF rte_flow_item_vf_passes(1)]
  rte_flow_item_vf_passes(2) rte_flow_item_vf_test_def

lemma rte_flow_item_phy_port_passes [layout_passes]:
  "layout_test_passes rte_flow_item_phy_port_layout rte_flow_item_phy_port_test"
  "wf_ty rte_flow_item_phy_port_layout"
  by (simp_all add: layout_simps rte_flow_item_phy_port_layout_def
      rte_flow_item_phy_port_test_def del: One_nat_def)

lemmas rte_flow_item_phy_port_facts [layout_simps] =
  layout_test_passesD [OF rte_flow_item_phy_port_passes(1)]
  rte_flow_item_phy_port_passes(2) rte_flow_item_phy_port_test_def

lemma rte_flow_item_port_id_passes [layout_passes]:
  "layout_test_passes rte_flow_item_port_id_layout rte_flow_item_port_id_test"
  "wf_ty rte_flow_item_port_id_layout"
  by (simp_all add: layout_simps rte_flow_item_port_id_layout_def
      rte_flow_item_port_id_test_def del: One_nat_def)

lemmas rte_flow_item_port_id_facts [layout_simps] =
  layout_test_passesD [OF rte_flow_item_port_id_passes(1)]
  rte_flow_item_port_id_passes(2) rte_flow_item_port_id_test_def

lemma rte_flow_item_raw_passes [layout_passes]:
  "layout_test_passes rte_flow_item_raw_layout rte_flow_item_raw_test"
  "wf_ty rte_flow_item_raw_layout"
  by (simp_all add: layout_simps rte_flow_item_raw_layout_def
      rte_flow_item_raw_test_def del: One_nat_def)

lemmas rte_flow_item_raw_facts [layout_simps] =
  layout_test_passesD [OF rte_flow_item_raw_passes(1)]
  rte_flow_item_raw_passes(2) rte_flow_item_raw_test_def

lemma rte_flow_item_eth_passes [layout_passes]:
  "layout_test_passes rte_flow_item_eth_layout rte_flow_item_eth_test"
  "wf_ty rte_flow_item_eth_layout"
  by (simp_all add: layout_simps rte_flow_item_eth_layout_def
      rte_flow_item_eth_test_def del: One_nat_def)

lemmas rte_flow_item_eth_facts [layout_simps] =
  layout_test_passesD [OF rte_flow_item_eth_passes(1)]
  rte_flow_item_eth_passes(2) rte_flow_item_eth_test_def

lemma rte_flow_item_vlan_passes [layout_passes]:
  "layout_test_passes rte_flow_item_vlan_layout rte_flow_item_vlan_test"
  "wf_ty rte_flow_item_vlan_layout"
  by (simp_all add: layout_simps rte_flow_item_vlan_layout_def
      rte_flow_item_vlan_test_def del: One_nat_def)

lemmas rte_flow_item_vlan_facts [layout_simps] =
  layout_test_passesD [OF rte_flow_item_vlan_passes(1)]
  rte_flow_item_vlan_passes(2) rte_flow_item_vlan_test_def

lemma rte_flow_item_ipv4_passes [layout_passes]:
  "layout_test_passes rte_flow_item_ipv4_layout rte_flow_item_ipv4_test"
  "wf_ty rte_flow_item_ipv4_layout"
  by (simp_all add: layout_simps rte_flow_item_ipv4_layout_def
      rte_flow_item_ipv4_test_def del: One_nat_def)

lemmas rte_flow_item_ipv4_facts [layout_simps] =
  layout_test_passesD [OF rte_flow_item_ipv4_passes(1)]
  rte_flow_item_ipv4_passes(2) rte_flow_item_ipv4_test_def

lemma rte_flow_item_ipv6_passes [layout_passes]:
  "layout_test_passes rte_flow_item_ipv6_layout rte_flow_item_ipv6_test"
  "wf_ty rte_flow_item_ipv6_layout"
  by (simp_all add: layout_simps rte_flow_item_ipv6_layout_def
      rte_flow_item_ipv6_test_def del: One_nat_def)

lemmas rte_flow_item_ipv6_facts [layout_simps] =
  layout_test_passesD [OF rte_flow_item_ipv6_passes(1)]
  rte_flow_item_ipv6_passes(2) rte_flow_item_ipv6_test_def

lemma rte_flow_item_icmp_passes [layout_passes]:
  "layout_test_passes rte_flow_item_icmp_layout rte_flow_item_icmp_test"
  "wf_ty rte_flow_item_icmp_layout"
  by (simp_all add: layout_simps rte_flow_item_icmp_layout_def
      rte_flow_item_icmp_test_def del: One_nat_def)

lemmas rte_flow_item_icmp_facts [layout_simps] =
  layout_test_passesD [OF rte_flow_item_icmp_passes(1)]
  rte_flow_item_icmp_passes(2) rte_flow_item_icmp_test_def

lemma rte_flow_item_udp_passes [layout_passes]:
  "layout_test_passes rte_flow_item_udp_layout rte_flow_item_udp_test"
  "wf_ty rte_flow_item_udp_layout"
  by (simp_all add: layout_simps rte_flow_item_udp_layout_def
      rte_flow_item_udp_test_def del: One_nat_def)

lemmas rte_flow_item_udp_facts [layout_simps] =
  layout_test_passesD [OF rte_flow_item_udp_passes(1)]
  rte_flow_item_udp_passes(2) rte_flow_item_udp_test_def

lemma rte_flow_item_tcp_passes [layout_passes]:
  "layout_test_passes rte_flow_item_tcp_layout rte_flow_item_tcp_test"
  "wf_ty rte_flow_item_tcp_layout"
  by (simp_all add: layout_simps rte_flow_item_tcp_layout_def
      rte_flow_item_tcp_test_def del: One_nat_def)

lemmas rte_flow_item_tcp_facts [layout_simps] =
  layout_test_passesD [OF rte_flow_item_tcp_passes(1)]
  rte_flow_item_tcp_passes(2) rte_flow_item_tcp_test_def

lemma rte_flow_item_sctp_passes [layout_passes]:
  "layout_test_passes rte_flow_item_sctp_layout rte_flow_item_sctp_test"
  "wf_ty rte_flow_item_sctp_layout"
  by (simp_all add: layout_simps rte_flow_item_sctp_layout_def
      rte_flow_item_sctp_test_def del: One_nat_def)

lemmas rte_flow_item_sctp_facts [layout_simps] =
  layout_test_passesD [OF rte_flow_item_sctp_passes(1)]
  rte_flow_item_sctp_passes(2) rte_flow_item_sctp_test_def

lemma rte_flow_item_vxlan_passes [layout_passes]:
  "layout_test_passes rte_flow_item_vxlan_layout rte_flow_item_vxlan_test"
  "wf_ty rte_flow_item_vxlan_layout"
  by (simp_all add: layout_simps rte_flow_item_vxlan_layout_def
      rte_flow_item_vxlan_test_def del: One_nat_def)

lemmas rte_flow_item_vxlan_facts [layout_simps] =
  layout_test_passesD [OF rte_flow_item_vxlan_passes(1)]
  rte_flow_item_vxlan_passes(2) rte_flow_item_vxlan_test_def

lemma rte_flow_item_e_tag_passes [layout_passes]:
  "layout_test_passes rte_flow_item_e_tag_layout rte_flow_item_e_tag_test"
  "wf_ty rte_flow_item_e_tag_layout"
  by (simp_all add: layout_simps rte_flow_item_e_tag_layout_def
      rte_flow_item_e_tag_test_def del: One_nat_def)

lemmas rte_flow_item_e_tag_facts [layout_simps] =
  layout_test_passesD [OF rte_flow_item_e_tag_passes(1)]
  rte_flow_item_e_tag_passes(2) rte_flow_item_e_tag_test_def

lemma rte_flow_item_nvgre_passes [layout_passes]:
  "layout_test_passes rte_flow_item_nvgre_layout rte_flow_item_nvgre_test"
  "wf_ty rte_flow_item_nvgre_layout"
  by (simp_all add: layout_simps rte_flow_item_nvgre_layout_def
      rte_flow_item_nvgre_test_def del: One_nat_def)

lemmas rte_flow_item_nvgre_facts [layout_simps] =
  layout_test_passesD [OF rte_flow_item_nvgre_passes(1)]
  rte_flow_item_nvgre_passes(2) rte_flow_item_nvgre_test_def

lemma rte_flow_item_mpls_passes [layout_passes]:
  "layout_test_passes rte_flow_item_mpls_layout rte_flow_item_mpls_test"
  "wf_ty rte_flow_item_mpls_layout"
  by (simp_all add: layout_simps rte_flow_item_mpls_layout_def
      rte_flow_item_mpls_test_def del: One_nat_def)

lemmas rte_flow_item_mpls_facts [layout_simps] =
  layout_test_passesD [OF rte_flow_item_mpls_passes(1)]
  rte_flow_item_mpls_passes(2) rte_flow_item_mpls_test_def

lemma rte_flow_item_gre_passes [layout_passes]:
  "layout_test_passes rte_flow_item_gre_layout rte_flow_item_gre_test"
  "wf_ty rte_flow_item_gre_layout"
  by (simp_all add: layout_simps rte_flow_item_gre_layout_def
      rte_flow_item_gre_test_def del: One_nat_def)

lemmas rte_flow_item_gre_facts [layout_simps] =
  layout_test_passesD [OF rte_flow_item_gre_passes(1)]
  rte_flow_item_gre_passes(2) rte_flow_item_gre_test_def

lemma rte_flow_item_fuzzy_passes [layout_passes]:
  "layout_test_passes rte_flow_item_fuzzy_layout rte_flow_item_fuzzy_test"
  "wf_ty rte_flow_item_fuzzy_layout"
  by (simp_all add: layout_simps rte_flow_item_fuzzy_layout_def
      rte_flow_item_fuzzy_test_def del: One_nat_def)

lemmas rte_flow_item_fuzzy_facts [layout_simps] =
  layout_test_passesD [OF rte_flow_item_fuzzy_passes(1)]
  rte_flow_item_fuzzy_passes(2) rte_flow_item_fuzzy_test_def

lemma rte_flow_item_gtp_passes [layout_passes]:
  "layout_test_passes rte_flow_item_gtp_layout rte_flow_item_gtp_test"
  "wf_ty rte_flow_item_gtp_layout"
  by (simp_all add: layout_simps rte_flow_item_gtp_layout_def
      rte_flow_item_gtp_test_def del: One_nat_def)

lemmas rte_flow_item_gtp_facts [layout_simps] =
  layout_test_passesD [OF rte_flow_item_gtp_passes(1)]
  rte_flow_item_gtp_passes(2) rte_flow_item_gtp_test_def

lemma rte_flow_item_esp_passes [layout_passes]:
  "layout_test_passes rte_flow_item_esp_layout rte_flow_item_esp_test"
  "wf_ty rte_flow_item_esp_layout"
  by (simp_all add: layout_simps rte_flow_item_esp_layout_def
      rte_flow_item_esp_test_def del: One_nat_def)

lemmas rte_flow_item_esp_facts [layout_simps] =
  layout_test_passesD [OF rte_flow_item_esp_passes(1)]
  rte_flow_item_esp_passes(2) rte_flow_item_esp_test_def

lemma rte_flow_item_geneve_passes [layout_passes]:
  "layout_test_passes rte_flow_item_geneve_layout rte_flow_item_geneve_test"
  "wf_ty rte_flow_item_geneve_layout"
  by (simp_all add: layout_simps rte_flow_item_geneve_layout_def
      rte_flow_item_geneve_test_def del: One_nat_def)

lemmas rte_flow_item_geneve_facts [layout_simps] =
  layout_test_passesD [OF rte_flow_item_geneve_passes(1)]
  rte_flow_item_geneve_passes(2) rte_flow_item_geneve_test_def

lemma rte_flow_item_vxlan_gpe_passes [layout_passes]:
  "layout_test_passes rte_flow_item_vxlan_gpe_layout rte_flow_item_vxlan_gpe_test"
  "wf_ty rte_flow_item_vxlan_gpe_layout"
  by (simp_all add: layout_simps rte_flow_item_vxlan_gpe_layout_def
      rte_flow_item_vxlan_gpe_test_def del: One_nat_def)

lemmas rte_flow_item_vxlan_gpe_facts [layout_simps] =
  layout_test_passesD [OF rte_flow_item_vxlan_gpe_passes(1)]
  rte_flow_item_vxlan_gpe_passes(2) rte_flow_item_vxlan_gpe_test_def

lemma rte_flow_item_arp_eth_ipv4_passes [layout_passes]:
  "layout_test_passes rte_flow_item_arp_eth_ipv4_layout rte_flow_item_arp_eth_ipv4_test"
  "wf_ty rte_flow_item_arp_eth_ipv4_layout"
  by (simp_all add: layout_simps rte_flow_item_arp_eth_ipv4_layout_def
      rte_flow_item_arp_eth_ipv4_test_def del: One_nat_def)

lemmas rte_flow_item_arp_eth_ipv4_facts [layout_simps] =
  layout_test_passesD [OF rte_flow_item_arp_eth_ipv4_passes(1)]
  rte_flow_item_arp_eth_ipv4_passes(2) rte_flow_item_arp_eth_ipv4_test_def

lemma rte_flow_item_ipv6_ext_passes [layout_passes]:
  "layout_test_passes rte_flow_item_ipv6_ext_layout rte_flow_item_ipv6_ext_test"
  "wf_ty rte_flow_item_ipv6_ext_layout"
  by (simp_all add: layout_simps rte_flow_item_ipv6_ext_layout_def
      rte_flow_item_ipv6_ext_test_def del: One_nat_def)

lemmas rte_flow_item_ipv6_ext_facts [layout_simps] =
  layout_test_passesD [OF rte_flow_item_ipv6_ext_passes(1)]
  rte_flow_item_ipv6_ext_passes(2) rte_flow_item_ipv6_ext_test_def

lemma rte_flow_item_icmp6_passes [layout_passes]:
  "layout_test_passes rte_flow_item_icmp6_layout rte_flow_item_icmp6_test"
  "wf_ty rte_flow_item_icmp6_layout"
  by (simp_all add: layout_simps rte_flow_item_icmp6_layout_def
      rte_flow_item_icmp6_test_def del: One_nat_def)

lemmas rte_flow_item_icmp6_facts [layout_simps] =
  layout_test_passesD [OF rte_flow_item_icmp6_passes(1)]
  rte_flow_item_icmp6_passes(2) rte_flow_item_icmp6_test_def

lemma rte_flow_item_icmp6_nd_ns_passes [layout_passes]:
  "layout_test_passes rte_flow_item_icmp6_nd_ns_layout rte_flow_item_icmp6_nd_ns_test"
  "wf_ty rte_flow_item_icmp6_nd_ns_layout"
  by (simp_all add: layout_simps rte_flow_item_icmp6_nd_ns_layout_def
      rte_flow_item_icmp6_nd_ns_test_def del: One_nat_def)

lemmas rte_flow_item_icmp6_nd_ns_facts [layout_simps] =
  layout_test_passesD [OF rte_flow_item_icmp6_nd_ns_passes(1)]
  rte_flow_item_icmp6_nd_ns_passes(2) rte_flow_item_icmp6_nd_ns_test_def

lemma rte_flow_item_icmp6_nd_na_passes [layout_passes]:
  "layout_test_passes rte_flow_item_icmp6_nd_na_layout rte_flow_item_icmp6_nd_na_test"
  "wf_ty rte_flow_item_icmp6_nd_na_layout"
  by (simp_all add: layout_simps rte_flow_item_icmp6_nd_na_layout_def
      rte_flow_item_icmp6_nd_na_test_def del: One_nat_def)

lemmas rte_flow_item_icmp6_nd_na_facts [layout_simps] =
  layout_test_passesD [OF rte_flow_item_icmp6_nd_na_passes(1)]
  rte_flow_item_icmp6_nd_na_passes(2) rte_flow_item_icmp6_nd_na_test_def

lemma rte_flow_item_icmp6_nd_opt_passes [layout_passes]:
  "layout_test_passes rte_flow_item_icmp6_nd_opt_layout rte_flow_item_icmp6_nd_opt_test"
  "wf_ty rte_flow_item_icmp6_nd_opt_layout"
  by (simp_all add: layout_simps rte_flow_item_icmp6_nd_opt_layout_def
      rte_flow_item_icmp6_nd_opt_test_def del: One_nat_def)

lemmas rte_flow_item_icmp6_nd_opt_facts [layout_simps] =
  layout_test_passesD [OF rte_flow_item_icmp6_nd_opt_passes(1)]
  rte_flow_item_icmp6_nd_opt_passes(2) rte_flow_item_icmp6_nd_opt_test_def

lemma rte_flow_item_icmp6_nd_opt_sla_eth_passes [layout_passes]:
  "layout_test_passes rte_flow_item_icmp6_nd_opt_sla_eth_layout rte_flow_item_icmp6_nd_opt_sla_eth_test"
  "wf_ty rte_flow_item_icmp6_nd_opt_sla_eth_layout"
  by (simp_all add: layout_simps rte_flow_item_icmp6_nd_opt_sla_eth_layout_def
      rte_flow_item_icmp6_nd_opt_sla_eth_test_def del: One_nat_def)

lemmas rte_flow_item_icmp6_nd_opt_sla_eth_facts [layout_simps] =
  layout_test_passesD [OF rte_flow_item_icmp6_nd_opt_sla_eth_passes(1)]
  rte_flow_item_icmp6_nd_opt_sla_eth_passes(2) rte_flow_item_icmp6_nd_opt_sla_eth_test_def

lemma rte_flow_item_icmp6_nd_opt_tla_eth_passes [layout_passes]:
  "layout_test_passes rte_flow_item_icmp6_nd_opt_tla_eth_layout rte_flow_item_icmp6_nd_opt_tla_eth_test"
  "wf_ty rte_flow_item_icmp6_nd_opt_tla_eth_layout"
  by (simp_all add: layout_simps rte_flow_item_icmp6_nd_opt_tla_eth_layout_def
      rte_flow_item_icmp6_nd_opt_tla_eth_test_def del: One_nat_def)

lemmas rte_flow_item_icmp6_nd_opt_tla_eth_facts [layout_simps] =
  layout_test_passesD [OF rte_flow_item_icmp6_nd_opt_tla_eth_passes(1)]
  rte_flow_item_icmp6_nd_opt_tla_eth_passes(2) rte_flow_item_icmp6_nd_opt_tla_eth_test_def

lemma rte_flow_item_meta_passes [layout_passes]:
  "layout_test_passes rte_flow_item_meta_layout rte_flow_item_meta_test"
  "wf_ty rte_flow_item_meta_layout"
  by (simp_all add: layout_simps rte_flow_item_meta_layout_def
      rte_flow_item_meta_test_def del: One_nat_def)

lemmas rte_flow_item_meta_facts [layout_simps] =
  layout_test_passesD [OF rte_flow_item_meta_passes(1)]
  rte_flow_item_meta_passes(2) rte_flow_item_meta_test_def

lemma rte_flow_item_gtp_psc_passes [layout_passes]:
  "layout_test_passes rte_flow_item_gtp_psc_layout rte_flow_item_gtp_psc_test"
  "wf_ty rte_flow_item_gtp_psc_layout"
  by (simp_all add: layout_simps rte_flow_item_gtp_psc_layout_def
      rte_flow_item_gtp_psc_test_def del: One_nat_def)

lemmas rte_flow_item_gtp_psc_facts [layout_simps] =
  layout_test_passesD [OF rte_flow_item_gtp_psc_passes(1)]
  rte_flow_item_gtp_psc_passes(2) rte_flow_item_gtp_psc_test_def

lemma rte_flow_item_pppoe_passes [layout_passes]:
  "layout_test_passes rte_flow_item_pppoe_layout rte_flow_item_pppoe_test"
  "wf_ty rte_flow_item_pppoe_layout"
  by (simp_all add: layout_simps rte_flow_item_pppoe_layout_def
      rte_flow_item_pppoe_test_def del: One_nat_def)

lemmas rte_flow_item_pppoe_facts [layout_simps] =
  layout_test_passesD [OF rte_flow_item_pppoe_passes(1)]
  rte_flow_item_pppoe_passes(2) rte_flow_item_pppoe_test_def

lemma rte_flow_item_pppoe_proto_id_passes [layout_passes]:
  "layout_test_passes rte_flow_item_pppoe_proto_id_layout rte_flow_item_pppoe_proto_id_test"
  "wf_ty rte_flow_item_pppoe_proto_id_layout"
  by (simp_all add: layout_simps rte_flow_item_pppoe_proto_id_layout_def
      rte_flow_item_pppoe_proto_id_test_def del: One_nat_def)

lemmas rte_flow_item_pppoe_proto_id_facts [layout_simps] =
  layout_test_passesD [OF rte_flow_item_pppoe_proto_id_passes(1)]
  rte_flow_item_pppoe_proto_id_passes(2) rte_flow_item_pppoe_proto_id_test_def

lemma rte_flow_item_tag_passes [layout_passes]:
  "layout_test_passes rte_flow_item_tag_layout rte_flow_item_tag_test"
  "wf_ty rte_flow_item_tag_layout"
  by (simp_all add: layout_simps rte_flow_item_tag_layout_def
      rte_flow_item_tag_test_def del: One_nat_def)

lemmas rte_flow_item_tag_facts [layout_simps] =
  layout_test_passesD [OF rte_flow_item_tag_passes(1)]
  rte_flow_item_tag_passes(2) rte_flow_item_tag_test_def

lemma rte_flow_item_mark_passes [layout_passes]:
  "layout_test_passes rte_flow_item_mark_layout rte_flow_item_mark_test"
  "wf_ty rte_flow_item_mark_layout"
  by (simp_all add: layout_simps rte_flow_item_mark_layout_def
      rte_flow_item_mark_test_def del: One_nat_def)

lemmas rte_flow_item_mark_facts [layout_simps] =
  layout_test_passesD [OF rte_flow_item_mark_passes(1)]
  rte_flow_item_mark_passes(2) rte_flow_item_mark_test_def

lemma rte_flow_item_nsh_passes [layout_passes]:
  "layout_test_passes rte_flow_item_nsh_layout rte_flow_item_nsh_test"
  "wf_ty rte_flow_item_nsh_layout"
  by (simp_all add: layout_simps rte_flow_item_nsh_layout_def
      rte_flow_item_nsh_test_def del: One_nat_def)

lemmas rte_flow_item_nsh_facts [layout_simps] =
  layout_test_passesD [OF rte_flow_item_nsh_passes(1)]
  rte_flow_item_nsh_passes(2) rte_flow_item_nsh_test_def

lemma rte_flow_item_igmp_passes [layout_passes]:
  "layout_test_passes rte_flow_item_igmp_layout rte_flow_item_igmp_test"
  "wf_ty rte_flow_item_igmp_layout"
  by (simp_all add: layout_simps rte_flow_item_igmp_layout_def
      rte_flow_item_igmp_test_def del: One_nat_def)

lemmas rte_flow_item_igmp_facts [layout_simps] =
  layout_test_passesD [OF rte_flow_item_igmp_passes(1)]
  rte_flow_item_igmp_passes(2) rte_flow_item_igmp_test_def

lemma rte_flow_item_ah_passes [layout_passes]:
  "layout_test_passes rte_flow_item_ah_layout rte_flow_item_ah_test"
  "wf_ty rte_flow_item_ah_layout"
  by (simp_all add: layout_simps rte_flow_item_ah_layout_def
      rte_flow_item_ah_test_def del: One_nat_def)

lemmas rte_flow_item_ah_facts [layout_simps] =
  layout_test_passesD [OF rte_flow_item_ah_passes(1)]
  rte_flow_item_ah_passes(2) rte_flow_item_ah_test_def

lemma rte_flow_item_passes [layout_passes]:
  "layout_test_passes rte_flow_item_layout rte_flow_item_test"
  "wf_ty rte_flow_item_layout"
  by (simp_all add: layout_simps rte_flow_item_layout_def
      rte_flow_item_test_def del: One_nat_def)

lemmas rte_flow_item_facts [layout_simps] =
  layout_test_passesD [OF rte_flow_item_passes(1)]
  rte_flow_item_passes(2) rte_flow_item_test_def

lemma rte_flow_action_mark_passes [layout_passes]:
  "layout_test_passes rte_flow_action_mark_layout rte_flow_action_mark_test"
  "wf_ty rte_flow_action_mark_layout"
  by (simp_all add: layout_simps rte_flow_action_mark_layout_def
      rte_flow_action_mark_test_def del: One_nat_def)

lemmas rte_flow_action_mark_facts [layout_simps] =
  layout_test_passesD [OF rte_flow_action_mark_passes(1)]
  rte_flow_action_mark_passes(2) rte_flow_action_mark_test_def

lemma rte_flow_action_jump_passes [layout_passes]:
  "layout_test_passes rte_flow_action_jump_layout rte_flow_action_jump_test"
  "wf_ty rte_flow_action_jump_layout"
  by (simp_all add: layout_simps rte_flow_action_jump_layout_def
      rte_flow_action_jump_test_def del: One_nat_def)

lemmas rte_flow_action_jump_facts [layout_simps] =
  layout_test_passesD [OF rte_flow_action_jump_passes(1)]
  rte_flow_action_jump_passes(2) rte_flow_action_jump_test_def

lemma rte_flow_action_queue_passes [layout_passes]:
  "layout_test_passes rte_flow_action_queue_layout rte_flow_action_queue_test"
  "wf_ty rte_flow_action_queue_layout"
  by (simp_all add: layout_simps rte_flow_action_queue_layout_def
      rte_flow_action_queue_test_def del: One_nat_def)

lemmas rte_flow_action_queue_facts [layout_simps] =
  layout_test_passesD [OF rte_flow_action_queue_passes(1)]
  rte_flow_action_queue_passes(2) rte_flow_action_queue_test_def

lemma rte_flow_action_count_passes [layout_passes]:
  "layout_test_passes rte_flow_action_count_layout rte_flow_action_count_test"
  "wf_ty rte_flow_action_count_layout"
  by (simp_all add: layout_simps rte_flow_action_count_layout_def
      rte_flow_action_count_test_def del: One_nat_def)

lemmas rte_flow_action_count_facts [layout_simps] =
  layout_test_passesD [OF rte_flow_action_count_passes(1)]
  rte_flow_action_count_passes(2) rte_flow_action_count_test_def

lemma rte_flow_query_count_passes [layout_passes]:
  "layout_test_passes rte_flow_query_count_layout rte_flow_query_count_test"
  "wf_ty rte_flow_query_count_layout"
  by (simp_all add: layout_simps rte_flow_query_count_layout_def
      rte_flow_query_count_test_def del: One_nat_def)

lemmas rte_flow_query_count_facts [layout_simps] =
  layout_test_passesD [OF rte_flow_query_count_passes(1)]
  rte_flow_query_count_passes(2) rte_flow_query_count_test_def

lemma rte_flow_action_rss_passes [layout_passes]:
  "layout_test_passes rte_flow_action_rss_layout rte_flow_action_rss_test"
  "wf_ty rte_flow_action_rss_layout"
  by (simp_all add: layout_simps rte_flow_action_rss_layout_def
      rte_flow_action_rss_test_def del: One_nat_def)

lemmas rte_flow_action_rss_facts [layout_simps] =
  layout_test_passesD [OF rte_flow_action_rss_passes(1)]
  rte_flow_action_rss_passes(2) rte_flow_action_rss_test_def

lemma rte_flow_action_vf_passes [layout_passes]:
  "layout_test_passes rte_flow_action_vf_layout rte_flow_action_vf_test"
  "wf_ty rte_flow_action_vf_layout"
  by (simp_all add: layout_simps rte_flow_action_vf_layout_def
      rte_flow_action_vf_test_def del: One_nat_def)

lemmas rte_flow_action_vf_facts [layout_simps] =
  layout_test_passesD [OF rte_flow_action_vf_passes(1)]
  rte_flow_action_vf_passes(2) rte_flow_action_vf_test_def

lemma rte_flow_action_phy_port_passes [layout_passes]:
  "layout_test_passes rte_flow_action_phy_port_layout rte_flow_action_phy_port_test"
  "wf_ty rte_flow_action_phy_port_layout"
  by (simp_all add: layout_simps rte_flow_action_phy_port_layout_def
      rte_flow_action_phy_port_test_def del: One_nat_def)

lemmas rte_flow_action_phy_port_facts [layout_simps] =
  layout_test_passesD [OF rte_flow_action_phy_port_passes(1)]
  rte_flow_action_phy_port_passes(2) rte_flow_action_phy_port_test_def

lemma rte_flow_action_port_id_passes [layout_passes]:
  "layout_test_passes rte_flow_action_port_id_layout rte_flow_action_port_id_test"
  "wf_ty rte_flow_action_port_id_layout"
  by (simp_all add: layout_simps rte_flow_action_port_id_layout_def
      rte_flow_action_port_id_test_def del: One_nat_def)

lemmas rte_flow_action_port_id_facts [layout_simps] =
  layout_test_passesD [OF rte_flow_action_port_id_passes(1)]
  rte_flow_action_port_id_passes(2) rte_flow_action_port_id_test_def

lemma rte_flow_action_meter_passes [layout_passes]:
  "layout_test_passes rte_flow_action_meter_layout rte_flow_action_meter_test"
  "wf_ty rte_flow_action_meter_layout"
  by (simp_all add: layout_simps rte_flow_action_meter_layout_def
      rte_flow_action_meter_test_def del: One_nat_def)

lemmas rte_flow_action_meter_facts [layout_simps] =
  layout_test_passesD [OF rte_flow_action_meter_passes(1)]
  rte_flow_action_meter_passes(2) rte_flow_action_meter_test_def

lemma rte_flow_action_security_passes [layout_passes]:
  "layout_test_passes rte_flow_action_security_layout rte_flow_action_security_test"
  "wf_ty rte_flow_action_security_layout"
  by (simp_all add: layout_simps rte_flow_action_security_layout_def
      rte_flow_action_security_test_def del: One_nat_def)

lemmas rte_flow_action_security_facts [layout_simps] =
  layout_test_passesD [OF rte_flow_action_security_passes(1)]
  rte_flow_action_security_passes(2) rte_flow_action_security_test_def

lemma rte_flow_action_of_set_mpls_ttl_passes [layout_passes]:
  "layout_test_passes rte_flow_action_of_set_mpls_ttl_layout rte_flow_action_of_set_mpls_ttl_test"
  "wf_ty rte_flow_action_of_set_mpls_ttl_layout"
  by (simp_all add: layout_simps rte_flow_action_of_set_mpls_ttl_layout_def
      rte_flow_action_of_set_mpls_ttl_test_def del: One_nat_def)

lemmas rte_flow_action_of_set_mpls_ttl_facts [layout_simps] =
  layout_test_passesD [OF rte_flow_action_of_set_mpls_ttl_passes(1)]
  rte_flow_action_of_set_mpls_ttl_passes(2) rte_flow_action_of_set_mpls_ttl_test_def

lemma rte_flow_action_of_set_nw_ttl_passes [layout_passes]:
  "layout_test_passes rte_flow_action_of_set_nw_ttl_layout rte_flow_action_of_set_nw_ttl_test"
  "wf_ty rte_flow_action_of_set_nw_ttl_layout"
  by (simp_all add: layout_simps rte_flow_action_of_set_nw_ttl_layout_def
      rte_flow_action_of_set_nw_ttl_test_def del: One_nat_def)

lemmas rte_flow_action_of_set_nw_ttl_facts [layout_simps] =
  layout_test_passesD [OF rte_flow_action_of_set_nw_ttl_passes(1)]
  rte_flow_action_of_set_nw_ttl_passes(2) rte_flow_action_of_set_nw_ttl_test_def

lemma rte_flow_action_of_push_vlan_passes [layout_passes]:
  "layout_test_passes rte_flow_action_of_push_vlan_layout rte_flow_action_of_push_vlan_test"
  "wf_ty rte_flow_action_of_push_vlan_layout"
  by (simp_all add: layout_simps rte_flow_action_of_push_vlan_layout_def
      rte_flow_action_of_push_vlan_test_def del: One_nat_def)

lemmas rte_flow_action_of_push_vlan_facts [layout_simps] =
  layout_test_passesD [OF rte_flow_action_of_push_vlan_passes(1)]
  rte_flow_action_of_push_vlan_passes(2) rte_flow_action_of_push_vlan_test_def

lemma rte_flow_action_of_set_vlan_vid_passes [layout_passes]:
  "layout_test_passes rte_flow_action_of_set_vlan_vid_layout rte_flow_action_of_set_vlan_vid_test"
  "wf_ty rte_flow_action_of_set_vlan_vid_layout"
  by (simp_all add: layout_simps rte_flow_action_of_set_vlan_vid_layout_def
      rte_flow_action_of_set_vlan_vid_test_def del: One_nat_def)

lemmas rte_flow_action_of_set_vlan_vid_facts [layout_simps] =
  layout_test_passesD [OF rte_flow_action_of_set_vlan_vid_passes(1)]
  rte_flow_action_of_set_vlan_vid_passes(2) rte_flow_action_of_set_vlan_vid_test_def

lemma rte_flow_action_of_set_vlan_pcp_passes [layout_passes]:
  "layout_test_passes rte_flow_action_of_set_vlan_pcp_layout rte_flow_action_of_set_vlan_pcp_test"
  "wf_ty rte_flow_action_of_set_vlan_pcp_layout"
  by (simp_all add: layout_simps rte_flow_action_of_set_vlan_pcp_layout_def
      rte_flow_action_of_set_vlan_pcp_test_def del: One_nat_def)

lemmas rte_flow_action_of_set_vlan_pcp_facts [layout_simps] =
  layout_test_passesD [OF rte_flow_action_of_set_vlan_pcp_passes(1)]
  rte_flow_action_of_set_vlan_pcp_passes(2) rte_flow_action_of_set_vlan_pcp_test_def

lemma rte_flow_action_of_pop_mpls_passes [layout_passes]:
  "layout_test_passes rte_flow_action_of_pop_mpls_layout rte_flow_action_of_pop_mpls_test"
  "wf_ty rte_flow_action_of_pop_mpls_layout"
  by (simp_all add: layout_simps rte_flow_action_of_pop_mpls_layout_def
      rte_flow_action_of_pop_mpls_test_def del: One_nat_def)

lemmas rte_flow_action_of_pop_mpls_facts [layout_simps] =
  layout_test_passesD [OF rte_flow_action_of_pop_mpls_passes(1)]
  rte_flow_action_of_pop_mpls_passes(2) rte_flow_action_of_pop_mpls_test_def

lemma rte_flow_action_of_push_mpls_passes [layout_passes]:
  "layout_test_passes rte_flow_action_of_push_mpls_layout rte_flow_action_of_push_mpls_test"
  "wf_ty rte_flow_action_of_push_mpls_layout"
  by (simp_all add: layout_simps rte_flow_action_of_push_mpls_layout_def
      rte_flow_action_of_push_mpls_test_def del: One_nat_def)

lemmas rte_flow_action_of_push_mpls_facts [layout_simps] =
  layout_test_passesD [OF rte_flow_action_of_push_mpls_passes(1)]
  rte_flow_action_of_push_mpls_passes(2) rte_flow_action_of_push_mpls_test_def

lemma rte_flow_action_vxlan_encap_passes [layout_passes]:
  "layout_test_passes rte_flow_action_vxlan_encap_layout rte_flow_action_vxlan_encap_test"
  "wf_ty rte_flow_action_vxlan_encap_layout"
  by (simp_all add: layout_simps rte_flow_action_vxlan_encap_layout_def
      rte_flow_action_vxlan_encap_test_def del: One_nat_def)

lemmas rte_flow_action_vxlan_encap_facts [layout_simps] =
  layout_test_passesD [OF rte_flow_action_vxlan_encap_passes(1)]
  rte_flow_action_vxlan_encap_passes(2) rte_flow_action_vxlan_encap_test_def

lemma rte_flow_action_nvgre_encap_passes [layout_passes]:
  "layout_test_passes rte_flow_action_nvgre_encap_layout rte_flow_action_nvgre_encap_test"
  "wf_ty rte_flow_action_nvgre_encap_layout"
  by (simp_all add: layout_simps rte_flow_action_nvgre_encap_layout_def
      rte_flow_action_nvgre_encap_test_def del: One_nat_def)

lemmas rte_flow_action_nvgre_encap_facts [layout_simps] =
  layout_test_passesD [OF rte_flow_action_nvgre_encap_passes(1)]
  rte_flow_action_nvgre_encap_passes(2) rte_flow_action_nvgre_encap_test_def

lemma rte_flow_action_raw_encap_passes [layout_passes]:
  "layout_test_passes rte_flow_action_raw_encap_layout rte_flow_action_raw_encap_test"
  "wf_ty rte_flow_action_raw_encap_layout"
  by (simp_all add: layout_simps rte_flow_action_raw_encap_layout_def
      rte_flow_action_raw_encap_test_def del: One_nat_def)

lemmas rte_flow_action_raw_encap_facts [layout_simps] =
  layout_test_passesD [OF rte_flow_action_raw_encap_passes(1)]
  rte_flow_action_raw_encap_passes(2) rte_flow_action_raw_encap_test_def

lemma rte_flow_action_raw_decap_passes [layout_passes]:
  "layout_test_passes rte_flow_action_raw_decap_layout rte_flow_action_raw_decap_test"
  "wf_ty rte_flow_action_raw_decap_layout"
  by (simp_all add: layout_simps rte_flow_action_raw_decap_layout_def
      rte_flow_action_raw_decap_test_def del: One_nat_def)

lemmas rte_flow_action_raw_decap_facts [layout_simps] =
  layout_test_passesD [OF rte_flow_action_raw_decap_passes(1)]
  rte_flow_action_raw_decap_passes(2) rte_flow_action_raw_decap_test_def

lemma rte_flow_action_set_ipv4_passes [layout_passes]:
  "layout_test_passes rte_flow_action_set_ipv4_layout rte_flow_action_set_ipv4_test"
  "wf_ty rte_flow_action_set_ipv4_layout"
  by (simp_all add: layout_simps rte_flow_action_set_ipv4_layout_def
      rte_flow_action_set_ipv4_test_def del: One_nat_def)

lemmas rte_flow_action_set_ipv4_facts [layout_simps] =
  layout_test_passesD [OF rte_flow_action_set_ipv4_passes(1)]
  rte_flow_action_set_ipv4_passes(2) rte_flow_action_set_ipv4_test_def

lemma rte_flow_action_set_ipv6_passes [layout_passes]:
  "layout_test_passes rte_flow_action_set_ipv6_layout rte_flow_action_set_ipv6_test"
  "wf_ty rte_flow_action_set_ipv6_layout"
  by (simp_all add: layout_simps rte_flow_action_set_ipv6_layout_def
      rte_flow_action_set_ipv6_test_def del: One_nat_def)

lemmas rte_flow_action_set_ipv6_facts [layout_simps] =
  layout_test_passesD [OF rte_flow_action_set_ipv6_passes(1)]
  rte_flow_action_set_ipv6_passes(2) rte_flow_action_set_ipv6_test_def

lemma rte_flow_action_set_tp_passes [layout_passes]:
  "layout_test_passes rte_flow_action_set_tp_layout rte_flow_action_set_tp_test"
  "wf_ty rte_flow_action_set_tp_layout"
  by (simp_all add: layout_simps rte_flow_action_set_tp_layout_def
      rte_flow_action_set_tp_test_def del: One_nat_def)

lemmas rte_flow_action_set_tp_facts [layout_simps] =
  layout_test_passesD [OF rte_flow_action_set_tp_passes(1)]
  rte_flow_action_set_tp_passes(2) rte_flow_action_set_tp_test_def

lemma rte_flow_action_set_ttl_passes [layout_passes]:
  "layout_test_passes rte_flow_action_set_ttl_layout rte_flow_action_set_ttl_test"
  "wf_ty rte_flow_action_set_ttl_layout"
  by (simp_all add: layout_simps rte_flow_action_set_ttl_layout_def
      rte_flow_action_set_ttl_test_def del: One_nat_def)

lemmas rte_flow_action_set_ttl_facts [layout_simps] =
  layout_test_passesD [OF rte_flow_action_set_ttl_passes(1)]
  rte_flow_action_set_ttl_passes(2) rte_flow_action_set_ttl_test_def

lemma rte_flow_action_set_mac_passes [layout_passes]:
  "layout_test_passes rte_flow_action_set_mac_layout rte_flow_action_set_mac_test"
  "wf_ty rte_flow_action_set_mac_layout"
  by (simp_all add: layout_simps rte_flow_action_set_mac_layout_def
      rte_flow_action_set_mac_test_def del: One_nat_def)

lemmas rte_flow_action_set_mac_facts [layout_simps] =
  layout_test_passesD [OF rte_flow_action_set_mac_passes(1)]
  rte_flow_action_set_mac_passes(2) rte_flow_action_set_mac_test_def

lemma rte_flow_action_set_tag_passes [layout_passes]:
  "layout_test_passes rte_flow_action_set_tag_layout rte_flow_action_set_tag_test"
  "wf_ty rte_flow_action_set_tag_layout"
  by (simp_all add: layout_simps rte_flow_action_set_tag_layout_def
      rte_flow_action_set_tag_test_def del: One_nat_def)

lemmas rte_flow_action_set_tag_facts [layout_simps] =
  layout_test_passesD [OF rte_flow_action_set_tag_passes(1)]
  rte_flow_action_set_tag_passes(2) rte_flow_action_set_tag_test_def

lemma rte_flow_action_set_meta_passes [layout_passes]:
  "layout_test_passes rte_flow_action_set_meta_layout rte_flow_action_set_meta_test"
  "wf_ty rte_flow_action_set_meta_layout"
  by (simp_all add: layout_simps rte_flow_action_set_meta_layout_def
      rte_flow_action_set_meta_test_def del: One_nat_def)

lemmas rte_flow_action_set_meta_facts [layout_simps] =
  layout_test_passesD [OF rte_flow_action_set_meta_passes(1)]
  rte_flow_action_set_meta_passes(2) rte_flow_action_set_meta_test_def

lemma rte_flow_action_passes [layout_passes]:
  "layout_test_passes rte_flow_action_layout rte_flow_action_test"
  "wf_ty rte_flow_action_layout"
  by (simp_all add: layout_simps rte_flow_action_layout_def
      rte_flow_action_test_def del: One_nat_def)

lemmas rte_flow_action_facts [layout_simps] =
  layout_test_passesD [OF rte_flow_action_passes(1)]
  rte_flow_action_passes(2) rte_flow_action_test_def

lemma rte_flow_error_passes [layout_passes]:
  "layout_test_passes rte_flow_error_layout rte_flow_error_test"
  "wf_ty rte_flow_error_layout"
  by (simp_all add: layout_simps rte_flow_error_layout_def
      rte_flow_error_test_def del: One_nat_def)

lemmas rte_flow_error_facts [layout_simps] =
  layout_test_passesD [OF rte_flow_error_passes(1)]
  rte_flow_error_passes(2) rte_flow_error_test_def

lemma rte_flow_conv_rule__bindgen_ty_1_passes [layout_passes]:
  "layout_test_passes rte_flow_conv_rule__bindgen_ty_1_layout rte_flow_conv_rule__bindgen_ty_1_test"
  "wf_ty rte_flow_conv_rule__bindgen_ty_1_layout"
  by (simp_all add: layout_simps rte_flow_conv_rule__bindgen_ty_1_layout_def
      rte_flow_conv_rule__bindgen_ty_1_test_def del: One_nat_def)

lemmas rte_flow_conv_rule__bindgen_ty_1_facts [layout_simps] =
  layout_test_passesD [OF rte_flow_conv_rule__bindgen_ty_1_passes(1)]
  rte_flow_conv_rule__bindgen_ty_1_passes(2) rte_flow_conv_rule__bindgen_ty_1_test_def

lemma rte_flow_conv_rule__bindgen_ty_2_passes [layout_passes]:
  "layout_test_passes rte_flow_conv_rule__bindgen_ty_2_layout rte_flow_conv_rule__bindgen_ty_2_test"
  "wf_ty rte_flow_conv_rule__bindgen_ty_2_layout"
  by (simp_all add: layout_simps rte_flow_conv_rule__bindgen_ty_2_layout_def
      rte_flow_conv_rule__bindgen_ty_2_test_def del: One_nat_def)

lemmas rte_flow_conv_rule__bindgen_ty_2_facts [layout_simps] =
  layout_test_passesD [OF rte_flow_conv_rule__bindgen_ty_2_passes(1)]
  rte_flow_conv_rule__bindgen_ty_2_passes(2) rte_flow_conv_rule__bindgen_ty_2_test_def

lemma rte_flow_conv_rule__bindgen_ty_3_passes [layout_passes]:
  "layout_test_passes rte_flow_conv_rule__bindgen_ty_3_layout rte_flow_conv_rule__bindgen_ty_3_test"
  "wf_ty rte_flow_conv_rule__bindgen_ty_3_layout"
  by (simp_all add: layout_simps rte_flow_conv_rule__bindgen_ty_3_layout_def
      rte_flow_conv_rule__bindgen_ty_3_test_def del: One_nat_def)

lemmas rte_flow_conv_rule__bindgen_ty_3_facts [layout_simps] =
  layout_test_passesD [OF rte_flow_conv_rule__bindgen_ty_3_passes(1)]
  rte_flow_conv_rule__bindgen_ty_3_passes(2) rte_flow_conv_rule__bindgen_ty_3_test_def

lemma rte_flow_conv_rule_passes [layout_passes]:
  "layout_test_passes rte_flow_conv_rule_layout rte_flow_conv_rule_test"
  "wf_ty rte_flow_conv_rule_layout"
  by (simp_all add: layout_simps rte_flow_conv_rule_layout_def
      rte_flow_conv_rule_test_def del: One_nat_def)

lemmas rte_flow_conv_rule_facts [layout_simps] =
  layout_test_passesD [OF rte_flow_conv_rule_passes(1)]
  rte_flow_conv_rule_passes(2) rte_flow_conv_rule_test_def

lemma rte_flow_desc_passes [layout_passes]:
  "layout_test_passes rte_flow_desc_layout rte_flow_desc_test"
  "wf_ty rte_flow_desc_layout"
  by (simp_all add: layout_simps rte_flow_desc_layout_def
      rte_flow_desc_test_def del: One_nat_def)

lemmas rte_flow_desc_facts [layout_simps] =
  layout_test_passesD [OF rte_flow_desc_passes(1)]
  rte_flow_desc_passes(2) rte_flow_desc_test_def

text \<open>
  The layout computed by the C rules for flow rules is the one the generated
  tests assert, and the types are well-formed.
\<close>

lemma flow_layout_tests_pass [layout_tests_pass]:
  "list_all (\<lambda>(t, e). layout_test_passes t e \<and> wf_ty t) flow_tests"
  by (simp add: flow_tests_def layout_passes)

end
