(* ===== verification/Layouts_Filter.thy ===== *)
theory Layouts_Filter
  imports Layouts_Flow
begin

text \<open>
  The types of the filters, mirrors and queue mappings of Ethernet devices
  as \<open>dpdk-sys/src/bindings_rustdoc.rs\<close> declares them, and for each type the size, the
  alignment and the offsets that its generated \<open>bindgen_test_layout\<close> function asserts. A field of
  a type alias or of an enumeration module stands with the integer type it names; leading
  underscores of a type name are left out.
\<close>

definition rte_eth_dev_module_info_layout :: rty where
  "rte_eth_dev_module_info_layout = Struct None 1 [
      (''type_'', u32_ty), (''eeprom_len'', u32_ty)]"

definition rte_eth_dev_module_info_test :: layout_test where
  "rte_eth_dev_module_info_test = \<lparr>expect_size = 8, expect_align = 4, expect_offsets = [
      (''type_'', 0), (''eeprom_len'', 4)]\<rparr>"

definition rte_eth_vlan_mirror_layout :: rty where
  "rte_eth_vlan_mirror_layout = Struct None 1 [
      (''vlan_mask'', u64_ty), (''vlan_id'', Array u16_ty 64)]"

definition rte_eth_vlan_mirror_test :: layout_test where
  "rte_eth_vlan_mirror_test = \<lparr>expect_size = 136, expect_align = 8, expect_offsets = [
      (''vlan_mask'', 0), (''vlan_id'', 8)]\<rparr>"

definition rte_eth_mirror_conf_layout :: rty where
  "rte_eth_mirror_conf_layout = Struct None 1 [
      (''rule_type'', u8_ty), (''dst_pool'', u8_ty), (''pool_mask'', u64_ty),
      (''vlan'', rte_eth_vlan_mirror_layout)]"

definition rte_eth_mirror_conf_test :: layout_test where
  "rte_eth_mirror_conf_test = \<lparr>expect_size = 152, expect_align = 8, expect_offsets = [
      (''rule_type'', 0), (''dst_pool'', 1), (''pool_mask'', 8), (''vlan'', 16)]\<rparr>"

definition rte_eth_rss_reta_entry64_layout :: rty where
  "rte_eth_rss_reta_entry64_layout = Struct None 1 [
      (''mask'', u64_ty), (''reta'', Array u16_ty 64)]"

definition rte_eth_rss_reta_entry64_test :: layout_test where
  "rte_eth_rss_reta_entry64_test = \<lparr>expect_size = 136, expect_align = 8, expect_offsets = [
      (''mask'', 0), (''reta'', 8)]\<rparr>"

definition rte_eth_hairpin_cap_layout :: rty where
  "rte_eth_hairpin_cap_layout = Struct None 1 [
      (''max_nb_queues'', u16_ty), (''max_rx_2_tx'', u16_ty), (''max_tx_2_rx'', u16_ty),
      (''max_nb_desc'', u16_ty)]"

definition rte_eth_hairpin_cap_test :: layout_test where
  "rte_eth_hairpin_cap_test = \<lparr>expect_size = 8, expect_align = 2, expect_offsets = [
      (''max_nb_queues'', 0), (''max_rx_2_tx'', 2), (''max_tx_2_rx'', 4), (''max_nb_desc'', 6)]\<rparr>"

definition rte_eth_hairpin_peer_layout :: rty where
  "rte_eth_hairpin_peer_layout = Struct None 1 [
      (''port'', u16_ty), (''queue'', u16_ty)]"

definition rte_eth_hairpin_peer_test :: layout_test where
  "rte_eth_hairpin_peer_test = \<lparr>expect_size = 4, expect_align = 2, expect_offsets = [
      (''port'', 0), (''queue'', 2)]\<rparr>"

definition rte_eth_hairpin_conf_layout :: rty where
  "rte_eth_hairpin_conf_layout = Struct None 1 [
      (''peer_count'', u16_ty), (''peers'', Array rte_eth_hairpin_peer_layout 32)]"

definition rte_eth_hairpin_conf_test :: layout_test where
  "rte_eth_hairpin_conf_test = \<lparr>expect_size = 130, expect_align = 2, expect_offsets = [
      (''peer_count'', 0), (''peers'', 2)]\<rparr>"

definition rte_eth_fc_conf_layout :: rty where
  "rte_eth_fc_conf_layout = Struct None 1 [
      (''high_water'', u32_ty), (''low_water'', u32_ty), (''pause_time'', u16_ty),
      (''send_xon'', u16_ty), (''mode'', u32_ty), (''mac_ctrl_frame_fwd'', u8_ty),
      (''autoneg'', u8_ty)]"

definition rte_eth_fc_conf_test :: layout_test where
  "rte_eth_fc_conf_test = \<lparr>expect_size = 20, expect_align = 4, expect_offsets = [
      (''high_water'', 0), (''low_water'', 4), (''pause_time'', 8), (''send_xon'', 10),
      (''mode'', 12), (''mac_ctrl_frame_fwd'', 16), (''autoneg'', 17)]\<rparr>"

definition rte_eth_pfc_conf_layout :: rty where
  "rte_eth_pfc_conf_layout = Struct None 1 [
      (''fc'', rte_eth_fc_conf_layout), (''priority'', u8_ty)]"

definition rte_eth_pfc_conf_test :: layout_test where
  "rte_eth_pfc_conf_test = \<lparr>expect_size = 24, expect_align = 4, expect_offsets = [
      (''fc'', 0), (''priority'', 20)]\<rparr>"

definition rte_eth_mac_filter_layout :: rty where
  "rte_eth_mac_filter_layout = Struct None 1 [
      (''is_vf'', u8_ty), (''dst_id'', u16_ty), (''filter_type'', u32_ty),
      (''mac_addr'', rte_ether_addr_layout)]"

definition rte_eth_mac_filter_test :: layout_test where
  "rte_eth_mac_filter_test = \<lparr>expect_size = 16, expect_align = 4, expect_offsets = [
      (''is_vf'', 0), (''dst_id'', 2), (''filter_type'', 4), (''mac_addr'', 8)]\<rparr>"

definition rte_eth_ethertype_filter_layout :: rty where
  "rte_eth_ethertype_filter_layout = Struct None 1 [
      (''mac_addr'', rte_ether_addr_layout), (''ether_type'', u16_ty), (''flags'', u16_ty),
      (''queue'', u16_ty)]"

definition rte_eth_ethertype_filter_test :: layout_test where
  "rte_eth_ethertype_filter_test = \<lparr>expect_size = 12, expect_align = 2, expect_offsets = [
      (''mac_addr'', 0), (''ether_type'', 6), (''flags'', 8), (''queue'', 10)]\<rparr>"

definition rte_eth_flex_filter_layout :: rty where
  "rte_eth_flex_filter_layout = Struct None 1 [
      (''len'', u16_ty), (''bytes'', Array u8_ty 128), (''mask'', Array u8_ty 16),
      (''priority'', u8_ty), (''queue'', u16_ty)]"

definition rte_eth_flex_filter_test :: layout_test where
  "rte_eth_flex_filter_test = \<lparr>expect_size = 150, expect_align = 2, expect_offsets = [
      (''len'', 0), (''bytes'', 2), (''mask'', 130), (''priority'', 146), (''queue'', 148)]\<rparr>"

definition rte_eth_syn_filter_layout :: rty where
  "rte_eth_syn_filter_layout = Struct None 1 [
      (''hig_pri'', u8_ty), (''queue'', u16_ty)]"

definition rte_eth_syn_filter_test :: layout_test where
  "rte_eth_syn_filter_test = \<lparr>expect_size = 4, expect_align = 2, expect_offsets = [
      (''hig_pri'', 0), (''queue'', 2)]\<rparr>"

definition rte_eth_ntuple_filter_layout :: rty where
  "rte_eth_ntuple_filter_layout = Struct None 1 [
      (''flags'', u16_ty), (''dst_ip'', u32_ty), (''dst_ip_mask'', u32_ty), (''src_ip'', u32_ty),
      (''src_ip_mask'', u32_ty), (''dst_port'', u16_ty), (''dst_port_mask'', u16_ty),
      (''src_port'', u16_ty), (''src_port_mask'', u16_ty), (''proto'', u8_ty),
      (''proto_mask'', u8_ty), (''tcp_flags'', u8_ty), (''priority'', u16_ty), (''queue'', u16_ty)]"

definition rte_eth_ntuple_filter_test :: layout_test where
  "rte_eth_ntuple_filter_test = \<lparr>expect_size = 36, expect_align = 4, expect_offsets = [
      (''flags'', 0), (''dst_ip'', 4), (''dst_ip_mask'', 8), (''src_ip'', 12),
      (''src_ip_mask'', 16), (''dst_port'', 20), (''dst_port_mask'', 22), (''src_port'', 24),
      (''src_port_mask'', 26), (''proto'', 28), (''proto_mask'', 29), (''tcp_flags'', 30),
      (''priority'', 32), (''queue'', 34)]\<rparr>"

definition rte_eth_tunnel_filter_conf__bindgen_ty_1_layout :: rty where
  "rte_eth_tunnel_filter_conf__bindgen_ty_1_layout = Union 1 [
      (''ipv4_addr'', u32_ty), (''ipv6_addr'', Array u32_ty 4),
      (''_bindgen_union_align'', Array u32_ty 4)]"

definition rte_eth_tunnel_filter_conf__bindgen_ty_1_test :: layout_test where
  "rte_eth_tunnel_filter_conf__bindgen_ty_1_test = \<lparr>expect_size = 16, expect_align = 4, expect_offsets = [
      (''ipv4_addr'', 0), (''ipv6_addr'', 0)]\<rparr>"

definition rte_eth_tunnel_filter_conf_layout :: rty where
  "rte_eth_tunnel_filter_conf_layout = Struct None 1 [
      (''outer_mac'', rte_ether_addr_layout), (''inner_mac'', rte_ether_addr_layout),
      (''inner_vlan'', u16_ty), (''ip_type'', u32_ty),
      (''ip_addr'', rte_eth_tunnel_filter_conf__bindgen_ty_1_layout), (''filter_type'', u16_ty),
      (''tunnel_type'', u32_ty), (''tenant_id'', u32_ty), (''queue_id'', u16_ty)]"

definition rte_eth_tunnel_filter_conf_test :: layout_test where
  "rte_eth_tunnel_filter_conf_test = \<lparr>expect_size = 52, expect_align = 4, expect_offsets = [
      (''outer_mac'', 0), (''inner_mac'', 6), (''inner_vlan'', 12), (''ip_type'', 16),
      (''ip_addr'', 20), (''filter_type'', 36), (''tunnel_type'', 40), (''tenant_id'', 44),
      (''queue_id'', 48)]\<rparr>"

definition rte_eth_global_cfg__bindgen_ty_1_layout :: rty where
  "rte_eth_global_cfg__bindgen_ty_1_layout = Union 1 [
      (''gre_key_len'', u8_ty), (''reserved'', u64_ty), (''_bindgen_union_align'', u64_ty)]"

definition rte_eth_global_cfg__bindgen_ty_1_test :: layout_test where
  "rte_eth_global_cfg__bindgen_ty_1_test = \<lparr>expect_size = 8, expect_align = 8, expect_offsets = [
      (''gre_key_len'', 0), (''reserved'', 0)]\<rparr>"

definition rte_eth_global_cfg_layout :: rty where
  "rte_eth_global_cfg_layout = Struct None 1 [
      (''cfg_type'', u32_ty), (''cfg'', rte_eth_global_cfg__bindgen_ty_1_layout)]"

definition rte_eth_global_cfg_test :: layout_test where
  "rte_eth_global_cfg_test = \<lparr>expect_size = 16, expect_align = 8, expect_offsets = [
      (''cfg_type'', 0), (''cfg'', 8)]\<rparr>"

definition rte_eth_input_set_conf_layout :: rty where
  "rte_eth_input_set_conf_layout = Struct None 1 [
      (''flow_type'', u16_ty), (''inset_size'', u16_ty), (''field'', Array u32_ty 128),
      (''op'', u32_ty)]"

definition rte_eth_input_set_conf_test :: layout_test where
  "rte_eth_input_set_conf_test = \<lparr>expect_size = 520, expect_align = 4, expect_offsets = [
      (''flow_type'', 0), (''inset_size'', 2), (''field'', 4), (''op'', 516)]\<rparr>"

definition rte_eth_l2_flow_layout :: rty where
  "rte_eth_l2_flow_layout = Struct None 1 [
      (''ether_type'', u16_ty)]"

definition rte_eth_l2_flow_test :: layout_test where
  "rte_eth_l2_flow_test = \<lparr>expect_size = 2, expect_align = 2, expect_offsets = [
      (''ether_type'', 0)]\<rparr>"

definition rte_eth_udpv4_flow_layout :: rty where
  "rte_eth_udpv4_flow_layout = Struct None 1 [
      (''ip'', rte_eth_ipv4_flow_layout), (''src_port'', u16_ty), (''dst_port'', u16_ty)]"

definition rte_eth_udpv4_flow_test :: layout_test where
  "rte_eth_udpv4_flow_test = \<lparr>expect_size = 16, expect_align = 4, expect_offsets = [
      (''ip'', 0), (''src_port'', 12), (''dst_port'', 14)]\<rparr>"

definition rte_eth_tcpv4_flow_layout :: rty where
  "rte_eth_tcpv4_flow_layout = Struct None 1 [
      (''ip'', rte_eth_ipv4_flow_layout), (''src_port'', u16_ty), (''dst_port'', u16_ty)]"

definition rte_eth_tcpv4_flow_test :: layout_test where
  "rte_eth_tcpv4_flow_test = \<lparr>expect_size = 16, expect_align = 4, expect_offsets = [
      (''ip'', 0), (''src_port'', 12), (''dst_port'', 14)]\<rparr>"

definition rte_eth_sctpv4_flow_layout :: rty where
  "rte_eth_sctpv4_flow_layout = Struct None 1 [
      (''ip'', rte_eth_ipv4_flow_layout), (''src_port'', u16_ty), (''dst_port'', u16_ty),
      (''verify_tag'', u32_ty)]"

definition rte_eth_sctpv4_flow_test :: layout_test where
  "rte_eth_sctpv4_flow_test = \<lparr>expect_size = 20, expect_align = 4, expect_offsets = [
      (''ip'', 0), (''src_port'', 12), (''dst_port'', 14), (''verify_tag'', 16)]\<rparr>"

definition rte_eth_udpv6_flow_layout :: rty where
  "rte_eth_udpv6_flow_layout = Struct None 1 [
      (''ip'', rte_eth_ipv6_flow_layout), (''src_port'', u16_ty), (''dst_port'', u16_ty)]"

definition rte_eth_udpv6_flow_test :: layout_test where
  "rte_eth_udpv6_flow_test = \<lparr>expect_size = 40, expect_align = 4, expect_offsets = [
      (''ip'', 0), (''src_port'', 36), (''dst_port'', 38)]\<rparr>"

definition rte_eth_tcpv6_flow_layout :: rty where
  "rte_eth_tcpv6_flow_layout = Struct None 1 [
      (''ip'', rte_eth_ipv6_flow_layout), (''src_port'', u16_ty), (''dst_port'', u16_ty)]"

definition rte_eth_tcpv6_flow_test :: layout_test where
  "rte_eth_tcpv6_flow_test = \<lparr>expect_size = 40, expect_align = 4, expect_offsets = [
      (''ip'', 0), (''src_port'', 36), (''dst_port'', 38)]\<rparr>"

definition rte_eth_sctpv6_flow_layout :: rty where
  "rte_eth_sctpv6_flow_layout = Struct None 1 [
      (''ip'', rte_eth_ipv6_flow_layout), (''src_port'', u16_ty), (''dst_port'', u16_ty),
      (''verify_tag'', u32_ty)]"

definition rte_eth_sctpv6_flow_test :: layout_test where
  "rte_eth_sctpv6_flow_test = \<lparr>expect_size = 44, expect_align = 4, expect_offsets = [
      (''ip'', 0), (''src_port'', 36), (''dst_port'', 38), (''verify_tag'', 40)]\<rparr>"

definition rte_eth_mac_vlan_flow_layout :: rty where
  "rte_eth_mac_vlan_flow_layout = Struct None 1 [
      (''mac_addr'', rte_ether_addr_layout)]"

definition rte_eth_mac_vlan_flow_test :: layout_test where
  "rte_eth_mac_vlan_flow_test = \<lparr>expect_size = 6, expect_align = 2, expect_offsets = [
      (''mac_addr'', 0)]\<rparr>"

definition rte_eth_tunnel_flow_layout :: rty where
  "rte_eth_tunnel_flow_layout = Struct None 1 [
      (''tunnel_type'', u32_ty), (''tunnel_id'', u32_ty), (''mac_addr'', rte_ether_addr_layout)]"

definition rte_eth_tunnel_flow_test :: layout_test where
  "rte_eth_tunnel_flow_test = \<lparr>expect_size = 16, expect_align = 4, expect_offsets = [
      (''tunnel_type'', 0), (''tunnel_id'', 4), (''mac_addr'', 8)]\<rparr>"

definition rte_eth_fdir_flow_layout :: rty where
  "rte_eth_fdir_flow_layout = Union 1 [
      (''l2_flow'', rte_eth_l2_flow_layout), (''udp4_flow'', rte_eth_udpv4_flow_layout),
      (''tcp4_flow'', rte_eth_tcpv4_flow_layout), (''sctp4_flow'', rte_eth_sctpv4_flow_layout),
      (''ip4_flow'', rte_eth_ipv4_flow_layout), (''udp6_flow'', rte_eth_udpv6_flow_layout),
      (''tcp6_flow'', rte_eth_tcpv6_flow_layout), (''sctp6_flow'', rte_eth_sctpv6_flow_layout),
      (''ipv6_flow'', rte_eth_ipv6_flow_layout), (''mac_vlan_flow'', rte_eth_mac_vlan_flow_layout),
      (''tunnel_flow'', rte_eth_tunnel_flow_layout), (''_bindgen_union_align'', Array u32_ty 11)]"

definition rte_eth_fdir_flow_test :: layout_test where
  "rte_eth_fdir_flow_test = \<lparr>expect_size = 44, expect_align = 4, expect_offsets = [
      (''l2_flow'', 0), (''udp4_flow'', 0), (''tcp4_flow'', 0), (''sctp4_flow'', 0),
      (''ip4_flow'', 0), (''udp6_flow'', 0), (''tcp6_flow'', 0), (''sctp6_flow'', 0),
      (''ipv6_flow'', 0), (''mac_vlan_flow'', 0), (''tunnel_flow'', 0)]\<rparr>"

definition rte_eth_fdir_flow_ext_layout :: rty where
  "rte_eth_fdir_flow_ext_layout = Struct None 1 [
      (''vlan_tci'', u16_ty), (''flexbytes'', Array u8_ty 16), (''is_vf'', u8_ty),
      (''dst_id'', u16_ty)]"

definition rte_eth_fdir_flow_ext_test :: layout_test where
  "rte_eth_fdir_flow_ext_test = \<lparr>expect_size = 22, expect_align = 2, expect_offsets = [
      (''vlan_tci'', 0), (''flexbytes'', 2), (''is_vf'', 18), (''dst_id'', 20)]\<rparr>"

definition rte_eth_fdir_input_layout :: rty where
  "rte_eth_fdir_input_layout = Struct None 1 [
      (''flow_type'', u16_ty), (''flow'', rte_eth_fdir_flow_layout),
      (''flow_ext'', rte_eth_fdir_flow_ext_layout)]"

definition rte_eth_fdir_input_test :: layout_test where
  "rte_eth_fdir_input_test = \<lparr>expect_size = 72, expect_align = 4, expect_offsets = [
      (''flow_type'', 0), (''flow'', 4), (''flow_ext'', 48)]\<rparr>"

definition rte_eth_fdir_action_layout :: rty where
  "rte_eth_fdir_action_layout = Struct None 1 [
      (''rx_queue'', u16_ty), (''behavior'', u32_ty), (''report_status'', u32_ty),
      (''flex_off'', u8_ty)]"

definition rte_eth_fdir_action_test :: layout_test where
  "rte_eth_fdir_action_test = \<lparr>expect_size = 16, expect_align = 4, expect_offsets = [
      (''rx_queue'', 0), (''behavior'', 4), (''report_status'', 8), (''flex_off'', 12)]\<rparr>"

definition rte_eth_fdir_filter_layout :: rty where
  "rte_eth_fdir_filter_layout = Struct None 1 [
      (''soft_id'', u32_ty), (''input'', rte_eth_fdir_input_layout),
      (''action'', rte_eth_fdir_action_layout)]"

definition rte_eth_fdir_filter_test :: layout_test where
  "rte_eth_fdir_filter_test = \<lparr>expect_size = 92, expect_align = 4, expect_offsets = [
      (''soft_id'', 0), (''input'', 4), (''action'', 76)]\<rparr>"

definition rte_eth_fdir_info_layout :: rty where
  "rte_eth_fdir_info_layout = Struct None 1 [
      (''mode'', u32_ty), (''mask'', rte_eth_fdir_masks_layout),
      (''flex_conf'', rte_eth_fdir_flex_conf_layout), (''guarant_spc'', u32_ty),
      (''best_spc'', u32_ty), (''flow_types_mask'', Array u64_ty 1), (''max_flexpayload'', u32_ty),
      (''flex_payload_unit'', u32_ty), (''max_flex_payload_segment_num'', u32_ty),
      (''flex_payload_limit'', u16_ty), (''flex_bitmask_unit'', u32_ty),
      (''max_flex_bitmask_num'', u32_ty)]"

definition rte_eth_fdir_info_test :: layout_test where
  "rte_eth_fdir_info_test = \<lparr>expect_size = 840, expect_align = 8, expect_offsets = [
      (''mode'', 0), (''mask'', 4), (''flex_conf'', 72), (''guarant_spc'', 796),
      (''best_spc'', 800), (''flow_types_mask'', 808), (''max_flexpayload'', 816),
      (''flex_payload_unit'', 820), (''max_flex_payload_segment_num'', 824),
      (''flex_payload_limit'', 828), (''flex_bitmask_unit'', 832), (''max_flex_bitmask_num'', 836)]\<rparr>"

definition rte_eth_fdir_stats_layout :: rty where
  "rte_eth_fdir_stats_layout = Struct None 1 [
      (''collision'', u32_ty), (''free'', u32_ty), (''maxhash'', u32_ty), (''maxlen'', u32_ty),
      (''add'', u64_ty), (''remove'', u64_ty), (''f_add'', u64_ty), (''f_remove'', u64_ty),
      (''guarant_cnt'', u32_ty), (''best_cnt'', u32_ty)]"

definition rte_eth_fdir_stats_test :: layout_test where
  "rte_eth_fdir_stats_test = \<lparr>expect_size = 56, expect_align = 8, expect_offsets = [
      (''collision'', 0), (''free'', 4), (''maxhash'', 8), (''maxlen'', 12), (''add'', 16),
      (''remove'', 24), (''f_add'', 32), (''f_remove'', 40), (''guarant_cnt'', 48),
      (''best_cnt'', 52)]\<rparr>"

definition rte_eth_fdir_filter_info__bindgen_ty_1_layout :: rty where
  "rte_eth_fdir_filter_info__bindgen_ty_1_layout = Union 1 [
      (''input_set_conf'', rte_eth_input_set_conf_layout),
      (''_bindgen_union_align'', Array u32_ty 130)]"

definition rte_eth_fdir_filter_info__bindgen_ty_1_test :: layout_test where
  "rte_eth_fdir_filter_info__bindgen_ty_1_test = \<lparr>expect_size = 520, expect_align = 4, expect_offsets = [
      (''input_set_conf'', 0)]\<rparr>"

definition rte_eth_fdir_filter_info_layout :: rty where
  "rte_eth_fdir_filter_info_layout = Struct None 1 [
      (''info_type'', u32_ty), (''info'', rte_eth_fdir_filter_info__bindgen_ty_1_layout)]"

definition rte_eth_fdir_filter_info_test :: layout_test where
  "rte_eth_fdir_filter_info_test = \<lparr>expect_size = 524, expect_align = 4, expect_offsets = [
      (''info_type'', 0), (''info'', 4)]\<rparr>"

definition rte_eth_hash_global_conf_layout :: rty where
  "rte_eth_hash_global_conf_layout = Struct None 1 [
      (''hash_func'', u32_ty), (''sym_hash_enable_mask'', Array u64_ty 1),
      (''valid_bit_mask'', Array u64_ty 1)]"

definition rte_eth_hash_global_conf_test :: layout_test where
  "rte_eth_hash_global_conf_test = \<lparr>expect_size = 24, expect_align = 8, expect_offsets = [
      (''hash_func'', 0), (''sym_hash_enable_mask'', 8), (''valid_bit_mask'', 16)]\<rparr>"

definition rte_eth_hash_filter_info__bindgen_ty_1_layout :: rty where
  "rte_eth_hash_filter_info__bindgen_ty_1_layout = Union 1 [
      (''enable'', u8_ty), (''global_conf'', rte_eth_hash_global_conf_layout),
      (''input_set_conf'', rte_eth_input_set_conf_layout),
      (''_bindgen_union_align'', Array u64_ty 65)]"

definition rte_eth_hash_filter_info__bindgen_ty_1_test :: layout_test where
  "rte_eth_hash_filter_info__bindgen_ty_1_test = \<lparr>expect_size = 520, expect_align = 8, expect_offsets = [
      (''enable'', 0), (''global_conf'', 0), (''input_set_conf'', 0)]\<rparr>"

definition rte_eth_hash_filter_info_layout :: rty where
  "rte_eth_hash_filter_info_layout = Struct None 1 [
      (''info_type'', u32_ty), (''info'', rte_eth_hash_filter_info__bindgen_ty_1_layout)]"

definition rte_eth_hash_filter_info_test :: layout_test where
  "rte_eth_hash_filter_info_test = \<lparr>expect_size = 528, expect_align = 8, expect_offsets = [
      (''info_type'', 0), (''info'', 8)]\<rparr>"

definition rte_eth_l2_tunnel_conf_layout :: rty where
  "rte_eth_l2_tunnel_conf_layout = Struct None 1 [
      (''l2_tunnel_type'', u32_ty), (''ether_type'', u16_ty), (''tunnel_id'', u32_ty),
      (''vf_id'', u16_ty), (''pool'', u32_ty)]"

definition rte_eth_l2_tunnel_conf_test :: layout_test where
  "rte_eth_l2_tunnel_conf_test = \<lparr>expect_size = 20, expect_align = 4, expect_offsets = [
      (''l2_tunnel_type'', 0), (''ether_type'', 4), (''tunnel_id'', 8), (''vf_id'', 12),
      (''pool'', 16)]\<rparr>"

definition rte_eth_udp_tunnel_layout :: rty where
  "rte_eth_udp_tunnel_layout = Struct None 1 [
      (''udp_port'', u16_ty), (''prot_type'', u8_ty)]"

definition rte_eth_udp_tunnel_test :: layout_test where
  "rte_eth_udp_tunnel_test = \<lparr>expect_size = 4, expect_align = 2, expect_offsets = [
      (''udp_port'', 0), (''prot_type'', 2)]\<rparr>"

definition rte_eth_dcb_tc_queue_mapping__bindgen_ty_1_layout :: rty where
  "rte_eth_dcb_tc_queue_mapping__bindgen_ty_1_layout = Struct None 1 [
      (''base'', u8_ty), (''nb_queue'', u8_ty)]"

definition rte_eth_dcb_tc_queue_mapping__bindgen_ty_1_test :: layout_test where
  "rte_eth_dcb_tc_queue_mapping__bindgen_ty_1_test = \<lparr>expect_size = 2, expect_align = 1, expect_offsets = [
      (''base'', 0), (''nb_queue'', 1)]\<rparr>"

definition rte_eth_dcb_tc_queue_mapping__bindgen_ty_2_layout :: rty where
  "rte_eth_dcb_tc_queue_mapping__bindgen_ty_2_layout = Struct None 1 [
      (''base'', u8_ty), (''nb_queue'', u8_ty)]"

definition rte_eth_dcb_tc_queue_mapping__bindgen_ty_2_test :: layout_test where
  "rte_eth_dcb_tc_queue_mapping__bindgen_ty_2_test = \<lparr>expect_size = 2, expect_align = 1, expect_offsets = [
      (''base'', 0), (''nb_queue'', 1)]\<rparr>"

definition rte_eth_dcb_tc_queue_mapping_layout :: rty where
  "rte_eth_dcb_tc_queue_mapping_layout = Struct None 1 [
      (''tc_rxq'', Array (Array rte_eth_dcb_tc_queue_mapping__bindgen_ty_1_layout 8) 64),
      (''tc_txq'', Array (Array rte_eth_dcb_tc_queue_mapping__bindgen_ty_2_layout 8) 64)]"

definition rte_eth_dcb_tc_queue_mapping_test :: layout_test where
  "rte_eth_dcb_tc_queue_mapping_test = \<lparr>expect_size = 2048, expect_align = 1, expect_offsets = [
      (''tc_rxq'', 0), (''tc_txq'', 1024)]\<rparr>"

definition rte_eth_dcb_info_layout :: rty where
  "rte_eth_dcb_info_layout = Struct None 1 [
      (''nb_tcs'', u8_ty), (''prio_tc'', Array u8_ty 8), (''tc_bws'', Array u8_ty 8),
      (''tc_queue'', rte_eth_dcb_tc_queue_mapping_layout)]"

definition rte_eth_dcb_info_test :: layout_test where
  "rte_eth_dcb_info_test = \<lparr>expect_size = 2065, expect_align = 1, expect_offsets = [
      (''nb_tcs'', 0), (''prio_tc'', 1), (''tc_bws'', 9), (''tc_queue'', 17)]\<rparr>"

definition rte_eth_event_ipsec_desc_layout :: rty where
  "rte_eth_event_ipsec_desc_layout = Struct None 1 [
      (''subtype'', u32_ty), (''metadata'', u64_ty)]"

definition rte_eth_event_ipsec_desc_test :: layout_test where
  "rte_eth_event_ipsec_desc_test = \<lparr>expect_size = 16, expect_align = 8, expect_offsets = [
      (''subtype'', 0), (''metadata'', 8)]\<rparr>"

definition filter_tests :: "(rty \<times> layout_test) list" where
  "filter_tests =
    [(rte_eth_dev_module_info_layout, rte_eth_dev_module_info_test),
     (rte_eth_vlan_mirror_layout, rte_eth_vlan_mirror_test),
     (rte_eth_mirror_conf_layout, rte_eth_mirror_conf_test),
     (rte_eth_rss_reta_entry64_layout, rte_eth_rss_reta_entry64_test),
     (rte_eth_hairpin_cap_layout, rte_eth_hairpin_cap_test),
     (rte_eth_hairpin_peer_layout, rte_eth_hairpin_peer_test),
     (rte_eth_hairpin_conf_layout, rte_eth_hairpin_conf_test),
     (rte_eth_fc_conf_layout, rte_eth_fc_conf_test),
     (rte_eth_pfc_conf_layout, rte_eth_pfc_conf_test),
     (rte_eth_mac_filter_layout, rte_eth_mac_filter_test),
     (rte_eth_ethertype_filter_layout, rte_eth_ethertype_filter_test),
     (rte_eth_flex_filter_layout, rte_eth_flex_filter_test),
     (rte_eth_syn_filter_layout, rte_eth_syn_filter_test),
     (rte_eth_ntuple_filter_layout, rte_eth_ntuple_filter_test),
     (rte_eth_tunnel_filter_conf__bindgen_ty_1_layout, rte_eth_tunnel_filter_conf__bindgen_ty_1_test),
     (rte_eth_tunnel_filter_conf_layout, rte_eth_tunnel_filter_conf_test),
     (rte_eth_global_cfg__bindgen_ty_1_layout, rte_eth_global_cfg__bindgen_ty_1_test),
     (rte_eth_global_cfg_layout, rte_eth_global_cfg_test),
     (rte_eth_input_set_conf_layout, rte_eth_input_set_conf_test),
     (rte_eth_l2_flow_layout, rte_eth_l2_flow_test),
     (rte_eth_udpv4_flow_layout, rte_eth_udpv4_flow_test),
     (rte_eth_tcpv4_flow_layout, rte_eth_tcpv4_flow_test),
     (rte_eth_sctpv4_flow_layout, rte_eth_sctpv4_flow_test),
     (rte_eth_udpv6_flow_layout, rte_eth_udpv6_flow_test),
     (rte_eth_tcpv6_flow_layout, rte_eth_tcpv6_flow_test),
     (rte_eth_sctpv6_flow_layout, rte_eth_sctpv6_flow_test),
     (rte_eth_mac_vlan_flow_layout, rte_eth_mac_vlan_flow_test),
     (rte_eth_tunnel_flow_layout, rte_eth_tunnel_flow_test),
     (rte_eth_fdir_flow_layout, rte_eth_fdir_flow_test),
     (rte_eth_fdir_flow_ext_layout, rte_eth_fdir_flow_ext_test),
     (rte_eth_fdir_input_layout, rte_eth_fdir_input_test),
     (rte_eth_fdir_action_layout, rte_eth_fdir_action_test),
     (rte_eth_fdir_filter_layout, rte_eth_fdir_filter_test),
     (rte_eth_fdir_info_layout, rte_eth_fdir_info_test),
     (rte_eth_fdir_stats_layout, rte_eth_fdir_stats_test),
     (rte_eth_fdir_filter_info__bindgen_ty_1_layout, rte_eth_fdir_filter_info__bindgen_ty_1_test),
     (rte_eth_fdir_filter_info_layout, rte_eth_fdir_filter_info_test),
     (rte_eth_hash_global_conf_layout, rte_eth_hash_global_conf_test),
     (rte_eth_hash_filter_info__bindgen_ty_1_layout, rte_eth_hash_filter_info__bindgen_ty_1_test),
     (rte_eth_hash_filter_info_layout, rte_eth_hash_filter_info_test),
     (rte_eth_l2_tunnel_conf_layout, rte_eth_l2_tunnel_conf_test),
     (rte_eth_udp_tunnel_layout, rte_eth_udp_tunnel_test),
     (rte_eth_dcb_tc_queue_mapping__bindgen_ty_1_layout, rte_eth_dcb_tc_queue_mapping__bindgen_ty_1_test),
     (rte_eth_dcb_tc_queue_mapping__bindgen_ty_2_layout, rte_eth_dcb_tc_queue_mapping__bindgen_ty_2_test),
     (rte_eth_dcb_tc_queue_mapping_layout, rte_eth_dcb_tc_queue_mapping_test),
     (rte_eth_dcb_info_layout, rte_eth_dcb_info_test),
     (rte_eth_event_ipsec_desc_layout, rte_eth_event_ipsec_desc_test)]"

lemma rte_eth_dev_module_info_passes [layout_passes]:
  "layout_test_passes rte_eth_dev_module_info_layout rte_eth_dev_module_info_test"
  "wf_ty rte_eth_dev_module_info_layout"
  by (simp_all add: layout_simps rte_eth_dev_module_info_layout_def
      rte_eth_dev_module_info_test_def del: One_nat_def)

lemmas rte_eth_dev_module_info_facts [layout_simps] =
  layout_test_passesD [OF rte_eth_dev_module_info_passes(1)]
  rte_eth_dev_module_info_passes(2) rte_eth_dev_module_info_test_def

lemma rte_eth_vlan_mirror_passes [layout_passes]:
  "layout_test_passes rte_eth_vlan_mirror_layout rte_eth_vlan_mirror_test"
  "wf_ty rte_eth_vlan_mirror_layout"
  by (simp_all add: layout_simps rte_eth_vlan_mirror_layout_def
      rte_eth_vlan_mirror_test_def del: One_nat_def)

lemmas rte_eth_vlan_mirror_facts [layout_simps] =
  layout_test_passesD [OF rte_eth_vlan_mirror_passes(1)]
  rte_eth_vlan_mirror_passes(2) rte_eth_vlan_mirror_test_def

lemma rte_eth_mirror_conf_passes [layout_passes]:
  "layout_test_passes rte_eth_mirror_conf_layout rte_eth_mirror_conf_test"
  "wf_ty rte_eth_mirror_conf_layout"
  by (simp_all add: layout_simps rte_eth_mirror_conf_layout_def
      rte_eth_mirror_conf_test_def del: One_nat_def)

lemmas rte_eth_mirror_conf_facts [layout_simps] =
  layout_test_passesD [OF rte_eth_mirror_conf_passes(1)]
  rte_eth_mirror_conf_passes(2) rte_eth_mirror_conf_test_def

lemma rte_eth_rss_reta_entry64_passes [layout_passes]:
  "layout_test_passes rte_eth_rss_reta_entry64_layout rte_eth_rss_reta_entry64_test"
  "wf_ty rte_eth_rss_reta_entry64_layout"
  by (simp_all add: layout_simps rte_eth_rss_reta_entry64_layout_def
      rte_eth_rss_reta_entry64_test_def del: One_nat_def)

lemmas rte_eth_rss_reta_entry64_facts [layout_simps] =
  layout_test_passesD [OF rte_eth_rss_reta_entry64_passes(1)]
  rte_eth_rss_reta_entry64_passes(2) rte_eth_rss_reta_entry64_test_def

lemma rte_eth_hairpin_cap_passes [layout_passes]:
  "layout_test_passes rte_eth_hairpin_cap_layout rte_eth_hairpin_cap_test"
  "wf_ty rte_eth_hairpin_cap_layout"
  by (simp_all add: layout_simps rte_eth_hairpin_cap_layout_def
      rte_eth_hairpin_cap_test_def del: One_nat_def)

lemmas rte_eth_hairpin_cap_facts [layout_simps] =
  layout_test_passesD [OF rte_eth_hairpin_cap_passes(1)]
  rte_eth_hairpin_cap_passes(2) rte_eth_hairpin_cap_test_def

lemma rte_eth_hairpin_peer_passes [layout_passes]:
  "layout_test_passes rte_eth_hairpin_peer_layout rte_eth_hairpin_peer_test"
  "wf_ty rte_eth_hairpin_peer_layout"
  by (simp_all add: layout_simps rte_eth_hairpin_peer_layout_def
      rte_eth_hairpin_peer_test_def del: One_nat_def)

lemmas rte_eth_hairpin_peer_facts [layout_simps] =
  layout_test_passesD [OF rte_eth_hairpin_peer_passes(1)]
  rte_eth_hairpin_peer_passes(2) rte_eth_hairpin_peer_test_def

lemma rte_eth_hairpin_conf_passes [layout_passes]:
  "layout_test_passes rte_eth_hairpin_conf_layout rte_eth_hairpin_conf_test"
  "wf_ty rte_eth_hairpin_conf_layout"
  by (simp_all add: layout_simps rte_eth_hairpin_conf_layout_def
      rte_eth_hairpin_conf_test_def del: One_nat_def)

lemmas rte_eth_hairpin_conf_facts [layout_simps] =
  layout_test_passesD [OF rte_eth_hairpin_conf_passes(1)]
  rte_eth_hairpin_conf_passes(2) rte_eth_hairpin_conf_test_def

lemma rte_eth_fc_conf_passes [layout_passes]:
  "layout_test_passes rte_eth_fc_conf_layout rte_eth_fc_conf_test"
  "wf_ty rte_eth_fc_conf_layout"
  by (simp_all add: layout_simps rte_eth_fc_conf_layout_def
      rte_eth_fc_conf_test_def del: One_nat_def)

lemmas rte_eth_fc_conf_facts [layout_simps] =
  layout_test_passesD [OF rte_eth_fc_conf_passes(1)]
  rte_eth_fc_conf_passes(2) rte_eth_fc_conf_test_def

lemma rte_eth_pfc_conf_passes [layout_passes]:
  "layout_test_passes rte_eth_pfc_conf_layout rte_eth_pfc_conf_test"
  "wf_ty rte_eth_pfc_conf_layout"
  by (simp_all add: layout_simps rte_eth_pfc_conf_layout_def
      rte_eth_pfc_conf_test_def del: One_nat_def)

lemmas rte_eth_pfc_conf_facts [layout_simps] =
  layout_test_passesD [OF rte_eth_pfc_conf_passes(1)]
  rte_eth_pfc_conf_passes(2) rte_eth_pfc_conf_test_def

lemma rte_eth_mac_filter_passes [layout_passes]:
  "layout_test_passes rte_eth_mac_filter_layout rte_eth_mac_filter_test"
  "wf_ty rte_eth_mac_filter_layout"
  by (simp_all add: layout_simps rte_eth_mac_filter_layout_def
      rte_eth_mac_filter_test_def del: One_nat_def)

lemmas rte_eth_mac_filter_facts [layout_simps] =
  layout_test_passesD [OF rte_eth_mac_filter_passes(1)]
  rte_eth_mac_filter_passes(2) rte_eth_mac_filter_test_def

lemma rte_eth_ethertype_filter_passes [layout_passes]:
  "layout_test_passes rte_eth_ethertype_filter_layout rte_eth_ethertype_filter_test"
  "wf_ty rte_eth_ethertype_filter_layout"
  by (simp_all add: layout_simps rte_eth_ethertype_filter_layout_def
      rte_eth_ethertype_filter_test_def del: One_nat_def)

lemmas rte_eth_ethertype_filter_facts [layout_simps] =
  layout_test_passesD [OF rte_eth_ethertype_filter_passes(1)]
  rte_eth_ethertype_filter_passes(2) rte_eth_ethertype_filter_test_def

lemma rte_eth_flex_filter_passes [layout_passes]:
  "layout_test_passes rte_eth_flex_filter_layout rte_eth_flex_filter_test"
  "wf_ty rte_eth_flex_filter_layout"
  by (simp_all add: layout_simps rte_eth_flex_filter_layout_def
      rte_eth_flex_filter_test_def del: One_nat_def)

lemmas rte_eth_flex_filter_facts [layout_simps] =
  layout_test_passesD [OF rte_eth_flex_filter_passes(1)]
  rte_eth_flex_filter_passes(2) rte_eth_flex_filter_test_def

lemma rte_eth_syn_filter_passes [layout_passes]:
  "layout_test_passes rte_eth_syn_filter_layout rte_eth_syn_filter_test"
  "wf_ty rte_eth_syn_filter_layout"
  by (simp_all add: layout_simps rte_eth_syn_filter_layout_def
      rte_eth_syn_filter_test_def del: One_nat_def)

lemmas rte_eth_syn_filter_facts [layout_simps] =
  layout_test_passesD [OF rte_eth_syn_filter_passes(1)]
  rte_eth_syn_filter_passes(2) rte_eth_syn_filter_test_def

lemma rte_eth_ntuple_filter_passes [layout_passes]:
  "layout_test_passes rte_eth_ntuple_filter_layout rte_eth_ntuple_filter_test"
  "wf_ty rte_eth_ntuple_filter_layout"
  by (simp_all add: layout_simps rte_eth_ntuple_filter_layout_def
      rte_eth_ntuple_filter_test_def del: One_nat_def)

lemmas rte_eth_ntuple_filter_facts [layout_simps] =
  layout_test_passesD [OF rte_eth_ntuple_filter_passes(1)]
  rte_eth_ntuple_filter_passes(2) rte_eth_ntuple_filter_test_def

lemma rte_eth_tunnel_filter_conf__bindgen_ty_1_passes [layout_passes]:
  "layout_test_passes rte_eth_tunnel_filter_conf__bindgen_ty_1_layout rte_eth_tunnel_filter_conf__bindgen_ty_1_test"
  "wf_ty rte_eth_tunnel_filter_conf__bindgen_ty_1_layout"
  by (simp_all add: layout_simps rte_eth_tunnel_filter_conf__bindgen_ty_1_layout_def
      rte_eth_tunnel_filter_conf__bindgen_ty_1_test_def del: One_nat_def)

lemmas rte_eth_tunnel_filter_conf__bindgen_ty_1_facts [layout_simps] =
  layout_test_passesD [OF rte_eth_tunnel_filter_conf__bindgen_ty_1_passes(1)]
  rte_eth_tunnel_filter_conf__bindgen_ty_1_passes(2) rte_eth_tunnel_filter_conf__bindgen_ty_1_test_def

lemma rte_eth_tunnel_filter_conf_passes [layout_passes]:
  "layout_test_passes rte_eth_tunnel_filter_conf_layout rte_eth_tunnel_filter_conf_test"
  "wf_ty rte_eth_tunnel_filter_conf_layout"
  by (simp_all add: layout_simps rte_eth_tunnel_filter_conf_layout_def
      rte_eth_tunnel_filter_conf_test_def del: One_nat_def)

lemmas rte_eth_tunnel_filter_conf_facts [layout_simps] =
  layout_test_passesD [OF rte_eth_tunnel_filter_conf_passes(1)]
  rte_eth_tunnel_filter_conf_passes(2) rte_eth_tunnel_filter_conf_test_def

lemma rte_eth_global_cfg__bindgen_ty_1_passes [layout_passes]:
  "layout_test_passes rte_eth_global_cfg__bindgen_ty_1_layout rte_eth_global_cfg__bindgen_ty_1_test"
  "wf_ty rte_eth_global_cfg__bindgen_ty_1_layout"
  by (simp_all add: layout_simps rte_eth_global_cfg__bindgen_ty_1_layout_def
      rte_eth_global_cfg__bindgen_ty_1_test_def del: One_nat_def)

lemmas rte_eth_global_cfg__bindgen_ty_1_facts [layout_simps] =
  layout_test_passesD [OF rte_eth_global_cfg__bindgen_ty_1_passes(1)]
  rte_eth_global_cfg__bindgen_ty_1_passes(2) rte_eth_global_cfg__bindgen_ty_1_test_def

lemma rte_eth_global_cfg_passes [layout_passes]:
  "layout_test_passes rte_eth_global_cfg_layout rte_eth_global_cfg_test"
  "wf_ty rte_eth_global_cfg_layout"
  by (simp_all add: layout_simps rte_eth_global_cfg_layout_def
      rte_eth_global_cfg_test_def del: One_nat_def)

lemmas rte_eth_global_cfg_facts [layout_simps] =
  layout_test_passesD [OF rte_eth_global_cfg_passes(1)]
  rte_eth_global_cfg_passes(2) rte_eth_global_cfg_test_def

lemma rte_eth_input_set_conf_passes [layout_passes]:
  "layout_test_passes rte_eth_input_set_conf_layout rte_eth_input_set_conf_test"
  "wf_ty rte_eth_input_set_conf_layout"
  by (simp_all add: layout_simps rte_eth_input_set_conf_layout_def
      rte_eth_input_set_conf_test_def del: One_nat_def)

lemmas rte_eth_input_set_conf_facts [layout_simps] =
  layout_test_passesD [OF rte_eth_input_set_conf_passes(1)]
  rte_eth_input_set_conf_passes(2) rte_eth_input_set_conf_test_def

lemma rte_eth_l2_flow_passes [layout_passes]:
  "layout_test_passes rte_eth_l2_flow_layout rte_eth_l2_flow_test"
  "wf_ty rte_eth_l2_flow_layout"
  by (simp_all add: layout_simps rte_eth_l2_flow_layout_def
      rte_eth_l2_flow_test_def del: One_nat_def)

lemmas rte_eth_l2_flow_facts [layout_simps] =
  layout_test_passesD [OF rte_eth_l2_flow_passes(1)]
  rte_eth_l2_flow_passes(2) rte_eth_l2_flow_test_def

lemma rte_eth_udpv4_flow_passes [layout_passes]:
  "layout_test_passes rte_eth_udpv4_flow_layout rte_eth_udpv4_flow_test"
  "wf_ty rte_eth_udpv4_flow_layout"
  by (simp_all add: layout_simps rte_eth_udpv4_flow_layout_def
      rte_eth_udpv4_flow_test_def del: One_nat_def)

lemmas rte_eth_udpv4_flow_facts [layout_simps] =
  layout_test_passesD [OF rte_eth_udpv4_flow_passes(1)]
  rte_eth_udpv4_flow_passes(2) rte_eth_udpv4_flow_test_def

lemma rte_eth_tcpv4_flow_passes [layout_passes]:
  "layout_test_passes rte_eth_tcpv4_flow_layout rte_eth_tcpv4_flow_test"
  "wf_ty rte_eth_tcpv4_flow_layout"
  by (simp_all add: layout_simps rte_eth_tcpv4_flow_layout_def
      rte_eth_tcpv4_flow_test_def del: One_nat_def)

lemmas rte_eth_tcpv4_flow_facts [layout_simps] =
  layout_test_passesD [OF rte_eth_tcpv4_flow_passes(1)]
  rte_eth_tcpv4_flow_passes(2) rte_eth_tcpv4_flow_test_def

lemma rte_eth_sctpv4_flow_passes [layout_passes]:
  "layout_test_passes rte_eth_sctpv4_flow_layout rte_eth_sctpv4_flow_test"
  "wf_ty rte_eth_sctpv4_flow_layout"
  by (simp_all add: layout_simps rte_eth_sctpv4_flow_layout_def
      rte_eth_sctpv4_flow_test_def del: One_nat_def)

lemmas rte_eth_sctpv4_flow_facts [layout_simps] =
  layout_test_passesD [OF rte_eth_sctpv4_flow_passes(1)]
  rte_eth_sctpv4_flow_passes(2) rte_eth_sctpv4_flow_test_def

lemma rte_eth_udpv6_flow_passes [layout_passes]:
  "layout_test_passes rte_eth_udpv6_flow_layout rte_eth_udpv6_flow_test"
  "wf_ty rte_eth_udpv6_flow_layout"
  by (simp_all add: layout_simps rte_eth_udpv6_flow_layout_def
      rte_eth_udpv6_flow_test_def del: One_nat_def)

lemmas rte_eth_udpv6_flow_facts [layout_simps] =
  layout_test_passesD [OF rte_eth_udpv6_flow_passes(1)]
  rte_eth_udpv6_flow_passes(2) rte_eth_udpv6_flow_test_def

lemma rte_eth_tcpv6_flow_passes [layout_passes]:
  "layout_test_passes rte_eth_tcpv6_flow_layout rte_eth_tcpv6_flow_test"
  "wf_ty rte_eth_tcpv6_flow_layout"
  by (simp_all add: layout_simps rte_eth_tcpv6_flow_layout_def
      rte_eth_tcpv6_flow_test_def del: One_nat_def)

lemmas rte_eth_tcpv6_flow_facts [layout_simps] =
  layout_test_passesD [OF rte_eth_tcpv6_flow_passes(1)]
  rte_eth_tcpv6_flow_passes(2) rte_eth_tcpv6_flow_test_def

lemma rte_eth_sctpv6_flow_passes [layout_passes]:
  "layout_test_passes rte_eth_sctpv6_flow_layout rte_eth_sctpv6_flow_test"
  "wf_ty rte_eth_sctpv6_flow_layout"
  by (simp_all add: layout_simps rte_eth_sctpv6_flow_layout_def
      rte_eth_sctpv6_flow_test_def del: One_nat_def)

lemmas rte_eth_sctpv6_flow_facts [layout_simps] =
  layout_test_passesD [OF rte_eth_sctpv6_flow_passes(1)]
  rte_eth_sctpv6_flow_passes(2) rte_eth_sctpv6_flow_test_def

lemma rte_eth_mac_vlan_flow_passes [layout_passes]:
  "layout_test_passes rte_eth_mac_vlan_flow_layout rte_eth_mac_vlan_flow_test"
  "wf_ty rte_eth_mac_vlan_flow_layout"
  by (simp_all add: layout_simps rte_eth_mac_vlan_flow_layout_def
      rte_eth_mac_vlan_flow_test_def del: One_nat_def)

lemmas rte_eth_mac_vlan_flow_facts [layout_simps] =
  layout_test_passesD [OF rte_eth_mac_vlan_flow_passes(1)]
  rte_eth_mac_vlan_flow_passes(2) rte_eth_mac_vlan_flow_test_def

lemma rte_eth_tunnel_flow_passes [layout_passes]:
  "layout_test_passes rte_eth_tunnel_flow_layout rte_eth_tunnel_flow_test"
  "wf_ty rte_eth_tunnel_flow_layout"
  by (simp_all add: layout_simps rte_eth_tunnel_flow_layout_def
      rte_eth_tunnel_flow_test_def del: One_nat_def)

lemmas rte_eth_tunnel_flow_facts [layout_simps] =
  layout_test_passesD [OF rte_eth_tunnel_flow_passes(1)]
  rte_eth_tunnel_flow_passes(2) rte_eth_tunnel_flow_test_def

lemma rte_eth_fdir_flow_passes [layout_passes]:
  "layout_test_passes rte_eth_fdir_flow_layout rte_eth_fdir_flow_test"
  "wf_ty rte_eth_fdir_flow_layout"
  by (simp_all add: layout_simps rte_eth_fdir_flow_layout_def
      rte_eth_fdir_flow_test_def del: One_nat_def)

lemmas rte_eth_fdir_flow_facts [layout_simps] =
  layout_test_passesD [OF rte_eth_fdir_flow_passes(1)]
  rte_eth_fdir_flow_passes(2) rte_eth_fdir_flow_test_def

lemma rte_eth_fdir_flow_ext_passes [layout_passes]:
  "layout_test_passes rte_eth_fdir_flow_ext_layout rte_eth_fdir_flow_ext_test"
  "wf_ty rte_eth_fdir_flow_ext_layout"
  by (simp_all add: layout_simps rte_eth_fdir_flow_ext_layout_def
      rte_eth_fdir_flow_ext_test_def del: One_nat_def)

lemmas rte_eth_fdir_flow_ext_facts [layout_simps] =
  layout_test_passesD [OF rte_eth_fdir_flow_ext_passes(1)]
  rte_eth_fdir_flow_ext_passes(2) rte_eth_fdir_flow_ext_test_def

lemma rte_eth_fdir_input_passes [layout_passes]:
  "layout_test_passes rte_eth_fdir_input_layout rte_eth_fdir_input_test"
  "wf_ty rte_eth_fdir_input_layout"
  by (simp_all add: layout_simps rte_eth_fdir_input_layout_def
      rte_eth_fdir_input_test_def del: One_nat_def)

lemmas rte_eth_fdir_input_facts [layout_simps] =
  layout_test_passesD [OF rte_eth_fdir_input_passes(1)]
  rte_eth_fdir_input_passes(2) rte_eth_fdir_input_test_def

lemma rte_eth_fdir_action_passes [layout_passes]:
  "layout_test_passes rte_eth_fdir_action_layout rte_eth_fdir_action_test"
  "wf_ty rte_eth_fdir_action_layout"
  by (simp_all add: layout_simps rte_eth_fdir_action_layout_def
      rte_eth_fdir_action_test_def del: One_nat_def)

lemmas rte_eth_fdir_action_facts [layout_simps] =
  layout_test_passesD [OF rte_eth_fdir_action_passes(1)]
  rte_eth_fdir_action_passes(2) rte_eth_fdir_action_test_def

lemma rte_eth_fdir_filter_passes [layout_passes]:
  "layout_test_passes rte_eth_fdir_filter_layout rte_eth_fdir_filter_test"
  "wf_ty rte_eth_fdir_filter_layout"
  by (simp_all add: layout_simps rte_eth_fdir_filter_layout_def
      rte_eth_fdir_filter_test_def del: One_nat_def)

lemmas rte_eth_fdir_filter_facts [layout_simps] =
  layout_test_passesD [OF rte_eth_fdir_filter_passes(1)]
  rte_eth_fdir_filter_passes(2) rte_eth_fdir_filter_test_def

lemma rte_eth_fdir_info_passes [layout_passes]:
  "layout_test_passes rte_eth_fdir_info_layout rte_eth_fdir_info_test"
  "wf_ty rte_eth_fdir_info_layout"
  by (simp_all add: layout_simps rte_eth_fdir_info_layout_def
      rte_eth_fdir_info_test_def del: One_nat_def)

lemmas rte_eth_fdir_info_facts [layout_simps] =
  layout_test_passesD [OF rte_eth_fdir_info_passes(1)]
  rte_eth_fdir_info_passes(2) rte_eth_fdir_info_test_def

lemma rte_eth_fdir_stats_passes [layout_passes]:
  "layout_test_passes rte_eth_fdir_stats_layout rte_eth_fdir_stats_test"
  "wf_ty rte_eth_fdir_stats_layout"
  by (simp_all add: layout_simps rte_eth_fdir_stats_layout_def
      rte_eth_fdir_stats_test_def del: One_nat_def)

lemmas rte_eth_fdir_stats_facts [layout_simps] =
  layout_test_passesD [OF rte_eth_fdir_stats_passes(1)]
  rte_eth_fdir_stats_passes(2) rte_eth_fdir_stats_test_def

lemma rte_eth_fdir_filter_info__bindgen_ty_1_passes [layout_passes]:
  "layout_test_passes rte_eth_fdir_filter_info__bindgen_ty_1_layout rte_eth_fdir_filter_info__bindgen_ty_1_test"
  "wf_ty rte_eth_fdir_filter_info__bindgen_ty_1_layout"
  by (simp_all add: layout_simps rte_eth_fdir_filter_info__bindgen_ty_1_layout_def
      rte_eth_fdir_filter_info__bindgen_ty_1_test_def del: One_nat_def)

lemmas rte_eth_fdir_filter_info__bindgen_ty_1_facts [layout_simps] =
  layout_test_passesD [OF rte_eth_fdir_filter_info__bindgen_ty_1_passes(1)]
  rte_eth_fdir_filter_info__bindgen_ty_1_passes(2) rte_eth_fdir_filter_info__bindgen_ty_1_test_def

lemma rte_eth_fdir_filter_info_passes [layout_passes]:
  "layout_test_passes rte_eth_fdir_filter_info_layout rte_eth_fdir_filter_info_test"
  "wf_ty rte_eth_fdir_filter_info_layout"
  by (simp_all add: layout_simps rte_eth_fdir_filter_info_layout_def
      rte_eth_fdir_filter_info_test_def del: One_nat_def)

lemmas rte_eth_fdir_filter_info_facts [layout_simps] =
  layout_test_passesD [OF rte_eth_fdir_filter_info_passes(1)]
  rte_eth_fdir_filter_info_passes(2) rte_eth_fdir_filter_info_test_def

lemma rte_eth_hash_global_conf_passes [layout_passes]:
  "layout_test_passes rte_eth_hash_global_conf_layout rte_eth_hash_global_conf_test"
  "wf_ty rte_eth_hash_global_conf_layout"
  by (simp_all add: layout_simps rte_eth_hash_global_conf_layout_def
      rte_eth_hash_global_conf_test_def del: One_nat_def)

lemmas rte_eth_hash_global_conf_facts [layout_simps] =
  layout_test_passesD [OF rte_eth_hash_global_conf_passes(1)]
  rte_eth_hash_global_conf_passes(2) rte_eth_hash_global_conf_test_def

lemma rte_eth_hash_filter_info__bindgen_ty_1_passes [layout_passes]:
  "layout_test_passes rte_eth_hash_filter_info__bindgen_ty_1_layout rte_eth_hash_filter_info__bindgen_ty_1_test"
  "wf_ty rte_eth_hash_filter_info__bindgen_ty_1_layout"
  by (simp_all add: layout_simps rte_eth_hash_filter_info__bindgen_ty_1_layout_def
      rte_eth_hash_filter_info__bindgen_ty_1_test_def del: One_nat_def)

lemmas rte_eth_hash_filter_info__bindgen_ty_1_facts [layout_simps] =
  layout_test_passesD [OF rte_eth_hash_filter_info__bindgen_ty_1_passes(1)]
  rte_eth_hash_filter_info__bindgen_ty_1_passes(2) rte_eth_hash_filter_info__bindgen_ty_1_test_def

lemma rte_eth_hash_filter_info_passes [layout_passes]:
  "layout_test_passes rte_eth_hash_filter_info_layout rte_eth_hash_filter_info_test"
  "wf_ty rte_eth_hash_filter_info_layout"
  by (simp_all add: layout_simps rte_eth_hash_filter_info_layout_def
      rte_eth_hash_filter_info_test_def del: One_nat_def)

lemmas rte_eth_hash_filter_info_facts [layout_simps] =
  layout_test_passesD [OF rte_eth_hash_filter_info_passes(1)]
  rte_eth_hash_filter_info_passes(2) rte_eth_hash_filter_info_test_def

lemma rte_eth_l2_tunnel_conf_passes [layout_passes]:
  "layout_test_passes rte_eth_l2_tunnel_conf_layout rte_eth_l2_tunnel_conf_test"
  "wf_ty rte_eth_l2_tunnel_conf_layout"
  by (simp_all add: layout_simps rte_eth_l2_tunnel_conf_layout_def
      rte_eth_l2_tunnel_conf_test_def del: One_nat_def)

lemmas rte_eth_l2_tunnel_conf_facts [layout_simps] =
  layout_test_passesD [OF rte_eth_l2_tunnel_conf_passes(1)]
  rte_eth_l2_tunnel_conf_passes(2) rte_eth_l2_tunnel_conf_test_def

lemma rte_eth_udp_tunnel_passes [layout_passes]:
  "layout_test_passes rte_eth_udp_tunnel_layout rte_eth_udp_tunnel_test"
  "wf_ty rte_eth_udp_tunnel_layout"
  by (simp_all add: layout_simps rte_eth_udp_tunnel_layout_def
      rte_eth_udp_tunnel_test_def del: One_nat_def)

lemmas rte_eth_udp_tunnel_facts [layout_simps] =
  layout_test_passesD [OF rte_eth_udp_tunnel_passes(1)]
  rte_eth_udp_tunnel_passes(2) rte_eth_udp_tunnel_test_def

lemma rte_eth_dcb_tc_queue_mapping__bindgen_ty_1_passes [layout_passes]:
  "layout_test_passes rte_eth_dcb_tc_queue_mapping__bindgen_ty_1_layout rte_eth_dcb_tc_queue_mapping__bindgen_ty_1_test"
  "wf_ty rte_eth_dcb_tc_queue_mapping__bindgen_ty_1_layout"
  by (simp_all add: layout_simps rte_eth_dcb_tc_queue_mapping__bindgen_ty_1_layout_def
      rte_eth_dcb_tc_queue_mapping__bindgen_ty_1_test_def del: One_nat_def)

lemmas rte_eth_dcb_tc_queue_mapping__bindgen_ty_1_facts [layout_simps] =
  layout_test_passesD [OF rte_eth_dcb_tc_queue_mapping__bindgen_ty_1_passes(1)]
  rte_eth_dcb_tc_queue_mapping__bindgen_ty_1_passes(2) rte_eth_dcb_tc_queue_mapping__bindgen_ty_1_test_def

lemma rte_eth_dcb_tc_queue_mapping__bindgen_ty_2_passes [layout_passes]:
  "layout_test_passes rte_eth_dcb_tc_queue_mapping__bindgen_ty_2_layout rte_eth_dcb_tc_queue_mapping__bindgen_ty_2_test"
  "wf_ty rte_eth_dcb_tc_queue_mapping__bindgen_ty_2_layout"
  by (simp_all add: layout_simps rte_eth_dcb_tc_queue_mapping__bindgen_ty_2_layout_def
      rte_eth_dcb_tc_queue_mapping__bindgen_ty_2_test_def del: One_nat_def)

lemmas rte_eth_dcb_tc_queue_mapping__bindgen_ty_2_facts [layout_simps] =
  layout_test_passesD [OF rte_eth_dcb_tc_queue_mapping__bindgen_ty_2_passes(1)]
  rte_eth_dcb_tc_queue_mapping__bindgen_ty_2_passes(2) rte_eth_dcb_tc_queue_mapping__bindgen_ty_2_test_def

lemma rte_eth_dcb_tc_queue_mapping_passes [layout_passes]:
  "layout_test_passes rte_eth_dcb_tc_queue_mapping_layout rte_eth_dcb_tc_queue_mapping_test"
  "wf_ty rte_eth_dcb_tc_queue_mapping_layout"
  by (simp_all add: layout_simps rte_eth_dcb_tc_queue_mapping_layout_def
      rte_eth_dcb_tc_queue_mapping_test_def del: One_nat_def)

lemmas rte_eth_dcb_tc_queue_mapping_facts [layout_simps] =
  layout_test_passesD [OF rte_eth_dcb_tc_queue_mapping_passes(1)]
  rte_eth_dcb_tc_queue_mapping_passes(2) rte_eth_dcb_tc_queue_mapping_test_def

lemma rte_eth_dcb_info_passes [layout_passes]:
  "layout_test_passes rte_eth_dcb_info_layout rte_eth_dcb_info_test"
  "wf_ty rte_eth_dcb_info_layout"
  by (simp_all add: layout_simps rte_eth_dcb_info_layout_def
      rte_eth_dcb_info_test_def del: One_nat_def)

lemmas rte_eth_dcb_info_facts [layout_simps] =
  layout_test_passesD [OF rte_eth_dcb_info_passes(1)]
  rte_eth_dcb_info_passes(2) rte_eth_dcb_info_test_def

lemma rte_eth_event_ipsec_desc_passes [layout_passes]:
  "layout_test_passes rte_eth_event_ipsec_desc_layout rte_eth_event_ipsec_desc_test"
  "wf_ty rte_eth_event_ipsec_desc_layout"
  by (simp_all add: layout_simps rte_eth_event_ipsec_desc_layout_def
      rte_eth_event_ipsec_desc_test_def del: One_nat_def)

lemmas rte_eth_event_ipsec_desc_facts [layout_simps] =
  layout_test_passesD [OF rte_eth_event_ipsec_desc_passes(1)]
  rte_eth_event_ipsec_desc_passes(2) rte_eth_event_ipsec_desc_test_def

text \<open>
  The layout computed by the C rules for filters and queue mappings is the one the generated
  tests assert, and the types are well-formed.
\<close>

lemma filter_layout_tests_pass [layout_tests_pass]:
  "list_all (\<lambda>(t, e). layout_test_passes t e \<and> wf_ty t) filter_tests"
  by (simp add: filter_tests_def layout_passes)

end
