(* ===== verification/Layouts_Mem.thy ===== *)
theory Layouts_Mem
  imports Layout
begin

text \<open>
  The types of the packet buffer, the memory pool, the ring and the memory zone as
  \<open>dpdk-sys/src/bindings_rustdoc.rs\<close> declares them, and for each type the size, alignment and offsets that its generated
  \<open>bindgen_test_layout\<close> function asserts. A field of a type alias or of an enumeration
  module stands with the integer type it names.
\<close>

definition rte_mbuf__bindgen_ty_1_layout :: rty where
  "rte_mbuf__bindgen_ty_1_layout = Union 1 [
      (''buf_iova'', u64_ty), (''buf_physaddr'', u64_ty), (''_bindgen_union_align'', u64_ty)]"

definition rte_mbuf__bindgen_ty_1_test :: layout_test where
  "rte_mbuf__bindgen_ty_1_test = \<lparr>expect_size = 8, expect_align = 8, expect_offsets = [
      (''buf_iova'', 0), (''buf_physaddr'', 0)]\<rparr>"

definition rte_atomic16_t_layout :: rty where
  "rte_atomic16_t_layout = Struct None 1 [
      (''cnt'', u16_ty)]"

definition rte_atomic16_t_test :: layout_test where
  "rte_atomic16_t_test = \<lparr>expect_size = 2, expect_align = 2, expect_offsets = [
      (''cnt'', 0)]\<rparr>"

definition rte_mbuf__bindgen_ty_2_layout :: rty where
  "rte_mbuf__bindgen_ty_2_layout = Union 1 [
      (''refcnt_atomic'', rte_atomic16_t_layout), (''refcnt'', u16_ty),
      (''_bindgen_union_align'', u16_ty)]"

definition rte_mbuf__bindgen_ty_2_test :: layout_test where
  "rte_mbuf__bindgen_ty_2_test = \<lparr>expect_size = 2, expect_align = 2, expect_offsets = [
      (''refcnt_atomic'', 0), (''refcnt'', 0)]\<rparr>"

definition rte_mbuf__bindgen_ty_3__bindgen_ty_1__bindgen_ty_1__bindgen_ty_1_layout :: rty where
  "rte_mbuf__bindgen_ty_3__bindgen_ty_1__bindgen_ty_1__bindgen_ty_1_layout = Struct (Some 1) 1 [
      (''_bitfield_1'', BitfieldUnit 1 u8_ty)]"

definition rte_mbuf__bindgen_ty_3__bindgen_ty_1__bindgen_ty_1__bindgen_ty_1_test :: layout_test where
  "rte_mbuf__bindgen_ty_3__bindgen_ty_1__bindgen_ty_1__bindgen_ty_1_test = \<lparr>expect_size = 1, expect_align = 1, expect_offsets = []\<rparr>"

definition rte_mbuf__bindgen_ty_3__bindgen_ty_1__bindgen_ty_1_layout :: rty where
  "rte_mbuf__bindgen_ty_3__bindgen_ty_1__bindgen_ty_1_layout = Union 1 [
      (''inner_esp_next_proto'', u8_ty),
      (''__bindgen_anon_1'', rte_mbuf__bindgen_ty_3__bindgen_ty_1__bindgen_ty_1__bindgen_ty_1_layout),
      (''_bindgen_union_align'', u8_ty)]"

definition rte_mbuf__bindgen_ty_3__bindgen_ty_1__bindgen_ty_1_test :: layout_test where
  "rte_mbuf__bindgen_ty_3__bindgen_ty_1__bindgen_ty_1_test = \<lparr>expect_size = 1, expect_align = 1, expect_offsets = [
      (''inner_esp_next_proto'', 0)]\<rparr>"

definition rte_mbuf__bindgen_ty_3__bindgen_ty_1_layout :: rty where
  "rte_mbuf__bindgen_ty_3__bindgen_ty_1_layout = Struct None 4 [
      (''_bitfield_1'', BitfieldUnit 2 u8_ty),
      (''__bindgen_anon_1'', rte_mbuf__bindgen_ty_3__bindgen_ty_1__bindgen_ty_1_layout),
      (''_bitfield_2'', BitfieldUnit 1 u8_ty)]"

definition rte_mbuf__bindgen_ty_3__bindgen_ty_1_test :: layout_test where
  "rte_mbuf__bindgen_ty_3__bindgen_ty_1_test = \<lparr>expect_size = 4, expect_align = 4, expect_offsets = []\<rparr>"

definition rte_mbuf__bindgen_ty_3_layout :: rty where
  "rte_mbuf__bindgen_ty_3_layout = Union 1 [
      (''packet_type'', u32_ty),
      (''__bindgen_anon_1'', rte_mbuf__bindgen_ty_3__bindgen_ty_1_layout),
      (''_bindgen_union_align'', u32_ty)]"

definition rte_mbuf__bindgen_ty_3_test :: layout_test where
  "rte_mbuf__bindgen_ty_3_test = \<lparr>expect_size = 4, expect_align = 4, expect_offsets = [
      (''packet_type'', 0)]\<rparr>"

definition rte_mbuf__bindgen_ty_4__bindgen_ty_1__bindgen_ty_1__bindgen_ty_1__bindgen_ty_1_layout :: rty where
  "rte_mbuf__bindgen_ty_4__bindgen_ty_1__bindgen_ty_1__bindgen_ty_1__bindgen_ty_1_layout = Struct None 1 [
      (''hash'', u16_ty), (''id'', u16_ty)]"

definition rte_mbuf__bindgen_ty_4__bindgen_ty_1__bindgen_ty_1__bindgen_ty_1__bindgen_ty_1_test :: layout_test where
  "rte_mbuf__bindgen_ty_4__bindgen_ty_1__bindgen_ty_1__bindgen_ty_1__bindgen_ty_1_test = \<lparr>expect_size = 4, expect_align = 2, expect_offsets = [
      (''hash'', 0), (''id'', 2)]\<rparr>"

definition rte_mbuf__bindgen_ty_4__bindgen_ty_1__bindgen_ty_1__bindgen_ty_1_layout :: rty where
  "rte_mbuf__bindgen_ty_4__bindgen_ty_1__bindgen_ty_1__bindgen_ty_1_layout = Union 1 [

      (''__bindgen_anon_1'', rte_mbuf__bindgen_ty_4__bindgen_ty_1__bindgen_ty_1__bindgen_ty_1__bindgen_ty_1_layout),
      (''lo'', u32_ty), (''_bindgen_union_align'', u32_ty)]"

definition rte_mbuf__bindgen_ty_4__bindgen_ty_1__bindgen_ty_1__bindgen_ty_1_test :: layout_test where
  "rte_mbuf__bindgen_ty_4__bindgen_ty_1__bindgen_ty_1__bindgen_ty_1_test = \<lparr>expect_size = 4, expect_align = 4, expect_offsets = [
      (''lo'', 0)]\<rparr>"

definition rte_mbuf__bindgen_ty_4__bindgen_ty_1__bindgen_ty_1_layout :: rty where
  "rte_mbuf__bindgen_ty_4__bindgen_ty_1__bindgen_ty_1_layout = Struct None 1 [

      (''__bindgen_anon_1'', rte_mbuf__bindgen_ty_4__bindgen_ty_1__bindgen_ty_1__bindgen_ty_1_layout),
      (''hi'', u32_ty)]"

definition rte_mbuf__bindgen_ty_4__bindgen_ty_1__bindgen_ty_1_test :: layout_test where
  "rte_mbuf__bindgen_ty_4__bindgen_ty_1__bindgen_ty_1_test = \<lparr>expect_size = 8, expect_align = 4, expect_offsets = [
      (''hi'', 4)]\<rparr>"

definition rte_mbuf_sched_layout :: rty where
  "rte_mbuf_sched_layout = Struct None 1 [
      (''queue_id'', u32_ty), (''traffic_class'', u8_ty), (''color'', u8_ty), (''reserved'', u16_ty)]"

definition rte_mbuf_sched_test :: layout_test where
  "rte_mbuf_sched_test = \<lparr>expect_size = 8, expect_align = 4, expect_offsets = [
      (''queue_id'', 0), (''traffic_class'', 4), (''color'', 5), (''reserved'', 6)]\<rparr>"

definition rte_mbuf__bindgen_ty_4__bindgen_ty_1__bindgen_ty_2_layout :: rty where
  "rte_mbuf__bindgen_ty_4__bindgen_ty_1__bindgen_ty_2_layout = Struct None 1 [
      (''reserved1'', u32_ty), (''reserved2'', u16_ty), (''txq'', u16_ty)]"

definition rte_mbuf__bindgen_ty_4__bindgen_ty_1__bindgen_ty_2_test :: layout_test where
  "rte_mbuf__bindgen_ty_4__bindgen_ty_1__bindgen_ty_2_test = \<lparr>expect_size = 8, expect_align = 4, expect_offsets = [
      (''reserved1'', 0), (''reserved2'', 4), (''txq'', 6)]\<rparr>"

definition rte_mbuf__bindgen_ty_4__bindgen_ty_1_layout :: rty where
  "rte_mbuf__bindgen_ty_4__bindgen_ty_1_layout = Union 1 [
      (''rss'', u32_ty), (''fdir'', rte_mbuf__bindgen_ty_4__bindgen_ty_1__bindgen_ty_1_layout),
      (''sched'', rte_mbuf_sched_layout),
      (''txadapter'', rte_mbuf__bindgen_ty_4__bindgen_ty_1__bindgen_ty_2_layout),
      (''usr'', u32_ty), (''_bindgen_union_align'', Array u32_ty 2)]"

definition rte_mbuf__bindgen_ty_4__bindgen_ty_1_test :: layout_test where
  "rte_mbuf__bindgen_ty_4__bindgen_ty_1_test = \<lparr>expect_size = 8, expect_align = 4, expect_offsets = [
      (''rss'', 0), (''fdir'', 0), (''sched'', 0), (''txadapter'', 0), (''usr'', 0)]\<rparr>"

definition rte_mbuf__bindgen_ty_4_layout :: rty where
  "rte_mbuf__bindgen_ty_4_layout = Union 1 [
      (''hash'', rte_mbuf__bindgen_ty_4__bindgen_ty_1_layout),
      (''_bindgen_union_align'', Array u32_ty 2)]"

definition rte_mbuf__bindgen_ty_4_test :: layout_test where
  "rte_mbuf__bindgen_ty_4_test = \<lparr>expect_size = 8, expect_align = 4, expect_offsets = [
      (''hash'', 0)]\<rparr>"

definition rte_mbuf__bindgen_ty_5_layout :: rty where
  "rte_mbuf__bindgen_ty_5_layout = Union 1 [
      (''userdata'', Pointer), (''udata64'', u64_ty), (''_bindgen_union_align'', u64_ty)]"

definition rte_mbuf__bindgen_ty_5_test :: layout_test where
  "rte_mbuf__bindgen_ty_5_test = \<lparr>expect_size = 8, expect_align = 8, expect_offsets = [
      (''userdata'', 0), (''udata64'', 0)]\<rparr>"

definition rte_mbuf__bindgen_ty_6__bindgen_ty_1_layout :: rty where
  "rte_mbuf__bindgen_ty_6__bindgen_ty_1_layout = Struct None 8 [
      (''_bitfield_1'', BitfieldUnit 8 u16_ty)]"

definition rte_mbuf__bindgen_ty_6__bindgen_ty_1_test :: layout_test where
  "rte_mbuf__bindgen_ty_6__bindgen_ty_1_test = \<lparr>expect_size = 8, expect_align = 8, expect_offsets = []\<rparr>"

definition rte_mbuf__bindgen_ty_6_layout :: rty where
  "rte_mbuf__bindgen_ty_6_layout = Union 1 [
      (''tx_offload'', u64_ty),
      (''__bindgen_anon_1'', rte_mbuf__bindgen_ty_6__bindgen_ty_1_layout),
      (''_bindgen_union_align'', u64_ty)]"

definition rte_mbuf__bindgen_ty_6_test :: layout_test where
  "rte_mbuf__bindgen_ty_6_test = \<lparr>expect_size = 8, expect_align = 8, expect_offsets = [
      (''tx_offload'', 0)]\<rparr>"

definition rte_mbuf_layout :: rty where
  "rte_mbuf_layout = Struct None 64 [
      (''cacheline0'', Array Pointer 0), (''buf_addr'', Pointer),
      (''__bindgen_anon_1'', rte_mbuf__bindgen_ty_1_layout), (''rearm_data'', Array u64_ty 0),
      (''data_off'', u16_ty), (''__bindgen_anon_2'', rte_mbuf__bindgen_ty_2_layout),
      (''nb_segs'', u16_ty), (''port'', u16_ty), (''ol_flags'', u64_ty),
      (''rx_descriptor_fields1'', Array Pointer 0),
      (''__bindgen_anon_3'', rte_mbuf__bindgen_ty_3_layout), (''pkt_len'', u32_ty),
      (''data_len'', u16_ty), (''vlan_tci'', u16_ty),
      (''__bindgen_anon_4'', rte_mbuf__bindgen_ty_4_layout), (''vlan_tci_outer'', u16_ty),
      (''buf_len'', u16_ty), (''timestamp'', u64_ty), (''cacheline1'', Array Pointer 0),
      (''__bindgen_anon_5'', rte_mbuf__bindgen_ty_5_layout), (''pool'', Pointer),
      (''next'', Pointer), (''__bindgen_anon_6'', rte_mbuf__bindgen_ty_6_layout),
      (''priv_size'', u16_ty), (''timesync'', u16_ty), (''seqn'', u32_ty), (''shinfo'', Pointer),
      (''dynfield1'', Array u64_ty 2)]"

definition rte_mbuf_test :: layout_test where
  "rte_mbuf_test = \<lparr>expect_size = 128, expect_align = 64, expect_offsets = [
      (''cacheline0'', 0), (''buf_addr'', 0), (''rearm_data'', 16), (''data_off'', 16),
      (''nb_segs'', 20), (''port'', 22), (''ol_flags'', 24), (''rx_descriptor_fields1'', 32),
      (''pkt_len'', 36), (''data_len'', 40), (''vlan_tci'', 42), (''vlan_tci_outer'', 52),
      (''buf_len'', 54), (''timestamp'', 56), (''cacheline1'', 64), (''pool'', 72), (''next'', 80),
      (''priv_size'', 96), (''timesync'', 98), (''seqn'', 100), (''shinfo'', 104),
      (''dynfield1'', 112)]\<rparr>"

definition rte_pktmbuf_pool_private_layout :: rty where
  "rte_pktmbuf_pool_private_layout = Struct None 1 [
      (''mbuf_data_room_size'', u16_ty), (''mbuf_priv_size'', u16_ty), (''flags'', u32_ty)]"

definition rte_pktmbuf_pool_private_test :: layout_test where
  "rte_pktmbuf_pool_private_test = \<lparr>expect_size = 8, expect_align = 4, expect_offsets = [
      (''mbuf_data_room_size'', 0), (''mbuf_priv_size'', 2), (''flags'', 4)]\<rparr>"

definition rte_ring_headtail_layout :: rty where
  "rte_ring_headtail_layout = Struct None 1 [
      (''head'', u32_ty), (''tail'', u32_ty), (''single'', u32_ty)]"

definition rte_ring_headtail_test :: layout_test where
  "rte_ring_headtail_test = \<lparr>expect_size = 12, expect_align = 4, expect_offsets = [
      (''head'', 0), (''tail'', 4), (''single'', 8)]\<rparr>"

definition rte_ring_layout :: rty where
  "rte_ring_layout = Struct None 64 [
      (''name'', Array u8_ty 32), (''flags'', u32_ty), (''memzone'', Pointer), (''size'', u32_ty),
      (''mask'', u32_ty), (''capacity'', u32_ty), (''__bindgen_padding_0'', Array u8_ty 4),
      (''pad0'', u8_ty), (''__bindgen_padding_1'', Array u32_ty 15),
      (''prod'', rte_ring_headtail_layout), (''__bindgen_padding_2'', Array u8_ty 52),
      (''pad1'', u8_ty), (''__bindgen_padding_3'', Array u32_ty 15),
      (''cons'', rte_ring_headtail_layout), (''__bindgen_padding_4'', Array u8_ty 52),
      (''pad2'', u8_ty)]"

definition rte_ring_test :: layout_test where
  "rte_ring_test = \<lparr>expect_size = 384, expect_align = 64, expect_offsets = [
      (''name'', 0), (''flags'', 32), (''memzone'', 40), (''size'', 48), (''mask'', 52),
      (''capacity'', 56), (''pad0'', 64), (''prod'', 128), (''pad1'', 192), (''cons'', 256),
      (''pad2'', 320)]\<rparr>"

definition rte_mempool__bindgen_ty_1_layout :: rty where
  "rte_mempool__bindgen_ty_1_layout = Union 1 [
      (''pool_data'', Pointer), (''pool_id'', u64_ty), (''_bindgen_union_align'', u64_ty)]"

definition rte_mempool__bindgen_ty_1_test :: layout_test where
  "rte_mempool__bindgen_ty_1_test = \<lparr>expect_size = 8, expect_align = 8, expect_offsets = [
      (''pool_data'', 0), (''pool_id'', 0)]\<rparr>"

definition rte_mempool_objhdr_list_layout :: rty where
  "rte_mempool_objhdr_list_layout = Struct None 1 [
      (''stqh_first'', Pointer), (''stqh_last'', Pointer)]"

definition rte_mempool_objhdr_list_test :: layout_test where
  "rte_mempool_objhdr_list_test = \<lparr>expect_size = 16, expect_align = 8, expect_offsets = [
      (''stqh_first'', 0), (''stqh_last'', 8)]\<rparr>"

definition rte_mempool_memhdr_list_layout :: rty where
  "rte_mempool_memhdr_list_layout = Struct None 1 [
      (''stqh_first'', Pointer), (''stqh_last'', Pointer)]"

definition rte_mempool_memhdr_list_test :: layout_test where
  "rte_mempool_memhdr_list_test = \<lparr>expect_size = 16, expect_align = 8, expect_offsets = [
      (''stqh_first'', 0), (''stqh_last'', 8)]\<rparr>"

definition rte_mempool_layout :: rty where
  "rte_mempool_layout = Struct None 64 [
      (''name'', Array u8_ty 32), (''__bindgen_anon_1'', rte_mempool__bindgen_ty_1_layout),
      (''pool_config'', Pointer), (''mz'', Pointer), (''flags'', u32_ty), (''socket_id'', u32_ty),
      (''size'', u32_ty), (''cache_size'', u32_ty), (''elt_size'', u32_ty),
      (''header_size'', u32_ty), (''trailer_size'', u32_ty), (''private_data_size'', u32_ty),
      (''ops_index'', u32_ty), (''local_cache'', Pointer), (''populated_size'', u32_ty),
      (''elt_list'', rte_mempool_objhdr_list_layout), (''nb_mem_chunks'', u32_ty),
      (''mem_list'', rte_mempool_memhdr_list_layout)]"

definition rte_mempool_test :: layout_test where
  "rte_mempool_test = \<lparr>expect_size = 192, expect_align = 64, expect_offsets = [
      (''name'', 0), (''pool_config'', 40), (''mz'', 48), (''flags'', 56), (''socket_id'', 60),
      (''size'', 64), (''cache_size'', 68), (''elt_size'', 72), (''header_size'', 76),
      (''trailer_size'', 80), (''private_data_size'', 84), (''ops_index'', 88),
      (''local_cache'', 96), (''populated_size'', 104), (''elt_list'', 112),
      (''nb_mem_chunks'', 128), (''mem_list'', 136)]\<rparr>"

definition rte_memzone__bindgen_ty_1_layout :: rty where
  "rte_memzone__bindgen_ty_1_layout = Union 1 [
      (''phys_addr'', u64_ty), (''iova'', u64_ty), (''_bindgen_union_align'', u64_ty)]"

definition rte_memzone__bindgen_ty_1_test :: layout_test where
  "rte_memzone__bindgen_ty_1_test = \<lparr>expect_size = 8, expect_align = 8, expect_offsets = [
      (''phys_addr'', 0), (''iova'', 0)]\<rparr>"

definition rte_memzone__bindgen_ty_2_layout :: rty where
  "rte_memzone__bindgen_ty_2_layout = Union 1 [
      (''addr'', Pointer), (''addr_64'', u64_ty), (''_bindgen_union_align'', u64_ty)]"

definition rte_memzone__bindgen_ty_2_test :: layout_test where
  "rte_memzone__bindgen_ty_2_test = \<lparr>expect_size = 8, expect_align = 8, expect_offsets = [
      (''addr'', 0), (''addr_64'', 0)]\<rparr>"

definition rte_memzone_layout :: rty where
  "rte_memzone_layout = Struct (Some 1) 1 [
      (''name'', Array u8_ty 32), (''__bindgen_anon_1'', rte_memzone__bindgen_ty_1_layout),
      (''__bindgen_anon_2'', rte_memzone__bindgen_ty_2_layout), (''len'', u64_ty),
      (''hugepage_sz'', u64_ty), (''socket_id'', u32_ty), (''flags'', u32_ty)]"

definition rte_memzone_test :: layout_test where
  "rte_memzone_test = \<lparr>expect_size = 72, expect_align = 1, expect_offsets = [
      (''name'', 0), (''len'', 48), (''hugepage_sz'', 56), (''socket_id'', 64), (''flags'', 68)]\<rparr>"

definition mem_tests :: "(rty \<times> layout_test) list" where
  "mem_tests =
    [(rte_mbuf__bindgen_ty_1_layout, rte_mbuf__bindgen_ty_1_test),
     (rte_atomic16_t_layout, rte_atomic16_t_test),
     (rte_mbuf__bindgen_ty_2_layout, rte_mbuf__bindgen_ty_2_test),
     (rte_mbuf__bindgen_ty_3__bindgen_ty_1__bindgen_ty_1__bindgen_ty_1_layout, rte_mbuf__bindgen_ty_3__bindgen_ty_1__bindgen_ty_1__bindgen_ty_1_test),
     (rte_mbuf__bindgen_ty_3__bindgen_ty_1__bindgen_ty_1_layout, rte_mbuf__bindgen_ty_3__bindgen_ty_1__bindgen_ty_1_test),
     (rte_mbuf__bindgen_ty_3__bindgen_ty_1_layout, rte_mbuf__bindgen_ty_3__bindgen_ty_1_test),
     (rte_mbuf__bindgen_ty_3_layout, rte_mbuf__bindgen_ty_3_test),
     (rte_mbuf__bindgen_ty_4__bindgen_ty_1__bindgen_ty_1__bindgen_ty_1__bindgen_ty_1_layout, rte_mbuf__bindgen_ty_4__bindgen_ty_1__bindgen_ty_1__bindgen_ty_1__bindgen_ty_1_test),
     (rte_mbuf__bindgen_ty_4__bindgen_ty_1__bindgen_ty_1__bindgen_ty_1_layout, rte_mbuf__bindgen_ty_4__bindgen_ty_1__bindgen_ty_1__bindgen_ty_1_test),
     (rte_mbuf__bindgen_ty_4__bindgen_ty_1__bindgen_ty_1_layout, rte_mbuf__bindgen_ty_4__bindgen_ty_1__bindgen_ty_1_test),
     (rte_mbuf_sched_layout, rte_mbuf_sched_test),
     (rte_mbuf__bindgen_ty_4__bindgen_ty_1__bindgen_ty_2_layout, rte_mbuf__bindgen_ty_4__bindgen_ty_1__bindgen_ty_2_test),
     (rte_mbuf__bindgen_ty_4__bindgen_ty_1_layout, rte_mbuf__bindgen_ty_4__bindgen_ty_1_test),
     (rte_mbuf__bindgen_ty_4_layout, rte_mbuf__bindgen_ty_4_test),
     (rte_mbuf__bindgen_ty_5_layout, rte_mbuf__bindgen_ty_5_test),
     (rte_mbuf__bindgen_ty_6__bindgen_ty_1_layout, rte_mbuf__bindgen_ty_6__bindgen_ty_1_test),
     (rte_mbuf__bindgen_ty_6_layout, rte_mbuf__bindgen_ty_6_test),
     (rte_mbuf_layout, rte_mbuf_test),
     (rte_pktmbuf_pool_private_layout, rte_pktmbuf_pool_private_test),
     (rte_ring_headtail_layout, rte_ring_headtail_test),
     (rte_ring_layout, rte_ring_test),
     (rte_mempool__bindgen_ty_1_layout, rte_mempool__bindgen_ty_1_test),
     (rte_mempool_objhdr_list_layout, rte_mempool_objhdr_list_test),
     (rte_mempool_memhdr_list_layout, rte_mempool_memhdr_list_test),
     (rte_mempool_layout, rte_mempool_test),
     (rte_memzone__bindgen_ty_1_layout, rte_memzone__bindgen_ty_1_test),
     (rte_memzone__bindgen_ty_2_layout, rte_memzone__bindgen_ty_2_test),
     (rte_memzone_layout, rte_memzone_test)]"

lemma rte_mbuf__bindgen_ty_1_passes [layout_passes]:
  "layout_test_passes rte_mbuf__bindgen_ty_1_layout rte_mbuf__bindgen_ty_1_test" "wf_ty rte_mbuf__bindgen_ty_1_layout"
  by (simp_all add: layout_simps rte_mbuf__bindgen_ty_1_layout_def rte_mbuf__bindgen_ty_1_test_def del: One_nat_def)

lemmas rte_mbuf__bindgen_ty_1_facts [layout_simps] =
  layout_test_passesD [OF rte_mbuf__bindgen_ty_1_passes(1)] rte_mbuf__bindgen_ty_1_passes(2) rte_mbuf__bindgen_ty_1_test_def

lemma rte_atomic16_t_passes [layout_passes]:
  "layout_test_passes rte_atomic16_t_layout rte_atomic16_t_test" "wf_ty rte_atomic16_t_layout"
  by (simp_all add: layout_simps rte_atomic16_t_layout_def rte_atomic16_t_test_def del: One_nat_def)

lemmas rte_atomic16_t_facts [layout_simps] =
  layout_test_passesD [OF rte_atomic16_t_passes(1)] rte_atomic16_t_passes(2) rte_atomic16_t_test_def

lemma rte_mbuf__bindgen_ty_2_passes [layout_passes]:
  "layout_test_passes rte_mbuf__bindgen_ty_2_layout rte_mbuf__bindgen_ty_2_test" "wf_ty rte_mbuf__bindgen_ty_2_layout"
  by (simp_all add: layout_simps rte_mbuf__bindgen_ty_2_layout_def rte_mbuf__bindgen_ty_2_test_def del: One_nat_def)

lemmas rte_mbuf__bindgen_ty_2_facts [layout_simps] =
  layout_test_passesD [OF rte_mbuf__bindgen_ty_2_passes(1)] rte_mbuf__bindgen_ty_2_passes(2) rte_mbuf__bindgen_ty_2_test_def

lemma rte_mbuf__bindgen_ty_3__bindgen_ty_1__bindgen_ty_1__bindgen_ty_1_passes [layout_passes]:
  "layout_test_passes rte_mbuf__bindgen_ty_3__bindgen_ty_1__bindgen_ty_1__bindgen_ty_1_layout rte_mbuf__bindgen_ty_3__bindgen_ty_1__bindgen_ty_1__bindgen_ty_1_test" "wf_ty rte_mbuf__bindgen_ty_3__bindgen_ty_1__bindgen_ty_1__bindgen_ty_1_layout"
  by (simp_all add: layout_simps rte_mbuf__bindgen_ty_3__bindgen_ty_1__bindgen_ty_1__bindgen_ty_1_layout_def rte_mbuf__bindgen_ty_3__bindgen_ty_1__bindgen_ty_1__bindgen_ty_1_test_def del: One_nat_def)

lemmas rte_mbuf__bindgen_ty_3__bindgen_ty_1__bindgen_ty_1__bindgen_ty_1_facts [layout_simps] =
  layout_test_passesD [OF rte_mbuf__bindgen_ty_3__bindgen_ty_1__bindgen_ty_1__bindgen_ty_1_passes(1)] rte_mbuf__bindgen_ty_3__bindgen_ty_1__bindgen_ty_1__bindgen_ty_1_passes(2) rte_mbuf__bindgen_ty_3__bindgen_ty_1__bindgen_ty_1__bindgen_ty_1_test_def

lemma rte_mbuf__bindgen_ty_3__bindgen_ty_1__bindgen_ty_1_passes [layout_passes]:
  "layout_test_passes rte_mbuf__bindgen_ty_3__bindgen_ty_1__bindgen_ty_1_layout rte_mbuf__bindgen_ty_3__bindgen_ty_1__bindgen_ty_1_test" "wf_ty rte_mbuf__bindgen_ty_3__bindgen_ty_1__bindgen_ty_1_layout"
  by (simp_all add: layout_simps rte_mbuf__bindgen_ty_3__bindgen_ty_1__bindgen_ty_1_layout_def rte_mbuf__bindgen_ty_3__bindgen_ty_1__bindgen_ty_1_test_def del: One_nat_def)

lemmas rte_mbuf__bindgen_ty_3__bindgen_ty_1__bindgen_ty_1_facts [layout_simps] =
  layout_test_passesD [OF rte_mbuf__bindgen_ty_3__bindgen_ty_1__bindgen_ty_1_passes(1)] rte_mbuf__bindgen_ty_3__bindgen_ty_1__bindgen_ty_1_passes(2) rte_mbuf__bindgen_ty_3__bindgen_ty_1__bindgen_ty_1_test_def

lemma rte_mbuf__bindgen_ty_3__bindgen_ty_1_passes [layout_passes]:
  "layout_test_passes rte_mbuf__bindgen_ty_3__bindgen_ty_1_layout rte_mbuf__bindgen_ty_3__bindgen_ty_1_test" "wf_ty rte_mbuf__bindgen_ty_3__bindgen_ty_1_layout"
  by (simp_all add: layout_simps rte_mbuf__bindgen_ty_3__bindgen_ty_1_layout_def rte_mbuf__bindgen_ty_3__bindgen_ty_1_test_def del: One_nat_def)

lemmas rte_mbuf__bindgen_ty_3__bindgen_ty_1_facts [layout_simps] =
  layout_test_passesD [OF rte_mbuf__bindgen_ty_3__bindgen_ty_1_passes(1)] rte_mbuf__bindgen_ty_3__bindgen_ty_1_passes(2) rte_mbuf__bindgen_ty_3__bindgen_ty_1_test_def

lemma rte_mbuf__bindgen_ty_3_passes [layout_passes]:
  "layout_test_passes rte_mbuf__bindgen_ty_3_layout rte_mbuf__bindgen_ty_3_test" "wf_ty rte_mbuf__bindgen_ty_3_layout"
  by (simp_all add: layout_simps rte_mbuf__bindgen_ty_3_layout_def rte_mbuf__bindgen_ty_3_test_def del: One_nat_def)

lemmas rte_mbuf__bindgen_ty_3_facts [layout_simps] =
  layout_test_passesD [OF rte_mbuf__bindgen_ty_3_passes(1)] rte_mbuf__bindgen_ty_3_passes(2) rte_mbuf__bindgen_ty_3_test_def

lemma rte_mbuf__bindgen_ty_4__bindgen_ty_1__bindgen_ty_1__bindgen_ty_1__bindgen_ty_1_passes [layout_passes]:
  "layout_test_passes rte_mbuf__bindgen_ty_4__bindgen_ty_1__bindgen_ty_1__bindgen_ty_1__bindgen_ty_1_layout rte_mbuf__bindgen_ty_4__bindgen_ty_1__bindgen_ty_1__bindgen_ty_1__bindgen_ty_1_test" "wf_ty rte_mbuf__bindgen_ty_4__bindgen_ty_1__bindgen_ty_1__bindgen_ty_1__bindgen_ty_1_layout"
  by (simp_all add: layout_simps rte_mbuf__bindgen_ty_4__bindgen_ty_1__bindgen_ty_1__bindgen_ty_1__bindgen_ty_1_layout_def rte_mbuf__bindgen_ty_4__bindgen_ty_1__bindgen_ty_1__bindgen_ty_1__bindgen_ty_1_test_def del: One_nat_def)

lemmas rte_mbuf__bindgen_ty_4__bindgen_ty_1__bindgen_ty_1__bindgen_ty_1__bindgen_ty_1_facts [layout_simps] =
  layout_test_passesD [OF rte_mbuf__bindgen_ty_4__bindgen_ty_1__bindgen_ty_1__bindgen_ty_1__bindgen_ty_1_passes(1)] rte_mbuf__bindgen_ty_4__bindgen_ty_1__bindgen_ty_1__bindgen_ty_1__bindgen_ty_1_passes(2) rte_mbuf__bindgen_ty_4__bindgen_ty_1__bindgen_ty_1__bindgen_ty_1__bindgen_ty_1_test_def

lemma rte_mbuf__bindgen_ty_4__bindgen_ty_1__bindgen_ty_1__bindgen_ty_1_passes [layout_passes]:
  "layout_test_passes rte_mbuf__bindgen_ty_4__bindgen_ty_1__bindgen_ty_1__bindgen_ty_1_layout rte_mbuf__bindgen_ty_4__bindgen_ty_1__bindgen_ty_1__bindgen_ty_1_test" "wf_ty rte_mbuf__bindgen_ty_4__bindgen_ty_1__bindgen_ty_1__bindgen_ty_1_layout"
  by (simp_all add: layout_simps rte_mbuf__bindgen_ty_4__bindgen_ty_1__bindgen_ty_1__bindgen_ty_1_layout_def rte_mbuf__bindgen_ty_4__bindgen_ty_1__bindgen_ty_1__bindgen_ty_1_test_def del: One_nat_def)

lemmas rte_mbuf__bindgen_ty_4__bindgen_ty_1__bindgen_ty_1__bindgen_ty_1_facts [layout_simps] =
  layout_test_passesD [OF rte_mbuf__bindgen_ty_4__bindgen_ty_1__bindgen_ty_1__bindgen_ty_1_passes(1)] rte_mbuf__bindgen_ty_4__bindgen_ty_1__bindgen_ty_1__bindgen_ty_1_passes(2) rte_mbuf__bindgen_ty_4__bindgen_ty_1__bindgen_ty_1__bindgen_ty_1_test_def

lemma rte_mbuf__bindgen_ty_4__bindgen_ty_1__bindgen_ty_1_passes [layout_passes]:
  "layout_test_passes rte_mbuf__bindgen_ty_4__bindgen_ty_1__bindgen_ty_1_layout rte_mbuf__bindgen_ty_4__bindgen_ty_1__bindgen_ty_1_test" "wf_ty rte_mbuf__bindgen_ty_4__bindgen_ty_1__bindgen_ty_1_layout"
  by (simp_all add: layout_simps rte_mbuf__bindgen_ty_4__bindgen_ty_1__bindgen_ty_1_layout_def rte_mbuf__bindgen_ty_4__bindgen_ty_1__bindgen_ty_1_test_def del: One_nat_def)

lemmas rte_mbuf__bindgen_ty_4__bindgen_ty_1__bindgen_ty_1_facts [layout_simps] =
  layout_test_passesD [OF rte_mbuf__bindgen_ty_4__bindgen_ty_1__bindgen_ty_1_passes(1)] rte_mbuf__bindgen_ty_4__bindgen_ty_1__bindgen_ty_1_passes(2) rte_mbuf__bindgen_ty_4__bindgen_ty_1__bindgen_ty_1_test_def

lemma rte_mbuf_sched_passes [layout_passes]:
  "layout_test_passes rte_mbuf_sched_layout rte_mbuf_sched_test" "wf_ty rte_mbuf_sched_layout"
  by (simp_all add: layout_simps rte_mbuf_sched_layout_def rte_mbuf_sched_test_def del: One_nat_def)

lemmas rte_mbuf_sched_facts [layout_simps] =
  layout_test_passesD [OF rte_mbuf_sched_passes(1)] rte_mbuf_sched_passes(2) rte_mbuf_sched_test_def

lemma rte_mbuf__bindgen_ty_4__bindgen_ty_1__bindgen_ty_2_passes [layout_passes]:
  "layout_test_passes rte_mbuf__bindgen_ty_4__bindgen_ty_1__bindgen_ty_2_layout rte_mbuf__bindgen_ty_4__bindgen_ty_1__bindgen_ty_2_test" "wf_ty rte_mbuf__bindgen_ty_4__bindgen_ty_1__bindgen_ty_2_layout"
  by (simp_all add: layout_simps rte_mbuf__bindgen_ty_4__bindgen_ty_1__bindgen_ty_2_layout_def rte_mbuf__bindgen_ty_4__bindgen_ty_1__bindgen_ty_2_test_def del: One_nat_def)

lemmas rte_mbuf__bindgen_ty_4__bindgen_ty_1__bindgen_ty_2_facts [layout_simps] =
  layout_test_passesD [OF rte_mbuf__bindgen_ty_4__bindgen_ty_1__bindgen_ty_2_passes(1)] rte_mbuf__bindgen_ty_4__bindgen_ty_1__bindgen_ty_2_passes(2) rte_mbuf__bindgen_ty_4__bindgen_ty_1__bindgen_ty_2_test_def

lemma rte_mbuf__bindgen_ty_4__bindgen_ty_1_passes [layout_passes]:
  "layout_test_passes rte_mbuf__bindgen_ty_4__bindgen_ty_1_layout rte_mbuf__bindgen_ty_4__bindgen_ty_1_test" "wf_ty rte_mbuf__bindgen_ty_4__bindgen_ty_1_layout"
  by (simp_all add: layout_simps rte_mbuf__bindgen_ty_4__bindgen_ty_1_layout_def rte_mbuf__bindgen_ty_4__bindgen_ty_1_test_def del: One_nat_def)

lemmas rte_mbuf__bindgen_ty_4__bindgen_ty_1_facts [layout_simps] =
  layout_test_passesD [OF rte_mbuf__bindgen_ty_4__bindgen_ty_1_passes(1)] rte_mbuf__bindgen_ty_4__bindgen_ty_1_passes(2) rte_mbuf__bindgen_ty_4__bindgen_ty_1_test_def

lemma rte_mbuf__bindgen_ty_4_passes [layout_passes]:
  "layout_test_passes rte_mbuf__bindgen_ty_4_layout rte_mbuf__bindgen_ty_4_test" "wf_ty rte_mbuf__bindgen_ty_4_layout"
  by (simp_all add: layout_simps rte_mbuf__bindgen_ty_4_layout_def rte_mbuf__bindgen_ty_4_test_def del: One_nat_def)

lemmas rte_mbuf__bindgen_ty_4_facts [layout_simps] =
  layout_test_passesD [OF rte_mbuf__bindgen_ty_4_passes(1)] rte_mbuf__bindgen_ty_4_passes(2) rte_mbuf__bindgen_ty_4_test_def

lemma rte_mbuf__bindgen_ty_5_passes [layout_passes]:
  "layout_test_passes rte_mbuf__bindgen_ty_5_layout rte_mbuf__bindgen_ty_5_test" "wf_ty rte_mbuf__bindgen_ty_5_layout"
  by (simp_all add: layout_simps rte_mbuf__bindgen_ty_5_layout_def rte_mbuf__bindgen_ty_5_test_def del: One_nat_def)

lemmas rte_mbuf__bindgen_ty_5_facts [layout_simps] =
  layout_test_passesD [OF rte_mbuf__bindgen_ty_5_passes(1)] rte_mbuf__bindgen_ty_5_passes(2) rte_mbuf__bindgen_ty_5_test_def

lemma rte_mbuf__bindgen_ty_6__bindgen_ty_1_passes [layout_passes]:
  "layout_test_passes rte_mbuf__bindgen_ty_6__bindgen_ty_1_layout rte_mbuf__bindgen_ty_6__bindgen_ty_1_test" "wf_ty rte_mbuf__bindgen_ty_6__bindgen_ty_1_layout"
  by (simp_all add: layout_simps rte_mbuf__bindgen_ty_6__bindgen_ty_1_layout_def rte_mbuf__bindgen_ty_6__bindgen_ty_1_test_def del: One_nat_def)

lemmas rte_mbuf__bindgen_ty_6__bindgen_ty_1_facts [layout_simps] =
  layout_test_passesD [OF rte_mbuf__bindgen_ty_6__bindgen_ty_1_passes(1)] rte_mbuf__bindgen_ty_6__bindgen_ty_1_passes(2) rte_mbuf__bindgen_ty_6__bindgen_ty_1_test_def

lemma rte_mbuf__bindgen_ty_6_passes [layout_passes]:
  "layout_test_passes rte_mbuf__bindgen_ty_6_layout rte_mbuf__bindgen_ty_6_test" "wf_ty rte_mbuf__bindgen_ty_6_layout"
  by (simp_all add: layout_simps rte_mbuf__bindgen_ty_6_layout_def rte_mbuf__bindgen_ty_6_test_def del: One_nat_def)

lemmas rte_mbuf__bindgen_ty_6_facts [layout_simps] =
  layout_test_passesD [OF rte_mbuf__bindgen_ty_6_passes(1)] rte_mbuf__bindgen_ty_6_passes(2) rte_mbuf__bindgen_ty_6_test_def

lemma rte_mbuf_passes [layout_passes]:
  "layout_test_passes rte_mbuf_layout rte_mbuf_test" "wf_ty rte_mbuf_layout"
  by (simp_all add: layout_simps rte_mbuf_layout_def rte_mbuf_test_def del: One_nat_def)

lemmas rte_mbuf_facts [layout_simps] =
  layout_test_passesD [OF rte_mbuf_passes(1)] rte_mbuf_passes(2) rte_mbuf_test_def

lemma rte_pktmbuf_pool_private_passes [layout_passes]:
  "layout_test_passes rte_pktmbuf_pool_private_layout rte_pktmbuf_pool_private_test" "wf_ty rte_pktmbuf_pool_private_layout"
  by (simp_all add: layout_simps rte_pktmbuf_pool_private_layout_def rte_pktmbuf_pool_private_test_def del: One_nat_def)

lemmas rte_pktmbuf_pool_private_facts [layout_simps] =
  layout_test_passesD [OF rte_pktmbuf_pool_private_passes(1)] rte_pktmbuf_pool_private_passes(2) rte_pktmbuf_pool_private_test_def

lemma rte_ring_headtail_passes [layout_passes]:
  "layout_test_passes rte_ring_headtail_layout rte_ring_headtail_test" "wf_ty rte_ring_headtail_layout"
  by (simp_all add: layout_simps rte_ring_headtail_layout_def rte_ring_headtail_test_def del: One_nat_def)

lemmas rte_ring_headtail_facts [layout_simps] =
  layout_test_passesD [OF rte_ring_headtail_passes(1)] rte_ring_headtail_passes(2) rte_ring_headtail_test_def

lemma rte_ring_passes [layout_passes]:
  "layout_test_passes rte_ring_layout rte_ring_test" "wf_ty rte_ring_layout"
  by (simp_all add: layout_simps rte_ring_layout_def rte_ring_test_def del: One_nat_def)

lemmas rte_ring_facts [layout_simps] =
  layout_test_passesD [OF rte_ring_passes(1)] rte_ring_passes(2) rte_ring_test_def

lemma rte_mempool__bindgen_ty_1_passes [layout_passes]:
  "layout_test_passes rte_mempool__bindgen_ty_1_layout rte_mempool__bindgen_ty_1_test" "wf_ty rte_mempool__bindgen_ty_1_layout"
  by (simp_all add: layout_simps rte_mempool__bindgen_ty_1_layout_def rte_mempool__bindgen_ty_1_test_def del: One_nat_def)

lemmas rte_mempool__bindgen_ty_1_facts [layout_simps] =
  layout_test_passesD [OF rte_mempool__bindgen_ty_1_passes(1)] rte_mempool__bindgen_ty_1_passes(2) rte_mempool__bindgen_ty_1_test_def

lemma rte_mempool_objhdr_list_passes [layout_passes]:
  "layout_test_passes rte_mempool_objhdr_list_layout rte_mempool_objhdr_list_test" "wf_ty rte_mempool_objhdr_list_layout"
  by (simp_all add: layout_simps rte_mempool_objhdr_list_layout_def rte_mempool_objhdr_list_test_def del: One_nat_def)

lemmas rte_mempool_objhdr_list_facts [layout_simps] =
  layout_test_passesD [OF rte_mempool_objhdr_list_passes(1)] rte_mempool_objhdr_list_passes(2) rte_mempool_objhdr_list_test_def

lemma rte_mempool_memhdr_list_passes [layout_passes]:
  "layout_test_passes rte_mempool_memhdr_list_layout rte_mempool_memhdr_list_test" "wf_ty rte_mempool_memhdr_list_layout"
  by (simp_all add: layout_simps rte_mempool_memhdr_list_layout_def rte_mempool_memhdr_list_test_def del: One_nat_def)

lemmas rte_mempool_memhdr_list_facts [layout_simps] =
  layout_test_passesD [OF rte_mempool_memhdr_list_passes(1)] rte_mempool_memhdr_list_passes(2) rte_mempool_memhdr_list_test_def

lemma rte_mempool_passes [layout_passes]:
  "layout_test_passes rte_mempool_layout rte_mempool_test" "wf_ty rte_mempool_layout"
  by (simp_all add: layout_simps rte_mempool_layout_def rte_mempool_test_def del: One_nat_def)

lemmas rte_mempool_facts [layout_simps] =
  layout_test_passesD [OF rte_mempool_passes(1)] rte_mempool_passes(2) rte_mempool_test_def

lemma rte_memzone__bindgen_ty_1_passes [layout_passes]:
  "layout_test_passes rte_memzone__bindgen_ty_1_layout rte_memzone__bindgen_ty_1_test" "wf_ty rte_memzone__bindgen_ty_1_layout"
  by (simp_all add: layout_simps rte_memzone__bindgen_ty_1_layout_def rte_memzone__bindgen_ty_1_test_def del: One_nat_def)

lemmas rte_memzone__bindgen_ty_1_facts [layout_simps] =
  layout_test_passesD [OF rte_memzone__bindgen_ty_1_passes(1)] rte_memzone__bindgen_ty_1_passes(2) rte_memzone__bindgen_ty_1_test_def

lemma rte_memzone__bindgen_ty_2_passes [layout_passes]:
  "layout_test_passes rte_memzone__bindgen_ty_2_layout rte_memzone__bindgen_ty_2_test" "wf_ty rte_memzone__bindgen_ty_2_layout"
  by (simp_all add: layout_simps rte_memzone__bindgen_ty_2_layout_def rte_memzone__bindgen_ty_2_test_def del: One_nat_def)

lemmas rte_memzone__bindgen_ty_2_facts [layout_simps] =
  layout_test_passesD [OF rte_memzone__bindgen_ty_2_passes(1)] rte_memzone__bindgen_ty_2_passes(2) rte_memzone__bindgen_ty_2_test_def

lemma rte_memzone_passes [layout_passes]:
  "layout_test_passes rte_memzone_layout rte_memzone_test" "wf_ty rte_memzone_layout"
  by (simp_all add: layout_simps rte_memzone_layout_def rte_memzone_test_def del: One_nat_def)

lemmas rte_memzone_facts [layout_simps] =
  layout_test_passesD [OF rte_memzone_passes(1)] rte_memzone_passes(2) rte_memzone_test_def

text \<open>
  The layout computed by the C rules for packet buffers, pools, rings and memory zones is the one the generated
  tests assert, and the types are well-formed.
\<close>

lemma mem_layout_tests_pass [layout_tests_pass]:
  "list_all (\<lambda>(t, e). layout_test_passes t e \<and> wf_ty t) mem_tests"
  by (simp add: mem_tests_def layout_passes)

end
