(* ===== verification/Layouts_Pool.thy ===== *)
theory Layouts_Pool
  imports Layouts_Mem
begin

text \<open>
  The types of the inside of memory pools and of the memory they are carved from as
  \<open>dpdk-sys/src/bindings_rustdoc.rs\<close> declares them, and for each type the size, alignment and offsets that its generated
  \<open>bindgen_test_layout\<close> function asserts. A field of a type alias or of an enumeration
  module stands with the integer type it names.
\<close>

definition rte_mempool_cache_layout :: rty where
  "rte_mempool_cache_layout = Struct None 64 [
      (''size'', u32_ty), (''flushthresh'', u32_ty), (''len'', u32_ty),
      (''objs'', Array Pointer 1536)]"

definition rte_mempool_cache_test :: layout_test where
  "rte_mempool_cache_test = \<lparr>expect_size = 12352, expect_align = 64, expect_offsets = [
      (''size'', 0), (''flushthresh'', 4), (''len'', 8), (''objs'', 16)]\<rparr>"

definition rte_mempool_objsz_layout :: rty where
  "rte_mempool_objsz_layout = Struct None 1 [
      (''elt_size'', u32_ty), (''header_size'', u32_ty), (''trailer_size'', u32_ty),
      (''total_size'', u32_ty)]"

definition rte_mempool_objsz_test :: layout_test where
  "rte_mempool_objsz_test = \<lparr>expect_size = 16, expect_align = 4, expect_offsets = [
      (''elt_size'', 0), (''header_size'', 4), (''trailer_size'', 8), (''total_size'', 12)]\<rparr>"

definition rte_mempool_objhdr__bindgen_ty_1_layout :: rty where
  "rte_mempool_objhdr__bindgen_ty_1_layout = Struct None 1 [
      (''stqe_next'', Pointer)]"

definition rte_mempool_objhdr__bindgen_ty_1_test :: layout_test where
  "rte_mempool_objhdr__bindgen_ty_1_test = \<lparr>expect_size = 8, expect_align = 8, expect_offsets = [
      (''stqe_next'', 0)]\<rparr>"

definition rte_mempool_objhdr__bindgen_ty_2_layout :: rty where
  "rte_mempool_objhdr__bindgen_ty_2_layout = Union 1 [
      (''iova'', u64_ty), (''physaddr'', u64_ty), (''_bindgen_union_align'', u64_ty)]"

definition rte_mempool_objhdr__bindgen_ty_2_test :: layout_test where
  "rte_mempool_objhdr__bindgen_ty_2_test = \<lparr>expect_size = 8, expect_align = 8, expect_offsets = [
      (''iova'', 0), (''physaddr'', 0)]\<rparr>"

definition rte_mempool_objhdr_layout :: rty where
  "rte_mempool_objhdr_layout = Struct None 1 [
      (''next'', rte_mempool_objhdr__bindgen_ty_1_layout), (''mp'', Pointer),
      (''__bindgen_anon_1'', rte_mempool_objhdr__bindgen_ty_2_layout)]"

definition rte_mempool_objhdr_test :: layout_test where
  "rte_mempool_objhdr_test = \<lparr>expect_size = 24, expect_align = 8, expect_offsets = [
      (''next'', 0), (''mp'', 8)]\<rparr>"

definition rte_mempool_memhdr__bindgen_ty_1_layout :: rty where
  "rte_mempool_memhdr__bindgen_ty_1_layout = Struct None 1 [
      (''stqe_next'', Pointer)]"

definition rte_mempool_memhdr__bindgen_ty_1_test :: layout_test where
  "rte_mempool_memhdr__bindgen_ty_1_test = \<lparr>expect_size = 8, expect_align = 8, expect_offsets = [
      (''stqe_next'', 0)]\<rparr>"

definition rte_mempool_memhdr__bindgen_ty_2_layout :: rty where
  "rte_mempool_memhdr__bindgen_ty_2_layout = Union 1 [
      (''iova'', u64_ty), (''phys_addr'', u64_ty), (''_bindgen_union_align'', u64_ty)]"

definition rte_mempool_memhdr__bindgen_ty_2_test :: layout_test where
  "rte_mempool_memhdr__bindgen_ty_2_test = \<lparr>expect_size = 8, expect_align = 8, expect_offsets = [
      (''iova'', 0), (''phys_addr'', 0)]\<rparr>"

definition rte_mempool_memhdr_layout :: rty where
  "rte_mempool_memhdr_layout = Struct None 1 [
      (''next'', rte_mempool_memhdr__bindgen_ty_1_layout), (''mp'', Pointer), (''addr'', Pointer),
      (''__bindgen_anon_1'', rte_mempool_memhdr__bindgen_ty_2_layout), (''len'', u64_ty),
      (''free_cb'', Pointer), (''opaque'', Pointer)]"

definition rte_mempool_memhdr_test :: layout_test where
  "rte_mempool_memhdr_test = \<lparr>expect_size = 56, expect_align = 8, expect_offsets = [
      (''next'', 0), (''mp'', 8), (''addr'', 16), (''len'', 32), (''free_cb'', 40), (''opaque'', 48)]\<rparr>"

definition rte_mempool_info_layout :: rty where
  "rte_mempool_info_layout = Struct None 64 [
      (''contig_block_size'', u32_ty)]"

definition rte_mempool_info_test :: layout_test where
  "rte_mempool_info_test = \<lparr>expect_size = 64, expect_align = 64, expect_offsets = [
      (''contig_block_size'', 0)]\<rparr>"

definition rte_mempool_ops_layout :: rty where
  "rte_mempool_ops_layout = Struct None 64 [
      (''name'', Array u8_ty 32), (''alloc'', Pointer), (''free'', Pointer),
      (''enqueue'', Pointer), (''dequeue'', Pointer), (''get_count'', Pointer),
      (''calc_mem_size'', Pointer), (''populate'', Pointer), (''get_info'', Pointer),
      (''dequeue_contig_blocks'', Pointer)]"

definition rte_mempool_ops_test :: layout_test where
  "rte_mempool_ops_test = \<lparr>expect_size = 128, expect_align = 64, expect_offsets = [
      (''name'', 0), (''alloc'', 32), (''free'', 40), (''enqueue'', 48), (''dequeue'', 56),
      (''get_count'', 64), (''calc_mem_size'', 72), (''populate'', 80), (''get_info'', 88),
      (''dequeue_contig_blocks'', 96)]\<rparr>"

definition rte_spinlock_t_layout :: rty where
  "rte_spinlock_t_layout = Struct None 1 [
      (''locked'', u32_ty)]"

definition rte_spinlock_t_test :: layout_test where
  "rte_spinlock_t_test = \<lparr>expect_size = 4, expect_align = 4, expect_offsets = [
      (''locked'', 0)]\<rparr>"

definition rte_mempool_ops_table_layout :: rty where
  "rte_mempool_ops_table_layout = Struct None 64 [
      (''sl'', rte_spinlock_t_layout), (''num_ops'', u32_ty),
      (''__bindgen_padding_0'', Array u64_ty 7), (''ops'', Array rte_mempool_ops_layout 16)]"

definition rte_mempool_ops_table_test :: layout_test where
  "rte_mempool_ops_table_test = \<lparr>expect_size = 2112, expect_align = 64, expect_offsets = [
      (''sl'', 0), (''num_ops'', 4), (''ops'', 64)]\<rparr>"

definition rte_mbuf_ext_shared_info_layout :: rty where
  "rte_mbuf_ext_shared_info_layout = Struct None 1 [
      (''free_cb'', Pointer), (''fcb_opaque'', Pointer), (''refcnt_atomic'', rte_atomic16_t_layout)]"

definition rte_mbuf_ext_shared_info_test :: layout_test where
  "rte_mbuf_ext_shared_info_test = \<lparr>expect_size = 24, expect_align = 8, expect_offsets = [
      (''free_cb'', 0), (''fcb_opaque'', 8), (''refcnt_atomic'', 16)]\<rparr>"

definition rte_memseg__bindgen_ty_1_layout :: rty where
  "rte_memseg__bindgen_ty_1_layout = Union 1 [
      (''phys_addr'', u64_ty), (''iova'', u64_ty), (''_bindgen_union_align'', u64_ty)]"

definition rte_memseg__bindgen_ty_1_test :: layout_test where
  "rte_memseg__bindgen_ty_1_test = \<lparr>expect_size = 8, expect_align = 8, expect_offsets = [
      (''phys_addr'', 0), (''iova'', 0)]\<rparr>"

definition rte_memseg__bindgen_ty_2_layout :: rty where
  "rte_memseg__bindgen_ty_2_layout = Union 1 [
      (''addr'', Pointer), (''addr_64'', u64_ty), (''_bindgen_union_align'', u64_ty)]"

definition rte_memseg__bindgen_ty_2_test :: layout_test where
  "rte_memseg__bindgen_ty_2_test = \<lparr>expect_size = 8, expect_align = 8, expect_offsets = [
      (''addr'', 0), (''addr_64'', 0)]\<rparr>"

definition rte_memseg_layout :: rty where
  "rte_memseg_layout = Struct (Some 1) 1 [
      (''__bindgen_anon_1'', rte_memseg__bindgen_ty_1_layout),
      (''__bindgen_anon_2'', rte_memseg__bindgen_ty_2_layout), (''len'', u64_ty),
      (''hugepage_sz'', u64_ty), (''socket_id'', u32_ty), (''nchannel'', u32_ty),
      (''nrank'', u32_ty), (''flags'', u32_ty)]"

definition rte_memseg_test :: layout_test where
  "rte_memseg_test = \<lparr>expect_size = 48, expect_align = 1, expect_offsets = [
      (''len'', 16), (''hugepage_sz'', 24), (''socket_id'', 32), (''nchannel'', 36),
      (''nrank'', 40), (''flags'', 44)]\<rparr>"

definition rte_memseg_list__bindgen_ty_1_layout :: rty where
  "rte_memseg_list__bindgen_ty_1_layout = Union 1 [
      (''base_va'', Pointer), (''addr_64'', u64_ty), (''_bindgen_union_align'', u64_ty)]"

definition rte_memseg_list__bindgen_ty_1_test :: layout_test where
  "rte_memseg_list__bindgen_ty_1_test = \<lparr>expect_size = 8, expect_align = 8, expect_offsets = [
      (''base_va'', 0), (''addr_64'', 0)]\<rparr>"

definition rte_rwlock_t_layout :: rty where
  "rte_rwlock_t_layout = Struct None 1 [
      (''cnt'', u32_ty)]"

definition rte_rwlock_t_test :: layout_test where
  "rte_rwlock_t_test = \<lparr>expect_size = 4, expect_align = 4, expect_offsets = [
      (''cnt'', 0)]\<rparr>"

definition rte_fbarray_layout :: rty where
  "rte_fbarray_layout = Struct None 1 [
      (''name'', Array u8_ty 64), (''count'', u32_ty), (''len'', u32_ty), (''elt_sz'', u32_ty),
      (''data'', Pointer), (''rwlock'', rte_rwlock_t_layout)]"

definition rte_fbarray_test :: layout_test where
  "rte_fbarray_test = \<lparr>expect_size = 96, expect_align = 8, expect_offsets = [
      (''name'', 0), (''count'', 64), (''len'', 68), (''elt_sz'', 72), (''data'', 80),
      (''rwlock'', 88)]\<rparr>"

definition rte_memseg_list_layout :: rty where
  "rte_memseg_list_layout = Struct None 1 [
      (''__bindgen_anon_1'', rte_memseg_list__bindgen_ty_1_layout), (''page_sz'', u64_ty),
      (''socket_id'', u32_ty), (''version'', u32_ty), (''len'', u64_ty), (''external'', u32_ty),
      (''heap'', u32_ty), (''memseg_arr'', rte_fbarray_layout)]"

definition rte_memseg_list_test :: layout_test where
  "rte_memseg_list_test = \<lparr>expect_size = 136, expect_align = 8, expect_offsets = [
      (''page_sz'', 8), (''socket_id'', 16), (''version'', 20), (''len'', 24), (''external'', 32),
      (''heap'', 36), (''memseg_arr'', 40)]\<rparr>"

definition pool_tests :: "(rty \<times> layout_test) list" where
  "pool_tests =
    [(rte_mempool_cache_layout, rte_mempool_cache_test),
     (rte_mempool_objsz_layout, rte_mempool_objsz_test),
     (rte_mempool_objhdr__bindgen_ty_1_layout, rte_mempool_objhdr__bindgen_ty_1_test),
     (rte_mempool_objhdr__bindgen_ty_2_layout, rte_mempool_objhdr__bindgen_ty_2_test),
     (rte_mempool_objhdr_layout, rte_mempool_objhdr_test),
     (rte_mempool_memhdr__bindgen_ty_1_layout, rte_mempool_memhdr__bindgen_ty_1_test),
     (rte_mempool_memhdr__bindgen_ty_2_layout, rte_mempool_memhdr__bindgen_ty_2_test),
     (rte_mempool_memhdr_layout, rte_mempool_memhdr_test),
     (rte_mempool_info_layout, rte_mempool_info_test),
     (rte_mempool_ops_layout, rte_mempool_ops_test),
     (rte_spinlock_t_layout, rte_spinlock_t_test),
     (rte_mempool_ops_table_layout, rte_mempool_ops_table_test),
     (rte_mbuf_ext_shared_info_layout, rte_mbuf_ext_shared_info_test),
     (rte_memseg__bindgen_ty_1_layout, rte_memseg__bindgen_ty_1_test),
     (rte_memseg__bindgen_ty_2_layout, rte_memseg__bindgen_ty_2_test),
     (rte_memseg_layout, rte_memseg_test),
     (rte_memseg_list__bindgen_ty_1_layout, rte_memseg_list__bindgen_ty_1_test),
     (rte_rwlock_t_layout, rte_rwlock_t_test),
     (rte_fbarray_layout, rte_fbarray_test),
     (rte_memseg_list_layout, rte_memseg_list_test)]"

lemma rte_mempool_cache_passes [layout_passes]:
  "layout_test_passes rte_mempool_cache_layout rte_mempool_cache_test" "wf_ty rte_mempool_cache_layout"
  by (simp_all add: layout_simps rte_mempool_cache_layout_def rte_mempool_cache_test_def del: One_nat_def)

lemmas rte_mempool_cache_facts [layout_simps] =
  layout_test_passesD [OF rte_mempool_cache_passes(1)] rte_mempool_cache_passes(2) rte_mempool_cache_test_def

lemma rte_mempool_objsz_passes [layout_passes]:
  "layout_test_passes rte_mempool_objsz_layout rte_mempool_objsz_test" "wf_ty rte_mempool_objsz_layout"
  by (simp_all add: layout_simps rte_mempool_objsz_layout_def rte_mempool_objsz_test_def del: One_nat_def)

lemmas rte_mempool_objsz_facts [layout_simps] =
  layout_test_passesD [OF rte_mempool_objsz_passes(1)] rte_mempool_objsz_passes(2) rte_mempool_objsz_test_def

lemma rte_mempool_objhdr__bindgen_ty_1_passes [layout_passes]:
  "layout_test_passes rte_mempool_objhdr__bindgen_ty_1_layout rte_mempool_objhdr__bindgen_ty_1_test" "wf_ty rte_mempool_objhdr__bindgen_ty_1_layout"
  by (simp_all add: layout_simps rte_mempool_objhdr__bindgen_ty_1_layout_def rte_mempool_objhdr__bindgen_ty_1_test_def del: One_nat_def)

lemmas rte_mempool_objhdr__bindgen_ty_1_facts [layout_simps] =
  layout_test_passesD [OF rte_mempool_objhdr__bindgen_ty_1_passes(1)] rte_mempool_objhdr__bindgen_ty_1_passes(2) rte_mempool_objhdr__bindgen_ty_1_test_def

lemma rte_mempool_objhdr__bindgen_ty_2_passes [layout_passes]:
  "layout_test_passes rte_mempool_objhdr__bindgen_ty_2_layout rte_mempool_objhdr__bindgen_ty_2_test" "wf_ty rte_mempool_objhdr__bindgen_ty_2_layout"
  by (simp_all add: layout_simps rte_mempool_objhdr__bindgen_ty_2_layout_def rte_mempool_objhdr__bindgen_ty_2_test_def del: One_nat_def)

lemmas rte_mempool_objhdr__bindgen_ty_2_facts [layout_simps] =
  layout_test_passesD [OF rte_mempool_objhdr__bindgen_ty_2_passes(1)] rte_mempool_objhdr__bindgen_ty_2_passes(2) rte_mempool_objhdr__bindgen_ty_2_test_def

lemma rte_mempool_objhdr_passes [layout_passes]:
  "layout_test_passes rte_mempool_objhdr_layout rte_mempool_objhdr_test" "wf_ty rte_mempool_objhdr_layout"
  by (simp_all add: layout_simps rte_mempool_objhdr_layout_def rte_mempool_objhdr_test_def del: One_nat_def)

lemmas rte_mempool_objhdr_facts [layout_simps] =
  layout_test_passesD [OF rte_mempool_objhdr_passes(1)] rte_mempool_objhdr_passes(2) rte_mempool_objhdr_test_def

lemma rte_mempool_memhdr__bindgen_ty_1_passes [layout_passes]:
  "layout_test_passes rte_mempool_memhdr__bindgen_ty_1_layout rte_mempool_memhdr__bindgen_ty_1_test" "wf_ty rte_mempool_memhdr__bindgen_ty_1_layout"
  by (simp_all add: layout_simps rte_mempool_memhdr__bindgen_ty_1_layout_def rte_mempool_memhdr__bindgen_ty_1_test_def del: One_nat_def)

lemmas rte_mempool_memhdr__bindgen_ty_1_facts [layout_simps] =
  layout_test_passesD [OF rte_mempool_memhdr__bindgen_ty_1_passes(1)] rte_mempool_memhdr__bindgen_ty_1_passes(2) rte_mempool_memhdr__bindgen_ty_1_test_def

lemma rte_mempool_memhdr__bindgen_ty_2_passes [layout_passes]:
  "layout_test_passes rte_mempool_memhdr__bindgen_ty_2_layout rte_mempool_memhdr__bindgen_ty_2_test" "wf_ty rte_mempool_memhdr__bindgen_ty_2_layout"
  by (simp_all add: layout_simps rte_mempool_memhdr__bindgen_ty_2_layout_def rte_mempool_memhdr__bindgen_ty_2_test_def del: One_nat_def)

lemmas rte_mempool_memhdr__bindgen_ty_2_facts [layout_simps] =
  layout_test_passesD [OF rte_mempool_memhdr__bindgen_ty_2_passes(1)] rte_mempool_memhdr__bindgen_ty_2_passes(2) rte_mempool_memhdr__bindgen_ty_2_test_def

lemma rte_mempool_memhdr_passes [layout_passes]:
  "layout_test_passes rte_mempool_memhdr_layout rte_mempool_memhdr_test" "wf_ty rte_mempool_memhdr_layout"
  by (simp_all add: layout_simps rte_mempool_memhdr_layout_def rte_mempool_memhdr_test_def del: One_nat_def)

lemmas rte_mempool_memhdr_facts [layout_simps] =
  layout_test_passesD [OF rte_mempool_memhdr_passes(1)] rte_mempool_memhdr_passes(2) rte_mempool_memhdr_test_def

lemma rte_mempool_info_passes [layout_passes]:
  "layout_test_passes rte_mempool_info_layout rte_mempool_info_test" "wf_ty rte_mempool_info_layout"
  by (simp_all add: layout_simps rte_mempool_info_layout_def rte_mempool_info_test_def del: One_nat_def)

lemmas rte_mempool_info_facts [layout_simps] =
  layout_test_passesD [OF rte_mempool_info_passes(1)] rte_mempool_info_passes(2) rte_mempool_info_test_def

lemma rte_mempool_ops_passes [layout_passes]:
  "layout_test_passes rte_mempool_ops_layout rte_mempool_ops_test" "wf_ty rte_mempool_ops_layout"
  by (simp_all add: layout_simps rte_mempool_ops_layout_def rte_mempool_ops_test_def del: One_nat_def)

lemmas rte_mempool_ops_facts [layout_simps] =
  layout_test_passesD [OF rte_mempool_ops_passes(1)] rte_mempool_ops_passes(2) rte_mempool_ops_test_def

lemma rte_spinlock_t_passes [layout_passes]:
  "layout_test_passes rte_spinlock_t_layout rte_spinlock_t_test" "wf_ty rte_spinlock_t_layout"
  by (simp_all add: layout_simps rte_spinlock_t_layout_def rte_spinlock_t_test_def del: One_nat_def)

lemmas rte_spinlock_t_facts [layout_simps] =
  layout_test_passesD [OF rte_spinlock_t_passes(1)] rte_spinlock_t_passes(2) rte_spinlock_t_test_def

lemma rte_mempool_ops_table_passes [layout_passes]:
  "layout_test_passes rte_mempool_ops_table_layout rte_mempool_ops_table_test" "wf_ty rte_mempool_ops_table_layout"
  by (simp_all add: layout_simps rte_mempool_ops_table_layout_def rte_mempool_ops_table_test_def del: One_nat_def)

lemmas rte_mempool_ops_table_facts [layout_simps] =
  layout_test_passesD [OF rte_mempool_ops_table_passes(1)] rte_mempool_ops_table_passes(2) rte_mempool_ops_table_test_def

lemma rte_mbuf_ext_shared_info_passes [layout_passes]:
  "layout_test_passes rte_mbuf_ext_shared_info_layout rte_mbuf_ext_shared_info_test" "wf_ty rte_mbuf_ext_shared_info_layout"
  by (simp_all add: layout_simps rte_mbuf_ext_shared_info_layout_def rte_mbuf_ext_shared_info_test_def del: One_nat_def)

lemmas rte_mbuf_ext_shared_info_facts [layout_simps] =
  layout_test_passesD [OF rte_mbuf_ext_shared_info_passes(1)] rte_mbuf_ext_shared_info_passes(2) rte_mbuf_ext_shared_info_test_def

lemma rte_memseg__bindgen_ty_1_passes [layout_passes]:
  "layout_test_passes rte_memseg__bindgen_ty_1_layout rte_memseg__bindgen_ty_1_test" "wf_ty rte_memseg__bindgen_ty_1_layout"
  by (simp_all add: layout_simps rte_memseg__bindgen_ty_1_layout_def rte_memseg__bindgen_ty_1_test_def del: One_nat_def)

lemmas rte_memseg__bindgen_ty_1_facts [layout_simps] =
  layout_test_passesD [OF rte_memseg__bindgen_ty_1_passes(1)] rte_memseg__bindgen_ty_1_passes(2) rte_memseg__bindgen_ty_1_test_def

lemma rte_memseg__bindgen_ty_2_passes [layout_passes]:
  "layout_test_passes rte_memseg__bindgen_ty_2_layout rte_memseg__bindgen_ty_2_test" "wf_ty rte_memseg__bindgen_ty_2_layout"
  by (simp_all add: layout_simps rte_memseg__bindgen_ty_2_layout_def rte_memseg__bindgen_ty_2_test_def del: One_nat_def)

lemmas rte_memseg__bindgen_ty_2_facts [layout_simps] =
  layout_test_passesD [OF rte_memseg__bindgen_ty_2_passes(1)] rte_memseg__bindgen_ty_2_passes(2) rte_memseg__bindgen_ty_2_test_def

lemma rte_memseg_passes [layout_passes]:
  "layout_test_passes rte_memseg_layout rte_memseg_test" "wf_ty rte_memseg_layout"
  by (simp_all add: layout_simps rte_memseg_layout_def rte_memseg_test_def del: One_nat_def)

lemmas rte_memseg_facts [layout_simps] =
  layout_test_passesD [OF rte_memseg_passes(1)] rte_memseg_passes(2) rte_memseg_test_def

lemma rte_memseg_list__bindgen_ty_1_passes [layout_passes]:
  "layout_test_passes rte_memseg_list__bindgen_ty_1_layout rte_memseg_list__bindgen_ty_1_test" "wf_ty rte_memseg_list__bindgen_ty_1_layout"
  by (simp_all add: layout_simps rte_memseg_list__bindgen_ty_1_layout_def rte_memseg_list__bindgen_ty_1_test_def del: One_nat_def)

lemmas rte_memseg_list__bindgen_ty_1_facts [layout_simps] =
  layout_test_passesD [OF rte_memseg_list__bindgen_ty_1_passes(1)] rte_memseg_list__bindgen_ty_1_passes(2) rte_memseg_list__bindgen_ty_1_test_def

lemma rte_rwlock_t_passes [layout_passes]:
  "layout_test_passes rte_rwlock_t_layout rte_rwlock_t_test" "wf_ty rte_rwlock_t_layout"
  by (simp_all add: layout_simps rte_rwlock_t_layout_def rte_rwlock_t_test_def del: One_nat_def)

lemmas rte_rwlock_t_facts [layout_simps] =
  layout_test_passesD [OF rte_rwlock_t_passes(1)] rte_rwlock_t_passes(2) rte_rwlock_t_test_def

lemma rte_fbarray_passes [layout_passes]:
  "layout_test_passes rte_fbarray_layout rte_fbarray_test" "wf_ty rte_fbarray_layout"
  by (simp_all add: layout_simps rte_fbarray_layout_def rte_fbarray_test_def del: One_nat_def)

lemmas rte_fbarray_facts [layout_simps] =
  layout_test_passesD [OF rte_fbarray_passes(1)] rte_fbarray_passes(2) rte_fbarray_test_def

lemma rte_memseg_list_passes [layout_passes]:
  "layout_test_passes rte_memseg_list_layout rte_memseg_list_test" "wf_ty rte_memseg_list_layout"
  by (simp_all add: layout_simps rte_memseg_list_layout_def rte_memseg_list_test_def del: One_nat_def)

lemmas rte_memseg_list_facts [layout_simps] =
  layout_test_passesD [OF rte_memseg_list_passes(1)] rte_memseg_list_passes(2) rte_memseg_list_test_def

text \<open>
  The layout computed by the C rules for the inside of memory pools is the one the generated
  tests assert, and the types are well-formed.
\<close>

lemma pool_layout_tests_pass [layout_tests_pass]:
  "list_all (\<lambda>(t, e). layout_test_passes t e \<and> wf_ty t) pool_tests"
  by (simp add: pool_tests_def layout_passes)

end
