(* ===== verification/Layouts_Eal.thy ===== *)
theory Layouts_Eal
  imports Layout
begin

text \<open>
  The types of the device, bus, interrupt, message and log objects of the environment abstraction layer as
  \<open>dpdk-sys/src/bindings_rustdoc.rs\<close> declares them, and for each type the size, alignment and offsets that its generated
  \<open>bindgen_test_layout\<close> function asserts. A field of a type alias or of an enumeration
  module stands with the integer type it names.
\<close>

definition rte_logs_layout :: rty where
  "rte_logs_layout = Struct None 1 [
      (''type_'', u32_ty), (''level'', u32_ty), (''file'', Pointer),
      (''dynamic_types_len'', u64_ty), (''dynamic_types'', Pointer)]"

definition rte_logs_test :: layout_test where
  "rte_logs_test = \<lparr>expect_size = 32, expect_align = 8, expect_offsets = [
      (''type_'', 0), (''level'', 4), (''file'', 8), (''dynamic_types_len'', 16),
      (''dynamic_types'', 24)]\<rparr>"

definition rte_mem_resource_layout :: rty where
  "rte_mem_resource_layout = Struct None 1 [
      (''phys_addr'', u64_ty), (''len'', u64_ty), (''addr'', Pointer)]"

definition rte_mem_resource_test :: layout_test where
  "rte_mem_resource_test = \<lparr>expect_size = 24, expect_align = 8, expect_offsets = [
      (''phys_addr'', 0), (''len'', 8), (''addr'', 16)]\<rparr>"

definition rte_driver__bindgen_ty_1_layout :: rty where
  "rte_driver__bindgen_ty_1_layout = Struct None 1 [
      (''tqe_next'', Pointer), (''tqe_prev'', Pointer)]"

definition rte_driver__bindgen_ty_1_test :: layout_test where
  "rte_driver__bindgen_ty_1_test = \<lparr>expect_size = 16, expect_align = 8, expect_offsets = [
      (''tqe_next'', 0), (''tqe_prev'', 8)]\<rparr>"

definition rte_driver_layout :: rty where
  "rte_driver_layout = Struct None 1 [
      (''next'', rte_driver__bindgen_ty_1_layout), (''name'', Pointer), (''alias'', Pointer)]"

definition rte_driver_test :: layout_test where
  "rte_driver_test = \<lparr>expect_size = 32, expect_align = 8, expect_offsets = [
      (''next'', 0), (''name'', 16), (''alias'', 24)]\<rparr>"

definition rte_device__bindgen_ty_1_layout :: rty where
  "rte_device__bindgen_ty_1_layout = Struct None 1 [
      (''tqe_next'', Pointer), (''tqe_prev'', Pointer)]"

definition rte_device__bindgen_ty_1_test :: layout_test where
  "rte_device__bindgen_ty_1_test = \<lparr>expect_size = 16, expect_align = 8, expect_offsets = [
      (''tqe_next'', 0), (''tqe_prev'', 8)]\<rparr>"

definition rte_device_layout :: rty where
  "rte_device_layout = Struct None 1 [
      (''next'', rte_device__bindgen_ty_1_layout), (''name'', Pointer), (''driver'', Pointer),
      (''bus'', Pointer), (''numa_node'', u32_ty), (''devargs'', Pointer)]"

definition rte_device_test :: layout_test where
  "rte_device_test = \<lparr>expect_size = 56, expect_align = 8, expect_offsets = [
      (''next'', 0), (''name'', 16), (''driver'', 24), (''bus'', 32), (''numa_node'', 40),
      (''devargs'', 48)]\<rparr>"

definition rte_dev_event_layout :: rty where
  "rte_dev_event_layout = Struct None 1 [
      (''type_'', u32_ty), (''subsystem'', u32_ty), (''devname'', Pointer)]"

definition rte_dev_event_test :: layout_test where
  "rte_dev_event_test = \<lparr>expect_size = 16, expect_align = 8, expect_offsets = [
      (''type_'', 0), (''subsystem'', 4), (''devname'', 8)]\<rparr>"

definition rte_bus_list_layout :: rty where
  "rte_bus_list_layout = Struct None 1 [
      (''tqh_first'', Pointer), (''tqh_last'', Pointer)]"

definition rte_bus_list_test :: layout_test where
  "rte_bus_list_test = \<lparr>expect_size = 16, expect_align = 8, expect_offsets = [
      (''tqh_first'', 0), (''tqh_last'', 8)]\<rparr>"

definition rte_bus__bindgen_ty_1_layout :: rty where
  "rte_bus__bindgen_ty_1_layout = Struct None 1 [
      (''tqe_next'', Pointer), (''tqe_prev'', Pointer)]"

definition rte_bus__bindgen_ty_1_test :: layout_test where
  "rte_bus__bindgen_ty_1_test = \<lparr>expect_size = 16, expect_align = 8, expect_offsets = [
      (''tqe_next'', 0), (''tqe_prev'', 8)]\<rparr>"

definition rte_bus_conf_layout :: rty where
  "rte_bus_conf_layout = Struct None 1 [
      (''scan_mode'', u32_ty)]"

definition rte_bus_conf_test :: layout_test where
  "rte_bus_conf_test = \<lparr>expect_size = 4, expect_align = 4, expect_offsets = [
      (''scan_mode'', 0)]\<rparr>"

definition rte_bus_layout :: rty where
  "rte_bus_layout = Struct None 1 [
      (''next'', rte_bus__bindgen_ty_1_layout), (''name'', Pointer), (''scan'', Pointer),
      (''probe'', Pointer), (''find_device'', Pointer), (''plug'', Pointer), (''unplug'', Pointer),
      (''parse'', Pointer), (''dma_map'', Pointer), (''dma_unmap'', Pointer),
      (''conf'', rte_bus_conf_layout), (''get_iommu_class'', Pointer), (''dev_iterate'', Pointer),
      (''hot_unplug_handler'', Pointer), (''sigbus_handler'', Pointer)]"

definition rte_bus_test :: layout_test where
  "rte_bus_test = \<lparr>expect_size = 128, expect_align = 8, expect_offsets = [
      (''next'', 0), (''name'', 16), (''scan'', 24), (''probe'', 32), (''find_device'', 40),
      (''plug'', 48), (''unplug'', 56), (''parse'', 64), (''dma_map'', 72), (''dma_unmap'', 80),
      (''conf'', 88), (''get_iommu_class'', 96), (''dev_iterate'', 104),
      (''hot_unplug_handler'', 112), (''sigbus_handler'', 120)]\<rparr>"

definition rte_devargs__bindgen_ty_1_layout :: rty where
  "rte_devargs__bindgen_ty_1_layout = Struct None 1 [
      (''tqe_next'', Pointer), (''tqe_prev'', Pointer)]"

definition rte_devargs__bindgen_ty_1_test :: layout_test where
  "rte_devargs__bindgen_ty_1_test = \<lparr>expect_size = 16, expect_align = 8, expect_offsets = [
      (''tqe_next'', 0), (''tqe_prev'', 8)]\<rparr>"

definition rte_devargs__bindgen_ty_2_layout :: rty where
  "rte_devargs__bindgen_ty_2_layout = Union 1 [
      (''args'', Pointer), (''drv_str'', Pointer), (''_bindgen_union_align'', u64_ty)]"

definition rte_devargs__bindgen_ty_2_test :: layout_test where
  "rte_devargs__bindgen_ty_2_test = \<lparr>expect_size = 8, expect_align = 8, expect_offsets = [
      (''args'', 0), (''drv_str'', 0)]\<rparr>"

definition rte_devargs_layout :: rty where
  "rte_devargs_layout = Struct None 1 [
      (''next'', rte_devargs__bindgen_ty_1_layout), (''type_'', u32_ty), (''policy'', u32_ty),
      (''name'', Array u8_ty 64), (''__bindgen_anon_1'', rte_devargs__bindgen_ty_2_layout),
      (''bus'', Pointer), (''cls'', Pointer), (''bus_str'', Pointer), (''cls_str'', Pointer),
      (''data'', Pointer)]"

definition rte_devargs_test :: layout_test where
  "rte_devargs_test = \<lparr>expect_size = 136, expect_align = 8, expect_offsets = [
      (''next'', 0), (''type_'', 16), (''policy'', 20), (''name'', 24), (''bus'', 96),
      (''cls'', 104), (''bus_str'', 112), (''cls_str'', 120), (''data'', 128)]\<rparr>"

definition rte_epoll_data_layout :: rty where
  "rte_epoll_data_layout = Struct None 1 [
      (''event'', u32_ty), (''data'', Pointer), (''cb_fun'', Pointer), (''cb_arg'', Pointer)]"

definition rte_epoll_data_test :: layout_test where
  "rte_epoll_data_test = \<lparr>expect_size = 32, expect_align = 8, expect_offsets = [
      (''event'', 0), (''data'', 8), (''cb_fun'', 16), (''cb_arg'', 24)]\<rparr>"

definition rte_epoll_event_layout :: rty where
  "rte_epoll_event_layout = Struct None 1 [
      (''status'', u32_ty), (''fd'', u32_ty), (''epfd'', u32_ty),
      (''epdata'', rte_epoll_data_layout)]"

definition rte_epoll_event_test :: layout_test where
  "rte_epoll_event_test = \<lparr>expect_size = 48, expect_align = 8, expect_offsets = [
      (''status'', 0), (''fd'', 4), (''epfd'', 8), (''epdata'', 16)]\<rparr>"

definition rte_intr_handle__bindgen_ty_1_layout :: rty where
  "rte_intr_handle__bindgen_ty_1_layout = Union 1 [
      (''vfio_dev_fd'', u32_ty), (''uio_cfg_fd'', u32_ty), (''_bindgen_union_align'', u32_ty)]"

definition rte_intr_handle__bindgen_ty_1_test :: layout_test where
  "rte_intr_handle__bindgen_ty_1_test = \<lparr>expect_size = 4, expect_align = 4, expect_offsets = [
      (''vfio_dev_fd'', 0), (''uio_cfg_fd'', 0)]\<rparr>"

definition rte_intr_handle_layout :: rty where
  "rte_intr_handle_layout = Struct None 1 [
      (''__bindgen_anon_1'', rte_intr_handle__bindgen_ty_1_layout), (''fd'', u32_ty),
      (''type_'', u32_ty), (''max_intr'', u32_ty), (''nb_efd'', u32_ty),
      (''efd_counter_size'', u8_ty), (''efds'', Array u32_ty 512),
      (''elist'', Array rte_epoll_event_layout 512), (''intr_vec'', Pointer)]"

definition rte_intr_handle_test :: layout_test where
  "rte_intr_handle_test = \<lparr>expect_size = 26656, expect_align = 8, expect_offsets = [
      (''fd'', 4), (''type_'', 8), (''max_intr'', 12), (''nb_efd'', 16),
      (''efd_counter_size'', 20), (''efds'', 24), (''elist'', 2072), (''intr_vec'', 26648)]\<rparr>"

definition rte_mp_msg_layout :: rty where
  "rte_mp_msg_layout = Struct None 1 [
      (''name'', Array u8_ty 64), (''len_param'', u32_ty), (''num_fds'', u32_ty),
      (''param'', Array u8_ty 256), (''fds'', Array u32_ty 8)]"

definition rte_mp_msg_test :: layout_test where
  "rte_mp_msg_test = \<lparr>expect_size = 360, expect_align = 4, expect_offsets = [
      (''name'', 0), (''len_param'', 64), (''num_fds'', 68), (''param'', 72), (''fds'', 328)]\<rparr>"

definition rte_mp_reply_layout :: rty where
  "rte_mp_reply_layout = Struct None 1 [
      (''nb_sent'', u32_ty), (''nb_received'', u32_ty), (''msgs'', Pointer)]"

definition rte_mp_reply_test :: layout_test where
  "rte_mp_reply_test = \<lparr>expect_size = 16, expect_align = 8, expect_offsets = [
      (''nb_sent'', 0), (''nb_received'', 4), (''msgs'', 8)]\<rparr>"

definition eal_tests :: "(rty \<times> layout_test) list" where
  "eal_tests =
    [(rte_logs_layout, rte_logs_test),
     (rte_mem_resource_layout, rte_mem_resource_test),
     (rte_driver__bindgen_ty_1_layout, rte_driver__bindgen_ty_1_test),
     (rte_driver_layout, rte_driver_test),
     (rte_device__bindgen_ty_1_layout, rte_device__bindgen_ty_1_test),
     (rte_device_layout, rte_device_test),
     (rte_dev_event_layout, rte_dev_event_test),
     (rte_bus_list_layout, rte_bus_list_test),
     (rte_bus__bindgen_ty_1_layout, rte_bus__bindgen_ty_1_test),
     (rte_bus_conf_layout, rte_bus_conf_test),
     (rte_bus_layout, rte_bus_test),
     (rte_devargs__bindgen_ty_1_layout, rte_devargs__bindgen_ty_1_test),
     (rte_devargs__bindgen_ty_2_layout, rte_devargs__bindgen_ty_2_test),
     (rte_devargs_layout, rte_devargs_test),
     (rte_epoll_data_layout, rte_epoll_data_test),
     (rte_epoll_event_layout, rte_epoll_event_test),
     (rte_intr_handle__bindgen_ty_1_layout, rte_intr_handle__bindgen_ty_1_test),
     (rte_intr_handle_layout, rte_intr_handle_test),
     (rte_mp_msg_layout, rte_mp_msg_test),
     (rte_mp_reply_layout, rte_mp_reply_test)]"

lemma rte_logs_passes [layout_passes]:
  "layout_test_passes rte_logs_layout rte_logs_test" "wf_ty rte_logs_layout"
  by (simp_all add: layout_simps rte_logs_layout_def rte_logs_test_def del: One_nat_def)

lemmas rte_logs_facts [layout_simps] =
  layout_test_passesD [OF rte_logs_passes(1)] rte_logs_passes(2) rte_logs_test_def

lemma rte_mem_resource_passes [layout_passes]:
  "layout_test_passes rte_mem_resource_layout rte_mem_resource_test" "wf_ty rte_mem_resource_layout"
  by (simp_all add: layout_simps rte_mem_resource_layout_def rte_mem_resource_test_def del: One_nat_def)

lemmas rte_mem_resource_facts [layout_simps] =
  layout_test_passesD [OF rte_mem_resource_passes(1)] rte_mem_resource_passes(2) rte_mem_resource_test_def

lemma rte_driver__bindgen_ty_1_passes [layout_passes]:
  "layout_test_passes rte_driver__bindgen_ty_1_layout rte_driver__bindgen_ty_1_test" "wf_ty rte_driver__bindgen_ty_1_layout"
  by (simp_all add: layout_simps rte_driver__bindgen_ty_1_layout_def rte_driver__bindgen_ty_1_test_def del: One_nat_def)

lemmas rte_driver__bindgen_ty_1_facts [layout_simps] =
  layout_test_passesD [OF rte_driver__bindgen_ty_1_passes(1)] rte_driver__bindgen_ty_1_passes(2) rte_driver__bindgen_ty_1_test_def

lemma rte_driver_passes [layout_passes]:
  "layout_test_passes rte_driver_layout rte_driver_test" "wf_ty rte_driver_layout"
  by (simp_all add: layout_simps rte_driver_layout_def rte_driver_test_def del: One_nat_def)

lemmas rte_driver_facts [layout_simps] =
  layout_test_passesD [OF rte_driver_passes(1)] rte_driver_passes(2) rte_driver_test_def

lemma rte_device__bindgen_ty_1_passes [layout_passes]:
  "layout_test_passes rte_device__bindgen_ty_1_layout rte_device__bindgen_ty_1_test" "wf_ty rte_device__bindgen_ty_1_layout"
  by (simp_all add: layout_simps rte_device__bindgen_ty_1_layout_def rte_device__bindgen_ty_1_test_def del: One_nat_def)

lemmas rte_device__bindgen_ty_1_facts [layout_simps] =
  layout_test_passesD [OF rte_device__bindgen_ty_1_passes(1)] rte_device__bindgen_ty_1_passes(2) rte_device__bindgen_ty_1_test_def

lemma rte_device_passes [layout_passes]:
  "layout_test_passes rte_device_layout rte_device_test" "wf_ty rte_device_layout"
  by (simp_all add: layout_simps rte_device_layout_def rte_device_test_def del: One_nat_def)

lemmas rte_device_facts [layout_simps] =
  layout_test_passesD [OF rte_device_passes(1)] rte_device_passes(2) rte_device_test_def

lemma rte_dev_event_passes [layout_passes]:
  "layout_test_passes rte_dev_event_layout rte_dev_event_test" "wf_ty rte_dev_event_layout"
  by (simp_all add: layout_simps rte_dev_event_layout_def rte_dev_event_test_def del: One_nat_def)

lemmas rte_dev_event_facts [layout_simps] =
  layout_test_passesD [OF rte_dev_event_passes(1)] rte_dev_event_passes(2) rte_dev_event_test_def

lemma rte_bus_list_passes [layout_passes]:
  "layout_test_passes rte_bus_list_layout rte_bus_list_test" "wf_ty rte_bus_list_layout"
  by (simp_all add: layout_simps rte_bus_list_layout_def rte_bus_list_test_def del: One_nat_def)

lemmas rte_bus_list_facts [layout_simps] =
  layout_test_passesD [OF rte_bus_list_passes(1)] rte_bus_list_passes(2) rte_bus_list_test_def

lemma rte_bus__bindgen_ty_1_passes [layout_passes]:
  "layout_test_passes rte_bus__bindgen_ty_1_layout rte_bus__bindgen_ty_1_test" "wf_ty rte_bus__bindgen_ty_1_layout"
  by (simp_all add: layout_simps rte_bus__bindgen_ty_1_layout_def rte_bus__bindgen_ty_1_test_def del: One_nat_def)

lemmas rte_bus__bindgen_ty_1_facts [layout_simps] =
  layout_test_passesD [OF rte_bus__bindgen_ty_1_passes(1)] rte_bus__bindgen_ty_1_passes(2) rte_bus__bindgen_ty_1_test_def

lemma rte_bus_conf_passes [layout_passes]:
  "layout_test_passes rte_bus_conf_layout rte_bus_conf_test" "wf_ty rte_bus_conf_layout"
  by (simp_all add: layout_simps rte_bus_conf_layout_def rte_bus_conf_test_def del: One_nat_def)

lemmas rte_bus_conf_facts [layout_simps] =
  layout_test_passesD [OF rte_bus_conf_passes(1)] rte_bus_conf_passes(2) rte_bus_conf_test_def

lemma rte_bus_passes [layout_passes]:
  "layout_test_passes rte_bus_layout rte_bus_test" "wf_ty rte_bus_layout"
  by (simp_all add: layout_simps rte_bus_layout_def rte_bus_test_def del: One_nat_def)

lemmas rte_bus_facts [layout_simps] =
  layout_test_passesD [OF rte_bus_passes(1)] rte_bus_passes(2) rte_bus_test_def

lemma rte_devargs__bindgen_ty_1_passes [layout_passes]:
  "layout_test_passes rte_devargs__bindgen_ty_1_layout rte_devargs__bindgen_ty_1_test" "wf_ty rte_devargs__bindgen_ty_1_layout"
  by (simp_all add: layout_simps rte_devargs__bindgen_ty_1_layout_def rte_devargs__bindgen_ty_1_test_def del: One_nat_def)

lemmas rte_devargs__bindgen_ty_1_facts [layout_simps] =
  layout_test_passesD [OF rte_devargs__bindgen_ty_1_passes(1)] rte_devargs__bindgen_ty_1_passes(2) rte_devargs__bindgen_ty_1_test_def

lemma rte_devargs__bindgen_ty_2_passes [layout_passes]:
  "layout_test_passes rte_devargs__bindgen_ty_2_layout rte_devargs__bindgen_ty_2_test" "wf_ty rte_devargs__bindgen_ty_2_layout"
  by (simp_all add: layout_simps rte_devargs__bindgen_ty_2_layout_def rte_devargs__bindgen_ty_2_test_def del: One_nat_def)

lemmas rte_devargs__bindgen_ty_2_facts [layout_simps] =
  layout_test_passesD [OF rte_devargs__bindgen_ty_2_passes(1)] rte_devargs__bindgen_ty_2_passes(2) rte_devargs__bindgen_ty_2_test_def

lemma rte_devargs_passes [layout_passes]:
  "layout_test_passes rte_devargs_layout rte_devargs_test" "wf_ty rte_devargs_layout"
  by (simp_all add: layout_simps rte_devargs_layout_def rte_devargs_test_def del: One_nat_def)

lemmas rte_devargs_facts [layout_simps] =
  layout_test_passesD [OF rte_devargs_passes(1)] rte_devargs_passes(2) rte_devargs_test_def

lemma rte_epoll_data_passes [layout_passes]:
  "layout_test_passes rte_epoll_data_layout rte_epoll_data_test" "wf_ty rte_epoll_data_layout"
  by (simp_all add: layout_simps rte_epoll_data_layout_def rte_epoll_data_test_def del: One_nat_def)

lemmas rte_epoll_data_facts [layout_simps] =
  layout_test_passesD [OF rte_epoll_data_passes(1)] rte_epoll_data_passes(2) rte_epoll_data_test_def

lemma rte_epoll_event_passes [layout_passes]:
  "layout_test_passes rte_epoll_event_layout rte_epoll_event_test" "wf_ty rte_epoll_event_layout"
  by (simp_all add: layout_simps rte_epoll_event_layout_def rte_epoll_event_test_def del: One_nat_def)

lemmas rte_epoll_event_facts [layout_simps] =
  layout_test_passesD [OF rte_epoll_event_passes(1)] rte_epoll_event_passes(2) rte_epoll_event_test_def

lemma rte_intr_handle__bindgen_ty_1_passes [layout_passes]:
  "layout_test_passes rte_intr_handle__bindgen_ty_1_layout rte_intr_handle__bindgen_ty_1_test" "wf_ty rte_intr_handle__bindgen_ty_1_layout"
  by (simp_all add: layout_simps rte_intr_handle__bindgen_ty_1_layout_def rte_intr_handle__bindgen_ty_1_test_def del: One_nat_def)

lemmas rte_intr_handle__bindgen_ty_1_facts [layout_simps] =
  layout_test_passesD [OF rte_intr_handle__bindgen_ty_1_passes(1)] rte_intr_handle__bindgen_ty_1_passes(2) rte_intr_handle__bindgen_ty_1_test_def

lemma rte_intr_handle_passes [layout_passes]:
  "layout_test_passes rte_intr_handle_layout rte_intr_handle_test" "wf_ty rte_intr_handle_layout"
  by (simp_all add: layout_simps rte_intr_handle_layout_def rte_intr_handle_test_def del: One_nat_def)

lemmas rte_intr_handle_facts [layout_simps] =
  layout_test_passesD [OF rte_intr_handle_passes(1)] rte_intr_handle_passes(2) rte_intr_handle_test_def

lemma rte_mp_msg_passes [layout_passes]:
  "layout_test_passes rte_mp_msg_layout rte_mp_msg_test" "wf_ty rte_mp_msg_layout"
  by (simp_all add: layout_simps rte_mp_msg_layout_def rte_mp_msg_test_def del: One_nat_def)

lemmas rte_mp_msg_facts [layout_simps] =
  layout_test_passesD [OF rte_mp_msg_passes(1)] rte_mp_msg_passes(2) rte_mp_msg_test_def

lemma rte_mp_reply_passes [layout_passes]:
  "layout_test_passes rte_mp_reply_layout rte_mp_reply_test" "wf_ty rte_mp_reply_layout"
  by (simp_all add: layout_simps rte_mp_reply_layout_def rte_mp_reply_test_def del: One_nat_def)

lemmas rte_mp_reply_facts [layout_simps] =
  layout_test_passesD [OF rte_mp_reply_passes(1)] rte_mp_reply_passes(2) rte_mp_reply_test_def

text \<open>
  The layout computed by the C rules for the objects of the environment abstraction layer is the one the generated
  tests assert, and the types are well-formed.
\<close>

lemma eal_layout_tests_pass [layout_tests_pass]:
  "list_all (\<lambda>(t, e). layout_test_passes t e \<and> wf_ty t) eal_tests"
  by (simp add: eal_tests_def layout_passes)

end
