(* ===== verification/Layouts_Misc.thy ===== *)
theory Layouts_Misc
  imports Layouts_Pool Layouts_Eal
begin

text \<open>
  The types of the remaining bindings: the C library, atomics, registers, PCI, KNI and packet capture
  as \<open>dpdk-sys/src/bindings_rustdoc.rs\<close> declares them, and for each type the size, the
  alignment and the offsets that its generated \<open>bindgen_test_layout\<close> function asserts. A field of
  a type alias or of an enumeration module stands with the integer type it names; leading
  underscores of a type name are left out.
\<close>

definition timespec_layout :: rty where
  "timespec_layout = Struct None 1 [
      (''tv_sec'', u64_ty), (''tv_nsec'', u64_ty)]"

definition timespec_test :: layout_test where
  "timespec_test = \<lparr>expect_size = 16, expect_align = 8, expect_offsets = [
      (''tv_sec'', 0), (''tv_nsec'', 8)]\<rparr>"

definition cpu_set_t_layout :: rty where
  "cpu_set_t_layout = Struct None 1 [
      (''__bits'', Array u64_ty 16)]"

definition cpu_set_t_test :: layout_test where
  "cpu_set_t_test = \<lparr>expect_size = 128, expect_align = 8, expect_offsets = [
      (''__bits'', 0)]\<rparr>"

definition pthread_attr_t_layout :: rty where
  "pthread_attr_t_layout = Union 1 [
      (''__size'', Array u8_ty 56), (''__align'', u64_ty),
      (''_bindgen_union_align'', Array u64_ty 7)]"

definition pthread_attr_t_test :: layout_test where
  "pthread_attr_t_test = \<lparr>expect_size = 56, expect_align = 8, expect_offsets = [
      (''__size'', 0), (''__align'', 0)]\<rparr>"

definition IO_FILE_layout :: rty where
  "IO_FILE_layout = Struct None 1 [
      (''_flags'', u32_ty), (''_IO_read_ptr'', Pointer), (''_IO_read_end'', Pointer),
      (''_IO_read_base'', Pointer), (''_IO_write_base'', Pointer), (''_IO_write_ptr'', Pointer),
      (''_IO_write_end'', Pointer), (''_IO_buf_base'', Pointer), (''_IO_buf_end'', Pointer),
      (''_IO_save_base'', Pointer), (''_IO_backup_base'', Pointer), (''_IO_save_end'', Pointer),
      (''_markers'', Pointer), (''_chain'', Pointer), (''_fileno'', u32_ty), (''_flags2'', u32_ty),
      (''_old_offset'', u64_ty), (''_cur_column'', u16_ty), (''_vtable_offset'', u8_ty),
      (''_shortbuf'', Array u8_ty 1), (''_lock'', Pointer), (''_offset'', u64_ty),
      (''_codecvt'', Pointer), (''_wide_data'', Pointer), (''_freeres_list'', Pointer),
      (''_freeres_buf'', Pointer), (''__pad5'', u64_ty), (''_mode'', u32_ty),
      (''_unused2'', Array u8_ty 20)]"

definition IO_FILE_test :: layout_test where
  "IO_FILE_test = \<lparr>expect_size = 216, expect_align = 8, expect_offsets = [
      (''_flags'', 0), (''_IO_read_ptr'', 8), (''_IO_read_end'', 16), (''_IO_read_base'', 24),
      (''_IO_write_base'', 32), (''_IO_write_ptr'', 40), (''_IO_write_end'', 48),
      (''_IO_buf_base'', 56), (''_IO_buf_end'', 64), (''_IO_save_base'', 72),
      (''_IO_backup_base'', 80), (''_IO_save_end'', 88), (''_markers'', 96), (''_chain'', 104),
      (''_fileno'', 112), (''_flags2'', 116), (''_old_offset'', 120), (''_cur_column'', 128),
      (''_vtable_offset'', 130), (''_shortbuf'', 131), (''_lock'', 136), (''_offset'', 144),
      (''_codecvt'', 152), (''_wide_data'', 160), (''_freeres_list'', 168),
      (''_freeres_buf'', 176), (''__pad5'', 184), (''_mode'', 192), (''_unused2'', 196)]\<rparr>"

definition timeval_layout :: rty where
  "timeval_layout = Struct None 1 [
      (''tv_sec'', u64_ty), (''tv_usec'', u64_ty)]"

definition timeval_test :: layout_test where
  "timeval_test = \<lparr>expect_size = 16, expect_align = 8, expect_offsets = [
      (''tv_sec'', 0), (''tv_usec'', 8)]\<rparr>"

definition rte_dev_iterator_layout :: rty where
  "rte_dev_iterator_layout = Struct None 1 [
      (''dev_str'', Pointer), (''bus_str'', Pointer), (''cls_str'', Pointer), (''bus'', Pointer),
      (''cls'', Pointer), (''device'', Pointer), (''class_device'', Pointer)]"

definition rte_dev_iterator_test :: layout_test where
  "rte_dev_iterator_test = \<lparr>expect_size = 56, expect_align = 8, expect_offsets = [
      (''dev_str'', 0), (''bus_str'', 8), (''cls_str'', 16), (''bus'', 24), (''cls'', 32),
      (''device'', 40), (''class_device'', 48)]\<rparr>"

definition rte_xmm_layout :: rty where
  "rte_xmm_layout = Union 16 [
      (''x'', Array u64_ty 2), (''u8'', Array u8_ty 16), (''u16'', Array u16_ty 8),
      (''u32'', Array u32_ty 4), (''u64'', Array u64_ty 2), (''pd'', Array u64_ty 2),
      (''_bindgen_union_align'', Prim 16)]"

definition rte_xmm_test :: layout_test where
  "rte_xmm_test = \<lparr>expect_size = 16, expect_align = 16, expect_offsets = [
      (''x'', 0), (''u8'', 0), (''u16'', 0), (''u32'', 0), (''u64'', 0), (''pd'', 0)]\<rparr>"

definition rte_ymm_layout :: rty where
  "rte_ymm_layout = Union 32 [
      (''y'', Array u64_ty 4), (''x'', Array (Array u64_ty 2) 2), (''u8'', Array u8_ty 32),
      (''u16'', Array u16_ty 16), (''u32'', Array u32_ty 8), (''u64'', Array u64_ty 4),
      (''pd'', Array u64_ty 4), (''_bindgen_union_align'', Array u8_ty 32)]"

definition rte_ymm_test :: layout_test where
  "rte_ymm_test = \<lparr>expect_size = 32, expect_align = 32, expect_offsets = [
      (''y'', 0), (''x'', 0), (''u8'', 0), (''u16'', 0), (''u32'', 0), (''u64'', 0), (''pd'', 0)]\<rparr>"

definition rte_spinlock_recursive_t_layout :: rty where
  "rte_spinlock_recursive_t_layout = Struct None 1 [
      (''sl'', rte_spinlock_t_layout), (''user'', u32_ty), (''count'', u32_ty)]"

definition rte_spinlock_recursive_t_test :: layout_test where
  "rte_spinlock_recursive_t_test = \<lparr>expect_size = 12, expect_align = 4, expect_offsets = [
      (''sl'', 0), (''user'', 4), (''count'', 8)]\<rparr>"

definition rte_atomic32_t_layout :: rty where
  "rte_atomic32_t_layout = Struct None 1 [
      (''cnt'', u32_ty)]"

definition rte_atomic32_t_test :: layout_test where
  "rte_atomic32_t_test = \<lparr>expect_size = 4, expect_align = 4, expect_offsets = [
      (''cnt'', 0)]\<rparr>"

definition rte_atomic64_t_layout :: rty where
  "rte_atomic64_t_layout = Struct None 1 [
      (''cnt'', u64_ty)]"

definition rte_atomic64_t_test :: layout_test where
  "rte_atomic64_t_test = \<lparr>expect_size = 8, expect_align = 8, expect_offsets = [
      (''cnt'', 0)]\<rparr>"

definition rte_int128_t__bindgen_ty_1_layout :: rty where
  "rte_int128_t__bindgen_ty_1_layout = Union 16 [
      (''val'', Array u64_ty 2), (''int128'', Prim 16), (''_bindgen_union_align'', Prim 16)]"

definition rte_int128_t__bindgen_ty_1_test :: layout_test where
  "rte_int128_t__bindgen_ty_1_test = \<lparr>expect_size = 16, expect_align = 16, expect_offsets = [
      (''val'', 0), (''int128'', 0)]\<rparr>"

definition rte_int128_t_layout :: rty where
  "rte_int128_t_layout = Struct None 16 [
      (''__bindgen_anon_1'', rte_int128_t__bindgen_ty_1_layout)]"

definition rte_int128_t_test :: layout_test where
  "rte_int128_t_test = \<lparr>expect_size = 16, expect_align = 16, expect_offsets = []\<rparr>"

definition rte_dev_reg_info_layout :: rty where
  "rte_dev_reg_info_layout = Struct None 1 [
      (''data'', Pointer), (''offset'', u32_ty), (''length'', u32_ty), (''width'', u32_ty),
      (''version'', u32_ty)]"

definition rte_dev_reg_info_test :: layout_test where
  "rte_dev_reg_info_test = \<lparr>expect_size = 24, expect_align = 8, expect_offsets = [
      (''data'', 0), (''offset'', 8), (''length'', 12), (''width'', 16), (''version'', 20)]\<rparr>"

definition rte_dev_eeprom_info_layout :: rty where
  "rte_dev_eeprom_info_layout = Struct None 1 [
      (''data'', Pointer), (''offset'', u32_ty), (''length'', u32_ty), (''magic'', u32_ty)]"

definition rte_dev_eeprom_info_test :: layout_test where
  "rte_dev_eeprom_info_test = \<lparr>expect_size = 24, expect_align = 8, expect_offsets = [
      (''data'', 0), (''offset'', 8), (''length'', 12), (''magic'', 16)]\<rparr>"

definition sockaddr_layout :: rty where
  "sockaddr_layout = Struct None 1 [
      (''sa_family'', u16_ty), (''sa_data'', Array u8_ty 14)]"

definition sockaddr_test :: layout_test where
  "sockaddr_test = \<lparr>expect_size = 16, expect_align = 2, expect_offsets = [
      (''sa_family'', 0), (''sa_data'', 2)]\<rparr>"

definition rte_mbuf_dynfield_layout :: rty where
  "rte_mbuf_dynfield_layout = Struct None 1 [
      (''name'', Array u8_ty 64), (''size'', u64_ty), (''align'', u64_ty), (''flags'', u32_ty)]"

definition rte_mbuf_dynfield_test :: layout_test where
  "rte_mbuf_dynfield_test = \<lparr>expect_size = 88, expect_align = 8, expect_offsets = [
      (''name'', 0), (''size'', 64), (''align'', 72), (''flags'', 80)]\<rparr>"

definition rte_mbuf_dynflag_layout :: rty where
  "rte_mbuf_dynflag_layout = Struct None 1 [
      (''name'', Array u8_ty 64), (''flags'', u32_ty)]"

definition rte_mbuf_dynflag_test :: layout_test where
  "rte_mbuf_dynflag_test = \<lparr>expect_size = 68, expect_align = 4, expect_offsets = [
      (''name'', 0), (''flags'', 64)]\<rparr>"

definition rte_pci_id_layout :: rty where
  "rte_pci_id_layout = Struct None 1 [
      (''class_id'', u32_ty), (''vendor_id'', u16_ty), (''device_id'', u16_ty),
      (''subsystem_vendor_id'', u16_ty), (''subsystem_device_id'', u16_ty)]"

definition rte_pci_id_test :: layout_test where
  "rte_pci_id_test = \<lparr>expect_size = 12, expect_align = 4, expect_offsets = [
      (''class_id'', 0), (''vendor_id'', 4), (''device_id'', 6), (''subsystem_vendor_id'', 8),
      (''subsystem_device_id'', 10)]\<rparr>"

definition rte_pci_addr_layout :: rty where
  "rte_pci_addr_layout = Struct None 1 [
      (''domain'', u32_ty), (''bus'', u8_ty), (''devid'', u8_ty), (''function'', u8_ty)]"

definition rte_pci_addr_test :: layout_test where
  "rte_pci_addr_test = \<lparr>expect_size = 8, expect_align = 4, expect_offsets = [
      (''domain'', 0), (''bus'', 4), (''devid'', 5), (''function'', 6)]\<rparr>"

definition rte_kni_request__bindgen_ty_1_layout :: rty where
  "rte_kni_request__bindgen_ty_1_layout = Union 1 [
      (''new_mtu'', u32_ty), (''if_up'', u8_ty), (''mac_addr'', Array u8_ty 6),
      (''promiscusity'', u8_ty), (''allmulti'', u8_ty), (''_bindgen_union_align'', Array u32_ty 2)]"

definition rte_kni_request__bindgen_ty_1_test :: layout_test where
  "rte_kni_request__bindgen_ty_1_test = \<lparr>expect_size = 8, expect_align = 4, expect_offsets = [
      (''new_mtu'', 0), (''if_up'', 0), (''mac_addr'', 0), (''promiscusity'', 0), (''allmulti'', 0)]\<rparr>"

definition rte_kni_request_layout :: rty where
  "rte_kni_request_layout = Struct (Some 1) 1 [
      (''req_id'', u32_ty), (''__bindgen_anon_1'', rte_kni_request__bindgen_ty_1_layout),
      (''result'', u32_ty)]"

definition rte_kni_request_test :: layout_test where
  "rte_kni_request_test = \<lparr>expect_size = 16, expect_align = 1, expect_offsets = [
      (''req_id'', 0), (''result'', 12)]\<rparr>"

definition rte_kni_fifo_layout :: rty where
  "rte_kni_fifo_layout = Struct None 1 [
      (''write'', u32_ty), (''read'', u32_ty), (''len'', u32_ty), (''elem_size'', u32_ty),
      (''buffer'', IncompleteArrayField Pointer)]"

definition rte_kni_fifo_test :: layout_test where
  "rte_kni_fifo_test = \<lparr>expect_size = 16, expect_align = 8, expect_offsets = []\<rparr>"

definition rte_kni_mbuf_layout :: rty where
  "rte_kni_mbuf_layout = Struct None 64 [
      (''buf_addr'', Pointer), (''buf_physaddr'', u64_ty), (''data_off'', u16_ty),
      (''pad1'', Array u8_ty 2), (''nb_segs'', u16_ty), (''pad4'', Array u8_ty 2),
      (''ol_flags'', u64_ty), (''pad2'', Array u8_ty 4), (''pkt_len'', u32_ty),
      (''data_len'', u16_ty), (''__bindgen_padding_0'', Array u8_ty 22), (''pad3'', Array u8_ty 8),
      (''pool'', Pointer), (''next'', Pointer)]"

definition rte_kni_mbuf_test :: layout_test where
  "rte_kni_mbuf_test = \<lparr>expect_size = 128, expect_align = 64, expect_offsets = [
      (''buf_addr'', 0), (''buf_physaddr'', 8), (''data_off'', 16), (''pad1'', 18),
      (''nb_segs'', 20), (''pad4'', 22), (''ol_flags'', 24), (''pad2'', 32), (''pkt_len'', 36),
      (''data_len'', 40), (''pad3'', 64), (''pool'', 72), (''next'', 80)]\<rparr>"

definition rte_kni_device_info_layout :: rty where
  "rte_kni_device_info_layout = Struct None 1 [
      (''name'', Array u8_ty 16), (''tx_phys'', u64_ty), (''rx_phys'', u64_ty),
      (''alloc_phys'', u64_ty), (''free_phys'', u64_ty), (''req_phys'', u64_ty),
      (''resp_phys'', u64_ty), (''sync_phys'', u64_ty), (''sync_va'', Pointer),
      (''mbuf_va'', Pointer), (''mbuf_phys'', u64_ty), (''group_id'', u16_ty),
      (''core_id'', u32_ty), (''_bitfield_1'', BitfieldUnit 1 u8_ty), (''mbuf_size'', u32_ty),
      (''mtu'', u32_ty), (''min_mtu'', u32_ty), (''max_mtu'', u32_ty),
      (''mac_addr'', Array u8_ty 6), (''iova_mode'', u8_ty)]"

definition rte_kni_device_info_test :: layout_test where
  "rte_kni_device_info_test = \<lparr>expect_size = 136, expect_align = 8, expect_offsets = [
      (''name'', 0), (''tx_phys'', 16), (''rx_phys'', 24), (''alloc_phys'', 32),
      (''free_phys'', 40), (''req_phys'', 48), (''resp_phys'', 56), (''sync_phys'', 64),
      (''sync_va'', 72), (''mbuf_va'', 80), (''mbuf_phys'', 88), (''group_id'', 96),
      (''core_id'', 100), (''mbuf_size'', 108), (''mtu'', 112), (''min_mtu'', 116),
      (''max_mtu'', 120), (''mac_addr'', 124), (''iova_mode'', 130)]\<rparr>"

definition rte_kni_ops_layout :: rty where
  "rte_kni_ops_layout = Struct None 1 [
      (''port_id'', u16_ty), (''change_mtu'', Pointer), (''config_network_if'', Pointer),
      (''config_mac_address'', Pointer), (''config_promiscusity'', Pointer),
      (''config_allmulticast'', Pointer)]"

definition rte_kni_ops_test :: layout_test where
  "rte_kni_ops_test = \<lparr>expect_size = 48, expect_align = 8, expect_offsets = [
      (''port_id'', 0), (''change_mtu'', 8), (''config_network_if'', 16),
      (''config_mac_address'', 24), (''config_promiscusity'', 32), (''config_allmulticast'', 40)]\<rparr>"

definition rte_kni_conf_layout :: rty where
  "rte_kni_conf_layout = Struct None 1 [
      (''name'', Array u8_ty 16), (''core_id'', u32_ty), (''group_id'', u16_ty),
      (''mbuf_size'', u32_ty), (''addr'', rte_pci_addr_layout), (''id'', rte_pci_id_layout),
      (''_bitfield_1'', BitfieldUnit 1 u8_ty), (''mac_addr'', Array u8_ty 6), (''mtu'', u16_ty),
      (''min_mtu'', u16_ty), (''max_mtu'', u16_ty)]"

definition rte_kni_conf_test :: layout_test where
  "rte_kni_conf_test = \<lparr>expect_size = 64, expect_align = 4, expect_offsets = [
      (''name'', 0), (''core_id'', 16), (''group_id'', 20), (''mbuf_size'', 24), (''addr'', 28),
      (''id'', 36), (''mac_addr'', 49), (''mtu'', 56), (''min_mtu'', 58), (''max_mtu'', 60)]\<rparr>"

definition nodemask_t_layout :: rty where
  "nodemask_t_layout = Struct None 1 [
      (''n'', Array u64_ty 2)]"

definition nodemask_t_test :: layout_test where
  "nodemask_t_test = \<lparr>expect_size = 16, expect_align = 8, expect_offsets = [
      (''n'', 0)]\<rparr>"

definition bitmask_layout :: rty where
  "bitmask_layout = Struct None 1 [
      (''size'', u64_ty), (''maskp'', Pointer)]"

definition bitmask_test :: layout_test where
  "bitmask_test = \<lparr>expect_size = 16, expect_align = 8, expect_offsets = [
      (''size'', 0), (''maskp'', 8)]\<rparr>"

definition bpf_program_layout :: rty where
  "bpf_program_layout = Struct None 1 [
      (''bf_len'', u32_ty), (''bf_insns'', Pointer)]"

definition bpf_program_test :: layout_test where
  "bpf_program_test = \<lparr>expect_size = 16, expect_align = 8, expect_offsets = [
      (''bf_len'', 0), (''bf_insns'', 8)]\<rparr>"

definition bpf_insn_layout :: rty where
  "bpf_insn_layout = Struct None 1 [
      (''code'', u16_ty), (''jt'', u8_ty), (''jf'', u8_ty), (''k'', u32_ty)]"

definition bpf_insn_test :: layout_test where
  "bpf_insn_test = \<lparr>expect_size = 8, expect_align = 4, expect_offsets = [
      (''code'', 0), (''jt'', 2), (''jf'', 3), (''k'', 4)]\<rparr>"

definition pcap_file_header_layout :: rty where
  "pcap_file_header_layout = Struct None 1 [
      (''magic'', u32_ty), (''version_major'', u16_ty), (''version_minor'', u16_ty),
      (''thiszone'', u32_ty), (''sigfigs'', u32_ty), (''snaplen'', u32_ty), (''linktype'', u32_ty)]"

definition pcap_file_header_test :: layout_test where
  "pcap_file_header_test = \<lparr>expect_size = 24, expect_align = 4, expect_offsets = [
      (''magic'', 0), (''version_major'', 4), (''version_minor'', 6), (''thiszone'', 8),
      (''sigfigs'', 12), (''snaplen'', 16), (''linktype'', 20)]\<rparr>"

definition pcap_pkthdr_layout :: rty where
  "pcap_pkthdr_layout = Struct None 1 [
      (''ts'', timeval_layout), (''caplen'', u32_ty), (''len'', u32_ty)]"

definition pcap_pkthdr_test :: layout_test where
  "pcap_pkthdr_test = \<lparr>expect_size = 24, expect_align = 8, expect_offsets = [
      (''ts'', 0), (''caplen'', 16), (''len'', 20)]\<rparr>"

definition pcap_stat_layout :: rty where
  "pcap_stat_layout = Struct None 1 [
      (''ps_recv'', u32_ty), (''ps_drop'', u32_ty), (''ps_ifdrop'', u32_ty)]"

definition pcap_stat_test :: layout_test where
  "pcap_stat_test = \<lparr>expect_size = 12, expect_align = 4, expect_offsets = [
      (''ps_recv'', 0), (''ps_drop'', 4), (''ps_ifdrop'', 8)]\<rparr>"

definition pcap_if_layout :: rty where
  "pcap_if_layout = Struct None 1 [
      (''next'', Pointer), (''name'', Pointer), (''description'', Pointer),
      (''addresses'', Pointer), (''flags'', u32_ty)]"

definition pcap_if_test :: layout_test where
  "pcap_if_test = \<lparr>expect_size = 40, expect_align = 8, expect_offsets = [
      (''next'', 0), (''name'', 8), (''description'', 16), (''addresses'', 24), (''flags'', 32)]\<rparr>"

definition pcap_addr_layout :: rty where
  "pcap_addr_layout = Struct None 1 [
      (''next'', Pointer), (''addr'', Pointer), (''netmask'', Pointer), (''broadaddr'', Pointer),
      (''dstaddr'', Pointer)]"

definition pcap_addr_test :: layout_test where
  "pcap_addr_test = \<lparr>expect_size = 40, expect_align = 8, expect_offsets = [
      (''next'', 0), (''addr'', 8), (''netmask'', 16), (''broadaddr'', 24), (''dstaddr'', 32)]\<rparr>"

definition va_list_tag_layout :: rty where
  "va_list_tag_layout = Struct None 1 [
      (''gp_offset'', u32_ty), (''fp_offset'', u32_ty), (''overflow_arg_area'', Pointer),
      (''reg_save_area'', Pointer)]"

definition va_list_tag_test :: layout_test where
  "va_list_tag_test = \<lparr>expect_size = 24, expect_align = 8, expect_offsets = [
      (''gp_offset'', 0), (''fp_offset'', 4), (''overflow_arg_area'', 8), (''reg_save_area'', 16)]\<rparr>"

definition misc_tests :: "(rty \<times> layout_test) list" where
  "misc_tests =
    [(timespec_layout, timespec_test),
     (cpu_set_t_layout, cpu_set_t_test),
     (pthread_attr_t_layout, pthread_attr_t_test),
     (IO_FILE_layout, IO_FILE_test),
     (timeval_layout, timeval_test),
     (rte_dev_iterator_layout, rte_dev_iterator_test),
     (rte_xmm_layout, rte_xmm_test),
     (rte_ymm_layout, rte_ymm_test),
     (rte_spinlock_recursive_t_layout, rte_spinlock_recursive_t_test),
     (rte_atomic32_t_layout, rte_atomic32_t_test),
     (rte_atomic64_t_layout, rte_atomic64_t_test),
     (rte_int128_t__bindgen_ty_1_layout, rte_int128_t__bindgen_ty_1_test),
     (rte_int128_t_layout, rte_int128_t_test),
     (rte_dev_reg_info_layout, rte_dev_reg_info_test),
     (rte_dev_eeprom_info_layout, rte_dev_eeprom_info_test),
     (sockaddr_layout, sockaddr_test),
     (rte_mbuf_dynfield_layout, rte_mbuf_dynfield_test),
     (rte_mbuf_dynflag_layout, rte_mbuf_dynflag_test),
     (rte_pci_id_layout, rte_pci_id_test),
     (rte_pci_addr_layout, rte_pci_addr_test),
     (rte_kni_request__bindgen_ty_1_layout, rte_kni_request__bindgen_ty_1_test),
     (rte_kni_request_layout, rte_kni_request_test),
     (rte_kni_fifo_layout, rte_kni_fifo_test),
     (rte_kni_mbuf_layout, rte_kni_mbuf_test),
     (rte_kni_device_info_layout, rte_kni_device_info_test),
     (rte_kni_ops_layout, rte_kni_ops_test),
     (rte_kni_conf_layout, rte_kni_conf_test),
     (nodemask_t_layout, nodemask_t_test),
     (bitmask_layout, bitmask_test),
     (bpf_program_layout, bpf_program_test),
     (bpf_insn_layout, bpf_insn_test),
     (pcap_file_header_layout, pcap_file_header_test),
     (pcap_pkthdr_layout, pcap_pkthdr_test),
     (pcap_stat_layout, pcap_stat_test),
     (pcap_if_layout, pcap_if_test),
     (pcap_addr_layout, pcap_addr_test),
     (va_list_tag_layout, va_list_tag_test)]"

lemma timespec_passes [layout_passes]:
  "layout_test_passes timespec_layout timespec_test"
  "wf_ty timespec_layout"
  by (simp_all add: layout_simps timespec_layout_def
      timespec_test_def del: One_nat_def)

lemmas timespec_facts [layout_simps] =
  layout_test_passesD [OF timespec_passes(1)]
  timespec_passes(2) timespec_test_def

lemma cpu_set_t_passes [layout_passes]:
  "layout_test_passes cpu_set_t_layout cpu_set_t_test"
  "wf_ty cpu_set_t_layout"
  by (simp_all add: layout_simps cpu_set_t_layout_def
      cpu_set_t_test_def del: One_nat_def)

lemmas cpu_set_t_facts [layout_simps] =
  layout_test_passesD [OF cpu_set_t_passes(1)]
  cpu_set_t_passes(2) cpu_set_t_test_def

lemma pthread_attr_t_passes [layout_passes]:
  "layout_test_passes pthread_attr_t_layout pthread_attr_t_test"
  "wf_ty pthread_attr_t_layout"
  by (simp_all add: layout_simps pthread_attr_t_layout_def
      pthread_attr_t_test_def del: One_nat_def)

lemmas pthread_attr_t_facts [layout_simps] =
  layout_test_passesD [OF pthread_attr_t_passes(1)]
  pthread_attr_t_passes(2) pthread_attr_t_test_def

lemma IO_FILE_passes [layout_passes]:
  "layout_test_passes IO_FILE_layout IO_FILE_test"
  "wf_ty IO_FILE_layout"
  by (simp_all add: layout_simps IO_FILE_layout_def
      IO_FILE_test_def del: One_nat_def)

lemmas IO_FILE_facts [layout_simps] =
  layout_test_passesD [OF IO_FILE_passes(1)]
  IO_FILE_passes(2) IO_FILE_test_def

lemma timeval_passes [layout_passes]:
  "layout_test_passes timeval_layout timeval_test"
  "wf_ty timeval_layout"
  by (simp_all add: layout_simps timeval_layout_def
      timeval_test_def del: One_nat_def)

lemmas timeval_facts [layout_simps] =
  layout_test_passesD [OF timeval_passes(1)]
  timeval_passes(2) timeval_test_def

lemma rte_dev_iterator_passes [layout_passes]:
  "layout_test_passes rte_dev_iterator_layout rte_dev_iterator_test"
  "wf_ty rte_dev_iterator_layout"
  by (simp_all add: layout_simps rte_dev_iterator_layout_def
      rte_dev_iterator_test_def del: One_nat_def)

lemmas rte_dev_iterator_facts [layout_simps] =
  layout_test_passesD [OF rte_dev_iterator_passes(1)]
  rte_dev_iterator_passes(2) rte_dev_iterator_test_def

lemma rte_xmm_passes [layout_passes]:
  "layout_test_passes rte_xmm_layout rte_xmm_test"
  "wf_ty rte_xmm_layout"
  by (simp_all add: layout_simps rte_xmm_layout_def
      rte_xmm_test_def del: One_nat_def)

lemmas rte_xmm_facts [layout_simps] =
  layout_test_passesD [OF rte_xmm_passes(1)]
  rte_xmm_passes(2) rte_xmm_test_def

lemma rte_ymm_passes [layout_passes]:
  "layout_test_passes rte_ymm_layout rte_ymm_test"
  "wf_ty rte_ymm_layout"
  by (simp_all add: layout_simps rte_ymm_layout_def
      rte_ymm_test_def del: One_nat_def)

lemmas rte_ymm_facts [layout_simps] =
  layout_test_passesD [OF rte_ymm_passes(1)]
  rte_ymm_passes(2) rte_ymm_test_def

lemma rte_spinlock_recursive_t_passes [layout_passes]:
  "layout_test_passes rte_spinlock_recursive_t_layout rte_spinlock_recursive_t_test"
  "wf_ty rte_spinlock_recursive_t_layout"
  by (simp_all add: layout_simps rte_spinlock_recursive_t_layout_def
      rte_spinlock_recursive_t_test_def del: One_nat_def)

lemmas rte_spinlock_recursive_t_facts [layout_simps] =
  layout_test_passesD [OF rte_spinlock_recursive_t_passes(1)]
  rte_spinlock_recursive_t_passes(2) rte_spinlock_recursive_t_test_def

lemma rte_atomic32_t_passes [layout_passes]:
  "layout_test_passes rte_atomic32_t_layout rte_atomic32_t_test"
  "wf_ty rte_atomic32_t_layout"
  by (simp_all add: layout_simps rte_atomic32_t_layout_def
      rte_atomic32_t_test_def del: One_nat_def)

lemmas rte_atomic32_t_facts [layout_simps] =
  layout_test_passesD [OF rte_atomic32_t_passes(1)]
  rte_atomic32_t_passes(2) rte_atomic32_t_test_def

lemma rte_atomic64_t_passes [layout_passes]:
  "layout_test_passes rte_atomic64_t_layout rte_atomic64_t_test"
  "wf_ty rte_atomic64_t_layout"
  by (simp_all add: layout_simps rte_atomic64_t_layout_def
      rte_atomic64_t_test_def del: One_nat_def)

lemmas rte_atomic64_t_facts [layout_simps] =
  layout_test_passesD [OF rte_atomic64_t_passes(1)]
  rte_atomic64_t_passes(2) rte_atomic64_t_test_def

lemma rte_int128_t__bindgen_ty_1_passes [layout_passes]:
  "layout_test_passes rte_int128_t__bindgen_ty_1_layout rte_int128_t__bindgen_ty_1_test"
  "wf_ty rte_int128_t__bindgen_ty_1_layout"
  by (simp_all add: layout_simps rte_int128_t__bindgen_ty_1_layout_def
      rte_int128_t__bindgen_ty_1_test_def del: One_nat_def)

lemmas rte_int128_t__bindgen_ty_1_facts [layout_simps] =
  layout_test_passesD [OF rte_int128_t__bindgen_ty_1_passes(1)]
  rte_int128_t__bindgen_ty_1_passes(2) rte_int128_t__bindgen_ty_1_test_def

lemma rte_int128_t_passes [layout_passes]:
  "layout_test_passes rte_int128_t_layout rte_int128_t_test"
  "wf_ty rte_int128_t_layout"
  by (simp_all add: layout_simps rte_int128_t_layout_def
      rte_int128_t_test_def del: One_nat_def)

lemmas rte_int128_t_facts [layout_simps] =
  layout_test_passesD [OF rte_int128_t_passes(1)]
  rte_int128_t_passes(2) rte_int128_t_test_def

lemma rte_dev_reg_info_passes [layout_passes]:
  "layout_test_passes rte_dev_reg_info_layout rte_dev_reg_info_test"
  "wf_ty rte_dev_reg_info_layout"
  by (simp_all add: layout_simps rte_dev_reg_info_layout_def
      rte_dev_reg_info_test_def del: One_nat_def)

lemmas rte_dev_reg_info_facts [layout_simps] =
  layout_test_passesD [OF rte_dev_reg_info_passes(1)]
  rte_dev_reg_info_passes(2) rte_dev_reg_info_test_def

lemma rte_dev_eeprom_info_passes [layout_passes]:
  "layout_test_passes rte_dev_eeprom_info_layout rte_dev_eeprom_info_test"
  "wf_ty rte_dev_eeprom_info_layout"
  by (simp_all add: layout_simps rte_dev_eeprom_info_layout_def
      rte_dev_eeprom_info_test_def del: One_nat_def)

lemmas rte_dev_eeprom_info_facts [layout_simps] =
  layout_test_passesD [OF rte_dev_eeprom_info_passes(1)]
  rte_dev_eeprom_info_passes(2) rte_dev_eeprom_info_test_def

lemma sockaddr_passes [layout_passes]:
  "layout_test_passes sockaddr_layout sockaddr_test"
  "wf_ty sockaddr_layout"
  by (simp_all add: layout_simps sockaddr_layout_def
      sockaddr_test_def del: One_nat_def)

lemmas sockaddr_facts [layout_simps] =
  layout_test_passesD [OF sockaddr_passes(1)]
  sockaddr_passes(2) sockaddr_test_def

lemma rte_mbuf_dynfield_passes [layout_passes]:
  "layout_test_passes rte_mbuf_dynfield_layout rte_mbuf_dynfield_test"
  "wf_ty rte_mbuf_dynfield_layout"
  by (simp_all add: layout_simps rte_mbuf_dynfield_layout_def
      rte_mbuf_dynfield_test_def del: One_nat_def)

lemmas rte_mbuf_dynfield_facts [layout_simps] =
  layout_test_passesD [OF rte_mbuf_dynfield_passes(1)]
  rte_mbuf_dynfield_passes(2) rte_mbuf_dynfield_test_def

lemma rte_mbuf_dynflag_passes [layout_passes]:
  "layout_test_passes rte_mbuf_dynflag_layout rte_mbuf_dynflag_test"
  "wf_ty rte_mbuf_dynflag_layout"
  by (simp_all add: layout_simps rte_mbuf_dynflag_layout_def
      rte_mbuf_dynflag_test_def del: One_nat_def)

lemmas rte_mbuf_dynflag_facts [layout_simps] =
  layout_test_passesD [OF rte_mbuf_dynflag_passes(1)]
  rte_mbuf_dynflag_passes(2) rte_mbuf_dynflag_test_def

lemma rte_pci_id_passes [layout_passes]:
  "layout_test_passes rte_pci_id_layout rte_pci_id_test"
  "wf_ty rte_pci_id_layout"
  by (simp_all add: layout_simps rte_pci_id_layout_def
      rte_pci_id_test_def del: One_nat_def)

lemmas rte_pci_id_facts [layout_simps] =
  layout_test_passesD [OF rte_pci_id_passes(1)]
  rte_pci_id_passes(2) rte_pci_id_test_def

lemma rte_pci_addr_passes [layout_passes]:
  "layout_test_passes rte_pci_addr_layout rte_pci_addr_test"
  "wf_ty rte_pci_addr_layout"
  by (simp_all add: layout_simps rte_pci_addr_layout_def
      rte_pci_addr_test_def del: One_nat_def)

lemmas rte_pci_addr_facts [layout_simps] =
  layout_test_passesD [OF rte_pci_addr_passes(1)]
  rte_pci_addr_passes(2) rte_pci_addr_test_def

lemma rte_kni_request__bindgen_ty_1_passes [layout_passes]:
  "layout_test_passes rte_kni_request__bindgen_ty_1_layout rte_kni_request__bindgen_ty_1_test"
  "wf_ty rte_kni_request__bindgen_ty_1_layout"
  by (simp_all add: layout_simps rte_kni_request__bindgen_ty_1_layout_def
      rte_kni_request__bindgen_ty_1_test_def del: One_nat_def)

lemmas rte_kni_request__bindgen_ty_1_facts [layout_simps] =
  layout_test_passesD [OF rte_kni_request__bindgen_ty_1_passes(1)]
  rte_kni_request__bindgen_ty_1_passes(2) rte_kni_request__bindgen_ty_1_test_def

lemma rte_kni_request_passes [layout_passes]:
  "layout_test_passes rte_kni_request_layout rte_kni_request_test"
  "wf_ty rte_kni_request_layout"
  by (simp_all add: layout_simps rte_kni_request_layout_def
      rte_kni_request_test_def del: One_nat_def)

lemmas rte_kni_request_facts [layout_simps] =
  layout_test_passesD [OF rte_kni_request_passes(1)]
  rte_kni_request_passes(2) rte_kni_request_test_def

lemma rte_kni_fifo_passes [layout_passes]:
  "layout_test_passes rte_kni_fifo_layout rte_kni_fifo_test"
  "wf_ty rte_kni_fifo_layout"
  by (simp_all add: layout_simps rte_kni_fifo_layout_def
      rte_kni_fifo_test_def del: One_nat_def)

lemmas rte_kni_fifo_facts [layout_simps] =
  layout_test_passesD [OF rte_kni_fifo_passes(1)]
  rte_kni_fifo_passes(2) rte_kni_fifo_test_def

lemma rte_kni_mbuf_passes [layout_passes]:
  "layout_test_passes rte_kni_mbuf_layout rte_kni_mbuf_test"
  "wf_ty rte_kni_mbuf_layout"
  by (simp_all add: layout_simps rte_kni_mbuf_layout_def
      rte_kni_mbuf_test_def del: One_nat_def)

lemmas rte_kni_mbuf_facts [layout_simps] =
  layout_test_passesD [OF rte_kni_mbuf_passes(1)]
  rte_kni_mbuf_passes(2) rte_kni_mbuf_test_def

lemma rte_kni_device_info_passes [layout_passes]:
  "layout_test_passes rte_kni_device_info_layout rte_kni_device_info_test"
  "wf_ty rte_kni_device_info_layout"
  by (simp_all add: layout_simps rte_kni_device_info_layout_def
      rte_kni_device_info_test_def del: One_nat_def)

lemmas rte_kni_device_info_facts [layout_simps] =
  layout_test_passesD [OF rte_kni_device_info_passes(1)]
  rte_kni_device_info_passes(2) rte_kni_device_info_test_def

lemma rte_kni_ops_passes [layout_passes]:
  "layout_test_passes rte_kni_ops_layout rte_kni_ops_test"
  "wf_ty rte_kni_ops_layout"
  by (simp_all add: layout_simps rte_kni_ops_layout_def
      rte_kni_ops_test_def del: One_nat_def)

lemmas rte_kni_ops_facts [layout_simps] =
  layout_test_passesD [OF rte_kni_ops_passes(1)]
  rte_kni_ops_passes(2) rte_kni_ops_test_def

lemma rte_kni_conf_passes [layout_passes]:
  "layout_test_passes rte_kni_conf_layout rte_kni_conf_test"
  "wf_ty rte_kni_conf_layout"
  by (simp_all add: layout_simps rte_kni_conf_layout_def
      rte_kni_conf_test_def del: One_nat_def)

lemmas rte_kni_conf_facts [layout_simps] =
  layout_test_passesD [OF rte_kni_conf_passes(1)]
  rte_kni_conf_passes(2) rte_kni_conf_test_def

lemma nodemask_t_passes [layout_passes]:
  "layout_test_passes nodemask_t_layout nodemask_t_test"
  "wf_ty nodemask_t_layout"
  by (simp_all add: layout_simps nodemask_t_layout_def
      nodemask_t_test_def del: One_nat_def)

lemmas nodemask_t_facts [layout_simps] =
  layout_test_passesD [OF nodemask_t_passes(1)]
  nodemask_t_passes(2) nodemask_t_test_def

lemma bitmask_passes [layout_passes]:
  "layout_test_passes bitmask_layout bitmask_test"
  "wf_ty bitmask_layout"
  by (simp_all add: layout_simps bitmask_layout_def
      bitmask_test_def del: One_nat_def)

lemmas bitmask_facts [layout_simps] =
  layout_test_passesD [OF bitmask_passes(1)]
  bitmask_passes(2) bitmask_test_def

lemma bpf_program_passes [layout_passes]:
  "layout_test_passes bpf_program_layout bpf_program_test"
  "wf_ty bpf_program_layout"
  by (simp_all add: layout_simps bpf_program_layout_def
      bpf_program_test_def del: One_nat_def)

lemmas bpf_program_facts [layout_simps] =
  layout_test_passesD [OF bpf_program_passes(1)]
  bpf_program_passes(2) bpf_program_test_def

lemma bpf_insn_passes [layout_passes]:
  "layout_test_passes bpf_insn_layout bpf_insn_test"
  "wf_ty bpf_insn_layout"
  by (simp_all add: layout_simps bpf_insn_layout_def
      bpf_insn_test_def del: One_nat_def)

lemmas bpf_insn_facts [layout_simps] =
  layout_test_passesD [OF bpf_insn_passes(1)]
  bpf_insn_passes(2) bpf_insn_test_def

lemma pcap_file_header_passes [layout_passes]:
  "layout_test_passes pcap_file_header_layout pcap_file_header_test"
  "wf_ty pcap_file_header_layout"
  by (simp_all add: layout_simps pcap_file_header_layout_def
      pcap_file_header_test_def del: One_nat_def)

lemmas pcap_file_header_facts [layout_simps] =
  layout_test_passesD [OF pcap_file_header_passes(1)]
  pcap_file_header_passes(2) pcap_file_header_test_def

lemma pcap_pkthdr_passes [layout_passes]:
  "layout_test_passes pcap_pkthdr_layout pcap_pkthdr_test"
  "wf_ty pcap_pkthdr_layout"
  by (simp_all add: layout_simps pcap_pkthdr_layout_def
      pcap_pkthdr_test_def del: One_nat_def)

lemmas pcap_pkthdr_facts [layout_simps] =
  layout_test_passesD [OF pcap_pkthdr_passes(1)]
  pcap_pkthdr_passes(2) pcap_pkthdr_test_def

lemma pcap_stat_passes [layout_passes]:
  "layout_test_passes pcap_stat_layout pcap_stat_test"
  "wf_ty pcap_stat_layout"
  by (simp_all add: layout_simps pcap_stat_layout_def
      pcap_stat_test_def del: One_nat_def)

lemmas pcap_stat_facts [layout_simps] =
  layout_test_passesD [OF pcap_stat_passes(1)]
  pcap_stat_passes(2) pcap_stat_test_def

lemma pcap_if_passes [layout_passes]:
  "layout_test_passes pcap_if_layout pcap_if_test"
  "wf_ty pcap_if_layout"
  by (simp_all add: layout_simps pcap_if_layout_def
      pcap_if_test_def del: One_nat_def)

lemmas pcap_if_facts [layout_simps] =
  layout_test_passesD [OF pcap_if_passes(1)]
  pcap_if_passes(2) pcap_if_test_def

lemma pcap_addr_passes [layout_passes]:
  "layout_test_passes pcap_addr_layout pcap_addr_test"
  "wf_ty pcap_addr_layout"
  by (simp_all add: layout_simps pcap_addr_layout_def
      pcap_addr_test_def del: One_nat_def)

lemmas pcap_addr_facts [layout_simps] =
  layout_test_passesD [OF pcap_addr_passes(1)]
  pcap_addr_passes(2) pcap_addr_test_def

lemma va_list_tag_passes [layout_passes]:
  "layout_test_passes va_list_tag_layout va_list_tag_test"
  "wf_ty va_list_tag_layout"
  by (simp_all add: layout_simps va_list_tag_layout_def
      va_list_tag_test_def del: One_nat_def)

lemmas va_list_tag_facts [layout_simps] =
  layout_test_passesD [OF va_list_tag_passes(1)]
  va_list_tag_passes(2) va_list_tag_test_def

text \<open>
  The layout computed by the C rules for the remaining bindings is the one the generated
  tests assert, and the types are well-formed.
\<close>

lemma misc_layout_tests_pass [layout_tests_pass]:
  "list_all (\<lambda>(t, e). layout_test_passes t e \<and> wf_ty t) misc_tests"
  by (simp add: misc_tests_def layout_passes)

end
