(* ===== verification/Spec2Isabelle.thy ===== *)
theory Spec2Isabelle
  imports Startup Forwarding Server Sockets BuildScript ShimText Bitfield_Dev
    Bitfield_Flow Layouts_Filter Layouts_Misc
begin

text \<open>
  A verification library for the l3 engine: a packet engine on DPDK that receives Ethernet frames
  from a NIC, hands them over shared-memory rings to a second process, the packetiser, and lets
  the packetiser route them to clients.

  \<^bold>\<open>The program.\<close> The crate \<^verbatim>\<open>dpdk-sys\<close> has generated bindings (\<^verbatim>\<open>bindings_rustdoc.rs\<close>), a C shim
  around DPDK's inline functions (\<^verbatim>\<open>shim.c\<close>) and a build script. The crate \<^verbatim>\<open>l3enginelib\<close> wraps
  DPDK (\<^verbatim>\<open>apis\<close>: packet buffers, memory pools, memory zones, rings and client channels, ports),
  reads headers (\<^verbatim>\<open>net\<close>) and holds the engine process (\<^verbatim>\<open>main.rs\<close>, \<^verbatim>\<open>rxbin.rs\<close>, \<^verbatim>\<open>txbin.rs\<close>) with an ARP
  server (\<^verbatim>\<open>server.rs\<close>). The crate \<^verbatim>\<open>l3enginepacketiser\<close> is the second process: the packetiser
  with its routing table, and an emulated device for a TCP/IP stack. The engine creates a channel
  (two rings) for the packetiser under the client id 1; the packetiser looks both rings up by name
  and creates channels of the same kind for its own clients.

  \<^bold>\<open>Outcomes and state.\<close> Code that changes state is a function from a state to an outcome
  (\<open>Prelude\<close>): a value with a new state, a Rust panic or undefined behaviour (\<open>Fault\<close>, with its
  kind), a process exit, or running out of loop fuel. Machine integers are words, or naturals with
  the wrap-around written out; the flag \<open>oc\<close> says whether overflow checks are compiled in.
  \<open>Result\<close> is a sum type with the error on the left. A packet buffer is an address into the memory
  of the \<open>world\<close> of a process, which also holds DPDK's errno and DPDK's own state.

  \<^bold>\<open>DPDK and other libraries.\<close> DPDK, \<open>SegQueue\<close>, \<open>CHashMap\<close>, pnet and smoltcp are not part of the
  repository: they are parameters, records of functions (\<open>Dpdk\<close>, \<open>Contracts\<close>, \<open>Server\<close>, \<open>Sockets\<close>),
  and the locales \<open>ring_api\<close>, \<open>pool_api\<close>, \<open>nic_api\<close>, \<open>dpdk_env\<close>, \<open>eth_api\<close>, \<open>seg_queue\<close>,
  \<open>chash_map\<close>, \<open>pnet_api\<close> and \<open>smoltcp_api\<close> state the documented behaviour that the code relies on, over an
  abstract view of DPDK's state (rings as bounded lists of pointers with names, pools as numbers
  of free buffers). \<open>Reference_Dpdk\<close> gives an executable model of DPDK and the containers (\<open>Server\<close> and
  \<open>Sockets\<close> one of pnet and smoltcp), on which every locale is interpreted, so that the laws are
  consistent; every property with such a hypothesis has a witness that runs on this model. The locales \<open>client_map_env\<close>, \<open>engine_env\<close>, \<open>routing_env\<close> and
  \<open>packetiser_env\<close> combine these contracts for the components and carry their lemmas; \<open>system_env\<close>
  combines the last two for the processes together.

  \<^bold>\<open>Theories.\<close>
  \<^item> \<open>Apis\<close>: \<^verbatim>\<open>apis/mod.rs\<close>, the errors, \<open>eal_init\<close>, \<open>eal_cleanup\<close>, \<open>mbuf_free_bulk\<close>. All buffers
    of a bulk go to the pool of the first.
  \<^item> \<open>Mbuf\<close>: \<^verbatim>\<open>apis/mbuf.rs\<close>, on the bytes of the buffer. Memory safety of every sequence of
    calls, insert and remove as a round trip, \<open>from_bytes\<close> on success and on failure.
  \<^item> \<open>Pools\<close>: \<^verbatim>\<open>apis/mempool.rs\<close> and \<^verbatim>\<open>apis/memzone.rs\<close>.
  \<^item> \<open>Memring\<close>: \<^verbatim>\<open>apis/memring.rs\<close>, rings, channels, the client map. Creation and lookup, FIFO
    sending as a refinement of an abstract queue, adding a client as a transaction, its inverse, the
    outcomes of \<open>send\<close>, and what dequeueing and bulk enqueueing lose.
  \<^item> \<open>Port\<close>: \<^verbatim>\<open>apis/port.rs\<close>. The configuration and the ownership of sent packets.
  \<^item> \<open>Shim\<close> and \<open>Net\<close>: \<^verbatim>\<open>shim.c\<close> and \<^verbatim>\<open>net\<close>, on the bytes of a frame. Which headers are found and
    where, the bytes of an ARP response, the ICMP checksum, the IPv4 addresses. \<open>ShimText\<close>: printing
    and reading the text of an address, a round trip.
  \<^item> \<open>Engine\<close>: \<^verbatim>\<open>main.rs\<close>, \<^verbatim>\<open>rxbin.rs\<close>, \<^verbatim>\<open>txbin.rs\<close>. The invariant of the main loop, what one
    iteration delivers, what no number of iterations delivers, and how the process ends.
  \<^item> \<open>Routing\<close> and \<open>Packetiser\<close>: \<^verbatim>\<open>packetiser/mod.rs\<close> and the packetiser's \<^verbatim>\<open>main.rs\<close>. The operations
    are also the steps of a transition relation \<open>pk_step\<close>, over which the invariant of the client ids
    is proved for builds with overflow checks; without them the ids wrap around. The poll of the
    sockets is part of the main loop (\<open>beside\<close>), with a state of its own.
  \<^item> \<open>Forwarding\<close>: the packetiser's traffic with its clients. \<open>forward_incoming_packets\<close> implements an
    abstract routing of the queue to the clients' rings, by the octets of the destination in reverse
    order, which is how the code reads them; it panics on a packet without a client;
    what \<open>store_outgoing\<close> collects, and when it starves itself.
  \<^item> \<open>System\<close>: the two main loops on the same memory, as a transition relation \<open>sys_step\<close>. A step is one
    of the four operations of the engine's loop, in the order of the loop (\<open>engine_op\<close>, which composes
    to \<open>engine_iteration\<close>), or a \<open>packetiser_iteration\<close> with the poll of the sockets in it; both loops
    are running, so the end of the packetiser and its destructors are not steps. Two histories are
    kept beside the state: the frames the engine kept, and the packets seen to leave the ring. The
    ownership of the buffers between the processes is an invariant; the two loops refine an abstract
    bounded link, from which the order of the packets follows; each next step returns unless the
    poll does not; and every frame the engine keeps and every buffer the packetiser queues stays
    allocated.
  \<^item> \<open>Startup\<close>: the engine's \<open>main_setup\<close> followed by \<open>Packetiser_new\<close>. The packetiser finds the channel
    the engine made for it, and the two are then in a state from which \<open>System\<close> starts.
  \<^item> \<open>Server\<close>: \<^verbatim>\<open>server.rs\<close>; \<open>Device\<close> and \<open>Sockets\<close>: \<^verbatim>\<open>net/device.rs\<close> and
    \<^verbatim>\<open>net/tcp.rs\<close>, the device that carries nothing, the panics of the constructors, and the poll, which
    panics exactly when that of the interface does; \<open>BuildScript\<close>: \<^verbatim>\<open>build.rs\<close>.
  \<^item> \<open>Bitfield\<close>: the bit field unit of the bindings and the accessors of \<open>rte_mbuf\<close>, with the locale
    \<open>bitfield\<close> interpreted for each field; \<open>Bitfield_Dev\<close> and \<open>Bitfield_Flow\<close>: the accessors of the Ethernet
    device types and of all other types with bit fields. What is built from fields reads back truncated to their widths, and a write leaves the other
    fields alone.
  \<^item> \<open>Layout\<close>: the \<open>repr(C)\<close> layout rules; \<open>Layouts_Mem\<close>, \<open>Layouts_Eth\<close> and \<open>Layouts_Net\<close>: the 64
    types that the program exchanges with DPDK; \<open>Layouts_Pool\<close>, \<open>Layouts_Dev\<close> and \<open>Layouts_Eal\<close>: 57
    types behind them (the inside of pools, the device objects that the inline burst functions of
    the shim go through, the buses and devices of the EAL); \<open>Layouts_Flow\<close>, \<open>Layouts_Filter\<close> and
    \<open>Layouts_Misc\<close>: the other 174 types that have a generated test. Each stands with the values its
    test asserts.
  \<^item> This theory: more properties that span components. Packets do not survive the way between
    the processes; the bindings and the C layout agree; headers are read at the offsets of the
    bindings.

  \<^bold>\<open>Loops and fuel.\<close> Loops over a list or a counter are structural. The loops that empty a queue run
  with one unit of fuel more than the queue has entries, and the lemmas on them show that this is
  enough. A loop on the flag of the signal handler runs for a given number of iterations, and the
  theorems hold for every number. The wait of the debug build runs with arbitrary fuel, and no
  amount is enough. The ZeroMQ handshake is a parameter: its results.

  \<^bold>\<open>Not modelled.\<close> Logging, printing and \<open>Debug\<close> output; the drops that run while a panic unwinds;
  the accessors that only convert between \<open>Mbuf\<close>, \<open>Ring\<close>, \<open>Mempool\<close> and raw pointers, which are the
  identity on addresses here; interleavings of the two processes inside one operation of the engine's
  loop or one iteration of the packetiser's; the ICMP macros, which nothing uses; the caches of
  a memory pool, which has one number of free buffers here; \<open>bind\<close> of the build script, which runs
  the C compiler and bindgen; of
  the bindings, the constants and type aliases that the program does not use and the declarations of
  foreign functions; the helper scripts and tests.
\<close>

section \<open>The way of a packet\<close>

text \<open>
  C9: Packets do not survive the way from the NIC to the packetiser's queue. After an iteration of
  the engine, let the packetiser receive a burst over the shared channel: as many entries leave
  the ring as the packetiser could allocate buffers for, and its incoming queue grows by as many
  buffers, but all of them are empty and none is a packet the engine delivered. Those packets
  stay allocated outside every ring and queue.
\<close>

theorem delivered_packets_never_queued:
  fixes C :: "('m, u16, Channel) chm" and s :: "('q, 'm, 'x) engine"
    and pk :: "('q, 'm, 'i, 'd, 'x) Packetiser"
  assumes "engine_env D view C entries Q items" and "packetiser_env D view C entries Q items"
    and "engine_inv view entries items ch q0 s"
    and e: "e = ring_raw (engine_to_client ch)" "v_rings (view (ext (wld s))) e = Some q"
    and live: "\<forall>p \<in> set (q @ items (TO_PACKETISER s)). mem (wld s) p \<noteq> None"
    and it: "engine_iteration C D Q (port # ports) s = Ret () s'"
    and pk: "pk_wld pk = wld s'" "channel pk = ch"
    and avail: "0 < v_avail (view (ext (wld s'))) (mempool pk)"
  shows "\<exists>ring bufs pk'. v_rings (view (ext (wld s'))) e = Some ring \<and>
     Packetiser_recv_from_engine_burst D Q b pk = Ret (Inr (length bufs)) pk' \<and>
     length bufs = min (min (BURST_MAX b) (v_avail (view (ext (wld s'))) (mempool pk))) (length ring) \<and>
     v_rings (view (ext (pk_wld pk'))) e = Some (drop (length bufs) ring) \<and>
     items (i_bufqueue pk') = items (i_bufqueue pk) @ bufs \<and> set bufs \<inter> set ring = {} \<and>
     (\<forall>p \<in> set bufs. \<exists>m. mem (pk_wld pk') p = Some m \<and> mb_data m = []) \<and>
     (\<forall>p \<in> set ring. mem (pk_wld pk') p = mem (wld s') p \<and> mem (wld s') p \<noteq> None)"
proof -
  let ?n = "min (BURST_MAX b) (v_avail (view (ext (wld s'))) (mempool pk))"
  obtain ps and w1 :: "'x world" and s'' where "engine_iteration C D Q (port # ports) s = Ret () s''"
      and y: "engine_inv view entries items ch q0 s''"
      "v_rings (view (ext (wld s''))) e = Some (q @ take (v_cap (view (ext (wld s))) e - length q)
         (items (TO_PACKETISER s) @ filter (kept w1) ps))"
      "\<forall>p \<in> set ps. mem (wld s) p = None \<and> mem (wld s'') p = (if kept w1 p then mem w1 p else None)"
      "\<forall>p. p \<notin> set ps \<longrightarrow> mem (wld s'') p = mem (wld s) p"
    using engine_env.engine_iteration_spec [OF assms(1,3) e refl, of port ports] by blast
  with it have s'': "s'' = s'" by simp
  note x = y [unfolded s'']
  define ring where "ring = q @ take (v_cap (view (ext (wld s))) e - length q)
      (items (TO_PACKETISER s) @ filter (kept w1) ps)"
  have alloc: "mem (wld s') p \<noteq> None" if "p \<in> set ring" for p
  proof -
    from that have "p \<in> set (q @ items (TO_PACKETISER s)) \<or> p \<in> set ps \<and> kept w1 p"
      unfolding ring_def by (auto dest!: in_set_takeD simp del: take_append)
    moreover have "mem w1 p \<noteq> None" if "kept w1 p" using that by (auto simp: kept_def split: option.splits)
    ultimately show ?thesis using x(3,4) live by metis
  qed
  have fin: "finite (dom (mem (pk_wld pk)))" using x(1) pk by (simp add: engine_inv_def)
  obtain bufs pk' where r: "Packetiser_recv_from_engine_burst D Q b pk = Ret (Inr (min ?n (length ring))) pk'"
      "length bufs = min ?n (length ring)" "items (i_bufqueue pk') = items (i_bufqueue pk) @ bufs"
      "\<forall>p \<in> set bufs. mem (wld s') p = None \<and> (\<exists>m. mem (pk_wld pk') p = Some m \<and> mb_data m = [])"
      "\<forall>p. mem (wld s') p \<noteq> None \<longrightarrow> mem (pk_wld pk') p = mem (wld s') p"
      "v_rings (view (ext (pk_wld pk'))) e = Some (drop ?n ring)"
    using packetiser_env.recv_from_engine_burst_spec [OF assms(2) fin, of e ring
        "v_avail (view (ext (wld s'))) (mempool pk)" ?n b] x(2) [folded ring_def] e pk avail by auto
  have "drop ?n ring = drop (min ?n (length ring)) ring" by (simp add: min_def)
  moreover have "set bufs \<inter> set ring = {}" using r(4) alloc by blast
  ultimately show ?thesis
    using x(2) [folded ring_def] r alloc
    by - (rule exI [of _ ring], rule exI [of _ bufs], rule exI [of _ pk'], simp)
qed

text \<open>The concrete engine and packetiser on one world, with packet 9 on the ring between them.\<close>

definition ref_pipe :: "(ptr list, (u16 \<times> Channel) list, ref_ext) engine" where
  "ref_pipe = (ref_engine [])\<lparr>wld := (wld (ref_engine []))\<lparr>mem := [9 \<mapsto> ref_mbuf 64 7 tcp_frame]\<rparr>\<rparr>"

lemma ref_pipe_inv: "engine_inv ref_view map_of (\<lambda>q. q) (chan_at 5 6) [4] ref_pipe"
  by (simp add: engine_inv_def ref_pipe_def ref_engine_def PROCESSOR_THREAD_def)

lemma ref_pipe_idle: "engine_iteration alist_chm ref_dpdk list_segq [ref_port] ref_pipe = Ret () ref_pipe"
proof -
  have "ref_rx n (wld ref_pipe) = ([], wld ref_pipe)" for n
    by (cases n) (simp_all add: ref_pipe_def ref_engine_def ref_rings_def ref_start_def)
  then have "Port_receive ref_dpdk ref_port q (wld ref_pipe) = Ret [] (wld ref_pipe)" for q
    by (simp add: Port_receive_def exec_simps)
  moreover have "OUT_PKTS ref_pipe = []" "TO_PACKETISER ref_pipe = []" "FROM_PACKETISER ref_pipe = []"
    by (simp_all add: ref_pipe_def ref_engine_def)
  ultimately show ?thesis
    by (simp add: engine_iteration_def get_external_pkts_def send_to_packetiser_def get_from_packetiser_def
        send_pkts_out_def lcore_queue_def first_port_def list_segq_def exec_simps)
qed

theorem delivered_packets_never_queued_witness:
  "\<exists>bufs pk'. Packetiser_recv_from_engine_burst ref_dpdk list_segq
       \<lparr>overflow_checks = True, feature_debug = False\<rparr> (ref_pk\<lparr>pk_wld := wld ref_pipe\<rparr>) = Ret (Inr 1) pk' \<and>
     i_bufqueue pk' = bufs \<and> 9 \<notin> set bufs \<and> length bufs = 1 \<and>
     v_rings (ref_view (ext (pk_wld pk'))) 6 = Some []"
proof -
  have "v_rings (ref_view (ext (wld ref_pipe))) 6 = Some [9]"
    "v_avail (ref_view (ext (wld ref_pipe))) 7 = 4" "TO_PACKETISER ref_pipe = []"
    "mem (wld ref_pipe) 9 \<noteq> None" "mempool ref_pk = 7" "channel ref_pk = chan_at 5 6" "i_bufqueue ref_pk = []"
    by (simp_all add: ref_pipe_def ref_engine_def ref_pk_def)
  then show ?thesis
    using delivered_packets_never_queued [OF ref_engine.engine_env_axioms ref_packetiser.packetiser_env_axioms
        ref_pipe_inv refl _ _ ref_pipe_idle, of "[9]" "ref_pk\<lparr>pk_wld := wld ref_pipe\<rparr>"
        "\<lparr>overflow_checks = True, feature_debug = False\<rparr>"]
    by (auto simp: BURST_MAX_def)
qed

section \<open>The bindings\<close>

text \<open>The generated layout tests of the bindings, with the types they are about.\<close>

definition binding_tests :: "(rty \<times> layout_test) list" where
  "binding_tests = mem_tests @ eth_tests @ net_tests @ pool_tests @ dev_tests @ eal_tests @
     flow_tests @ filter_tests @ misc_tests"

text \<open>
  The bindings and the C ABI agree. For each of the 295 types that have a generated layout test
  (those the engine and the packetiser exchange with DPDK among them), the size, the alignment and
  every field offset asserted by the test are those that the \<open>repr(C)\<close> rules give to the declared
  type, and every such type is well-formed.
\<close>

theorem bindings_layouts_sound:
  "length binding_tests = 295 \<and>
   list_all (\<lambda>(t, e). layout_test_passes t e \<and> wf_ty t) binding_tests"
proof
  have "length mem_tests + length eth_tests + length net_tests = 64"
    by (simp add: mem_tests_def eth_tests_def net_tests_def)
  moreover have "length pool_tests + length dev_tests + length eal_tests = 57"
    by (simp add: pool_tests_def dev_tests_def eal_tests_def)
  moreover have "length flow_tests = 90" by (simp add: flow_tests_def)
  moreover have "length filter_tests = 47" by (simp add: filter_tests_def)
  moreover have "length misc_tests = 37" by (simp add: misc_tests_def)
  ultimately show "length binding_tests = 295" by (simp add: binding_tests_def)
qed (simp only: binding_tests_def list_all_append layout_tests_pass simp_thms)

text \<open>The bytes of a named field of a structure, at the offset and size the layout gives it.\<close>

fun field_size :: "rty \<Rightarrow> string \<Rightarrow> nat option" where
  "field_size (Struct p a fs) f = map_option size_of (map_of fs f)"
| "field_size (Union a fs) f = map_option size_of (map_of fs f)"
| "field_size _ f = None"

definition field_bytes :: "rty \<Rightarrow> string \<Rightarrow> u8 list \<Rightarrow> u8 list" where
  "field_bytes t f bs = take (the (field_size t f)) (drop (the (offset_of t f)) bs)"

lemma field_bytes_ipv4:
  "field_bytes rte_ipv4_hdr_layout ''version_ihl'' bs = take 1 bs"
  "field_bytes rte_ipv4_hdr_layout ''total_length'' bs = take 2 (drop 2 bs)"
  "field_bytes rte_ipv4_hdr_layout ''time_to_live'' bs = take 1 (drop 8 bs)"
  "field_bytes rte_ipv4_hdr_layout ''next_proto_id'' bs = take 1 (drop 9 bs)"
  "field_bytes rte_ipv4_hdr_layout ''hdr_checksum'' bs = take 2 (drop 10 bs)"
  "field_bytes rte_ipv4_hdr_layout ''src_addr'' bs = take 4 (drop 12 bs)"
  "field_bytes rte_ipv4_hdr_layout ''dst_addr'' bs = take 4 (drop 16 bs)"
  by (simp_all add: field_bytes_def rte_ipv4_hdr_layout_def layout_eval del: One_nat_def)

lemma le_word_take1: "i < length bs \<Longrightarrow> le_word (take 1 (drop i bs)) = (bs ! i :: u8)"
  by (simp add: take_Suc_conv_app_nth [of 0] hd_drop_conv_nth le_word.simps)

text \<open>
  C33: The headers are read where the bindings put them. For an IPv4 frame, \<open>Ipv4Hdr::from_mbuf\<close>
  returns a header whose fields are the bytes at the offsets that the bindings' \<open>rte_ipv4_hdr\<close>
  assigns them, counted from the end of the bindings' \<open>rte_ether_hdr\<close>.
\<close>

theorem ipv4_header_follows_bindings:
  assumes "wf_mbuf m" "34 \<le> length (mb_data m)" "mem w p = Some m" "p \<noteq> null"
    and "mb_data m ! 12 = 8" "mb_data m ! 13 = 0"
    and "hdr = drop (size_of rte_ether_hdr_layout) (mb_data m)"
  shows "\<exists>h. Ipv4Hdr_from_mbuf p w = Ret h w \<and>
     version_ihl h = le_word (field_bytes rte_ipv4_hdr_layout ''version_ihl'' hdr) \<and>
     total_length h = le_word (field_bytes rte_ipv4_hdr_layout ''total_length'' hdr) \<and>
     time_to_live h = le_word (field_bytes rte_ipv4_hdr_layout ''time_to_live'' hdr) \<and>
     next_proto_id h = le_word (field_bytes rte_ipv4_hdr_layout ''next_proto_id'' hdr) \<and>
     hdr_checksum h = le_word (field_bytes rte_ipv4_hdr_layout ''hdr_checksum'' hdr) \<and>
     src_addr h = le_word (field_bytes rte_ipv4_hdr_layout ''src_addr'' hdr) \<and>
     dst_addr h = le_word (field_bytes rte_ipv4_hdr_layout ''dst_addr'' hdr)"
proof -
  have hdr: "hdr = drop 14 (mb_data m)" "20 \<le> length hdr"
    using assms(2,7) by (simp_all add: layout_simps del: wf_length_data)
  then have "le_word (take 1 hdr) = hdr ! 0" "le_word (take 1 (drop 8 hdr)) = hdr ! 8"
    "le_word (take 1 (drop 9 hdr)) = hdr ! 9"
    using le_word_take1 [of 0 hdr] le_word_take1 [of 8 hdr] le_word_take1 [of 9 hdr] by simp_all
  with Ipv4Hdr_from_mbuf_exec [OF assms(1-4)] assms(5,6) hdr show ?thesis
    unfolding field_bytes_ipv4
    by (simp add: ipv4_hdr_of_bytes_def drop_take min_def nth_take del: wf_length_data drop_drop)
qed

theorem ipv4_header_follows_bindings_witness:
  "\<exists>h (w :: ref_ext world). Ipv4Hdr_from_mbuf 1 w = Ret h w \<and> next_proto_id h = 6 \<and>
     dst_addr h = le_word (field_bytes rte_ipv4_hdr_layout ''dst_addr'' (drop 14 tcp_frame))"
proof -
  let ?w = "ref_start\<lparr>mem := [1 \<mapsto> ref_mbuf 64 7 tcp_frame]\<rparr>"
  have "size_of rte_ether_hdr_layout = 14" by (simp add: layout_simps)
  moreover have "tcp_frame ! 23 = 6" by (simp add: tcp_frame_def)
  moreover have "(le_word (field_bytes rte_ipv4_hdr_layout ''next_proto_id'' (drop 14 tcp_frame)) :: u8) = tcp_frame ! 23"
    unfolding field_bytes_ipv4 using le_word_take1 [of 9 "drop 14 tcp_frame"] by (simp add: tcp_frame_data)
  ultimately show ?thesis
    using ipv4_header_follows_bindings [OF ref_mbuf_wf, of 64 7 tcp_frame ?w 1 "drop 14 tcp_frame"]
    by (auto simp: tcp_frame_data tcp_frame_fields simp del: wf_length_data intro!: exI [of _ ?w])
qed

end
